(* ===== verification/Js_Number.thy ===== *)
theory Js_Number
  imports Js_Prelude
begin

text \<open>
  ECMAScript numbers. A finite IEEE double is represented by its rational value; every arithmetic
  operation computes the exact rational result and rounds it to the nearest double, ties to even
  (53 bits of precision, least exponent -1074, overflow to infinity from \<open>2 ^ 1024\<close>). The sign of
  zero is not represented: no expression of the servers can observe it.

  The operations are those the servers use: \<open>parseFloat\<close>, \<open>parseInt\<close>, \<open>Number()\<close> on text, product,
  quotient, difference, \<open>Math.floor\<close>, \<open>Math.min\<close>, \<open>Math.max\<close>, \<open>toFixed\<close> and \<open>Number::toString\<close>.
  The lemmas are the three facts every bound on money rests on: rounding is monotone, it leaves
  representable values alone, and its relative error is at most \<open>2 ^ -53\<close>.
\<close>

section \<open>Rounding to a double\<close>

datatype jsnum = NaN | Inf bool | Fin rat

definition pow2 :: "int \<Rightarrow> rat" where
  "pow2 k = (if 0 \<le> k then 2 ^ nat k else 1 / 2 ^ nat (- k))"

function nbits :: "int \<Rightarrow> int" where
  "nbits n = (if n \<le> 0 then 0 else nbits (n div 2) + 1)"
  by pat_completeness auto
termination
  by (relation "measure nat") auto

declare nbits.simps [simp del]

text \<open>The exponent of the leading bit of a positive rational.\<close>

definition ilog2 :: "rat \<Rightarrow> int" where
  "ilog2 x = (case quotient_of x of (p, q) \<Rightarrow>
     let k = nbits p - nbits q in if pow2 k \<le> x then k else k - 1)"

definition ulp_exp :: "rat \<Rightarrow> int" where
  "ulp_exp x = max (ilog2 x - 52) (- 1074)"

text \<open>Nearest integer, ties to even.\<close>

definition rne :: "rat \<Rightarrow> int" where
  "rne y = (let f = \<lfloor>y\<rfloor>; d = y - of_int f in
     if d < 1 / 2 then f else if d > 1 / 2 then f + 1 else if even f then f else f + 1)"

definition rnd_pos :: "rat \<Rightarrow> rat" where
  "rnd_pos x = of_int (rne (x / pow2 (ulp_exp x))) * pow2 (ulp_exp x)"

definition rnd :: "rat \<Rightarrow> rat" where
  "rnd x = (if x = 0 then 0 else if x < 0 then - rnd_pos (- x) else rnd_pos x)"

definition to_double :: "rat \<Rightarrow> jsnum" where
  "to_double x = (let r = rnd x in if 1024 \<le> ilog2 \<bar>r\<bar> then Inf (r < 0) else Fin r)"

definition representable :: "rat \<Rightarrow> bool" where
  "representable x \<longleftrightarrow> (\<exists>m e. \<bar>m\<bar> \<le> 2 ^ 53 \<and> - 1074 \<le> e \<and> x = of_int m * pow2 e)"

subsection \<open>Powers of two and the leading bit\<close>

lemma pow2_pos [simp]: "0 < pow2 k"
  by (simp add: pow2_def)

lemma pow2_nonneg [simp]: "0 \<le> pow2 k"
  by (simp add: less_imp_le)

lemma pow2_nz [simp]: "pow2 k \<noteq> 0"
  using pow2_pos [of k] by linarith

lemma pow2_powi: "pow2 k = 2 powi k"
  by (auto simp: pow2_def power_int_def inverse_eq_divide power_one_over)

lemma pow2_add: "pow2 (a + b) = pow2 a * pow2 b"
  by (simp add: pow2_powi power_int_add)

lemma pow2_mono: "a \<le> b \<Longrightarrow> pow2 a \<le> pow2 b"
  by (simp add: pow2_powi power_int_increasing)

lemma pow2_strict: "a < b \<Longrightarrow> pow2 a < pow2 b"
  by (simp add: pow2_powi power_int_strict_increasing)

lemma pow2_less_iff: "pow2 a < pow2 b \<longleftrightarrow> a < b"
  by (meson leD le_less_linear pow2_mono pow2_strict)

lemma pow2_diff_int:
  assumes "b \<le> a"
  shows "pow2 a / pow2 b = of_int (2 ^ nat (a - b))"
proof -
  have "pow2 a = pow2 (a - b) * pow2 b"
    by (simp flip: pow2_add)
  with assms show ?thesis
    by (simp add: pow2_def [of "a - b"])
qed

lemma pow2_multiple: "b \<le> a \<Longrightarrow> pow2 a = of_int (2 ^ nat (a - b)) * pow2 b"
  by (metis nonzero_divide_eq_eq pow2_diff_int pow2_nz)

lemma nbits_pos: "0 < n \<Longrightarrow> 0 < nbits n"
proof (induction n rule: nbits.induct)
  case (1 n)
  then show ?case
    by (cases "n div 2 \<le> 0") (auto simp: nbits.simps [of n] nbits.simps [of "n div 2"] nbits.simps [of 0])
qed

lemma nbits_pow2:
  assumes "0 < n"
  shows "pow2 (nbits n - 1) \<le> of_int n" and "of_int n < pow2 (nbits n)"
proof -
  have "pow2 (nbits n - 1) \<le> of_int n \<and> of_int n < pow2 (nbits n)"
    using assms
  proof (induction n rule: nbits.induct)
    case (1 n)
    show ?case
    proof (cases "n = 1")
      case True
      then show ?thesis by (simp add: nbits.simps pow2_def)
    next
      case False
      define m where "m = n div 2"
      have m: "0 < m" "2 * m \<le> n" "n \<le> 2 * m + 1" using False 1 by (auto simp: m_def)
      have e: "nbits n = nbits m + 1" using 1 by (simp add: nbits.simps [of n] m_def)
      have ih: "pow2 (nbits m - 1) \<le> of_int m" "of_int m < pow2 (nbits m)"
        using 1 m by (auto simp: m_def)
      have d: "pow2 (nbits n - 1) = 2 * pow2 (nbits m - 1)" "pow2 (nbits n) = 2 * pow2 (nbits m)"
        using pow2_add [of "nbits m - 1" 1] pow2_add [of "nbits m" 1] by (simp_all add: e pow2_def [of 1])
      have lo: "2 * of_int m \<le> (of_int n :: rat)" using m(2) by (metis of_int_le_iff of_int_mult of_int_numeral)
      have mi: "pow2 (nbits m) = of_int (2 ^ nat (nbits m))" using nbits_pos [OF m(1)] by (simp add: pow2_def)
      then have "m + 1 \<le> 2 ^ nat (nbits m)" using ih(2) by (metis add1_zle_eq of_int_less_iff)
      then have "n < 2 * 2 ^ nat (nbits m)" using m(3) by linarith
      then have "(of_int n :: rat) < of_int (2 * 2 ^ nat (nbits m))" by (simp only: of_int_less_iff)
      then have hi: "of_int n < 2 * pow2 (nbits m)" unfolding mi by simp
      show ?thesis using d ih(1) lo hi by linarith
    qed
  qed
  then show "pow2 (nbits n - 1) \<le> of_int n" and "of_int n < pow2 (nbits n)" by auto
qed

lemma ilog2_bounds:
  assumes "0 < x"
  shows "pow2 (ilog2 x) \<le> x \<and> x < pow2 (ilog2 x + 1)"
proof -
  obtain p q where pq: "quotient_of x = (p, q)" by force
  have q: "0 < q" using quotient_of_denom_pos [OF pq] .
  have xe: "x = of_int p / of_int q" using quotient_of_div [OF pq] .
  have p: "0 < p" using assms q xe by (simp add: zero_less_divide_iff)
  define a where "a = nbits p"
  define b where "b = nbits q"
  note pb = nbits_pow2 [OF p, folded a_def] and qb = nbits_pow2 [OF q, folded b_def]
  have qp: "0 < (of_int q :: rat)" using q by simp
  have lo: "pow2 (a - b - 1) \<le> x"
  proof -
    have "pow2 (a - b - 1) * of_int q \<le> pow2 (a - b - 1) * pow2 b"
      using qb(2) by (simp add: less_imp_le)
    also have "\<dots> = pow2 (a - 1)" by (simp flip: pow2_add)
    also have "\<dots> \<le> of_int p" by (rule pb(1))
    finally show ?thesis using qp by (simp add: xe le_divide_eq)
  qed
  have hi: "x < pow2 (a - b + 1)"
  proof -
    have "of_int p < pow2 a" by (rule pb(2))
    also have "\<dots> = pow2 (a - b + 1) * pow2 (b - 1)" by (simp flip: pow2_add)
    also have "\<dots> \<le> pow2 (a - b + 1) * of_int q" using qb(1) by simp
    finally show ?thesis using qp by (simp add: xe divide_less_eq)
  qed
  have "ilog2 x = (if pow2 (a - b) \<le> x then a - b else a - b - 1)"
    by (simp add: ilog2_def pq a_def b_def Let_def)
  with lo hi show ?thesis by auto
qed

lemma ilog2_unique:
  assumes "pow2 k \<le> x" and "x < pow2 (k + 1)"
  shows "ilog2 x = k"
proof -
  have x: "0 < x" using assms(1) pow2_pos [of k] by linarith
  from ilog2_bounds [OF x] assms have "pow2 k < pow2 (ilog2 x + 1)" "pow2 (ilog2 x) < pow2 (k + 1)"
    by linarith+
  then show ?thesis by (simp add: pow2_less_iff)
qed

lemma ilog2_overflow: "1024 \<le> ilog2 \<bar>r\<bar> \<longleftrightarrow> 2 ^ 1024 \<le> \<bar>r\<bar>"
proof (cases "r = 0")
  case True
  have "nbits 0 = 0" "nbits 1 = 1" by (simp_all add: nbits.simps)
  then show ?thesis using True by (simp add: ilog2_def Let_def)
next
  case False
  have p: "pow2 1024 = 2 ^ 1024" by (simp add: pow2_def)
  have "1024 \<le> ilog2 \<bar>r\<bar> \<longleftrightarrow> pow2 1024 < pow2 (ilog2 \<bar>r\<bar> + 1)" by (auto simp: pow2_less_iff)
  also have "\<dots> \<longleftrightarrow> pow2 1024 \<le> \<bar>r\<bar>"
  proof
    assume "pow2 1024 < pow2 (ilog2 \<bar>r\<bar> + 1)"
    then have "pow2 1024 \<le> pow2 (ilog2 \<bar>r\<bar>)" by (intro pow2_mono) (simp add: pow2_less_iff)
    then show "pow2 1024 \<le> \<bar>r\<bar>" using ilog2_bounds [of "\<bar>r\<bar>"] False by force
  next
    assume "pow2 1024 \<le> \<bar>r\<bar>"
    then show "pow2 1024 < pow2 (ilog2 \<bar>r\<bar> + 1)" using ilog2_bounds [of "\<bar>r\<bar>"] False by force
  qed
  finally show ?thesis unfolding p .
qed

lemma to_double_Fin: "\<bar>rnd x\<bar> < 2 ^ 1024 \<Longrightarrow> to_double x = Fin (rnd x)"
  using ilog2_overflow [of "rnd x"] by (simp add: to_double_def Let_def not_le)

lemma ilog2_mono:
  assumes "0 < x" and "x \<le> y"
  shows "ilog2 x \<le> ilog2 y"
proof -
  have "pow2 (ilog2 x) < pow2 (ilog2 y + 1)"
    using ilog2_bounds [of x] ilog2_bounds [of y] assms by linarith
  then show ?thesis by (simp add: pow2_less_iff)
qed

lemma ulp_exp_mono: "0 < x \<Longrightarrow> x \<le> y \<Longrightarrow> ulp_exp x \<le> ulp_exp y"
  using ilog2_mono [of x y] by (auto simp: ulp_exp_def)

subsection \<open>Rounding to an integer\<close>

lemma rne_of_int [simp]: "rne (of_int i) = i"
  by (simp add: rne_def)

lemma rne_cases: "rne y = \<lfloor>y\<rfloor> \<and> y - of_int \<lfloor>y\<rfloor> \<le> 1 / 2 \<or> rne y = \<lfloor>y\<rfloor> + 1 \<and> 1 / 2 \<le> y - of_int \<lfloor>y\<rfloor>"
  by (auto simp: rne_def Let_def)

lemma rne_error: "\<bar>of_int (rne y) - y\<bar> \<le> 1 / 2"
  using rne_cases [of y] floor_correct [of y] by (auto simp: abs_le_iff)

lemma rne_mono:
  assumes "x \<le> y"
  shows "rne x \<le> rne y"
proof (cases "\<lfloor>x\<rfloor> = \<lfloor>y\<rfloor>")
  case True
  then show ?thesis using assms by (auto simp: rne_def Let_def)
next
  case False
  then have "\<lfloor>x\<rfloor> + 1 \<le> \<lfloor>y\<rfloor>" using floor_mono [OF assms] by linarith
  then show ?thesis using rne_cases [of x] rne_cases [of y] by auto
qed

subsection \<open>The three facts about rounding\<close>

lemma rnd_pos_error: "\<bar>rnd_pos x - x\<bar> \<le> pow2 (ulp_exp x) / 2"
proof -
  let ?p = "pow2 (ulp_exp x)"
  have "rnd_pos x - x = (of_int (rne (x / ?p)) - x / ?p) * ?p"
    by (simp add: rnd_pos_def left_diff_distrib)
  then have "\<bar>rnd_pos x - x\<bar> = \<bar>of_int (rne (x / ?p)) - x / ?p\<bar> * ?p"
    by (simp only: abs_mult abs_of_pos [OF pow2_pos])
  also have "\<dots> \<le> 1 / 2 * ?p"
    by (intro mult_right_mono rne_error) simp
  finally show ?thesis by simp
qed

lemma rnd_relative_error:
  assumes "pow2 (- 1022) \<le> x"
  shows "\<bar>rnd x - x\<bar> \<le> x * pow2 (- 53)"
proof -
  have x: "0 < x" using assms pow2_pos [of "- 1022"] by linarith
  have "pow2 (- 1022) < pow2 (ilog2 x + 1)" using ilog2_bounds [OF x] assms by linarith
  then have u: "ulp_exp x = ilog2 x - 52" by (simp add: pow2_less_iff ulp_exp_def)
  have "\<bar>rnd x - x\<bar> \<le> pow2 (ilog2 x - 52) / 2"
    using rnd_pos_error [of x] x by (simp add: rnd_def u)
  also have "\<dots> = pow2 (ilog2 x) * pow2 (- 53)"
  proof -
    have "pow2 (ilog2 x - 52) = pow2 (ilog2 x) * pow2 (- 52)" by (simp flip: pow2_add)
    moreover have "pow2 (- 53) = pow2 (- 52) / 2" by (simp add: pow2_def)
    ultimately show ?thesis by simp
  qed
  also have "\<dots> \<le> x * pow2 (- 53)"
    using ilog2_bounds [OF x] by (intro mult_right_mono) auto
  finally show ?thesis .
qed

lemma representable_multiple:
  assumes "0 < x" and "representable x"
  obtains i where "x = of_int i * pow2 (ulp_exp x)"
proof -
  obtain m e where me: "\<bar>m\<bar> \<le> 2 ^ 53" "- 1074 \<le> e" "x = of_int m * pow2 e"
    using assms(2) by (auto simp: representable_def)
  have "0 < (of_int m :: rat)" using assms(1) me(3) pow2_pos by (metis zero_less_mult_pos2)
  then have m: "0 < m" by simp
  show thesis
  proof (cases "ulp_exp x \<le> e")
    case True
    then have "pow2 e = of_int (2 ^ nat (e - ulp_exp x)) * pow2 (ulp_exp x)"
      by (rule pow2_multiple)
    then have "x = of_int (m * 2 ^ nat (e - ulp_exp x)) * pow2 (ulp_exp x)"
      by (metis me(3) mult.assoc of_int_mult)
    then show thesis by (rule that)
  next
    case False
    have "of_int m \<le> pow2 53" using me(1) m by (simp add: pow2_def)
    then have "x \<le> pow2 53 * pow2 e" using me(3) by simp
    then have "x \<le> pow2 (e + 53)" by (simp add: pow2_add mult.commute)
    moreover have "pow2 (ilog2 x) \<le> x" using ilog2_bounds [OF assms(1)] by simp
    moreover have "e + 53 \<le> ilog2 x" using False me(2) by (auto simp: ulp_exp_def split: if_splits)
    moreover have "pow2 (e + 53) \<le> pow2 (ilog2 x)" using calculation(3) by (rule pow2_mono)
    ultimately have xe: "x = pow2 (ilog2 x)" by linarith
    have u: "ulp_exp x \<le> ilog2 x"
      using False me(2) \<open>e + 53 \<le> ilog2 x\<close> by (auto simp: ulp_exp_def)
    have "x = of_int (2 ^ nat (ilog2 x - ulp_exp x)) * pow2 (ulp_exp x)"
      using pow2_multiple [OF u] xe by simp
    then show thesis by (rule that)
  qed
qed

lemma rnd_representable:
  assumes "0 \<le> x" and "representable x"
  shows "rnd x = x"
proof (cases "x = 0")
  case False
  with assms have x: "0 < x" by simp
  obtain i where "x = of_int i * pow2 (ulp_exp x)" using representable_multiple [OF x assms(2)] .
  then have "x / pow2 (ulp_exp x) = of_int i" by (metis nonzero_mult_div_cancel_right pow2_nz)
  with x show ?thesis
    by (simp add: rnd_def rnd_pos_def) (metis nonzero_divide_eq_eq pow2_nz)
qed (simp add: rnd_def)

lemma rnd_pos_mono:
  assumes "0 < x" and "x \<le> y"
  shows "rnd_pos x \<le> rnd_pos y"
proof (cases "ulp_exp x = ulp_exp y")
  case True
  then show ?thesis using assms(2)
    by (simp add: rnd_pos_def rne_mono divide_right_mono mult_right_mono)
next
  case False
  define b where "b = pow2 (ilog2 y)"
  have y: "0 < y" using assms by linarith
  have uxy: "ulp_exp x < ulp_exp y" using ulp_exp_mono [OF assms] False by simp
  then have ly: "ilog2 x < ilog2 y" "ulp_exp y = ilog2 y - 52" by (auto simp: ulp_exp_def)
  have xb: "x \<le> b"
    using ilog2_bounds [OF assms(1)] pow2_mono [of "ilog2 x + 1" "ilog2 y"] ly by (simp add: b_def)
  have by1: "b \<le> y" using ilog2_bounds [OF y] by (simp add: b_def)
  have "rnd_pos x \<le> b"
  proof -
    have i: "b / pow2 (ulp_exp x) = of_int (2 ^ nat (ilog2 y - ulp_exp x))"
      unfolding b_def using uxy ly by (intro pow2_diff_int) linarith
    have "rne (x / pow2 (ulp_exp x)) \<le> rne (b / pow2 (ulp_exp x))"
      using xb by (intro rne_mono divide_right_mono) auto
    then have "of_int (rne (x / pow2 (ulp_exp x))) \<le> b / pow2 (ulp_exp x)"
      unfolding i rne_of_int by (simp only: of_int_le_iff)
    then show ?thesis by (simp add: rnd_pos_def le_divide_eq)
  qed
  also have "b \<le> rnd_pos y"
  proof -
    have i: "b / pow2 (ulp_exp y) = of_int (2 ^ nat (ilog2 y - ulp_exp y))"
      unfolding b_def using ly by (intro pow2_diff_int) linarith
    have "rne (b / pow2 (ulp_exp y)) \<le> rne (y / pow2 (ulp_exp y))"
      using by1 by (intro rne_mono divide_right_mono) auto
    then have "b / pow2 (ulp_exp y) \<le> of_int (rne (y / pow2 (ulp_exp y)))"
      unfolding i rne_of_int by (simp only: of_int_le_iff)
    then show ?thesis by (simp add: rnd_pos_def divide_le_eq)
  qed
  finally show ?thesis .
qed

lemma rnd_pos_nonneg: "0 < x \<Longrightarrow> 0 \<le> rnd_pos x"
  using rne_mono [of 0 "x / pow2 (ulp_exp x)"] rne_of_int [of 0]
  by (simp add: rnd_pos_def)

lemma rnd_mono:
  assumes "x \<le> y"
  shows "rnd x \<le> rnd y"
proof -
  consider "0 < x" | "x \<le> 0" "0 \<le> y" | "y < 0" using assms by linarith
  then show ?thesis
  proof cases
    case 1
    then show ?thesis using assms rnd_pos_mono by (simp add: rnd_def)
  next
    case 2
    then show ?thesis
      using rnd_pos_nonneg [of "- x"] rnd_pos_nonneg [of y] by (auto simp: rnd_def)
  next
    case 3
    then show ?thesis using assms rnd_pos_mono [of "- y" "- x"] by (simp add: rnd_def)
  qed
qed

lemma rnd_nonneg: "0 \<le> x \<Longrightarrow> 0 \<le> rnd x"
  using rnd_mono [of 0 x] by (simp add: rnd_def)

lemma representable_int: "\<bar>i\<bar> \<le> 2 ^ 53 \<Longrightarrow> representable (of_int i)"
  unfolding representable_def by (rule exI [of _ i], rule exI [of _ 0]) (simp add: pow2_def)

lemma representable_half: "\<bar>i\<bar> \<le> 2 ^ 53 \<Longrightarrow> representable (of_int i / 2)"
  unfolding representable_def by (rule exI [of _ i], rule exI [of _ "- 1"]) (simp add: pow2_def)

lemma rnd_int: "0 \<le> i \<Longrightarrow> i \<le> 2 ^ 53 \<Longrightarrow> rnd (of_int i) = of_int i"
  by (rule rnd_representable) (simp_all add: representable_int)

lemma rnd_scaled_bounds:
  assumes "0 < d" and "d < 2 ^ 52"
  shows "of_int d - 1 / 2 \<le> rnd (rnd (of_int d / 10 ^ 12) * 10 ^ 12)"
    and "rnd (rnd (of_int d / 10 ^ 12) * 10 ^ 12) \<le> of_int d + 1 / 2"
proof -
  define v :: rat where "v = of_int d / 10 ^ 12"
  have dv: "of_int d = v * 10 ^ 12" by (simp add: v_def)
  have d1: "1 \<le> (of_int d :: rat)" using assms(1) by simp
  have "pow2 (- 1022) \<le> pow2 (- 40)" by (rule pow2_mono) simp
  also have "\<dots> \<le> 1 / 10 ^ 12" by (simp add: pow2_def)
  also have "\<dots> \<le> v" using d1 by (simp add: v_def divide_right_mono)
  finally have "\<bar>rnd v - v\<bar> \<le> v * pow2 (- 53)" by (rule rnd_relative_error)
  then have "\<bar>rnd v - v\<bar> * 10 ^ 12 \<le> v * pow2 (- 53) * 10 ^ 12" by (intro mult_right_mono) auto
  also have "\<dots> = of_int d * pow2 (- 53)" by (simp add: dv)
  also have "\<dots> \<le> 2 ^ 52 * pow2 (- 53)"
  proof (intro mult_right_mono)
    have "(of_int d :: rat) \<le> of_int (2 ^ 52)" using assms(2) by (simp only: of_int_le_iff)
    then show "(of_int d :: rat) \<le> 2 ^ 52" by simp
  qed simp
  also have "\<dots> = 1 / 2" by (simp add: pow2_def)
  finally have e: "\<bar>rnd v - v\<bar> * 10 ^ 12 \<le> 1 / 2" .
  have "rnd v * 10 ^ 12 - of_int d = (rnd v - v) * 10 ^ 12"
    by (simp only: dv left_diff_distrib)
  then have "\<bar>rnd v * 10 ^ 12 - of_int d\<bar> = \<bar>rnd v - v\<bar> * 10 ^ 12"
    by (simp only: abs_mult) simp
  with e have x: "of_int d - 1 / 2 \<le> rnd v * 10 ^ 12" "rnd v * 10 ^ 12 \<le> of_int d + 1 / 2"
    by (simp_all add: abs_le_iff)
  have lo: "rnd (of_int d - 1 / 2) = of_int d - 1 / 2"
  proof -
    have "representable (of_int (2 * d - 1) / 2)" using assms by (intro representable_half) simp
    then show ?thesis using d1 by (intro rnd_representable) (simp_all add: field_simps)
  qed
  have hi: "rnd (of_int d + 1 / 2) = of_int d + 1 / 2"
  proof -
    have "representable (of_int (2 * d + 1) / 2)" using assms by (intro representable_half) simp
    then show ?thesis using d1 by (intro rnd_representable) (simp_all add: field_simps)
  qed
  show "of_int d - 1 / 2 \<le> rnd (rnd (of_int d / 10 ^ 12) * 10 ^ 12)"
    using rnd_mono [OF x(1)] lo by (simp add: v_def)
  show "rnd (rnd (of_int d / 10 ^ 12) * 10 ^ 12) \<le> of_int d + 1 / 2"
    using rnd_mono [OF x(2)] hi by (simp add: v_def)
qed

lemma floor_scaled:
  assumes "0 < d" and "d < 2 ^ 52"
  shows "\<lfloor>rnd (rnd (of_int d / 10 ^ 12) * 10 ^ 12)\<rfloor> \<in> {d - 1, d}"
proof -
  define y where "y = rnd (rnd (of_int d / 10 ^ 12) * 10 ^ 12)"
  have "of_int (d - 1) \<le> y" "y < of_int d + 1"
    using rnd_scaled_bounds [OF assms] by (simp_all add: y_def)
  then have "d - 1 \<le> \<lfloor>y\<rfloor>" "\<lfloor>y\<rfloor> \<le> d" by (simp_all add: le_floor_iff floor_le_iff)
  then show ?thesis unfolding y_def [symmetric] by auto
qed

section \<open>Arithmetic\<close>

definition num_mul :: "jsnum \<Rightarrow> jsnum \<Rightarrow> jsnum" where
  "num_mul a b = (case (a, b) of
     (NaN, _) \<Rightarrow> NaN
   | (_, NaN) \<Rightarrow> NaN
   | (Fin x, Fin y) \<Rightarrow> to_double (x * y)
   | (Inf s, Inf t) \<Rightarrow> Inf (s \<noteq> t)
   | (Inf s, Fin y) \<Rightarrow> if y = 0 then NaN else Inf (s \<noteq> (y < 0))
   | (Fin x, Inf t) \<Rightarrow> if x = 0 then NaN else Inf ((x < 0) \<noteq> t))"

text \<open>Division by a non-zero finite constant.\<close>

definition num_div :: "jsnum \<Rightarrow> rat \<Rightarrow> jsnum" where
  "num_div a c = (case a of NaN \<Rightarrow> NaN | Inf s \<Rightarrow> Inf (s \<noteq> (c < 0)) | Fin x \<Rightarrow> to_double (x / c))"

definition num_add :: "jsnum \<Rightarrow> jsnum \<Rightarrow> jsnum" where
  "num_add a b = (case (a, b) of
     (NaN, _) \<Rightarrow> NaN
   | (_, NaN) \<Rightarrow> NaN
   | (Fin x, Fin y) \<Rightarrow> to_double (x + y)
   | (Inf s, Inf t) \<Rightarrow> if s = t then Inf s else NaN
   | (Inf s, Fin y) \<Rightarrow> Inf s
   | (Fin x, Inf t) \<Rightarrow> Inf t)"

definition num_sub :: "jsnum \<Rightarrow> jsnum \<Rightarrow> jsnum" where
  "num_sub a b = num_add a (case b of NaN \<Rightarrow> NaN | Inf s \<Rightarrow> Inf (\<not> s) | Fin y \<Rightarrow> Fin (- y))"

definition num_lt :: "jsnum \<Rightarrow> jsnum \<Rightarrow> bool" where
  "num_lt a b = (case (a, b) of
     (NaN, _) \<Rightarrow> False
   | (_, NaN) \<Rightarrow> False
   | (Fin x, Fin y) \<Rightarrow> x < y
   | (Inf s, Inf t) \<Rightarrow> s \<and> \<not> t
   | (Inf s, Fin y) \<Rightarrow> s
   | (Fin x, Inf t) \<Rightarrow> \<not> t)"

definition num_floor :: "jsnum \<Rightarrow> jsnum" where
  "num_floor a = (case a of NaN \<Rightarrow> NaN | Inf s \<Rightarrow> Inf s | Fin x \<Rightarrow> Fin (of_int \<lfloor>x\<rfloor>))"

definition num_min :: "jsnum \<Rightarrow> jsnum \<Rightarrow> jsnum" where
  "num_min a b = (if a = NaN \<or> b = NaN then NaN else if num_lt b a then b else a)"

definition num_max :: "jsnum \<Rightarrow> jsnum \<Rightarrow> jsnum" where
  "num_max a b = (if a = NaN \<or> b = NaN then NaN else if num_lt a b then b else a)"

definition num_of_nat :: "nat \<Rightarrow> jsnum" where
  "num_of_nat n = to_double (of_nat n)"

section \<open>Reading numbers from text\<close>

definition scan_sign :: "string \<Rightarrow> bool \<times> string" where
  "scan_sign s = (case s of [] \<Rightarrow> (False, [])
     | c # r \<Rightarrow> if c = CHR ''+'' then (False, r) else if c = CHR ''-'' then (True, r) else (False, s))"

definition scan_exp :: "string \<Rightarrow> int \<times> string" where
  "scan_exp s = (case s of [] \<Rightarrow> (0, s)
     | c # r \<Rightarrow> if c = CHR ''e'' \<or> c = CHR ''E'' then
         (case scan_sign r of (neg, t) \<Rightarrow>
            let ds = takeWhile is_digit t in
            if ds = [] then (0, s)
            else (if neg then - digits_value ds else digits_value ds, dropWhile is_digit t))
       else (0, s))"

definition pow10 :: "int \<Rightarrow> rat" where
  "pow10 k = (if 0 \<le> k then 10 ^ nat k else 1 / 10 ^ nat (- k))"

text \<open>The longest unsigned decimal literal at the front of the text, with its exact value.\<close>

definition scan_decimal :: "string \<Rightarrow> (rat \<times> string) option" where
  "scan_decimal s =
     (let ip = takeWhile is_digit s; r = dropWhile is_digit s in
      case (case r of [] \<Rightarrow> ([], r)
              | c # r' \<Rightarrow> if c = CHR ''.'' then (takeWhile is_digit r', dropWhile is_digit r') else ([], r)) of
        (fp, r2) \<Rightarrow>
          if ip = [] \<and> fp = [] then None
          else (case scan_exp r2 of (e, rest) \<Rightarrow>
            Some (of_int (digits_value (ip @ fp)) / 10 ^ length fp * pow10 e, rest)))"

definition skip_space :: "string \<Rightarrow> string" where
  "skip_space = dropWhile js_space"

definition signed :: "bool \<Rightarrow> rat \<Rightarrow> jsnum" where
  "signed neg v = to_double (if neg then - v else v)"

definition parseFloat_text :: "string \<Rightarrow> jsnum" where
  "parseFloat_text s = (case scan_sign (skip_space s) of (neg, r) \<Rightarrow>
     if starts_with r ''Infinity'' then Inf neg
     else (case scan_decimal r of None \<Rightarrow> NaN | Some (v, _) \<Rightarrow> signed neg v))"

definition hex_val :: "char \<Rightarrow> int" where
  "hex_val c = (let n = of_char c :: int in
     if 48 \<le> n \<and> n \<le> 57 then n - 48 else if 97 \<le> n \<and> n \<le> 102 then n - 87
     else if 65 \<le> n \<and> n \<le> 70 then n - 55 else 99)"

definition radix_value :: "int \<Rightarrow> string \<Rightarrow> int" where
  "radix_value b ds = foldl (\<lambda>n c. b * n + hex_val c) 0 ds"

definition radix_digits :: "int \<Rightarrow> string \<Rightarrow> string" where
  "radix_digits b s = takeWhile (\<lambda>c. hex_val c < b) s"

text \<open>\<open>parseInt(s)\<close> with no radix: a \<open>0x\<close> prefix selects 16; \<open>parseInt(s, 10)\<close> has no prefix.\<close>

definition parseInt_radix :: "int \<Rightarrow> bool \<Rightarrow> string \<Rightarrow> jsnum" where
  "parseInt_radix b neg r = (let ds = radix_digits b r in
     if ds = [] then NaN else signed neg (of_int (radix_value b ds)))"

definition parseInt_text :: "string \<Rightarrow> jsnum" where
  "parseInt_text s = (case scan_sign (skip_space s) of (neg, r) \<Rightarrow>
     if starts_with r ''0x'' \<or> starts_with r ''0X'' then parseInt_radix 16 neg (drop 2 r)
     else parseInt_radix 10 neg r)"

definition parseInt10_text :: "string \<Rightarrow> jsnum" where
  "parseInt10_text s = (case scan_sign (skip_space s) of (neg, r) \<Rightarrow> parseInt_radix 10 neg r)"

text \<open>\<open>StringToNumber\<close>: the whole trimmed text must be a literal.\<close>

definition text_to_number :: "string \<Rightarrow> jsnum" where
  "text_to_number s0 = (let s = js_trim s0; whole = (\<lambda>b. let ds = drop 2 s in
        if ds \<noteq> [] \<and> radix_digits b ds = ds then to_double (of_int (radix_value b ds)) else NaN) in
     if s = [] then Fin 0
     else if starts_with s ''0x'' \<or> starts_with s ''0X'' then whole 16
     else if starts_with s ''0o'' \<or> starts_with s ''0O'' then whole 8
     else if starts_with s ''0b'' \<or> starts_with s ''0B'' then whole 2
     else (case scan_sign s of (neg, r) \<Rightarrow>
       if r = ''Infinity'' then Inf neg
       else (case scan_decimal r of Some (v, []) \<Rightarrow> signed neg v | _ \<Rightarrow> NaN)))"

section \<open>Writing numbers as text\<close>

text \<open>
  \<open>dec_exp x\<close> is the \<open>n\<close> with \<open>10 ^ (n - 1) \<le> x < 10 ^ n\<close>; a positive double is at least
  \<open>2 ^ -1074\<close>, above \<open>10 ^ -324\<close>, so 330 steps of fuel reach it.
\<close>

fun dec_exp_small :: "nat \<Rightarrow> rat \<Rightarrow> int" where
  "dec_exp_small 0 x = 0"
| "dec_exp_small (Suc f) x = (if 1 \<le> x * 10 then 0 else dec_exp_small f (x * 10) - 1)"

definition dec_exp :: "rat \<Rightarrow> int" where
  "dec_exp x = (if 1 \<le> x then int (length (dec_string \<lfloor>x\<rfloor>)) else dec_exp_small 330 x)"

text \<open>The shortest digit sequence that rounds back to \<open>x\<close>, the one nearest to \<open>x\<close> when two do.\<close>

definition digit_candidate :: "rat \<Rightarrow> int \<Rightarrow> int \<Rightarrow> int option" where
  "digit_candidate x n k = (let u = x / pow10 (n - k); ok = (\<lambda>c. rnd (of_int c * pow10 (n - k)) = x) in
     if ok \<lfloor>u\<rfloor> \<and> ok \<lceil>u\<rceil> then Some (if u - of_int \<lfloor>u\<rfloor> \<le> of_int \<lceil>u\<rceil> - u then \<lfloor>u\<rfloor> else \<lceil>u\<rceil>)
     else if ok \<lfloor>u\<rfloor> then Some \<lfloor>u\<rfloor> else if ok \<lceil>u\<rceil> then Some \<lceil>u\<rceil> else None)"

fun shortest_digits :: "nat list \<Rightarrow> rat \<Rightarrow> int \<Rightarrow> string" where
  "shortest_digits [] x n = dec_string (rne (x / pow10 (n - 17)))"
| "shortest_digits (k # ks) x n = (case digit_candidate x n (int k) of
     Some c \<Rightarrow> dec_string c | None \<Rightarrow> shortest_digits ks x n)"

definition exp_suffix :: "int \<Rightarrow> string" where
  "exp_suffix e = (if e < 0 then ''e-'' @ dec_string (- e) else ''e+'' @ dec_string e)"

definition format_digits :: "string \<Rightarrow> int \<Rightarrow> string" where
  "format_digits ds n = (let k = int (length ds) in
     if k \<le> n \<and> n \<le> 21 then ds @ replicate (nat (n - k)) (CHR ''0'')
     else if 0 < n \<and> n \<le> 21 then take (nat n) ds @ ''.'' @ drop (nat n) ds
     else if - 6 < n \<and> n \<le> 0 then ''0.'' @ replicate (nat (- n)) (CHR ''0'') @ ds
     else take 1 ds @ (if k = 1 then [] else ''.'' @ drop 1 ds) @ exp_suffix (n - 1))"

definition pos_to_string :: "rat \<Rightarrow> string" where
  "pos_to_string x = (if x = of_int \<lfloor>x\<rfloor> \<and> x \<le> 2 ^ 53 then dec_string \<lfloor>x\<rfloor>
     else format_digits (shortest_digits [1..<18] x (dec_exp x)) (dec_exp x))"

definition num_to_string :: "jsnum \<Rightarrow> string" where
  "num_to_string a = (case a of NaN \<Rightarrow> ''NaN''
     | Inf s \<Rightarrow> (if s then ''-Infinity'' else ''Infinity'')
     | Fin x \<Rightarrow> (if x < 0 then ''-'' @ pos_to_string (- x) else pos_to_string x))"

text \<open>\<open>toFixed(f)\<close>: the integer nearest to \<open>x * 10 ^ f\<close>, the larger one on a tie.\<close>

definition fixed_digits :: "nat \<Rightarrow> rat \<Rightarrow> int" where
  "fixed_digits f x = \<lfloor>x * 10 ^ f + 1 / 2\<rfloor>"

definition fixed_text :: "nat \<Rightarrow> int \<Rightarrow> string" where
  "fixed_text f n = (let ds = dec_string n; ds' = replicate (Suc f - length ds) (CHR ''0'') @ ds in
     take (length ds' - f) ds' @ ''.'' @ drop (length ds' - f) ds')"

definition toFixed :: "nat \<Rightarrow> jsnum \<Rightarrow> string" where
  "toFixed f a = (case a of
     Fin x \<Rightarrow> (if \<bar>x\<bar> \<ge> 10 ^ 21 then num_to_string a
               else if x < 0 then ''-'' @ fixed_text f (fixed_digits f (- x))
               else fixed_text f (fixed_digits f x))
   | _ \<Rightarrow> num_to_string a)"

lemma fixed_digits_error:
  shows "\<bar>of_int (fixed_digits f x) / 10 ^ f - x\<bar> \<le> 1 / (2 * 10 ^ f)"
proof -
  define y where "y = x * 10 ^ f + 1 / 2"
  have e: "(of_int (fixed_digits f x) :: rat) = of_int \<lfloor>y\<rfloor>"
    by (simp add: fixed_digits_def y_def)
  have "\<bar>of_int \<lfloor>y\<rfloor> - x * 10 ^ f\<bar> \<le> 1 / 2"
  proof -
    have "y - 1 < of_int \<lfloor>y\<rfloor>" "of_int \<lfloor>y\<rfloor> \<le> y" by linarith+
    moreover have "x * 10 ^ f = y - 1 / 2" by (simp add: y_def)
    ultimately show ?thesis by (simp only: abs_le_iff) linarith
  qed
  then have "\<bar>of_int \<lfloor>y\<rfloor> - x * 10 ^ f\<bar> / 10 ^ f \<le> (1 / 2) / 10 ^ f"
    by (intro divide_right_mono) auto
  moreover have "of_int \<lfloor>y\<rfloor> / 10 ^ f - x = (of_int \<lfloor>y\<rfloor> - x * 10 ^ f) / 10 ^ f"
    by (simp add: diff_divide_distrib)
  ultimately show ?thesis by (simp add: e)
qed

end
