(* ===== verification/Js_Value.thy ===== *)
theory Js_Value
  imports Js_Number
begin

text \<open>
  ECMAScript values as the servers handle them: what \<open>JSON.parse\<close> can return, plus \<open>undefined\<close>.
  An object is the list of its own properties in insertion order. Reading a property of
  \<open>undefined\<close> or \<open>null\<close> raises a \<open>TypeError\<close>, so property access returns an error or a value; the
  optional chain \<open>v?.k\<close> never raises. The conversions \<open>ToString\<close> and \<open>ToNumber\<close> raise on objects
  that shadow \<open>toString\<close>. \<open>JSON.stringify\<close> drops \<open>undefined\<close> properties and writes \<open>NaN\<close> as
  \<open>null\<close>.
\<close>

section \<open>Values\<close>

datatype js =
    JUndef
  | JNull
  | JBool bool
  | JNum jsnum
  | JStr string
  | JArr "js list"
  | JObj "(string \<times> js) list"

text \<open>A raised \<open>Error\<close>; only its message is ever read.\<close>

datatype exn = Exn (message: string)

abbreviation js_nat :: "nat \<Rightarrow> js" where
  "js_nat n \<equiv> JNum (Fin (of_nat n))"

abbreviation js_int :: "int \<Rightarrow> js" where
  "js_int i \<equiv> JNum (Fin (of_int i))"

fun truthy :: "js \<Rightarrow> bool" where
  "truthy JUndef = False"
| "truthy JNull = False"
| "truthy (JBool b) = b"
| "truthy (JNum n) = (n \<noteq> NaN \<and> n \<noteq> Fin 0)"
| "truthy (JStr s) = (s \<noteq> [])"
| "truthy (JArr xs) = True"
| "truthy (JObj ps) = True"

text \<open>\<open>a || b\<close> where evaluating \<open>b\<close> has no effect.\<close>

definition js_or :: "js \<Rightarrow> js \<Rightarrow> js" where
  "js_or a b = (if truthy a then a else b)"

lemma js_or_truthy [simp]: "truthy a \<Longrightarrow> js_or a b = a"
  by (simp add: js_or_def)

lemma js_or_falsy [simp]: "\<not> truthy a \<Longrightarrow> js_or a b = b"
  by (simp add: js_or_def)

definition nullish :: "js \<Rightarrow> bool" where
  "nullish v \<longleftrightarrow> v = JUndef \<or> v = JNull"

lemma nullish_simps [simp]:
  "nullish JUndef" "nullish JNull" "\<not> nullish (JBool b)" "\<not> nullish (JNum n)"
  "\<not> nullish (JStr s)" "\<not> nullish (JArr xs)" "\<not> nullish (JObj ps)"
  by (simp_all add: nullish_def)

lemma nullish_not_truthy: "nullish v \<Longrightarrow> \<not> truthy v"
  by (auto simp: nullish_def)

section \<open>Properties\<close>

fun own_get :: "(string \<times> js) list \<Rightarrow> string \<Rightarrow> js" where
  "own_get [] k = JUndef"
| "own_get ((k', v) # ps) k = (if k' = k then v else own_get ps k)"

text \<open>Property read of a value that is neither \<open>undefined\<close> nor \<open>null\<close>.\<close>

fun js_prop :: "js \<Rightarrow> string \<Rightarrow> js" where
  "js_prop (JObj ps) k = own_get ps k"
| "js_prop (JArr xs) k = (if k = ''length'' then js_nat (length xs) else JUndef)"
| "js_prop (JStr s) k = (if k = ''length'' then js_nat (length s) else JUndef)"
| "js_prop _ k = JUndef"

definition nullish_text :: "js \<Rightarrow> string" where
  "nullish_text v = (if v = JNull then ''null'' else ''undefined'')"

definition read_error :: "js \<Rightarrow> string \<Rightarrow> exn" where
  "read_error v k = Exn (''Cannot read properties of '' @ nullish_text v @ '' (reading '' @
     [CHR 0x27] @ k @ [CHR 0x27] @ '')'')"

definition js_get :: "js \<Rightarrow> string \<Rightarrow> exn + js" where
  "js_get v k = (if nullish v then Inl (read_error v k) else Inr (js_prop v k))"

text \<open>\<open>v?.k\<close>.\<close>

definition js_opt :: "js \<Rightarrow> string \<Rightarrow> js" where
  "js_opt v k = (if nullish v then JUndef else js_prop v k)"

lemma js_get_obj [simp]: "js_get (JObj ps) k = Inr (own_get ps k)"
  by (simp add: js_get_def)

lemma js_opt_obj [simp]: "js_opt (JObj ps) k = own_get ps k"
  by (simp add: js_opt_def)

lemma js_opt_nullish [simp]: "js_opt JUndef k = JUndef" "js_opt JNull k = JUndef"
  by (simp_all add: js_opt_def)

text \<open>Assignment keeps the place of an existing key; a spread assigns the own properties in turn.\<close>

fun own_set :: "string \<Rightarrow> js \<Rightarrow> (string \<times> js) list \<Rightarrow> (string \<times> js) list" where
  "own_set k v [] = [(k, v)]"
| "own_set k v ((k', v') # ps) = (if k' = k then (k, v) # ps else (k', v') # own_set k v ps)"

lemma own_get_set: "own_get (own_set k v ps) k' = (if k' = k then v else own_get ps k')"
  by (induction k v ps rule: own_set.induct) auto

definition index_props :: "js list \<Rightarrow> (string \<times> js) list" where
  "index_props xs = zip (map (\<lambda>i. dec_string (int i)) [0..<length xs]) xs"

fun own_props :: "js \<Rightarrow> (string \<times> js) list" where
  "own_props (JObj ps) = ps"
| "own_props (JArr xs) = index_props xs"
| "own_props (JStr s) = index_props (map (\<lambda>c. JStr [c]) s)"
| "own_props _ = []"

definition spread_onto :: "(string \<times> js) list \<Rightarrow> js \<Rightarrow> (string \<times> js) list" where
  "spread_onto ps v = fold (\<lambda>(k, x) acc. own_set k x acc) (own_props v) ps"

lemma own_get_fold_set:
  "own_get (fold (\<lambda>(k, x) acc. own_set k x acc) qs ps) k =
     (case map_of (rev qs) k of None \<Rightarrow> own_get ps k | Some v \<Rightarrow> v)"
proof (induction qs rule: rev_induct)
  case Nil
  then show ?case by simp
next
  case (snoc q qs)
  then show ?case by (cases q) (auto simp: own_get_set)
qed

lemma own_get_spread_other:
  "k \<notin> fst ` set (own_props v) \<Longrightarrow> own_get (spread_onto ps v) k = own_get ps k"
  unfolding spread_onto_def own_get_fold_set by (auto split: option.splits dest!: map_of_SomeD) force

section \<open>Conversions\<close>

definition primitive_error :: exn where
  "primitive_error = Exn ''Cannot convert object to primitive value''"

fun to_str :: "js \<Rightarrow> exn + string"
and to_strs :: "js list \<Rightarrow> exn + string list" where
  "to_str JUndef = Inr ''undefined''"
| "to_str JNull = Inr ''null''"
| "to_str (JBool b) = Inr (if b then ''true'' else ''false'')"
| "to_str (JNum n) = Inr (num_to_string n)"
| "to_str (JStr s) = Inr s"
| "to_str (JArr xs) = (case to_strs xs of Inl e \<Rightarrow> Inl e | Inr ts \<Rightarrow> Inr (join_with '','' ts))"
| "to_str (JObj ps) =
     (if ''toString'' \<in> fst ` set ps then Inl primitive_error else Inr ''[object Object]'')"
| "to_strs [] = Inr []"
| "to_strs (x # xs) =
     (case (if nullish x then Inr [] else to_str x) of Inl e \<Rightarrow> Inl e
      | Inr t \<Rightarrow> (case to_strs xs of Inl e \<Rightarrow> Inl e | Inr ts \<Rightarrow> Inr (t # ts)))"

fun to_num :: "js \<Rightarrow> exn + jsnum" where
  "to_num JUndef = Inr NaN"
| "to_num JNull = Inr (Fin 0)"
| "to_num (JBool b) = Inr (Fin (if b then 1 else 0))"
| "to_num (JNum n) = Inr n"
| "to_num (JStr s) = Inr (text_to_number s)"
| "to_num v = (case to_str v of Inl e \<Rightarrow> Inl e | Inr t \<Rightarrow> Inr (text_to_number t))"

text \<open>\<open>a + b\<close>: objects and arrays become text first; text on either side concatenates.\<close>

definition to_prim :: "js \<Rightarrow> exn + js" where
  "to_prim v = (case v of JArr xs \<Rightarrow> map_sum id JStr (to_str v) | JObj ps \<Rightarrow> map_sum id JStr (to_str v) | _ \<Rightarrow> Inr v)"

definition is_str :: "js \<Rightarrow> bool" where
  "is_str v = (case v of JStr s \<Rightarrow> True | _ \<Rightarrow> False)"

definition js_add :: "js \<Rightarrow> js \<Rightarrow> exn + js" where
  "js_add a b = (case to_prim a of Inl e \<Rightarrow> Inl e | Inr x \<Rightarrow>
     (case to_prim b of Inl e \<Rightarrow> Inl e | Inr y \<Rightarrow>
      if is_str x \<or> is_str y
      then (case (to_str x, to_str y) of (Inr s, Inr t) \<Rightarrow> Inr (JStr (s @ t)) | _ \<Rightarrow> Inl primitive_error)
      else (case (to_num x, to_num y) of (Inr m, Inr n) \<Rightarrow> Inr (JNum (num_add m n)) | _ \<Rightarrow> Inl primitive_error)))"

text \<open>\<open>a && b\<close> where evaluating \<open>b\<close> has no effect.\<close>

definition js_and :: "js \<Rightarrow> js \<Rightarrow> js" where
  "js_and a b = (if truthy a then b else a)"

text \<open>The method call \<open>v.toString()\<close> on a truthy value held in the variable \<open>var\<close>.\<close>

definition call_toString :: "string \<Rightarrow> js \<Rightarrow> exn + string" where
  "call_toString var v = (case v of
     JObj ps \<Rightarrow> (if ''toString'' \<in> fst ` set ps then Inl (Exn (var @ ''.toString is not a function''))
                else Inr ''[object Object]'')
   | _ \<Rightarrow> to_str v)"

definition js_parseInt :: "js \<Rightarrow> exn + jsnum" where
  "js_parseInt v = (case to_str v of Inl e \<Rightarrow> Inl e | Inr t \<Rightarrow> Inr (parseInt_text t))"

text \<open>
  \<open>parseFloat\<close> reads the text of its argument. The text of a finite number is chosen so that it
  reads back as that number, hence \<open>parseFloat\<close> returns a number argument unchanged.
\<close>

definition js_parseFloat :: "js \<Rightarrow> exn + jsnum" where
  "js_parseFloat v = (case v of JNum n \<Rightarrow> Inr n
     | _ \<Rightarrow> (case to_str v of Inl e \<Rightarrow> Inl e | Inr t \<Rightarrow> Inr (parseFloat_text t)))"

text \<open>\<open>v.length < n\<close>: an absent length is \<open>NaN\<close> and compares false.\<close>

definition length_less :: "js \<Rightarrow> nat \<Rightarrow> exn + bool" where
  "length_less v n = (case js_get v ''length'' of Inl e \<Rightarrow> Inl e
     | Inr l \<Rightarrow> (case to_num l of Inl e \<Rightarrow> Inl e | Inr x \<Rightarrow> Inr (num_lt x (Fin (of_nat n)))))"

section \<open>JSON text\<close>

definition hex_digit :: "nat \<Rightarrow> char" where
  "hex_digit d = (if d < 10 then char_of (48 + d) else char_of (87 + d))"

definition esc_char :: "char \<Rightarrow> string" where
  "esc_char c = (let n = of_char c :: nat in
     if n = 34 then [CHR 0x5C, CHR 0x22] else if n = 92 then [CHR 0x5C, CHR 0x5C]
     else if n = 8 then CHR 0x5C # ''b'' else if n = 9 then CHR 0x5C # ''t''
     else if n = 10 then CHR 0x5C # ''n'' else if n = 12 then CHR 0x5C # ''f''
     else if n = 13 then CHR 0x5C # ''r''
     else if n < 32 then CHR 0x5C # ''u00'' @ [hex_digit (n div 16), hex_digit (n mod 16)] else [c])"

definition quote_text :: "string \<Rightarrow> string" where
  "quote_text s = CHR 0x22 # concat (map esc_char s) @ [CHR 0x22]"

definition num_json :: "jsnum \<Rightarrow> string" where
  "num_json n = (case n of Fin x \<Rightarrow> num_to_string n | _ \<Rightarrow> ''null'')"

fun json_text :: "js \<Rightarrow> string option"
and json_items :: "js list \<Rightarrow> string list"
and json_props :: "(string \<times> js) list \<Rightarrow> string list" where
  "json_text JUndef = None"
| "json_text JNull = Some ''null''"
| "json_text (JBool b) = Some (if b then ''true'' else ''false'')"
| "json_text (JNum n) = Some (num_json n)"
| "json_text (JStr s) = Some (quote_text s)"
| "json_text (JArr xs) = Some (''['' @ join_with '','' (json_items xs) @ '']'')"
| "json_text (JObj ps) = Some (''{'' @ join_with '','' (json_props ps) @ ''}'')"
| "json_items [] = []"
| "json_items (x # xs) = (case json_text x of None \<Rightarrow> ''null'' | Some t \<Rightarrow> t) # json_items xs"
| "json_props [] = []"
| "json_props ((k, v) # ps) =
     (case json_text v of None \<Rightarrow> json_props ps
      | Some t \<Rightarrow> (quote_text k @ '':'' @ t) # json_props ps)"

text \<open>\<open>JSON.stringify(v)\<close> of a value that is not \<open>undefined\<close>.\<close>

definition stringify :: "js \<Rightarrow> string" where
  "stringify v = (case json_text v of None \<Rightarrow> ''undefined'' | Some t \<Rightarrow> t)"

text \<open>\<open>JSON.stringify(v, null, 2)\<close> at nesting depth \<open>d\<close>: two blanks per level.\<close>

definition pad :: "nat \<Rightarrow> string" where
  "pad d = CHR 0x0A # replicate (2 * d) (CHR '' '')"

definition bracket :: "nat \<Rightarrow> string \<Rightarrow> string \<Rightarrow> string list \<Rightarrow> string" where
  "bracket d l r items = (if items = [] then l @ r
     else l @ pad (Suc d) @ join_with ('','' @ pad (Suc d)) items @ pad d @ r)"

fun pretty_text :: "nat \<Rightarrow> js \<Rightarrow> string option"
and pretty_items :: "nat \<Rightarrow> js list \<Rightarrow> string list"
and pretty_props :: "nat \<Rightarrow> (string \<times> js) list \<Rightarrow> string list" where
  "pretty_text d JUndef = None"
| "pretty_text d JNull = Some ''null''"
| "pretty_text d (JBool b) = Some (if b then ''true'' else ''false'')"
| "pretty_text d (JNum n) = Some (num_json n)"
| "pretty_text d (JStr s) = Some (quote_text s)"
| "pretty_text d (JArr xs) = Some (bracket d ''['' '']'' (pretty_items (Suc d) xs))"
| "pretty_text d (JObj ps) = Some (bracket d ''{'' ''}'' (pretty_props (Suc d) ps))"
| "pretty_items d [] = []"
| "pretty_items d (x # xs) = (case pretty_text d x of None \<Rightarrow> ''null'' | Some t \<Rightarrow> t) # pretty_items d xs"
| "pretty_props d [] = []"
| "pretty_props d ((k, v) # ps) =
     (case pretty_text d v of None \<Rightarrow> pretty_props d ps
      | Some t \<Rightarrow> (quote_text k @ '': '' @ t) # pretty_props d ps)"

definition stringify_pretty :: "js \<Rightarrow> string" where
  "stringify_pretty v = (case pretty_text 0 v of None \<Rightarrow> ''undefined'' | Some t \<Rightarrow> t)"

text \<open>A property whose value is \<open>undefined\<close> does not reach the wire.\<close>

lemma stringify_drop_undef:
  "stringify (JObj (ps @ (k, JUndef) # qs)) = stringify (JObj (ps @ qs))"
proof -
  have "json_props (ps @ (k, JUndef) # qs) = json_props (ps @ qs)"
    by (induction ps) (auto split: option.splits)
  then show ?thesis by (simp add: stringify_def)
qed

lemma stringify_NaN_null:
  "stringify (JObj (ps @ (k, JNum NaN) # qs)) = stringify (JObj (ps @ (k, JNull) # qs))"
proof -
  have "json_props (ps @ (k, JNum NaN) # qs) = json_props (ps @ (k, JNull) # qs)"
    by (induction ps) (auto simp: num_json_def split: option.splits)
  then show ?thesis by (simp add: stringify_def)
qed

end
