(* ===== verification/Js_Regex.thy ===== *)
theory Js_Regex
  imports Js_Value
begin

text \<open>
  The regular expressions of the log readers. A pattern is a sequence of items over one-unit
  classes: a class, a greedy or lazy star of a class, an optional class, and the two ends of a
  capture group. \<open>rx_match\<close> is the backtracking matcher of ECMAScript on such patterns (the greedy
  star tries the longest run first, the lazy star the shortest), and \<open>rx_search\<close> the unanchored
  \<open>String.prototype.match\<close>: the leftmost position where the pattern matches.
\<close>

datatype rx_item =
    One "char \<Rightarrow> bool"
  | Greedy "char \<Rightarrow> bool"
  | Lazy "char \<Rightarrow> bool"
  | Maybe "char \<Rightarrow> bool"
  | Open nat
  | Close nat

text \<open>Captures: for an open group the rest of the input at its start, for a closed one its text.\<close>

type_synonym captures = "(nat \<times> string) list"

definition capture :: "captures \<Rightarrow> nat \<Rightarrow> string" where
  "capture cs k = (case map_of cs k of None \<Rightarrow> [] | Some t \<Rightarrow> t)"

fun rx_match :: "rx_item list \<Rightarrow> string \<Rightarrow> captures \<Rightarrow> captures option" where
  "rx_match [] s cs = Some cs"
| "rx_match (One p # r) s cs =
     (case s of [] \<Rightarrow> None | c # s' \<Rightarrow> if p c then rx_match r s' cs else None)"
| "rx_match (Greedy p # r) s cs =
     (case s of [] \<Rightarrow> rx_match r [] cs
      | c # s' \<Rightarrow> if p c
          then (case rx_match (Greedy p # r) s' cs of
                  Some m \<Rightarrow> Some m | None \<Rightarrow> rx_match r (c # s') cs)
          else rx_match r (c # s') cs)"
| "rx_match (Lazy p # r) s cs =
     (case rx_match r s cs of Some m \<Rightarrow> Some m
      | None \<Rightarrow> (case s of [] \<Rightarrow> None
                 | c # s' \<Rightarrow> if p c then rx_match (Lazy p # r) s' cs else None))"
| "rx_match (Maybe p # r) s cs =
     (case s of [] \<Rightarrow> rx_match r [] cs
      | c # s' \<Rightarrow> if p c
          then (case rx_match r s' cs of Some m \<Rightarrow> Some m | None \<Rightarrow> rx_match r (c # s') cs)
          else rx_match r (c # s') cs)"
| "rx_match (Open k # r) s cs = rx_match r s ((k, s) # cs)"
| "rx_match (Close k # r) s cs =
     (let from = capture cs k in rx_match r s ((k, take (length from - length s) from) # cs))"

fun rx_search :: "rx_item list \<Rightarrow> string \<Rightarrow> captures option" where
  "rx_search r [] = rx_match r [] []"
| "rx_search r (c # s) =
     (case rx_match r (c # s) [] of Some m \<Rightarrow> Some m | None \<Rightarrow> rx_search r s)"

section \<open>Classes\<close>

definition is_word :: "char \<Rightarrow> bool" where
  "is_word c \<longleftrightarrow> is_digit c \<or> c = CHR ''_'' \<or>
     (let n = of_char c :: int in 65 \<le> n \<and> n \<le> 90 \<or> 97 \<le> n \<and> n \<le> 122)"

definition not_newline :: "char \<Rightarrow> bool" where
  "not_newline c \<longleftrightarrow> c \<noteq> CHR 0x0A \<and> c \<noteq> CHR 0x0D"

text \<open>A literal text, matched exactly or without regard to case.\<close>

definition lit :: "string \<Rightarrow> rx_item list" where
  "lit t = map (\<lambda>c. One (\<lambda>d. d = c)) t"

definition lit_i :: "string \<Rightarrow> rx_item list" where
  "lit_i t = map (\<lambda>c. One (\<lambda>d. lower_char d = lower_char c)) t"

definition rx_plus :: "(char \<Rightarrow> bool) \<Rightarrow> rx_item list" where
  "rx_plus p = [One p, Greedy p]"

text \<open>\<open>(\d+\.?\d*)\<close> as group 1.\<close>

definition decimal_group :: "rx_item list" where
  "decimal_group = [Open 1] @ rx_plus is_digit @ [Maybe (\<lambda>c. c = CHR ''.''), Greedy is_digit, Close 1]"

text \<open>Number of non-overlapping, case-insensitive occurrences: \<open>(s.match(/t/gi) || []).length\<close>.\<close>

function count_i :: "string \<Rightarrow> string \<Rightarrow> nat" where
  "count_i t s = (if t = [] \<or> s = [] then 0
     else if starts_with (to_lower s) (to_lower t) then Suc (count_i t (drop (length t) s))
     else count_i t (tl s))"
  by pat_completeness auto
termination
  by (relation "measure (\<lambda>(t, s). length s)") auto

declare count_i.simps [simp del]

section \<open>Lemmas\<close>

text \<open>A literal prefix consumes exactly itself.\<close>

lemma rx_match_lit: "rx_match (lit t @ r) s cs =
    (if starts_with s t then rx_match r (drop (length t) s) cs else None)"
proof (induction t arbitrary: s)
  case Nil
  then show ?case by (simp add: lit_def)
next
  case (Cons c t)
  then show ?case by (cases s) (auto simp: lit_def)
qed

lemma rx_search_Some_suffix:
  assumes "rx_search r s = Some m"
  obtains a b where "s = a @ b" and "rx_match r b [] = Some m"
proof -
  have "\<exists>a b. s = a @ b \<and> rx_match r b [] = Some m"
    using assms
  proof (induction r s rule: rx_search.induct)
    case (1 r)
    then show ?case by auto
  next
    case (2 r c s)
    show ?case
    proof (cases "rx_match r (c # s) []")
      case None
      with 2 obtain a b where "s = a @ b \<and> rx_match r b [] = Some m" by auto
      then show ?thesis by (metis append_Cons)
    next
      case (Some m')
      with 2 have "rx_match r (c # s) [] = Some m" by simp
      then show ?thesis by (metis append_Nil)
    qed
  qed
  with that show thesis by blast
qed

lemma count_i_le: "count_i t s * length t \<le> length s"
proof (induction t s rule: count_i.induct)
  case (1 t s)
  show ?case
  proof (cases "t = [] \<or> s = []")
    case True
    then show ?thesis by (simp add: count_i.simps)
  next
    case False
    show ?thesis
    proof (cases "starts_with (to_lower s) (to_lower t)")
      case True
      then have "length t \<le> length s"
        by (auto simp: starts_with_iff to_lower_def dest!: arg_cong [where f = length])
      moreover have "count_i t (drop (length t) s) * length t \<le> length s - length t"
        using "1.IH"(1) False True by simp
      ultimately show ?thesis using False True by (simp add: count_i.simps [of t s])
    next
      case not_here: False
      have "count_i t (tl s) * length t \<le> length (tl s)" using "1.IH"(2) False not_here by simp
      then show ?thesis using False not_here by (simp add: count_i.simps [of t s])
    qed
  qed
qed

end
