(* ===== verification/Node_Env.thy ===== *)
theory Node_Env
  imports Js_Regex
begin

text \<open>
  The effects of a Node process and the environment that answers them. A computation is a function
  from the server's state to an error or a value and the next state, so \<open>await\<close>, \<open>throw\<close> and
  \<open>try\<close>/\<open>catch\<close> are \<open>bindM\<close>, \<open>throwM\<close> and \<open>try_catch\<close>. Every state extends \<open>io_base\<close>, which
  records the effects performed so far in order and whether the process has exited.

  The environment (the daemon, the wallet RPC server, the file system, the operating system's
  processes) is a parameter: a record of functions from the effects performed so far to an answer.
  While a computation is suspended in an \<open>await\<close>, the events of child processes are delivered to
  the server's own listeners; which events, the environment decides. Requests are handled one
  after the other: an \<open>await\<close> of one request does not interleave with another request.

  Console output is not modelled.
\<close>

section \<open>Requests, responses, effects\<close>

record http_request =
  req_url :: string
  req_method :: string
  req_headers :: "(string \<times> string) list"
  req_body :: "string option"

text \<open>A response as \<open>fetch\<close> resolves it; \<open>res_json\<close> is what awaiting \<open>response.json()\<close> gives.\<close>

record http_response =
  res_status :: nat
  res_json :: "exn + js"

definition res_ok :: "http_response \<Rightarrow> bool" where
  "res_ok r \<longleftrightarrow> 200 \<le> res_status r \<and> res_status r < 300"

definition get_request :: "string \<Rightarrow> http_request" where
  "get_request url = \<lparr>req_url = url, req_method = ''GET'', req_headers = [], req_body = None\<rparr>"

definition post_json :: "string \<Rightarrow> js \<Rightarrow> http_request" where
  "post_json url v = \<lparr>req_url = url, req_method = ''POST'',
     req_headers = [(''Content-Type'', ''application/json'')], req_body = Some (stringify v)\<rparr>"

datatype effect =
    Fetch http_request
  | Sleep nat
  | Spawn string "string list"
  | Exec string
  | ChildKill "int option"
  | PidKill int string
  | Mkdir string
  | WriteFile string string
  | Unlink string
  | OpenAppend string
  | CloseFile
  | Chmod string
  | Browser string
  | ErrorBox string
  | Window string
  | AppQuit
  | SetEnv string string
  | Require string

text \<open>A \<open>ChildProcess\<close> object: its process id (absent when the start failed) and \<open>killed\<close> flag.\<close>

record child =
  child_pid :: "int option"
  child_killed :: bool

text \<open>The answer sent to the HTTP client: status and the value given to \<open>res.json\<close>.\<close>

datatype reply = Reply (status: nat) (answer: js)

text \<open>An incoming request: parsed JSON body, query object and route parameters.\<close>

record http_in =
  in_body :: js
  in_query :: js
  in_params :: js

record io_base =
  trace :: "effect list"
  exit_code :: "int option"

record 'e env =
  env_fetch :: "effect list \<Rightarrow> http_request \<Rightarrow> exn + http_response"
  env_events :: "effect list \<Rightarrow> 'e list"
  env_exists :: "effect list \<Rightarrow> string \<Rightarrow> bool"
  env_readdir :: "effect list \<Rightarrow> string \<Rightarrow> exn + string list"
  env_readfile :: "effect list \<Rightarrow> string \<Rightarrow> exn + string"
  env_fs :: "effect list \<Rightarrow> exn option"
  env_spawn :: "effect list \<Rightarrow> exn + int option"
  env_stdout :: "effect list \<Rightarrow> (nat \<times> string) list"
  env_exec :: "effect list \<Rightarrow> exn + string"
  env_kill :: "effect list \<Rightarrow> exn option"
  env_alive :: "effect list \<Rightarrow> int \<Rightarrow> bool"
  env_platform :: string
  env_cpus :: nat
  env_dirname :: string
  env_vars :: "string \<Rightarrow> string option"
  env_resources :: "string option"
  env_user_data :: string
  env_packaged :: bool
  env_windows :: "effect list \<Rightarrow> nat"
  env_inspect :: "string \<Rightarrow> string"

section \<open>The effect monad\<close>

type_synonym ('s, 'a) io = "'s \<Rightarrow> (exn + 'a) \<times> 's"

definition ret :: "'a \<Rightarrow> ('s, 'a) io" where
  "ret a = (\<lambda>s. (Inr a, s))"

definition throwM :: "exn \<Rightarrow> ('s, 'a) io" where
  "throwM e = (\<lambda>s. (Inl e, s))"

definition bindM :: "('s, 'a) io \<Rightarrow> ('a \<Rightarrow> ('s, 'b) io) \<Rightarrow> ('s, 'b) io" where
  "bindM m f = (\<lambda>s. case m s of (Inl e, s') \<Rightarrow> (Inl e, s') | (Inr a, s') \<Rightarrow> f a s')"

text \<open>Code after the end of the process does not run, so the end is not caught either.\<close>

definition try_catch :: "('z io_base_scheme, 'a) io \<Rightarrow> (exn \<Rightarrow> ('z io_base_scheme, 'a) io) \<Rightarrow>
    ('z io_base_scheme, 'a) io" where
  "try_catch m h = (\<lambda>s. case m s of
     (Inl e, s') \<Rightarrow> if exit_code s' = None then h e s' else (Inl e, s')
   | (Inr a, s') \<Rightarrow> (Inr a, s'))"

definition getM :: "('s \<Rightarrow> 'a) \<Rightarrow> ('s, 'a) io" where
  "getM f = (\<lambda>s. (Inr (f s), s))"

definition modM :: "('s \<Rightarrow> 's) \<Rightarrow> ('s, unit) io" where
  "modM f = (\<lambda>s. (Inr (), f s))"

definition liftE :: "exn + 'a \<Rightarrow> ('s, 'a) io" where
  "liftE r = (\<lambda>s. (r, s))"

lemma ret_run [io_simps]: "ret a s = (Inr a, s)"
  by (simp add: ret_def)

lemma throwM_run [io_simps]: "throwM e s = (Inl e, s)"
  by (simp add: throwM_def)

lemma bindM_run [io_simps]:
  "bindM m f s = (case m s of (Inl e, s') \<Rightarrow> (Inl e, s') | (Inr a, s') \<Rightarrow> f a s')"
  by (simp add: bindM_def)

lemma try_catch_run [io_simps]:
  "try_catch m h s = (case m s of (Inl e, s') \<Rightarrow> if exit_code s' = None then h e s' else (Inl e, s')
     | (Inr a, s') \<Rightarrow> (Inr a, s'))"
  by (simp add: try_catch_def)

lemma getM_run [io_simps]: "getM f s = (Inr (f s), s)"
  by (simp add: getM_def)

lemma modM_run [io_simps]: "modM f s = (Inr (), f s)"
  by (simp add: modM_def)

lemma liftE_run [io_simps]: "liftE r s = (r, s)"
  by (simp add: liftE_def)

lemma bindM_values [simp]:
  "bindM (ret a) f = f a" "bindM (liftE (Inr a)) f = f a" "bindM (liftE (Inl e)) f = throwM e"
  "bindM (throwM e) f = throwM e"
  by (simp_all add: bindM_def ret_def liftE_def throwM_def)

lemma bindM_assoc: "bindM (bindM m f) g = bindM m (\<lambda>a. bindM (f a) g)"
  by (auto simp: bindM_def fun_eq_iff split: prod.splits sum.splits)

section \<open>Effects\<close>

definition note_effect :: "effect \<Rightarrow> 'z io_base_scheme \<Rightarrow> 'z io_base_scheme" where
  "note_effect ef s = s\<lparr>trace := trace s @ [ef]\<rparr>"

lemma trace_note [simp]: "trace (note_effect ef s) = trace s @ [ef]"
  by (simp add: note_effect_def)

lemma exit_note [simp]: "exit_code (note_effect ef s) = exit_code s"
  by (simp add: note_effect_def)

text \<open>The events delivered while the computation waits, in order, to the listener \<open>h\<close>.\<close>

definition deliver :: "'e env \<Rightarrow> ('e \<Rightarrow> 'z io_base_scheme \<Rightarrow> 'z io_base_scheme) \<Rightarrow>
    'z io_base_scheme \<Rightarrow> 'z io_base_scheme" where
  "deliver E h s = fold h (env_events E (trace s)) s"

text \<open>
  Suspend for an effect and resume with its answer. When a listener ended the process in the
  meantime, nothing resumes: the computation stops with \<open>process_ended\<close>, which no \<open>catch\<close> sees.
\<close>

definition process_ended :: exn where
  "process_ended = Exn ''process ended''"

definition awaitM :: "'e env \<Rightarrow> ('e \<Rightarrow> 'z io_base_scheme \<Rightarrow> 'z io_base_scheme) \<Rightarrow> effect \<Rightarrow>
    (effect list \<Rightarrow> exn + 'a) \<Rightarrow> ('z io_base_scheme, 'a) io" where
  "awaitM E h ef ans = (\<lambda>s. let t = note_effect ef s; s' = deliver E h t in
     (if exit_code s' = None then ans (trace t) else Inl process_ended, s'))"

definition fetch :: "'e env \<Rightarrow> ('e \<Rightarrow> 'z io_base_scheme \<Rightarrow> 'z io_base_scheme) \<Rightarrow> http_request \<Rightarrow>
    ('z io_base_scheme, http_response) io" where
  "fetch E h r = awaitM E h (Fetch r) (\<lambda>t. env_fetch E t r)"

definition sleep :: "'e env \<Rightarrow> ('e \<Rightarrow> 'z io_base_scheme \<Rightarrow> 'z io_base_scheme) \<Rightarrow> nat \<Rightarrow>
    ('z io_base_scheme, unit) io" where
  "sleep E h ms = awaitM E h (Sleep ms) (\<lambda>t. Inr ())"

text \<open>\<open>exec\<close> whose callback resumes the handler: the error or the standard output.\<close>

definition exec_await :: "'e env \<Rightarrow> ('e \<Rightarrow> 'z io_base_scheme \<Rightarrow> 'z io_base_scheme) \<Rightarrow> string \<Rightarrow>
    ('z io_base_scheme, exn + string) io" where
  "exec_await E h cmd = awaitM E h (Exec cmd) (\<lambda>t. Inr (env_exec E t))"

text \<open>Effects without a result the caller waits for.\<close>

definition doM :: "effect \<Rightarrow> ('z io_base_scheme, unit) io" where
  "doM ef = modM (note_effect ef)"

text \<open>Synchronous file operations and signals, which may raise.\<close>

definition fsM :: "'e env \<Rightarrow> effect \<Rightarrow> ('z io_base_scheme, unit) io" where
  "fsM E ef = (\<lambda>s. let s' = note_effect ef s in
     (case env_fs E (trace s') of None \<Rightarrow> Inr () | Some e \<Rightarrow> Inl e, s'))"

definition killM :: "'e env \<Rightarrow> int \<Rightarrow> string \<Rightarrow> ('z io_base_scheme, unit) io" where
  "killM E pid sig = (\<lambda>s. let s' = note_effect (PidKill pid sig) s in
     (case env_kill E (trace s') of None \<Rightarrow> Inr () | Some e \<Rightarrow> Inl e, s'))"

definition spawnM :: "'e env \<Rightarrow> string \<Rightarrow> string list \<Rightarrow> ('z io_base_scheme, child) io" where
  "spawnM E bin args = (\<lambda>s. let s' = note_effect (Spawn bin args) s in
     (case env_spawn E (trace s') of Inl e \<Rightarrow> Inl e
      | Inr p \<Rightarrow> Inr \<lparr>child_pid = p, child_killed = False\<rparr>, s'))"

text \<open>
  A file write stream and its descriptor. Node opens the file of a new stream after the running
  code has finished, so a stream that has just been created has no descriptor yet.
\<close>

record write_stream =
  ws_path :: string
  ws_fd :: "int option"

definition createWriteStreamM :: "string \<Rightarrow> ('z io_base_scheme, write_stream) io" where
  "createWriteStreamM p = (\<lambda>s. (Inr \<lparr>ws_path = p, ws_fd = None\<rparr>, note_effect (OpenAppend p) s))"

text \<open>
  \<open>spawn\<close> with a stream as \<open>stdio\<close>: the stream must have a descriptor, otherwise the call raises
  \<open>ERR_INVALID_ARG_VALUE\<close>; \<open>env_inspect\<close> gives the printed form of the stream.
\<close>

definition spawn_stdioM :: "'e env \<Rightarrow> string \<Rightarrow> string list \<Rightarrow> write_stream \<Rightarrow> ('z io_base_scheme, child) io" where
  "spawn_stdioM E bin args w = (case ws_fd w of
     None \<Rightarrow> throwM (Exn (''The argument '' @ [CHR 0x27] @ ''stdio'' @ [CHR 0x27] @ '' is invalid. Received '' @
        env_inspect E (ws_path w)))
   | Some fd \<Rightarrow> spawnM E bin args)"

definition existsM :: "'e env \<Rightarrow> string \<Rightarrow> ('z io_base_scheme, bool) io" where
  "existsM E p = (\<lambda>s. (Inr (env_exists E (trace s) p), s))"

definition readdirM :: "'e env \<Rightarrow> string \<Rightarrow> ('z io_base_scheme, string list) io" where
  "readdirM E p = (\<lambda>s. (env_readdir E (trace s) p, s))"

definition readFileM :: "'e env \<Rightarrow> string \<Rightarrow> ('z io_base_scheme, string) io" where
  "readFileM E p = (\<lambda>s. (env_readfile E (trace s) p, s))"

definition exitM :: "int \<Rightarrow> ('z io_base_scheme, unit) io" where
  "exitM c = modM (\<lambda>s. s\<lparr>exit_code := Some c\<rparr>)"

lemmas effect_run [io_simps] =
  awaitM_def fetch_def sleep_def exec_await_def fsM_def killM_def spawnM_def existsM_def
  readdirM_def readFileM_def createWriteStreamM_def spawn_stdioM_def

lemma doM_run [io_simps]: "doM ef s = (Inr (), note_effect ef s)"
  by (simp add: doM_def modM_def)

lemma exitM_run [io_simps]: "exitM c s = (Inr (), s\<lparr>exit_code := Some c\<rparr>)"
  by (simp add: exitM_def modM_def)

text \<open>An environment is quiet when no process event arrives during any wait.\<close>

definition quiet :: "'e env \<Rightarrow> bool" where
  "quiet E \<longleftrightarrow> (\<forall>t. env_events E t = [])"

lemma deliver_quiet [simp]: "quiet E \<Longrightarrow> deliver E h s = s"
  by (simp add: deliver_def quiet_def)

section \<open>Computations that always answer\<close>

text \<open>The computation gives a value unless the process ends while it is suspended.\<close>

definition no_throw :: "('z io_base_scheme, 'a) io \<Rightarrow> bool" where
  "no_throw m \<longleftrightarrow> (\<forall>s. exit_code (snd (m s)) = None \<longrightarrow> (\<exists>a. fst (m s) = Inr a))"

lemma no_throwD: "no_throw m \<Longrightarrow> m s = (r, s') \<Longrightarrow> exit_code s' = None \<Longrightarrow> \<exists>a. r = Inr a"
  by (metis no_throw_def fst_conv snd_conv)

lemma no_throwI: "(\<And>s e s'. m s = (Inl e, s') \<Longrightarrow> exit_code s' \<noteq> None) \<Longrightarrow> no_throw m"
  unfolding no_throw_def by (metis prod.collapse sum.exhaust)

lemma no_throw_ret [no_throw_intros]: "no_throw (ret a)"
  by (simp add: no_throw_def ret_def)

lemma no_throw_getM [no_throw_intros]: "no_throw (getM f)"
  by (simp add: no_throw_def getM_def)

lemma no_throw_modM [no_throw_intros]: "no_throw (modM f)"
  by (simp add: no_throw_def modM_def)

lemma no_throw_doM [no_throw_intros]: "no_throw (doM ef)"
  by (simp add: doM_def no_throw_modM)

lemma no_throw_exitM [no_throw_intros]: "no_throw (exitM c)"
  by (simp add: exitM_def no_throw_modM)

lemma no_throw_bindM [no_throw_intros]:
  assumes "no_throw m" and "\<And>a. no_throw (f a)"
  shows "no_throw (bindM m f)"
proof (rule no_throwI)
  fix s e s' assume "bindM m f s = (Inl e, s')"
  then show "exit_code s' \<noteq> None"
    using no_throwD [OF assms(1), of s] no_throwD [OF assms(2)]
    by (fastforce simp: bindM_def split: prod.splits sum.splits)
qed

text \<open>Whatever the guarded code does, a handler that always answers makes the whole answer.\<close>

lemma no_throw_try [no_throw_intros]:
  assumes "\<And>e. no_throw (h e)"
  shows "no_throw (try_catch m h)"
proof (rule no_throwI)
  fix s e s' assume "try_catch m h s = (Inl e, s')"
  then show "exit_code s' \<noteq> None"
    using no_throwD [OF assms] by (fastforce simp: try_catch_def split: prod.splits sum.splits if_splits)
qed

lemma no_throw_existsM [no_throw_intros]: "no_throw (existsM E p)"
  by (simp add: no_throw_def existsM_def)

lemma no_throw_sleep [no_throw_intros]: "no_throw (sleep E h ms)"
  by (simp add: no_throw_def sleep_def awaitM_def Let_def)

lemma no_throw_exec [no_throw_intros]: "no_throw (exec_await E h cmd)"
  by (simp add: no_throw_def exec_await_def awaitM_def Let_def)

lemma no_throw_liftE [no_throw_intros]: "no_throw (liftE (Inr a))"
  by (simp add: no_throw_def liftE_def)

text \<open>
  What a finished handler leaves behind. A rejected promise of a handler is unhandled and ends the
  process with code 1.
\<close>

definition settle :: "('z io_base_scheme, 'a) io \<Rightarrow> 'z io_base_scheme \<Rightarrow> 'z io_base_scheme" where
  "settle m s = (case m s of (Inl e, s') \<Rightarrow> if exit_code s' = None then s'\<lparr>exit_code := Some 1\<rparr> else s'
     | (Inr a, s') \<Rightarrow> s')"

lemma settle_no_throw: "no_throw m \<Longrightarrow> settle m s = snd (m s)"
  using no_throwD [of m s] by (fastforce simp: settle_def split: prod.splits sum.splits)

lemma no_throw_if [no_throw_intros]: "no_throw m \<Longrightarrow> no_throw n \<Longrightarrow> no_throw (if b then m else n)"
  by simp

lemma no_throw_option [no_throw_intros]:
  "no_throw m \<Longrightarrow> (\<And>a. no_throw (f a)) \<Longrightarrow> no_throw (case x of None \<Rightarrow> m | Some a \<Rightarrow> f a)"
  by (cases x) auto

lemma no_throw_sum [no_throw_intros]:
  "(\<And>e. no_throw (f e)) \<Longrightarrow> (\<And>a. no_throw (g a)) \<Longrightarrow> no_throw (case x of Inl e \<Rightarrow> f e | Inr a \<Rightarrow> g a)"
  by (cases x) auto

section \<open>State predicates kept by a computation\<close>

definition keeps :: "('s \<Rightarrow> bool) \<Rightarrow> ('s, 'a) io \<Rightarrow> bool" where
  "keeps P m \<longleftrightarrow> (\<forall>s. P s \<longrightarrow> P (snd (m s)))"

lemma keepsD: "keeps P m \<Longrightarrow> P s \<Longrightarrow> P (snd (m s))"
  by (simp add: keeps_def)

lemma keeps_settle:
  assumes "keeps P m" and "\<And>s c. P s \<Longrightarrow> P (s\<lparr>exit_code := Some c\<rparr>)" and "P s"
  shows "P (settle m s)"
  using keepsD [OF assms(1,3)] assms(2) by (auto simp: settle_def split: prod.splits sum.splits)

lemma keepsI: "(\<And>s. P s \<Longrightarrow> P (snd (m s))) \<Longrightarrow> keeps P m"
  by (simp add: keeps_def)

lemma keeps_True [simp]: "keeps (\<lambda>_. True) m"
  by (simp add: keeps_def)

lemma keeps_ret [keeps_intros]: "keeps P (ret a)"
  by (simp add: keeps_def ret_def)

lemma keeps_throwM [keeps_intros]: "keeps P (throwM e)"
  by (simp add: keeps_def throwM_def)

lemma keeps_getM [keeps_intros]: "keeps P (getM f)"
  by (simp add: keeps_def getM_def)

lemma keeps_liftE [keeps_intros]: "keeps P (liftE r)"
  by (simp add: keeps_def liftE_def)

lemma keeps_modM [keeps_intros]: "(\<And>s. P s \<Longrightarrow> P (f s)) \<Longrightarrow> keeps P (modM f)"
  by (simp add: keeps_def modM_def)

lemma keeps_bindM [keeps_intros]:
  assumes "keeps P m" and "\<And>a. keeps P (f a)"
  shows "keeps P (bindM m f)"
proof (rule keepsI)
  fix s assume "P s"
  moreover obtain r s' where r: "m s = (r, s')" by force
  ultimately have "P s'" using keepsD [OF assms(1), of s] by simp
  then show "P (snd (bindM m f s))"
    using r keepsD [OF assms(2)] by (cases r) (auto simp: bindM_def)
qed

lemma keeps_try [keeps_intros]:
  assumes "keeps P m" and "\<And>e. keeps P (h e)"
  shows "keeps P (try_catch m h)"
proof (rule keepsI)
  fix s assume "P s"
  moreover obtain r s' where r: "m s = (r, s')" by force
  ultimately have "P s'" using keepsD [OF assms(1), of s] by simp
  then show "P (snd (try_catch m h s))"
    using r keepsD [OF assms(2)] by (cases r) (auto simp: try_catch_def)
qed

lemma keeps_if [keeps_intros]: "keeps P m \<Longrightarrow> keeps P n \<Longrightarrow> keeps P (if b then m else n)"
  by simp

lemma keeps_option [keeps_intros]:
  "keeps P m \<Longrightarrow> (\<And>a. keeps P (f a)) \<Longrightarrow> keeps P (case x of None \<Rightarrow> m | Some a \<Rightarrow> f a)"
  by (cases x) auto

lemma keeps_prod [keeps_intros]: "(\<And>a b. keeps P (f a b)) \<Longrightarrow> keeps P (case x of (a, b) \<Rightarrow> f a b)"
  by (cases x) auto

lemma keeps_sum [keeps_intros]:
  "(\<And>e. keeps P (f e)) \<Longrightarrow> (\<And>a. keeps P (g a)) \<Longrightarrow> keeps P (case x of Inl e \<Rightarrow> f e | Inr a \<Rightarrow> g a)"
  by (cases x) auto

text \<open>A predicate that neither noting an effect nor the event listener can break.\<close>

definition stable :: "('e \<Rightarrow> 'z io_base_scheme \<Rightarrow> 'z io_base_scheme) \<Rightarrow>
    ('z io_base_scheme \<Rightarrow> bool) \<Rightarrow> bool" where
  "stable h P \<longleftrightarrow> (\<forall>s ef. P s \<longrightarrow> P (note_effect ef s)) \<and> (\<forall>s e. P s \<longrightarrow> P (h e s))"

lemma stable_fold: "stable h P \<Longrightarrow> P s \<Longrightarrow> P (fold h es s)"
  by (induction es arbitrary: s) (auto simp: stable_def)

lemma stable_note: "stable h P \<Longrightarrow> P s \<Longrightarrow> P (note_effect ef s)"
  by (simp add: stable_def)

lemma keeps_awaitM: "stable h P \<Longrightarrow> keeps P (awaitM E h ef ans)"
  by (auto simp: keeps_def awaitM_def deliver_def Let_def intro: stable_fold stable_note)

lemma keeps_fetch: "stable h P \<Longrightarrow> keeps P (fetch E h r)"
  by (simp add: fetch_def keeps_awaitM)

lemma keeps_sleep: "stable h P \<Longrightarrow> keeps P (sleep E h ms)"
  by (simp add: sleep_def keeps_awaitM)

lemma keeps_exec: "stable h P \<Longrightarrow> keeps P (exec_await E h cmd)"
  by (simp add: exec_await_def keeps_awaitM)

lemma keeps_doM: "stable h P \<Longrightarrow> keeps P (doM ef)"
  by (simp add: doM_def keeps_modM stable_note)

lemma keeps_fsM: "stable h P \<Longrightarrow> keeps P (fsM E ef)"
  by (auto simp: keeps_def fsM_def Let_def intro: stable_note)

lemma keeps_killM: "stable h P \<Longrightarrow> keeps P (killM E pid sig)"
  by (auto simp: keeps_def killM_def Let_def intro: stable_note)

lemma keeps_spawnM: "stable h P \<Longrightarrow> keeps P (spawnM E bin args)"
  by (auto simp: keeps_def spawnM_def Let_def intro: stable_note)

text \<open>A process that has just been spawned has not been signalled.\<close>

lemma keeps_spawn_bind:
  assumes "stable h P" and "\<And>c. \<not> child_killed c \<Longrightarrow> keeps P (f c)"
  shows "keeps P (bindM (spawnM E bin args) f)"
proof (rule keepsI)
  fix s assume "P s"
  then have "P (note_effect (Spawn bin args) s)" by (rule stable_note [OF assms(1)])
  then show "P (snd (bindM (spawnM E bin args) f s))"
    using keepsD [OF assms(2)]
    by (auto simp: bindM_def spawnM_def Let_def split: sum.splits)
qed

lemma keeps_existsM [keeps_intros]: "keeps P (existsM E p)"
  by (simp add: keeps_def existsM_def)

lemma keeps_readdirM [keeps_intros]: "keeps P (readdirM E p)"
  by (simp add: keeps_def readdirM_def)

lemma keeps_readFileM [keeps_intros]: "keeps P (readFileM E p)"
  by (simp add: keeps_def readFileM_def)

lemmas keeps_effects = keeps_fetch keeps_sleep keeps_exec keeps_doM keeps_fsM keeps_killM keeps_spawnM

definition json_reply :: "js \<Rightarrow> ('s, reply) io" where
  "json_reply v = ret (Reply 200 v)"

definition status_reply :: "nat \<Rightarrow> js \<Rightarrow> ('s, reply) io" where
  "status_reply n v = ret (Reply n v)"

section \<open>What an answer guarantees\<close>

text \<open>\<open>ensures P Q m\<close>: from a state with \<open>P\<close>, an answer \<open>a\<close> of \<open>m\<close> comes with a state in which \<open>Q a\<close> holds.\<close>

definition ensures :: "('s \<Rightarrow> bool) \<Rightarrow> ('a \<Rightarrow> 's \<Rightarrow> bool) \<Rightarrow> ('s, 'a) io \<Rightarrow> bool" where
  "ensures P Q m \<longleftrightarrow> (\<forall>s a s'. P s \<longrightarrow> m s = (Inr a, s') \<longrightarrow> Q a s')"

lemma ensuresD: "ensures P Q m \<Longrightarrow> P s \<Longrightarrow> m s = (Inr a, s') \<Longrightarrow> Q a s'"
  by (simp add: ensures_def)

lemma ensures_bind:
  assumes "keeps P m" and "\<And>a. ensures P Q (f a)"
  shows "ensures P Q (bindM m f)"
  unfolding ensures_def
proof (intro allI impI)
  fix s b s' assume "P s" and eq: "bindM m f s = (Inr b, s')"
  obtain r t where r: "m s = (r, t)" by force
  then have "P t" using keepsD [OF assms(1) \<open>P s\<close>] by simp
  moreover obtain a where "r = Inr a" using eq r by (cases r) (auto simp: bindM_def)
  ultimately show "Q b s'" using eq r ensuresD [OF assms(2)] by (auto simp: bindM_def)
qed

lemma ensures_mod:
  assumes "\<And>s. P s \<Longrightarrow> P' (g s)" and "\<And>u. ensures P' Q (f u)"
  shows "ensures P Q (bindM (modM g) f)"
  using assms by (auto simp: ensures_def bindM_def modM_def)

lemma ensures_get:
  assumes "\<And>a. ensures (\<lambda>s. P s \<and> g s = a) Q (f a)"
  shows "ensures P Q (bindM (getM g) f)"
  using assms by (auto simp: ensures_def bindM_def getM_def)

lemma ensures_try:
  assumes "ensures P Q m" and "\<And>e. ensures (\<lambda>_. True) Q (h e)"
  shows "ensures P Q (try_catch m h)"
  using assms by (force simp: ensures_def try_catch_def split: prod.splits sum.splits)

lemma ensures_throw: "ensures P Q (throwM e)"
  by (simp add: ensures_def throwM_def)

lemma ensures_liftE: "(\<And>a s. r = Inr a \<Longrightarrow> P s \<Longrightarrow> Q a s) \<Longrightarrow> ensures P Q (liftE r)"
  by (simp add: ensures_def liftE_def)

lemma ensures_reply:
  "(\<And>s. P s \<Longrightarrow> Q (Reply 200 v) s) \<Longrightarrow> ensures P Q (json_reply v)"
  "(\<And>s. P s \<Longrightarrow> Q (Reply n v) s) \<Longrightarrow> ensures P Q (status_reply n v)"
  by (simp_all add: ensures_def json_reply_def status_reply_def ret_def)

lemma ensures_if: "(b \<Longrightarrow> ensures P Q m) \<Longrightarrow> (\<not> b \<Longrightarrow> ensures P Q n) \<Longrightarrow> ensures P Q (if b then m else n)"
  by simp

lemmas ensures_rules = ensures_bind ensures_if ensures_try ensures_reply ensures_liftE

section \<open>Shared helpers\<close>

text \<open>\<open>process.kill\<close> accepts a number that is a 32-bit integer and raises on anything else.\<close>

definition as_pid :: "js \<Rightarrow> int option" where
  "as_pid v = (case v of JNum (Fin x) \<Rightarrow>
     if x = of_int \<lfloor>x\<rfloor> \<and> - (2 ^ 31) \<le> \<lfloor>x\<rfloor> \<and> \<lfloor>x\<rfloor> < 2 ^ 31 then Some \<lfloor>x\<rfloor> else None | _ \<Rightarrow> None)"

text \<open>\<open>execSync\<close>: the handler goes on when the command has ended, and a failure raises.\<close>

definition execSyncM :: "'e env \<Rightarrow> string \<Rightarrow> ('z io_base_scheme, unit) io" where
  "execSyncM E cmd = (\<lambda>s. let s' = note_effect (Exec cmd) s in
     (case env_exec E (trace s') of Inl e \<Rightarrow> Inl e | Inr _ \<Rightarrow> Inr (), s'))"

lemma execSyncM_run [io_simps]: "execSyncM E cmd s =
    (case env_exec E (trace s @ [Exec cmd]) of Inl e \<Rightarrow> Inl e | Inr _ \<Rightarrow> Inr (), note_effect (Exec cmd) s)"
  by (simp add: execSyncM_def Let_def)

text \<open>\<open>if (!fs.existsSync(d)) fs.mkdirSync(d)\<close>.\<close>

definition mkdir_missing :: "'e env \<Rightarrow> string \<Rightarrow> ('z io_base_scheme, unit) io" where
  "mkdir_missing E d = bindM (existsM E d) (\<lambda>ex. if ex then ret () else fsM E (Mkdir d))"

lemma mkdir_missing_keeps: "stable h P \<Longrightarrow> keeps P (mkdir_missing E d)"
  unfolding mkdir_missing_def by (intro keeps_intros keeps_fsM)

text \<open>\<open>path.join\<close> on POSIX: the pieces joined by a slash, then dot segments resolved.\<close>

fun resolve_dots :: "string list \<Rightarrow> string list \<Rightarrow> string list" where
  "resolve_dots acc [] = rev acc"
| "resolve_dots acc (x # xs) =
     (if x = [] \<or> x = ''.'' then resolve_dots acc xs
      else if x = ''..'' then resolve_dots (if acc = [] \<or> hd acc = ''..'' then x # acc else tl acc) xs
      else resolve_dots (x # acc) xs)"

definition path_join :: "string list \<Rightarrow> string" where
  "path_join ps = (let s = join_with ''/'' (filter (\<lambda>p. p \<noteq> []) ps);
       r = join_with ''/'' (if starts_with s ''/'' then dropWhile (\<lambda>p. p = ''..'') (resolve_dots [] (split_on (CHR ''/'') s))
                           else resolve_dots [] (split_on (CHR ''/'') s)) in
     if starts_with s ''/'' then ''/'' @ r else if r = [] then ''.'' else r)"

lemma path_join_nonempty [simp]: "path_join ps \<noteq> []"
  by (simp add: path_join_def Let_def)

lemma json_reply_run [io_simps]: "json_reply v s = (Inr (Reply 200 v), s)"
  by (simp add: json_reply_def ret_def)

lemma status_reply_run [io_simps]: "status_reply n v s = (Inr (Reply n v), s)"
  by (simp add: status_reply_def ret_def)

lemma no_throw_json_reply [no_throw_intros]: "no_throw (json_reply v)"
  by (simp add: json_reply_def no_throw_ret)

lemma no_throw_status_reply [no_throw_intros]: "no_throw (status_reply n v)"
  by (simp add: status_reply_def no_throw_ret)

lemma keeps_json_reply [keeps_intros]: "keeps P (json_reply v)"
  by (simp add: json_reply_def keeps_ret)

lemma keeps_status_reply [keeps_intros]: "keeps P (status_reply n v)"
  by (simp add: status_reply_def keeps_ret)

text \<open>\<open>{ error: error.message }\<close> with further properties.\<close>

definition error_obj :: "exn \<Rightarrow> (string \<times> js) list \<Rightarrow> js" where
  "error_obj e ps = JObj ((''error'', JStr (message e)) # ps)"

definition jnum :: "exn + jsnum \<Rightarrow> exn + js" where
  "jnum r = map_sum id JNum r"

text \<open>\<open>JSON-RPC\<close> call frame.\<close>

definition rpc_call :: "string \<Rightarrow> js \<Rightarrow> js" where
  "rpc_call method params = JObj [(''jsonrpc'', JStr ''2.0''), (''id'', JStr ''0''),
     (''method'', JStr method), (''params'', params)]"

section \<open>A concrete environment\<close>

text \<open>
  A quiet POSIX environment in which every file exists and every operation succeeds, while nothing
  listens on the network. The instances of the properties vary it.
\<close>

definition example_env :: "'e env" where
  "example_env = \<lparr>env_fetch = (\<lambda>t r. Inl (Exn ''ECONNREFUSED'')), env_events = (\<lambda>t. []),
     env_exists = (\<lambda>t p. True), env_readdir = (\<lambda>t p. Inr []), env_readfile = (\<lambda>t p. Inr []),
     env_fs = (\<lambda>t. None), env_spawn = (\<lambda>t. Inr (Some 4242)), env_stdout = (\<lambda>t. []), env_exec = (\<lambda>t. Inr []),
     env_kill = (\<lambda>t. None), env_alive = (\<lambda>t p. True), env_platform = ''linux'', env_cpus = 4,
     env_dirname = ''/app'', env_vars = (\<lambda>k. None), env_resources = None, env_user_data = ''/home/u'',
     env_packaged = False, env_windows = (\<lambda>t. 0), env_inspect = (\<lambda>p. p)\<rparr>"

lemma example_env_simps [simp]:
  "env_fetch example_env = (\<lambda>t r. Inl (Exn ''ECONNREFUSED''))" "env_events example_env = (\<lambda>t. [])"
  "env_exists example_env = (\<lambda>t p. True)" "env_readdir example_env = (\<lambda>t p. Inr [])"
  "env_readfile example_env = (\<lambda>t p. Inr [])" "env_fs example_env = (\<lambda>t. None)"
  "env_spawn example_env = (\<lambda>t. Inr (Some 4242))" "env_exec example_env = (\<lambda>t. Inr [])"
  "env_kill example_env = (\<lambda>t. None)" "env_alive example_env = (\<lambda>t p. True)"
  "env_stdout example_env = (\<lambda>t. [])" "env_platform example_env = ''linux''" "env_windows example_env = (\<lambda>t. 0)"
  by (simp_all add: example_env_def)

lemma quiet_example [simp]: "quiet example_env"
  by (simp add: quiet_def)

text \<open>The same environment with a network that answers every request with status 200 and \<open>v\<close>.\<close>

definition online_env :: "js \<Rightarrow> 'e env" where
  "online_env v = example_env\<lparr>env_fetch := (\<lambda>t r. Inr \<lparr>res_status = 200, res_json = Inr v\<rparr>)\<rparr>"

lemma online_env_simps [simp]:
  "env_fetch (online_env v) = (\<lambda>t r. Inr \<lparr>res_status = 200, res_json = Inr v\<rparr>)"
  "env_exists (online_env v) = (\<lambda>t p. True)" "env_fs (online_env v) = (\<lambda>t. None)"
  "env_spawn (online_env v) = (\<lambda>t. Inr (Some 4242))" "env_stdout (online_env v) = (\<lambda>t. [])" "quiet (online_env v)"
  by (simp_all add: online_env_def quiet_def)

text \<open>A request with the given body.\<close>

definition with_body :: "js \<Rightarrow> http_in" where
  "with_body v = \<lparr>in_body = v, in_query = JObj [], in_params = JObj []\<rparr>"

lemma with_body_simps [simp]: "in_body (with_body v) = v" "in_query (with_body v) = JObj []"
  by (simp_all add: with_body_def)

end
