(* ===== verification/Wallet_State.thy ===== *)
theory Wallet_State
  imports Node_Env
begin

text \<open>
  What the three dashboard servers share: the two wallet globals every server keeps, the helpers
  for reading a reply of a JSON-RPC call, and the abstract session a wallet server promises to
  maintain. The contract is the locale \<open>wallet_api\<close>; each server's theory interprets it on the
  server's own handlers.
\<close>

section \<open>Shared globals and reply helpers\<close>

record wallet_base = io_base +
  walletRpcProcess :: "child option"
  currentWalletName :: js

text \<open>
  How long \<open>startWalletRpc\<close> waits after the spawn, given what the process prints and when: one second
  after the first chunk that announces the server, three seconds at the latest.
\<close>

fun started_from :: "nat \<Rightarrow> (nat \<times> string) list \<Rightarrow> nat" where
  "started_from wait [] = wait"
| "started_from wait ((ms, msg) # chunks) =
     started_from (if includes_sub msg ''Starting wallet RPC server'' then min wait (ms + 1000) else wait) chunks"

definition started_after :: "(nat \<times> string) list \<Rightarrow> nat" where
  "started_after chunks = started_from 3000 chunks"

lemma started_from_le: "started_from wait chunks \<le> wait"
  by (induction wait chunks rule: started_from.induct) (simp_all split: if_splits)

lemma started_after_le: "started_after chunks \<le> 3000"
  unfolding started_after_def by (rule started_from_le)

definition await_wallet :: "'e env \<Rightarrow> ('e \<Rightarrow> 'z io_base_scheme \<Rightarrow> 'z io_base_scheme) \<Rightarrow> ('z io_base_scheme, unit) io" where
  "await_wallet E h = bindM (getM (\<lambda>s. started_after (env_stdout E (trace s)))) (\<lambda>ms. sleep E h ms)"

lemma await_wallet_run [simp]: "await_wallet E h s = sleep E h (started_after (env_stdout E (trace s))) s"
  by (simp add: await_wallet_def bindM_run getM_run)

lemma keeps_await_wallet: "stable h P \<Longrightarrow> keeps P (await_wallet E h)"
  using keeps_sleep by (fastforce simp: keeps_def)

text \<open>\<open>data.error\<close>, then \<open>data.error.message\<close> when it is truthy.\<close>

definition error_of :: "js \<Rightarrow> exn + js" where
  "error_of data = js_get data ''error''"

text \<open>\<open>(v || 0) / 1e12\<close>.\<close>

definition coins_of :: "js \<Rightarrow> exn + jsnum" where
  "coins_of v = (case to_num (js_or v (js_nat 0)) of Inl e \<Rightarrow> Inl e | Inr n \<Rightarrow> Inr (num_div n (10 ^ 12)))"

text \<open>\<open>Math.floor(parseFloat(amount) * 1e12)\<close>.\<close>

definition atomic_amount :: "js \<Rightarrow> exn + jsnum" where
  "atomic_amount a = (case js_parseFloat a of Inl e \<Rightarrow> Inl e
     | Inr x \<Rightarrow> Inr (num_floor (num_mul x (Fin (10 ^ 12)))))"

text \<open>
  \<open>c.k\<close> for each listed property of an object, under new names; the first read raises when \<open>c\<close> is
  \<open>undefined\<close> or \<open>null\<close>.
\<close>

definition pick :: "js \<Rightarrow> (string \<times> string) list \<Rightarrow> exn + js" where
  "pick c names = (case names of [] \<Rightarrow> Inr (JObj [])
     | (_, k) # _ \<Rightarrow> (case js_get c k of Inl e \<Rightarrow> Inl e
         | Inr _ \<Rightarrow> Inr (JObj (map (\<lambda>(out, key). (out, js_prop c key)) names))))"

fun pick_all :: "js list \<Rightarrow> (string \<times> string) list \<Rightarrow> exn + js list" where
  "pick_all [] names = Inr []"
| "pick_all (c # cs) names = (case pick c names of Inl e \<Rightarrow> Inl e
     | Inr v \<Rightarrow> (case pick_all cs names of Inl e \<Rightarrow> Inl e | Inr vs \<Rightarrow> Inr (v # vs)))"

lemma pick_all_length: "pick_all cs names = Inr vs \<Longrightarrow> length vs = length cs"
  by (induction cs arbitrary: vs) (auto split: sum.splits)

text \<open>\<open>{ success: false, error: data.error.message }\<close> for a truthy \<open>data.error\<close>.\<close>

definition failure_obj :: "js \<Rightarrow> js" where
  "failure_obj err = JObj [(''success'', JBool False), (''error'', js_prop err ''message'')]"

text \<open>The parameters of \<open>get_transfers\<close>.\<close>

definition transfers_query :: js where
  "transfers_query = JObj [(''in'', JBool True), (''out'', JBool True), (''pending'', JBool True), (''pool'', JBool True)]"

section \<open>The wallet session\<close>

text \<open>
  The abstract session is the name of the open wallet, \<open>null\<close> when none is. Each operation either
  leaves it alone or moves it to the one value the request allows; an answer that reports success
  has moved it.
\<close>

definition succeeded :: "reply \<Rightarrow> bool" where
  "succeeded r \<longleftrightarrow> js_opt (answer r) ''success'' = JBool True"

definition claimed_name :: "reply \<Rightarrow> js" where
  "claimed_name r = js_opt (answer r) ''name''"

text \<open>Answers that report success carry the name that is current now.\<close>

definition names_session :: "reply \<Rightarrow> 'z wallet_base_scheme \<Rightarrow> bool" where
  "names_session a s \<longleftrightarrow> (succeeded a \<longrightarrow> currentWalletName s = claimed_name a)"

lemma names_session_failure [simp]:
  "names_session (Reply n (failure_obj err)) s" "names_session (Reply n (error_obj e [])) s"
  "names_session (Reply n (JObj [(''error'', v)])) s"
  by (simp_all add: names_session_def succeeded_def failure_obj_def error_obj_def)

lemma names_session_named [simp]:
  "names_session (Reply n (JObj ((''success'', JBool True) # (''name'', v) # ps))) s \<longleftrightarrow> currentWalletName s = v"
  by (simp add: names_session_def succeeded_def claimed_name_def)

datatype wallet_op = Create http_in | OpenW http_in | Restore http_in | CloseW http_in | StatusW http_in

text \<open>The wallet endpoints of one server.\<close>

record ('e, 's) wallet_handlers =
  wh_create :: "'e env \<Rightarrow> http_in \<Rightarrow> ('s, reply) io"
  wh_open :: "'e env \<Rightarrow> http_in \<Rightarrow> ('s, reply) io"
  wh_restore :: "'e env \<Rightarrow> http_in \<Rightarrow> ('s, reply) io"
  wh_close :: "'e env \<Rightarrow> http_in \<Rightarrow> ('s, reply) io"
  wh_status :: "'e env \<Rightarrow> http_in \<Rightarrow> ('s, reply) io"

fun wallet_step :: "('e, 's) wallet_handlers \<Rightarrow> 'e env \<Rightarrow> wallet_op \<Rightarrow> 's \<Rightarrow> 's" where
  "wallet_step H E (Create r) s = snd (wh_create H E r s)"
| "wallet_step H E (OpenW r) s = snd (wh_open H E r s)"
| "wallet_step H E (Restore r) s = snd (wh_restore H E r s)"
| "wallet_step H E (CloseW r) s = snd (wh_close H E r s)"
| "wallet_step H E (StatusW r) s = snd (wh_status H E r s)"

fun op_names :: "(http_in \<Rightarrow> js set) \<Rightarrow> wallet_op \<Rightarrow> js set" where
  "op_names names (Create r) = names r"
| "op_names names (OpenW r) = names r"
| "op_names names (Restore r) = names r"
| "op_names names (CloseW r) = {}"
| "op_names names (StatusW r) = {}"

text \<open>
  The abstract session machine: an operation may leave the session as it is, \<open>create\<close>, \<open>open\<close> and
  \<open>restore\<close> may move it to a name of their request, and only \<open>close\<close> may clear it.
\<close>

inductive session_step :: "(http_in \<Rightarrow> js set) \<Rightarrow> wallet_op \<Rightarrow> js \<Rightarrow> js \<Rightarrow> bool" for names where
  stay: "session_step names p v v"
| move: "n \<in> op_names names p \<Longrightarrow> session_step names p v n"
| clear: "session_step names (CloseW r) v JNull"

inductive session_path :: "(http_in \<Rightarrow> js set) \<Rightarrow> wallet_op list \<Rightarrow> js \<Rightarrow> js \<Rightarrow> bool" for names where
  start: "session_path names [] v v"
| next_op: "session_step names p v w \<Longrightarrow> session_path names ps w x \<Longrightarrow> session_path names (p # ps) v x"

inductive_cases session_path_ConsE: "session_path names (p # ps) v x"
inductive_simps session_step_status: "session_step names (StatusW r) v w"
inductive_simps session_step_close: "session_step names (CloseW r) v w"

text \<open>Without a \<open>close\<close> an open session stays open, up to the names of the requests.\<close>

lemma session_path_stays:
  assumes "session_path names ps v x" and "v \<noteq> JNull" and "\<forall>p \<in> set ps. JNull \<notin> op_names names p \<and> (\<forall>r. p \<noteq> CloseW r)"
  shows "x \<noteq> JNull"
  using assms by (induction rule: session_path.induct) (auto elim!: session_step.cases)

locale wallet_api =
  fixes H :: "('e, 's) wallet_handlers"
    and session :: "'s \<Rightarrow> js"
    and names :: "http_in \<Rightarrow> js set"
  assumes create_moves: "session (snd (wh_create H E r s)) \<in> insert (session s) (names r)"
    and open_moves: "session (snd (wh_open H E r s)) \<in> insert (session s) (names r)"
    and restore_moves: "session (snd (wh_restore H E r s)) \<in> insert (session s) (names r)"
    and close_moves: "session (snd (wh_close H E r s)) \<in> {session s, JNull}"
    and status_reads: "session (snd (wh_status H E r s)) = session s"
    and create_success:
      "wh_create H E r s = (Inr a, s') \<Longrightarrow> succeeded a \<Longrightarrow> session s' = claimed_name a"
    and open_success:
      "wh_open H E r s = (Inr a, s') \<Longrightarrow> succeeded a \<Longrightarrow> session s' = claimed_name a"
    and restore_success:
      "wh_restore H E r s = (Inr a, s') \<Longrightarrow> succeeded a \<Longrightarrow> session s' = claimed_name a"
    and close_success: "wh_close H E r s = (Inr a, s') \<Longrightarrow> succeeded a \<Longrightarrow> session s' = JNull"
    and status_answer: "wh_status H E r s = (Inr a, s') \<Longrightarrow>
      js_opt (answer a) ''open'' = JBool (session s \<noteq> JNull) \<and> claimed_name a = session s
      \<or> js_opt (answer a) ''open'' = JBool False \<and> claimed_name a = JNull"
begin

text \<open>Every operation of the server is a step of the abstract machine.\<close>

lemma step_refines: "session_step names p (session s) (session (wallet_step H E p s))"
proof (cases p)
  case (Create r)
  then show ?thesis using create_moves [of E r s] by (auto intro: session_step.intros)
next
  case (OpenW r)
  then show ?thesis using open_moves [of E r s] by (auto intro: session_step.intros)
next
  case (Restore r)
  then show ?thesis using restore_moves [of E r s] by (auto intro: session_step.intros)
next
  case (CloseW r)
  then show ?thesis using close_moves [of E r s] by (auto intro: session_step.intros)
next
  case (StatusW r)
  then show ?thesis using status_reads [of E r s] by (auto intro: session_step.intros)
qed

text \<open>So every run of the server is a path of the abstract machine.\<close>

lemma run_refines: "session_path names ps (session s) (session (fold (wallet_step H E) ps s))"
  by (induction ps arbitrary: s) (auto intro: session_path.intros step_refines)

text \<open>A status answer never reports a wallet other than the one last opened successfully.\<close>

lemma status_after_create:
  assumes "wh_create H E r s = (Inr a, s')" and "succeeded a" and "wh_status H E r' s' = (Inr b, s'')"
  shows "claimed_name b = claimed_name a \<or> claimed_name b = JNull"
  using create_success [OF assms(1,2)] status_answer [OF assms(3)] by auto

lemma status_after_close:
  assumes "wh_close H E r s = (Inr a, s')" and "succeeded a" and "wh_status H E r' s' = (Inr b, s'')"
  shows "js_opt (answer b) ''open'' = JBool False \<and> claimed_name b = JNull"
  using close_success [OF assms(1,2)] status_answer [OF assms(3)] by auto

end

end
