(* ===== verification/Wallet_Handlers.thy ===== *)
theory Wallet_Handlers
  imports Wallet_State
begin

text \<open>
  The wallet endpoints. \<open>dashboard/server.js\<close>, \<open>release/dashboard/server.js\<close> and
  \<open>desktop-app/server.js\<close> contain the same handlers over their own \<open>walletRpc\<close> and
  \<open>startWalletRpc\<close>: those two are the parameters \<open>rpc\<close> and \<open>start\<close> here, and each server's
  theory instantiates the handlers with its own. Where the servers differ (which name \<open>open\<close> uses,
  the ring size of a transfer, what follows a failed transfer) the difference is a parameter or a
  definition of that server. The locale \<open>wallet_server\<close> proves the session contract once.
\<close>

section \<open>Handlers\<close>

type_synonym 's rpc = "string \<Rightarrow> js \<Rightarrow> ('s, js) io"

text \<open>The wallet names of a directory listing: files ending in \<open>.keys\<close>, first occurrence removed.\<close>

definition wallet_names :: "string list \<Rightarrow> string list" where
  "wallet_names files = map (replace_first ''.keys'' []) (filter (\<lambda>f. ends_with f ''.keys'') files)"

definition list_handler :: "'e env \<Rightarrow> string \<Rightarrow> http_in \<Rightarrow> ('z wallet_base_scheme, reply) io" where
  "list_handler E dir req =
     try_catch
       (bindM (readdirM E dir) (\<lambda>files.
        bindM (getM currentWalletName) (\<lambda>current.
        json_reply (JObj [(''wallets'', JArr (map JStr (wallet_names files))), (''current'', current)]))))
       (\<lambda>error. json_reply (JObj [(''wallets'', JArr []), (''current'', JNull)]))"

definition create_handler :: "('z wallet_base_scheme, unit) io \<Rightarrow> 'z wallet_base_scheme rpc \<Rightarrow> http_in \<Rightarrow> ('z wallet_base_scheme, reply) io" where
  "create_handler start rpc req =
     bindM (liftE (js_get (in_body req) ''name'')) (\<lambda>name.
     bindM (liftE (js_get (in_body req) ''password'')) (\<lambda>password.
     bindM (if \<not> truthy name then ret True else liftE (length_less name 1)) (\<lambda>bad.
     if bad then status_reply 400 (JObj [(''error'', JStr ''Wallet name required'')])
     else
     try_catch
       (bindM start (\<lambda>_.
        bindM (rpc ''create_wallet'' (JObj [(''filename'', name),
            (''password'', js_or password (JStr [])), (''language'', JStr ''English'')])) (\<lambda>data.
        bindM (liftE (error_of data)) (\<lambda>err.
        if truthy err then json_reply (failure_obj err)
        else
        bindM (modM (\<lambda>s. s\<lparr>currentWalletName := name\<rparr>)) (\<lambda>_.
        bindM (rpc ''query_key'' (JObj [(''key_type'', JStr ''mnemonic'')])) (\<lambda>seedData.
        bindM (rpc ''get_address'' (JObj [])) (\<lambda>addressData.
        bindM (liftE (js_get addressData ''result'')) (\<lambda>ar.
        bindM (liftE (js_get seedData ''result'')) (\<lambda>sr.
        json_reply (JObj [(''success'', JBool True), (''name'', name),
          (''address'', js_opt ar ''address''), (''seed'', js_opt sr ''key'')]))))))))))
       (\<lambda>error. status_reply 500 (error_obj error [])))))"

text \<open>The \<open>try\<close> block of \<open>/api/wallet/open\<close>, for the wallet name the server settled on.\<close>

definition open_block :: "('z wallet_base_scheme, unit) io \<Rightarrow> 'z wallet_base_scheme rpc \<Rightarrow> js \<Rightarrow> js \<Rightarrow>
    ('z wallet_base_scheme, reply) io" where
  "open_block start rpc walletName password =
     try_catch
       (bindM start (\<lambda>_.
        bindM (rpc ''open_wallet'' (JObj [(''filename'', walletName),
            (''password'', js_or password (JStr []))])) (\<lambda>data.
        bindM (liftE (error_of data)) (\<lambda>err.
        if truthy err then json_reply (failure_obj err)
        else
        bindM (modM (\<lambda>s. s\<lparr>currentWalletName := walletName\<rparr>)) (\<lambda>_.
        bindM (rpc ''get_address'' (JObj [])) (\<lambda>addressData.
        bindM (liftE (js_get addressData ''result'')) (\<lambda>ar.
        json_reply (JObj [(''success'', JBool True), (''name'', walletName),
          (''address'', js_opt ar ''address'')]))))))))
       (\<lambda>error. status_reply 500 (error_obj error []))"

definition restore_handler :: "('z wallet_base_scheme, unit) io \<Rightarrow> 'z wallet_base_scheme rpc \<Rightarrow> http_in \<Rightarrow> ('z wallet_base_scheme, reply) io" where
  "restore_handler start rpc req =
     bindM (liftE (js_get (in_body req) ''name'')) (\<lambda>name.
     bindM (liftE (js_get (in_body req) ''password'')) (\<lambda>password.
     bindM (liftE (js_get (in_body req) ''seed'')) (\<lambda>seed.
     if \<not> truthy name \<or> \<not> truthy seed
     then status_reply 400 (JObj [(''error'', JStr ''Name and seed required'')])
     else
     try_catch
       (bindM start (\<lambda>_.
        bindM (rpc ''restore_deterministic_wallet'' (JObj [(''filename'', name),
            (''password'', js_or password (JStr [])), (''seed'', seed), (''restore_height'', js_nat 0),
            (''language'', JStr ''English'')])) (\<lambda>data.
        bindM (liftE (error_of data)) (\<lambda>err.
        if truthy err then json_reply (failure_obj err)
        else
        bindM (modM (\<lambda>s. s\<lparr>currentWalletName := name\<rparr>)) (\<lambda>_.
        json_reply (JObj [(''success'', JBool True), (''name'', name),
          (''address'', js_opt (js_prop data ''result'') ''address''),
          (''info'', js_opt (js_prop data ''result'') ''info'')]))))))
       (\<lambda>error. status_reply 500 (error_obj error [])))))"

text \<open>The balance answer: raw atomic units and the amount in coins with four decimals.\<close>

definition balance_obj :: "js \<Rightarrow> exn + js" where
  "balance_obj result =
     (case coins_of (js_opt result ''balance'') of Inl e \<Rightarrow> Inl e
      | Inr b \<Rightarrow> (case coins_of (js_opt result ''unlocked_balance'') of Inl e \<Rightarrow> Inl e
          | Inr u \<Rightarrow> Inr (JObj [(''balance'', js_or (js_opt result ''balance'') (js_nat 0)),
              (''unlocked_balance'', js_or (js_opt result ''unlocked_balance'') (js_nat 0)),
              (''balance_display'', JStr (toFixed 4 b)), (''unlocked_display'', JStr (toFixed 4 u))])))"

definition balance_handler :: "'z io_base_scheme rpc \<Rightarrow> http_in \<Rightarrow> ('z io_base_scheme, reply) io" where
  "balance_handler rpc req =
     try_catch
       (bindM (rpc ''get_balance'' (JObj [])) (\<lambda>data.
        bindM (liftE (error_of data)) (\<lambda>err.
        if truthy err then json_reply (JObj [(''error'', js_prop err ''message'')])
        else bindM (liftE (balance_obj (js_prop data ''result''))) json_reply)))
       (\<lambda>error. status_reply 500 (error_obj error []))"

definition address_handler :: "'z io_base_scheme rpc \<Rightarrow> http_in \<Rightarrow> ('z io_base_scheme, reply) io" where
  "address_handler rpc req =
     try_catch
       (bindM (rpc ''get_address'' (JObj [])) (\<lambda>data.
        bindM (liftE (js_get data ''result'')) (\<lambda>result.
        json_reply (JObj [(''address'', js_opt result ''address''), (''addresses'', js_opt result ''addresses'')]))))
       (\<lambda>error. status_reply 500 (error_obj error []))"

definition transfers_handler :: "'z io_base_scheme rpc \<Rightarrow> http_in \<Rightarrow> ('z io_base_scheme, reply) io" where
  "transfers_handler rpc req =
     try_catch
       (bindM (rpc ''get_transfers'' transfers_query) (\<lambda>data.
        bindM (liftE (error_of data)) (\<lambda>err.
        if truthy err then json_reply (JObj [(''error'', js_prop err ''message'')])
        else let result = js_prop data ''result'' in
          json_reply (JObj [(''incoming'', js_or (js_opt result ''in'') (JArr [])),
            (''outgoing'', js_or (js_opt result ''out'') (JArr [])),
            (''pending'', js_or (js_opt result ''pending'') (JArr [])),
            (''pool'', js_or (js_opt result ''pool'') (JArr []))]))))
       (\<lambda>error. status_reply 500 (error_obj error []))"

text \<open>The parameters of the \<open>transfer\<close> call; \<open>ring\<close> is the server's \<open>ring_size\<close>.\<close>

definition transfer_params :: "nat \<Rightarrow> js \<Rightarrow> jsnum \<Rightarrow> js \<Rightarrow> js" where
  "transfer_params ring address atomicAmount payment_id =
     (let params = [(''destinations'', JArr [JObj [(''address'', address), (''amount'', JNum atomicAmount)]]),
        (''priority'', js_nat 1), (''ring_size'', js_nat ring), (''get_tx_key'', JBool True)] in
      JObj (if truthy payment_id then own_set ''payment_id'' payment_id params else params))"

definition send_handler :: "nat \<Rightarrow> 'z io_base_scheme rpc \<Rightarrow> http_in \<Rightarrow> ('z io_base_scheme, reply) io" where
  "send_handler ring rpc req =
     bindM (liftE (js_get (in_body req) ''address'')) (\<lambda>address.
     bindM (liftE (js_get (in_body req) ''amount'')) (\<lambda>amount.
     bindM (liftE (js_get (in_body req) ''payment_id'')) (\<lambda>payment_id.
     if \<not> truthy address \<or> \<not> truthy amount
     then status_reply 400 (JObj [(''error'', JStr ''Address and amount required'')])
     else
     try_catch
       (bindM (liftE (atomic_amount amount)) (\<lambda>atomicAmount.
        bindM (rpc ''transfer'' (transfer_params ring address atomicAmount payment_id)) (\<lambda>data.
        bindM (liftE (error_of data)) (\<lambda>err.
        if truthy err then json_reply (failure_obj err)
        else let result = js_prop data ''result'' in
          bindM (liftE (coins_of (js_opt result ''fee''))) (\<lambda>fee.
          json_reply (JObj [(''success'', JBool True), (''tx_hash'', js_opt result ''tx_hash''),
            (''tx_key'', js_opt result ''tx_key''), (''fee'', JNum fee)]))))))
       (\<lambda>error. status_reply 500 (error_obj error [])))))"

definition refresh_handler :: "'z io_base_scheme rpc \<Rightarrow> http_in \<Rightarrow> ('z io_base_scheme, reply) io" where
  "refresh_handler rpc req =
     try_catch
       (bindM (rpc ''refresh'' (JObj [])) (\<lambda>data.
        bindM (liftE (js_get data ''result'')) (\<lambda>result.
        json_reply (JObj [(''blocks_fetched'', js_opt result ''blocks_fetched''),
          (''received_money'', js_opt result ''received_money'')]))))
       (\<lambda>error. status_reply 500 (error_obj error []))"

definition close_handler :: "'z wallet_base_scheme rpc \<Rightarrow> http_in \<Rightarrow> ('z wallet_base_scheme, reply) io" where
  "close_handler rpc req =
     try_catch
       (bindM (rpc ''close_wallet'' (JObj [])) (\<lambda>_.
        bindM (modM (\<lambda>s. s\<lparr>currentWalletName := JNull\<rparr>)) (\<lambda>_.
        json_reply (JObj [(''success'', JBool True)]))))
       (\<lambda>error. status_reply 500 (error_obj error []))"

definition status_handler :: "'z wallet_base_scheme rpc \<Rightarrow> http_in \<Rightarrow> ('z wallet_base_scheme, reply) io" where
  "status_handler rpc req =
     try_catch
       (bindM (rpc ''get_height'' (JObj [])) (\<lambda>height.
        bindM (getM currentWalletName) (\<lambda>name.
        bindM (liftE (js_get height ''result'')) (\<lambda>result.
        json_reply (JObj [(''open'', JBool (name \<noteq> JNull)), (''name'', name),
          (''height'', js_opt result ''height'')])))))
       (\<lambda>error. json_reply (JObj [(''open'', JBool False), (''name'', JNull)]))"

lemmas handler_defs = list_handler_def create_handler_def open_block_def restore_handler_def
  balance_handler_def address_handler_def transfers_handler_def send_handler_def refresh_handler_def
  close_handler_def status_handler_def

section \<open>Which names can become current\<close>

text \<open>The endpoints of a server, from its \<open>startWalletRpc\<close>, \<open>walletRpc\<close> and \<open>open\<close> handler.\<close>

definition server_handlers :: "('e env \<Rightarrow> ('z wallet_base_scheme, unit) io) \<Rightarrow>
    ('e env \<Rightarrow> 'z wallet_base_scheme rpc) \<Rightarrow> ('e env \<Rightarrow> http_in \<Rightarrow> ('z wallet_base_scheme, reply) io) \<Rightarrow>
    ('e, 'z wallet_base_scheme) wallet_handlers" where
  "server_handlers start rpc opn = \<lparr>wh_create = (\<lambda>E. create_handler (start E) (rpc E)), wh_open = opn,
     wh_restore = (\<lambda>E. restore_handler (start E) (rpc E)), wh_close = (\<lambda>E. close_handler (rpc E)),
     wh_status = (\<lambda>E. status_handler (rpc E))\<rparr>"

lemma server_handlers_simps [simp]:
  "wh_create (server_handlers start rpc opn) E = create_handler (start E) (rpc E)"
  "wh_open (server_handlers start rpc opn) = opn"
  "wh_restore (server_handlers start rpc opn) E = restore_handler (start E) (rpc E)"
  "wh_close (server_handlers start rpc opn) E = close_handler (rpc E)"
  "wh_status (server_handlers start rpc opn) E = status_handler (rpc E)"
  by (simp_all add: server_handlers_def)

text \<open>Destructuring a body that is an object or an array cannot raise.\<close>

lemma js_get_body [simp]: "\<not> nullish v \<Longrightarrow> js_get v k = Inr (js_prop v k)"
  by (simp add: js_get_def)

text \<open>
  The only conversion outside a \<open>try\<close> block is \<open>name.length < 1\<close> in \<open>create\<close>: it raises
  when \<open>name\<close> is an object whose \<open>length\<close> shadows \<open>toString\<close>.
\<close>

definition plain_name :: "http_in \<Rightarrow> bool" where
  "plain_name r \<longleftrightarrow> (case js_prop (in_body r) ''name'' of JObj ps \<Rightarrow> False | _ \<Rightarrow> True)"

lemma length_less_plain:
  "truthy v \<Longrightarrow> (case v of JObj ps \<Rightarrow> False | _ \<Rightarrow> True) \<Longrightarrow> \<exists>b. length_less v n = Inr b"
  by (cases v) (auto simp: length_less_def js_get_def)

lemma no_throw_length_less:
  assumes "plain_name r" and "truthy (js_prop (in_body r) ''name'')"
  shows "no_throw (liftE (length_less (js_prop (in_body r) ''name'') n))"
proof -
  obtain b where "length_less (js_prop (in_body r) ''name'') n = Inr b"
    using length_less_plain assms unfolding plain_name_def by blast
  then show ?thesis by (simp add: no_throw_liftE)
qed

lemma keeps_name_in:
  assumes "keeps (\<lambda>s. currentWalletName s \<in> insert (currentWalletName s0) N) m"
  shows "currentWalletName (snd (m s0)) \<in> insert (currentWalletName s0) N"
  using keepsD [OF assms, of s0] by simp

text \<open>
  What a server provides: a start and an RPC call that leave the wallet name alone, and an \<open>open\<close>
  handler that either runs the \<open>open\<close> block for an allowed name, rejects the request or raises.
\<close>

locale wallet_server =
  fixes start :: "'e env \<Rightarrow> ('z wallet_base_scheme, unit) io"
    and rpc :: "'e env \<Rightarrow> 'z wallet_base_scheme rpc"
    and opn :: "'e env \<Rightarrow> http_in \<Rightarrow> ('z wallet_base_scheme, reply) io"
    and names :: "http_in \<Rightarrow> js set"
  assumes start_session: "keeps (\<lambda>s. P (currentWalletName s)) (start E)"
    and rpc_session: "keeps (\<lambda>s. P (currentWalletName s)) (rpc E m ps)"
    and name_allowed: "js_prop (in_body r) ''name'' \<in> names r"
    and open_shape: "(\<exists>w p. w \<in> names r \<and> opn E r = open_block (start E) (rpc E) w p)
      \<or> (\<exists>e. opn E r = throwM e) \<or> (\<exists>v. opn E r = status_reply 400 (JObj [(''error'', v)]))"
begin

lemmas session_keeps = start_session rpc_session

lemma create_session:
  "currentWalletName (snd (create_handler (start E) (rpc E) r s)) \<in> insert (currentWalletName s) (names r)"
  by (rule keeps_name_in, cases "nullish (in_body r)")
     (auto simp: create_handler_def js_get_def name_allowed intro!: keeps_intros session_keeps)

lemma restore_session:
  "currentWalletName (snd (restore_handler (start E) (rpc E) r s)) \<in> insert (currentWalletName s) (names r)"
  by (rule keeps_name_in, cases "nullish (in_body r)")
     (auto simp: restore_handler_def js_get_def name_allowed intro!: keeps_intros session_keeps)

lemma open_block_session:
  "w \<in> names r \<Longrightarrow>
    currentWalletName (snd (open_block (start E) (rpc E) w p s)) \<in> insert (currentWalletName s) (names r)"
  by (rule keeps_name_in) (auto simp: open_block_def intro!: keeps_intros session_keeps)

lemma open_session:
  "currentWalletName (snd (opn E r s)) \<in> insert (currentWalletName s) (names r)"
  using open_shape [of r E] open_block_session [of _ r E]
  by (elim disjE exE conjE) (simp_all add: throwM_run status_reply_run)

lemma close_session:
  "currentWalletName (snd (close_handler (rpc E) r s)) \<in> insert (currentWalletName s) {JNull}"
  by (rule keeps_name_in) (auto simp: close_handler_def intro!: keeps_intros session_keeps)

lemma status_session: "currentWalletName (snd (status_handler (rpc E) r s)) = currentWalletName s"
proof -
  have "keeps (\<lambda>t. currentWalletName t = currentWalletName s) (status_handler (rpc E) r)"
    unfolding status_handler_def by (intro keeps_intros session_keeps)
  from keepsD [OF this] show ?thesis by simp
qed

text \<open>Answers that report success carry the name that was made current.\<close>

lemma create_names: "ensures (\<lambda>_. True) names_session (create_handler (start E) (rpc E) r)"
proof (cases "nullish (in_body r)")
  case False
  let ?n = "js_prop (in_body r) ''name''"
  show ?thesis
    unfolding create_handler_def js_get_body [OF False] bindM_values
    by (rule ensures_rules ensures_mod [where P' = "\<lambda>s. currentWalletName s = ?n"] | simp
        | intro keeps_intros session_keeps)+
qed (simp add: create_handler_def js_get_def ensures_throw)

lemma open_block_names: "ensures (\<lambda>_. True) names_session (open_block (start E) (rpc E) w p)"
  unfolding open_block_def
  by (rule ensures_rules ensures_mod [where P' = "\<lambda>s. currentWalletName s = w"] | simp
      | intro keeps_intros session_keeps)+

lemma open_names: "ensures (\<lambda>_. True) names_session (opn E r)"
  using open_shape [of r E]
  by (elim disjE exE conjE) (simp_all add: open_block_names ensures_throw ensures_reply)

lemma restore_names: "ensures (\<lambda>_. True) names_session (restore_handler (start E) (rpc E) r)"
proof (cases "nullish (in_body r)")
  case False
  let ?n = "js_prop (in_body r) ''name''"
  show ?thesis
    unfolding restore_handler_def js_get_body [OF False] bindM_values
    by (rule ensures_rules ensures_mod [where P' = "\<lambda>s. currentWalletName s = ?n"] | simp
        | intro keeps_intros session_keeps)+
qed (simp add: restore_handler_def js_get_def ensures_throw)

lemma close_names:
  "ensures (\<lambda>_. True) (\<lambda>a s. succeeded a \<longrightarrow> currentWalletName s = JNull) (close_handler (rpc E) r)"
  unfolding close_handler_def
  by (rule ensures_rules ensures_mod [where P' = "\<lambda>s. currentWalletName s = JNull"]
      | simp add: succeeded_def error_obj_def | intro keeps_intros session_keeps)+

lemma status_tells:
  "ensures (\<lambda>s. currentWalletName s = n)
     (\<lambda>a s. js_opt (answer a) ''open'' = JBool (n \<noteq> JNull) \<and> claimed_name a = n
        \<or> js_opt (answer a) ''open'' = JBool False \<and> claimed_name a = JNull)
     (status_handler (rpc E) r)"
  unfolding status_handler_def
  by (rule ensures_get ensures_rules | intro keeps_intros session_keeps | simp add: claimed_name_def)+

end

text \<open>A server of this shape keeps the session contract.\<close>

sublocale wallet_server \<subseteq> api: wallet_api "server_handlers start rpc opn" currentWalletName names
proof unfold_locales
  fix E r s
  show "currentWalletName (snd (wh_create (server_handlers start rpc opn) E r s)) \<in> insert (currentWalletName s) (names r)"
    using create_session by simp
  show "currentWalletName (snd (wh_open (server_handlers start rpc opn) E r s)) \<in> insert (currentWalletName s) (names r)"
    using open_session by simp
  show "currentWalletName (snd (wh_restore (server_handlers start rpc opn) E r s)) \<in> insert (currentWalletName s) (names r)"
    using restore_session by simp
  show "currentWalletName (snd (wh_close (server_handlers start rpc opn) E r s)) \<in> {currentWalletName s, JNull}"
    using close_session by simp
  show "currentWalletName (snd (wh_status (server_handlers start rpc opn) E r s)) = currentWalletName s"
    using status_session by simp
next
  fix E r a s s'
  assume ok: "succeeded a"
  show "wh_create (server_handlers start rpc opn) E r s = (Inr a, s') \<Longrightarrow> currentWalletName s' = claimed_name a"
    using ok by (auto simp: names_session_def dest: ensuresD [OF create_names TrueI])
  show "wh_open (server_handlers start rpc opn) E r s = (Inr a, s') \<Longrightarrow> currentWalletName s' = claimed_name a"
    using ok by (auto simp: names_session_def dest: ensuresD [OF open_names TrueI])
  show "wh_restore (server_handlers start rpc opn) E r s = (Inr a, s') \<Longrightarrow> currentWalletName s' = claimed_name a"
    using ok by (auto simp: names_session_def dest: ensuresD [OF restore_names TrueI])
  show "wh_close (server_handlers start rpc opn) E r s = (Inr a, s') \<Longrightarrow> currentWalletName s' = JNull"
    using ok by (auto dest: ensuresD [OF close_names TrueI])
next
  fix E r a s s'
  assume "wh_status (server_handlers start rpc opn) E r s = (Inr a, s')"
  then show "js_opt (answer a) ''open'' = JBool (currentWalletName s \<noteq> JNull) \<and> claimed_name a = currentWalletName s
      \<or> js_opt (answer a) ''open'' = JBool False \<and> claimed_name a = JNull"
    using ensuresD [OF status_tells refl] by simp
qed

end
