(* ===== verification/Dash_Core.thy ===== *)
theory Dash_Core
  imports Wallet_Handlers
begin

text \<open>
  \<open>dashboard/server.js\<close>, first part: the globals of the dashboard server, its listeners for child
  processes, the RPC helpers, the start of the wallet RPC server, the daemon and block endpoints,
  and start-up and shut-down. Handlers are named after their routes.
\<close>

section \<open>Constants and state\<close>

definition dash_DAEMON_HTTP :: string where
  "dash_DAEMON_HTTP = ''http://127.0.0.1:19081''"

definition dash_DAEMON_RPC :: string where
  "dash_DAEMON_RPC = ''http://127.0.0.1:19081/json_rpc''"

definition dash_WALLET_RPC :: string where
  "dash_WALLET_RPC = ''http://127.0.0.1:19083/json_rpc''"

definition dash_WALLET_DIR :: "'e env \<Rightarrow> string" where
  "dash_WALLET_DIR E = path_join [env_dirname E, ''..'', ''wallets'']"

definition dash_DAEMON_BIN :: "'e env \<Rightarrow> string" where
  "dash_DAEMON_BIN E = path_join [env_dirname E, ''..'', ''build'', ''bin'', ''cocained'']"

definition dash_WALLET_RPC_BIN :: "'e env \<Rightarrow> string" where
  "dash_WALLET_RPC_BIN E = path_join [env_dirname E, ''..'', ''build'', ''bin'', ''cocaine-wallet-rpc'']"

definition dash_DATA_DIR :: "'e env \<Rightarrow> string" where
  "dash_DATA_DIR E = path_join [env_dirname E, ''..'', ''data'']"

definition dash_LOG_FILE :: string where
  "dash_LOG_FILE = ''/tmp/cocained_local.log''"

text \<open>The module's \<open>let\<close> variables; \<open>xmrigConfig\<close> is \<open>null\<close> or an object.\<close>

record dash = wallet_base +
  daemonProcess :: "child option"
  xmrigProcess :: "child option"
  xmrigConfig :: js
  xmrigHashrate :: jsnum
  xmrigAccepted :: nat

definition dash_init :: dash where
  "dash_init = \<lparr>trace = [], exit_code = None, walletRpcProcess = None, currentWalletName = JNull,
     daemonProcess = None, xmrigProcess = None, xmrigConfig = JNull,
     xmrigHashrate = Fin 0, xmrigAccepted = 0\<rparr>"

text \<open>
  Process events. The wallet RPC process has \<open>error\<close> and \<open>close\<close> listeners and the miner an \<open>exit\<close>
  listener. The daemon and the miner have no \<open>error\<close> listener: Node raises an unhandled \<open>error\<close>
  event as an uncaught exception, which ends the server with code 1.
\<close>

datatype dash_event = WalletError | WalletClose int | XmrigExit int | XmrigError | DaemonError

fun dash_listener :: "dash_event \<Rightarrow> dash \<Rightarrow> dash" where
  "dash_listener WalletError s = s\<lparr>walletRpcProcess := None\<rparr>"
| "dash_listener (WalletClose c) s = s\<lparr>walletRpcProcess := None\<rparr>"
| "dash_listener (XmrigExit c) s = s\<lparr>xmrigProcess := None, xmrigConfig := JNull\<rparr>"
| "dash_listener XmrigError s = s\<lparr>exit_code := Some 1\<rparr>"
| "dash_listener DaemonError s = s\<lparr>exit_code := Some 1\<rparr>"

abbreviation dfetch :: "dash_event env \<Rightarrow> http_request \<Rightarrow> (dash, http_response) io" where
  "dfetch E \<equiv> fetch E dash_listener"

section \<open>RPC helpers\<close>

definition dash_walletRpc :: "dash_event env \<Rightarrow> string \<Rightarrow> js \<Rightarrow> (dash, js) io" where
  "dash_walletRpc E method params =
     bindM (dfetch E (post_json dash_WALLET_RPC (rpc_call method params)))
       (\<lambda>response. liftE (res_json response))"

definition dash_daemonRpc :: "dash_event env \<Rightarrow> string \<Rightarrow> js \<Rightarrow> (dash, js) io" where
  "dash_daemonRpc E method params =
     bindM (dfetch E (post_json dash_DAEMON_RPC (rpc_call method params)))
       (\<lambda>response. liftE (res_json response))"

text \<open>\<open>fetch(url)\<close> followed by \<open>response.json()\<close>.\<close>

definition dash_getJson :: "dash_event env \<Rightarrow> string \<Rightarrow> (dash, js) io" where
  "dash_getJson E url = bindM (dfetch E (get_request url)) (\<lambda>response. liftE (res_json response))"

definition dash_isDaemonRunning :: "dash_event env \<Rightarrow> (dash, bool) io" where
  "dash_isDaemonRunning E =
     try_catch (bindM (dfetch E (get_request (dash_DAEMON_HTTP @ ''/get_info''))) (\<lambda>res. ret (res_ok res)))
       (\<lambda>_. ret False)"

text \<open>The first line \<open>pgrep\<close> prints, or \<open>null\<close>.\<close>

definition dash_getDaemonPid :: "dash_event env \<Rightarrow> (dash, string option) io" where
  "dash_getDaemonPid E =
     bindM (exec_await E dash_listener ''pgrep -f cocained'') (\<lambda>r.
       ret (case r of Inl err \<Rightarrow> None
            | Inr stdout \<Rightarrow> if js_trim stdout = [] then None
                            else Some (hd (split_on (CHR 0x0A) (js_trim stdout)))))"

definition dash_wallet_args :: "'e env \<Rightarrow> string list" where
  "dash_wallet_args E = [''--daemon-address'', ''127.0.0.1:19081'', ''--rpc-bind-port'', ''19083'',
     ''--disable-rpc-login'', ''--wallet-dir'', dash_WALLET_DIR E, ''--log-level'', ''1'']"

text \<open>
  The returned promise resolves after the wait of \<open>await_wallet\<close>, in which process events are delivered;
  the \<open>error\<close> event may also end that wait early.
\<close>

definition dash_startWalletRpc :: "dash_event env \<Rightarrow> (dash, unit) io" where
  "dash_startWalletRpc E =
     bindM (getM walletRpcProcess) (\<lambda>p.
     if p \<noteq> None then ret () else
     bindM (existsM E (dash_WALLET_RPC_BIN E)) (\<lambda>ex.
     if \<not> ex then ret () else
     bindM (spawnM E (dash_WALLET_RPC_BIN E) (dash_wallet_args E)) (\<lambda>c.
     bindM (modM (\<lambda>s. s\<lparr>walletRpcProcess := Some c\<rparr>)) (\<lambda>_.
     await_wallet E dash_listener))))"

section \<open>Daemon endpoints\<close>

definition dash_api_info :: "dash_event env \<Rightarrow> http_in \<Rightarrow> (dash, reply) io" where
  "dash_api_info E req =
     try_catch (bindM (dash_getJson E (dash_DAEMON_HTTP @ ''/get_info'')) (\<lambda>data.
         json_reply (JObj [(''result'', data)])))
       (\<lambda>error. status_reply 500 (error_obj error [(''daemon_running'', JBool False)]))"

definition dash_daemon_args :: "'e env \<Rightarrow> string list" where
  "dash_daemon_args E = [''--data-dir'', dash_DATA_DIR E, ''--p2p-bind-ip'', ''0.0.0.0'',
     ''--p2p-bind-port'', ''19080'', ''--rpc-bind-ip'', ''127.0.0.1'', ''--rpc-bind-port'', ''19081'',
     ''--non-interactive'', ''--log-level'', ''1'']"

definition dash_api_daemon_start :: "dash_event env \<Rightarrow> http_in \<Rightarrow> (dash, reply) io" where
  "dash_api_daemon_start E req =
     try_catch
       (bindM (dash_isDaemonRunning E) (\<lambda>running.
        if running then json_reply (JObj [(''status'', JStr ''busy''), (''message'', JStr ''Daemon already running'')])
        else
        bindM (fsM E (OpenAppend dash_LOG_FILE)) (\<lambda>_.
        bindM (fsM E (OpenAppend dash_LOG_FILE)) (\<lambda>_.
        bindM (spawnM E (dash_DAEMON_BIN E) (dash_daemon_args E)) (\<lambda>c.
        bindM (modM (\<lambda>s. s\<lparr>daemonProcess := Some c\<rparr>)) (\<lambda>_.
        bindM (sleep E dash_listener 3000) (\<lambda>_.
        bindM (dash_isDaemonRunning E) (\<lambda>nowRunning.
        if nowRunning then json_reply (JObj [(''status'', JStr ''OK''), (''message'', JStr ''Daemon started'')])
        else json_reply (JObj [(''status'', JStr ''error''),
               (''message'', JStr ''Daemon failed to start - check logs'')])))))))))
       (\<lambda>error. status_reply 500 (JObj [(''status'', JStr ''error''), (''error'', JStr (message error))]))"

definition dash_api_daemon_stop :: "dash_event env \<Rightarrow> http_in \<Rightarrow> (dash, reply) io" where
  "dash_api_daemon_stop E req =
     try_catch
       (bindM (dash_getDaemonPid E) (\<lambda>pid.
        case pid of
          Some p \<Rightarrow> bindM (exec_await E dash_listener (''kill '' @ p)) (\<lambda>r.
            case r of
              Inl err \<Rightarrow> json_reply (JObj [(''status'', JStr ''error''), (''message'', JStr ''Failed to stop daemon'')])
            | Inr _ \<Rightarrow> json_reply (JObj [(''status'', JStr ''OK''), (''message'', JStr ''Daemon stopped'')]))
        | None \<Rightarrow> json_reply (JObj [(''status'', JStr ''OK''), (''message'', JStr ''Daemon not running'')])))
       (\<lambda>error. status_reply 500 (JObj [(''status'', JStr ''error''), (''error'', JStr (message error))]))"

definition dash_api_daemon_status :: "dash_event env \<Rightarrow> http_in \<Rightarrow> (dash, reply) io" where
  "dash_api_daemon_status E req =
     try_catch
       (bindM (dash_isDaemonRunning E) (\<lambda>running.
        bindM (dash_getDaemonPid E) (\<lambda>pid.
        json_reply (JObj [(''running'', JBool running),
          (''pid'', case pid of None \<Rightarrow> JNull | Some p \<Rightarrow> JStr p)]))))
       (\<lambda>error. json_reply (JObj [(''running'', JBool False), (''error'', JStr (message error))]))"

text \<open>\<open>parseInt(req.query.lines) || 50\<close>; the template literal writes the number as text.\<close>

definition dash_log_lines :: "js \<Rightarrow> exn + jsnum" where
  "dash_log_lines query = (case js_get query ''lines'' of Inl e \<Rightarrow> Inl e
     | Inr l \<Rightarrow> (case js_parseInt l of Inl e \<Rightarrow> Inl e
         | Inr n \<Rightarrow> Inr (if truthy (JNum n) then n else Fin 50)))"

definition dash_tail_command :: "jsnum \<Rightarrow> string" where
  "dash_tail_command n = ''tail -'' @ num_to_string n @ '' '' @ [CHR 0x22] @ dash_LOG_FILE @ [CHR 0x22]"

definition dash_api_daemon_logs :: "dash_event env \<Rightarrow> http_in \<Rightarrow> (dash, reply) io" where
  "dash_api_daemon_logs E req =
     try_catch
       (bindM (liftE (dash_log_lines (in_query req))) (\<lambda>lines.
        bindM (existsM E dash_LOG_FILE) (\<lambda>ex.
        if ex then bindM (exec_await E dash_listener (dash_tail_command lines)) (\<lambda>r.
          case r of
            Inl err \<Rightarrow> json_reply (JObj [(''logs'', JArr [])])
          | Inr stdout \<Rightarrow> json_reply (JObj [(''logs'', JArr (map JStr (nonblank_lines stdout)))]))
        else json_reply (JObj [(''logs'', JArr [JStr ''No log file found''])]))))
       (\<lambda>error. json_reply (JObj [(''logs'', JArr []), (''error'', JStr (message error))]))"

definition dash_api_last_block :: "dash_event env \<Rightarrow> http_in \<Rightarrow> (dash, reply) io" where
  "dash_api_last_block E req =
     try_catch (bindM (dash_daemonRpc E ''get_last_block_header'' (JObj [])) json_reply)
       (\<lambda>error. status_reply 500 (error_obj error []))"

definition dash_api_block :: "dash_event env \<Rightarrow> http_in \<Rightarrow> (dash, reply) io" where
  "dash_api_block E req =
     try_catch
       (bindM (liftE (js_parseInt (js_prop (in_params req) ''height''))) (\<lambda>h.
        bindM (dash_daemonRpc E ''get_block_header_by_height'' (JObj [(''height'', JNum h)])) json_reply))
       (\<lambda>error. status_reply 500 (error_obj error []))"

text \<open>\<open>get_connections\<close> is called without a \<open>params\<close> member.\<close>

definition dash_connections_call :: js where
  "dash_connections_call = JObj [(''jsonrpc'', JStr ''2.0''), (''id'', JStr ''0''), (''method'', JStr ''get_connections'')]"

definition dash_peer_fields :: "(string \<times> string) list" where
  "dash_peer_fields = map (\<lambda>k. (k, k)) [''address'', ''height'', ''incoming'', ''state'', ''live_time'',
     ''recv_count'', ''send_count'']"

definition dash_map_peers :: "js \<Rightarrow> exn + js list" where
  "dash_map_peers connections = (case connections of JArr cs \<Rightarrow> pick_all cs dash_peer_fields
     | _ \<Rightarrow> Inl (Exn ''connections.map is not a function''))"

definition dash_api_peers :: "dash_event env \<Rightarrow> http_in \<Rightarrow> (dash, reply) io" where
  "dash_api_peers E req =
     try_catch
       (bindM (dfetch E (post_json dash_DAEMON_RPC dash_connections_call)) (\<lambda>response.
        bindM (liftE (res_json response)) (\<lambda>data.
        bindM (liftE (js_get data ''result'')) (\<lambda>result.
        bindM (liftE (dash_map_peers (js_or (js_opt result ''connections'') (JArr [])))) (\<lambda>peers.
        json_reply (JObj [(''connections'', JArr peers)]))))))
       (\<lambda>error. json_reply (JObj [(''connections'', JArr []), (''error'', JStr (message error))]))"

definition dash_block_fields :: "(string \<times> string) list" where
  "dash_block_fields = [(''height'', ''height''), (''hash'', ''hash''), (''timestamp'', ''timestamp''),
     (''reward'', ''reward''), (''difficulty'', ''difficulty''), (''size'', ''block_size''), (''txs'', ''num_txes'')]"

text \<open>\<open>currentHeight - 1 - i\<close>.\<close>

definition dash_nth_height :: "jsnum \<Rightarrow> nat \<Rightarrow> jsnum" where
  "dash_nth_height h i = num_sub (num_sub h (Fin 1)) (Fin (of_nat i))"

text \<open>
  The \<open>for\<close> loop over \<open>i = 0, 1, ...\<close> while \<open>i < count\<close>. \<open>count\<close> is \<open>Math.min(20, currentHeight)\<close>,
  at most 20, so the indices 0 to 19 are all the loop can use.
\<close>

fun dash_recent_loop :: "dash_event env \<Rightarrow> jsnum \<Rightarrow> jsnum \<Rightarrow> nat list \<Rightarrow> js list \<Rightarrow> (dash, js list) io" where
  "dash_recent_loop E h count [] blocks = ret blocks"
| "dash_recent_loop E h count (i # is) blocks =
     (if \<not> num_lt (Fin (of_nat i)) count then ret blocks
      else let height = dash_nth_height h i in
        if num_lt height (Fin 0) then ret blocks
        else bindM (dash_daemonRpc E ''get_block_header_by_height'' (JObj [(''height'', JNum height)])) (\<lambda>data.
             bindM (liftE (js_get data ''result'')) (\<lambda>result.
             if truthy result \<and> truthy (js_prop result ''block_header'')
             then bindM (liftE (pick (js_prop result ''block_header'') dash_block_fields)) (\<lambda>b.
                  dash_recent_loop E h count is (blocks @ [b]))
             else dash_recent_loop E h count is blocks)))"

definition dash_api_blocks_recent :: "dash_event env \<Rightarrow> http_in \<Rightarrow> (dash, reply) io" where
  "dash_api_blocks_recent E req =
     try_catch
       (bindM (dash_getJson E (dash_DAEMON_HTTP @ ''/get_info'')) (\<lambda>info.
        bindM (liftE (js_get info ''height'')) (\<lambda>currentHeight.
        bindM (liftE (to_num currentHeight)) (\<lambda>h.
        bindM (dash_recent_loop E h (num_min (Fin 20) h) [0..<20] []) (\<lambda>blocks.
        json_reply (JObj [(''blocks'', JArr blocks)]))))))
       (\<lambda>error. status_reply 500 (error_obj error [(''blocks'', JArr [])]))"

section \<open>Start-up and shut-down\<close>

definition dash_startup :: "dash_event env \<Rightarrow> (dash, unit) io" where
  "dash_startup E = bindM (mkdir_missing E (dash_WALLET_DIR E)) (\<lambda>_. mkdir_missing E (dash_DATA_DIR E))"

definition dash_PORT :: int where
  "dash_PORT = 8080"

definition dash_on_listening :: "dash_event env \<Rightarrow> (dash, unit) io" where
  "dash_on_listening E =
     bindM (try_catch (dash_startWalletRpc E) (\<lambda>_. ret ())) (\<lambda>_.
     bindM (sleep E dash_listener 500) (\<lambda>_.
     doM (Browser (''http://localhost:'' @ dec_string dash_PORT))))"

definition dash_on_error :: "string \<Rightarrow> exn \<Rightarrow> (dash, unit) io" where
  "dash_on_error code err = (if code = ''EADDRINUSE'' then exitM 1 else throwM err)"

definition dash_on_sigint :: "(dash, unit) io" where
  "dash_on_sigint =
     bindM (getM walletRpcProcess) (\<lambda>p.
     bindM (case p of None \<Rightarrow> ret () | Some c \<Rightarrow> doM (ChildKill (child_pid c))) (\<lambda>_.
     exitM 0))"

end
