(* ===== verification/Dash_Mining.thy ===== *)
theory Dash_Mining
  imports Dash_Core
begin

text \<open>
  \<open>dashboard/server.js\<close>, second part: the XMRig miner. The log reader, the choice between XMRig and
  the daemon's own miner, and the three mining endpoints, followed by what holds of the miner's
  globals in every reachable state.
\<close>

section \<open>XMRig helpers\<close>

definition dash_XMRIG_LOG :: string where
  "dash_XMRIG_LOG = ''/tmp/xmrig_cocaine.log''"

definition dash_getXmrigPath :: "'e env \<Rightarrow> string" where
  "dash_getXmrigPath E = (let toolsDir = path_join [env_dirname E, ''..'', ''tools'', ''xmrig''] in
     if env_platform E = ''darwin'' then path_join [toolsDir, ''macos'', ''xmrig'']
     else if env_platform E = ''win32'' then path_join [toolsDir, ''windows'', ''xmrig.exe'']
     else path_join [toolsDir, ''linux'', ''xmrig''])"

definition dash_isXmrigAvailable :: "dash_event env \<Rightarrow> (dash, bool) io" where
  "dash_isXmrigAvailable E = existsM E (dash_getXmrigPath E)"

text \<open>\<open>/speed\s+\S+\s+(\d+\.?\d*)\s+(\w+\/s)/i\<close>.\<close>

definition dash_speed_rx :: "rx_item list" where
  "dash_speed_rx = lit_i ''speed'' @ rx_plus js_space @ rx_plus (\<lambda>c. \<not> js_space c) @ rx_plus js_space @
     decimal_group @ rx_plus js_space @ [Open 2] @ rx_plus is_word @ lit_i ''/s'' @ [Close 2]"

text \<open>The rate of one matching line, scaled by its unit.\<close>

definition dash_rate :: "captures \<Rightarrow> jsnum" where
  "dash_rate m = (let rate = parseFloat_text (capture m 1); unit = to_lower (capture m 2) in
     if includes_sub unit ''kh'' then num_mul rate (Fin 1000)
     else if includes_sub unit ''mh'' then num_mul rate (Fin 1000000) else rate)"

text \<open>The loop over the reversed lines stops at the first match.\<close>

fun dash_first_rate :: "string list \<Rightarrow> jsnum option" where
  "dash_first_rate [] = None"
| "dash_first_rate (l # ls) = (case rx_search dash_speed_rx l of
     Some m \<Rightarrow> Some (dash_rate m) | None \<Rightarrow> dash_first_rate ls)"

definition dash_scan_log :: "string \<Rightarrow> dash \<Rightarrow> dash" where
  "dash_scan_log content s =
     (let lines = last_n 50 (split_on (CHR 0x0A) content);
          s1 = (case dash_first_rate (rev lines) of None \<Rightarrow> s | Some r \<Rightarrow> s\<lparr>xmrigHashrate := r\<rparr>)
      in s1\<lparr>xmrigAccepted := count_i ''accepted'' content\<rparr>)"

definition dash_parseXmrigLog :: "dash_event env \<Rightarrow> (dash, unit) io" where
  "dash_parseXmrigLog E =
     try_catch
       (bindM (existsM E dash_XMRIG_LOG) (\<lambda>ex.
        if \<not> ex then ret ()
        else bindM (readFileM E dash_XMRIG_LOG) (\<lambda>content. modM (dash_scan_log content))))
       (\<lambda>_. ret ())"

text \<open>\<open>xmrigProcess && !xmrigProcess.killed\<close>.\<close>

definition dash_xmrig_running :: "dash \<Rightarrow> bool" where
  "dash_xmrig_running s = (case xmrigProcess s of None \<Rightarrow> False | Some c \<Rightarrow> \<not> child_killed c)"

section \<open>Mining endpoints\<close>

definition dash_miner_info :: "js \<Rightarrow> dash \<Rightarrow> js" where
  "dash_miner_info difficulty s = JObj [(''running'', JBool True), (''miner'', JStr ''xmrig''),
     (''hashrate'', JNum (xmrigHashrate s)),
     (''threads'', js_or (js_opt (xmrigConfig s) ''threads'') (js_nat 0)),
     (''address'', js_or (js_opt (xmrigConfig s) ''address'') (JStr [])),
     (''difficulty'', difficulty), (''accepted'', js_nat (xmrigAccepted s))]"

definition dash_api_miner_status :: "dash_event env \<Rightarrow> http_in \<Rightarrow> (dash, reply) io" where
  "dash_api_miner_status E req =
     bindM (getM dash_xmrig_running) (\<lambda>running.
     if running then
       bindM (dash_parseXmrigLog E) (\<lambda>_.
       try_catch
         (bindM (dash_getJson E (dash_DAEMON_HTTP @ ''/get_info'')) (\<lambda>info.
          bindM (liftE (js_get info ''difficulty'')) (\<lambda>d.
          bindM (getM (dash_miner_info (js_or d (js_nat 1)))) json_reply)))
         (\<lambda>_. bindM (getM (dash_miner_info (js_nat 1))) json_reply))
     else
       try_catch
         (bindM (dash_getJson E (dash_DAEMON_HTTP @ ''/mining_status'')) (\<lambda>data.
          bindM (liftE (js_get data ''active'')) (\<lambda>active.
          json_reply (JObj [(''running'', active), (''miner'', JStr ''builtin''),
            (''hashrate'', js_prop data ''speed''), (''threads'', js_prop data ''threads_count''),
            (''address'', js_prop data ''address''), (''difficulty'', js_prop data ''difficulty'')]))))
         (\<lambda>error. json_reply (JObj [(''running'', JBool False), (''error'', JStr (message error))])))"

text \<open>The XMRig configuration written for solo mining.\<close>

definition dash_xmrig_config :: "js \<Rightarrow> js" where
  "dash_xmrig_config address = JObj [(''autosave'', JBool False),
     (''cpu'', JObj [(''enabled'', JBool True), (''huge-pages'', JBool True), (''hw-aes'', JNull),
        (''priority'', JNull), (''asm'', JBool True), (''argon2-impl'', JNull),
        (''max-threads-hint'', js_nat 100)]),
     (''opencl'', JBool False), (''cuda'', JBool False), (''log-file'', JStr dash_XMRIG_LOG),
     (''pools'', JArr [JObj [(''algo'', JStr ''rx/0''), (''url'', JStr ''127.0.0.1:19081''), (''user'', address),
        (''pass'', JStr ''x''), (''daemon'', JBool True), (''daemon-poll-interval'', js_nat 1000)]]),
     (''print-time'', js_nat 10), (''retries'', js_nat 5), (''retry-pause'', js_nat 5)]"

definition dash_configPath :: string where
  "dash_configPath = ''/tmp/xmrig_cocaine_config.json''"

text \<open>\<open>threads || Math.max(1, cpus - 1)\<close>.\<close>

definition dash_threadCount :: "'e env \<Rightarrow> js \<Rightarrow> js" where
  "dash_threadCount E threads =
     js_or threads (JNum (num_max (Fin 1) (num_sub (Fin (of_nat (env_cpus E))) (Fin 1))))"

text \<open>The \<open>try\<close> block that starts XMRig; the answer it returns ends the handler.\<close>

definition dash_start_xmrig :: "dash_event env \<Rightarrow> js \<Rightarrow> js \<Rightarrow> (dash, reply) io" where
  "dash_start_xmrig E address threads =
     (let xmrigPath = dash_getXmrigPath E; threadCount = dash_threadCount E threads in
     bindM (fsM E (WriteFile dash_configPath (stringify_pretty (dash_xmrig_config address)))) (\<lambda>_.
     bindM (existsM E dash_XMRIG_LOG) (\<lambda>ex.
     bindM (if ex then fsM E (Unlink dash_XMRIG_LOG) else ret ()) (\<lambda>_.
     bindM (liftE (call_toString ''threadCount'' threadCount)) (\<lambda>t.
     bindM (spawnM E xmrigPath [''--config'', dash_configPath, ''--threads'', t, ''--no-color'']) (\<lambda>c.
     bindM (modM (\<lambda>s. s\<lparr>xmrigProcess := Some c\<rparr>)) (\<lambda>_.
     bindM (doM (OpenAppend dash_XMRIG_LOG)) (\<lambda>_.
     bindM (modM (\<lambda>s. s\<lparr>xmrigConfig := JObj [(''address'', address), (''threads'', threadCount)],
         xmrigHashrate := Fin 0, xmrigAccepted := 0\<rparr>)) (\<lambda>_.
     bindM (sleep E dash_listener 2000) (\<lambda>_.
     json_reply (JObj [(''status'', JStr ''OK''), (''miner'', JStr ''xmrig''),
       (''message'', JStr ''XMRig started''), (''threads'', threadCount)])))))))))))"

text \<open>The URL that asks the daemon's own miner to start; the address is pasted in as it came.\<close>

definition dash_builtin_url :: "js \<Rightarrow> js \<Rightarrow> exn + string" where
  "dash_builtin_url address threads = (case to_str address of Inl e \<Rightarrow> Inl e
     | Inr a \<Rightarrow> (case to_str (js_or threads (js_nat 2)) of Inl e \<Rightarrow> Inl e
         | Inr t \<Rightarrow> Inr (dash_DAEMON_HTTP @ ''/start_mining?miner_address='' @ a @ ''&threads_count='' @ t)))"

definition dash_start_builtin :: "dash_event env \<Rightarrow> js \<Rightarrow> js \<Rightarrow> (dash, reply) io" where
  "dash_start_builtin E address threads =
     try_catch
       (bindM (liftE (dash_builtin_url address threads)) (\<lambda>url.
        bindM (dash_getJson E url) (\<lambda>data.
        json_reply (JObj (own_set ''miner'' (JStr ''builtin'') (spread_onto [] data))))))
       (\<lambda>error. status_reply 500 (JObj [(''status'', JStr ''error''), (''error'', JStr (message error))]))"

text \<open>Stop whatever mines now: signal XMRig and forget it, then tell the daemon.\<close>

definition dash_kill_xmrig :: "(dash \<Rightarrow> dash) \<Rightarrow> (dash, unit) io" where
  "dash_kill_xmrig forget =
     bindM (getM id) (\<lambda>s.
     if dash_xmrig_running s then
       bindM (doM (ChildKill (case xmrigProcess s of None \<Rightarrow> None | Some c \<Rightarrow> child_pid c))) (\<lambda>_.
       modM forget)
     else ret ())"

definition dash_api_mining_start :: "dash_event env \<Rightarrow> http_in \<Rightarrow> (dash, reply) io" where
  "dash_api_mining_start E req =
     bindM (liftE (js_get (in_body req) ''address'')) (\<lambda>address.
     bindM (liftE (js_get (in_body req) ''threads'')) (\<lambda>threads.
     bindM (liftE (js_get (in_body req) ''useBuiltin'')) (\<lambda>useBuiltin.
     if \<not> truthy address
     then status_reply 400 (JObj [(''status'', JStr ''error''), (''error'', JStr ''Mining address required'')])
     else
     bindM (dash_kill_xmrig (\<lambda>s. s\<lparr>xmrigProcess := None\<rparr>)) (\<lambda>_.
     bindM (try_catch (bindM (dfetch E (get_request (dash_DAEMON_HTTP @ ''/stop_mining''))) (\<lambda>_. ret ()))
              (\<lambda>_. ret ())) (\<lambda>_.
     bindM (if truthy useBuiltin then ret False else dash_isXmrigAvailable E) (\<lambda>useXmrig.
     bindM (if useXmrig
            then try_catch (bindM (dash_start_xmrig E address threads) (\<lambda>r. ret (Some r))) (\<lambda>_. ret None)
            else ret None) (\<lambda>done.
     case done of Some r \<Rightarrow> ret r | None \<Rightarrow> dash_start_builtin E address threads)))))))"

definition dash_api_mining_stop :: "dash_event env \<Rightarrow> http_in \<Rightarrow> (dash, reply) io" where
  "dash_api_mining_stop E req =
     bindM (dash_kill_xmrig (\<lambda>s. s\<lparr>xmrigProcess := None, xmrigConfig := JNull, xmrigHashrate := Fin 0\<rparr>)) (\<lambda>_.
     try_catch
       (bindM (dash_getJson E (dash_DAEMON_HTTP @ ''/stop_mining'')) (\<lambda>data.
        json_reply (JObj (spread_onto [(''status'', JStr ''OK'')] data))))
       (\<lambda>error. json_reply (JObj [(''status'', JStr ''OK'')])))"

definition dash_mining_info :: "js \<Rightarrow> (string \<times> js) list \<Rightarrow> dash \<Rightarrow> js" where
  "dash_mining_info difficulty extra s = JObj ([(''active'', JBool True), (''miner'', JStr ''xmrig''),
     (''speed'', JNum (xmrigHashrate s)),
     (''threads_count'', js_or (js_opt (xmrigConfig s) ''threads'') (js_nat 0)),
     (''address'', js_or (js_opt (xmrigConfig s) ''address'') (JStr [])),
     (''difficulty'', difficulty)] @ extra)"

definition dash_api_mining_status :: "dash_event env \<Rightarrow> http_in \<Rightarrow> (dash, reply) io" where
  "dash_api_mining_status E req =
     bindM (getM dash_xmrig_running) (\<lambda>running.
     if running then
       bindM (dash_parseXmrigLog E) (\<lambda>_.
       try_catch
         (bindM (dash_getJson E (dash_DAEMON_HTTP @ ''/get_info'')) (\<lambda>info.
          bindM (liftE (js_get info ''difficulty'')) (\<lambda>d.
          bindM (getM (\<lambda>s. dash_mining_info (js_or d (js_nat 1)) [(''accepted'', js_nat (xmrigAccepted s))] s)) json_reply)))
         (\<lambda>_. bindM (getM (dash_mining_info (js_nat 1) [])) json_reply))
     else
       try_catch
         (bindM (dash_getJson E (dash_DAEMON_HTTP @ ''/mining_status'')) (\<lambda>data.
          bindM (dash_getJson E (dash_DAEMON_HTTP @ ''/get_info'')) (\<lambda>info.
          bindM (liftE (js_get data ''active'')) (\<lambda>active.
          bindM (liftE (js_get info ''difficulty'')) (\<lambda>d.
          json_reply (JObj [(''active'', js_or active (JBool False)), (''miner'', JStr ''builtin''),
            (''speed'', js_or (js_prop data ''speed'') (js_nat 0)),
            (''threads_count'', js_or (js_prop data ''threads_count'') (js_nat 0)),
            (''address'', js_or (js_prop data ''address'') (JStr [])),
            (''difficulty'', js_or d (js_nat 1))]))))))
         (\<lambda>error. json_reply (JObj [(''active'', JBool False), (''speed'', js_nat 0),
            (''threads_count'', js_nat 0), (''difficulty'', js_nat 1)])))"

definition dash_api_xmrig_available :: "dash_event env \<Rightarrow> http_in \<Rightarrow> (dash, reply) io" where
  "dash_api_xmrig_available E req =
     bindM (dash_isXmrigAvailable E) (\<lambda>available.
     json_reply (JObj [(''available'', JBool available), (''path'', JStr (dash_getXmrigPath E))]))"

end
