(* ===== verification/Dash_Wallet.thy ===== *)
theory Dash_Wallet
  imports Dash_Mining
begin

text \<open>
  \<open>dashboard/server.js\<close>, third part: the wallet endpoints, over the server's own \<open>walletRpc\<close> and
  \<open>startWalletRpc\<close>. A transfer uses ring size 11.
\<close>

section \<open>Wallet endpoints\<close>

definition dash_api_wallet_list :: "dash_event env \<Rightarrow> http_in \<Rightarrow> (dash, reply) io" where
  "dash_api_wallet_list E = list_handler E (dash_WALLET_DIR E)"

definition dash_api_wallet_create :: "dash_event env \<Rightarrow> http_in \<Rightarrow> (dash, reply) io" where
  "dash_api_wallet_create E = create_handler (dash_startWalletRpc E) (dash_walletRpc E)"

text \<open>\<open>name || filename\<close>, which must be truthy.\<close>

definition dash_api_wallet_open :: "dash_event env \<Rightarrow> http_in \<Rightarrow> (dash, reply) io" where
  "dash_api_wallet_open E req =
     bindM (liftE (js_get (in_body req) ''name'')) (\<lambda>name.
     bindM (liftE (js_get (in_body req) ''filename'')) (\<lambda>filename.
     bindM (liftE (js_get (in_body req) ''password'')) (\<lambda>password.
     let walletName = js_or name filename in
     if \<not> truthy walletName then status_reply 400 (JObj [(''error'', JStr ''Wallet name required'')])
     else open_block (dash_startWalletRpc E) (dash_walletRpc E) walletName password)))"

definition dash_api_wallet_restore :: "dash_event env \<Rightarrow> http_in \<Rightarrow> (dash, reply) io" where
  "dash_api_wallet_restore E = restore_handler (dash_startWalletRpc E) (dash_walletRpc E)"

definition dash_api_wallet_balance :: "dash_event env \<Rightarrow> http_in \<Rightarrow> (dash, reply) io" where
  "dash_api_wallet_balance E = balance_handler (dash_walletRpc E)"

definition dash_api_wallet_address :: "dash_event env \<Rightarrow> http_in \<Rightarrow> (dash, reply) io" where
  "dash_api_wallet_address E = address_handler (dash_walletRpc E)"

definition dash_api_wallet_transfers :: "dash_event env \<Rightarrow> http_in \<Rightarrow> (dash, reply) io" where
  "dash_api_wallet_transfers E = transfers_handler (dash_walletRpc E)"

definition dash_api_wallet_send :: "dash_event env \<Rightarrow> http_in \<Rightarrow> (dash, reply) io" where
  "dash_api_wallet_send E = send_handler 11 (dash_walletRpc E)"

definition dash_api_wallet_refresh :: "dash_event env \<Rightarrow> http_in \<Rightarrow> (dash, reply) io" where
  "dash_api_wallet_refresh E = refresh_handler (dash_walletRpc E)"

definition dash_api_wallet_close :: "dash_event env \<Rightarrow> http_in \<Rightarrow> (dash, reply) io" where
  "dash_api_wallet_close E = close_handler (dash_walletRpc E)"

definition dash_api_wallet_status :: "dash_event env \<Rightarrow> http_in \<Rightarrow> (dash, reply) io" where
  "dash_api_wallet_status E = status_handler (dash_walletRpc E)"

end
