(* ===== verification/Dash_Server.thy ===== *)
theory Dash_Server
  imports Dash_Wallet
begin

text \<open>
  The dashboard server as a whole: its route table, the step relation over requests, process
  events, start-up and interrupt, and the proofs that span its endpoints: every request is
  answered, the miner's globals agree with each other in every reachable state, and the wallet
  endpoints satisfy the session contract.
\<close>

section \<open>Routes and steps\<close>

type_synonym dash_handler = "dash_event env \<Rightarrow> http_in \<Rightarrow> (dash, reply) io"

definition dash_routes :: "((string \<times> string) \<times> dash_handler) list" where
  "dash_routes =
    [((''GET'', ''/api/info''), dash_api_info),
     ((''POST'', ''/api/daemon/start''), dash_api_daemon_start),
     ((''POST'', ''/api/daemon/stop''), dash_api_daemon_stop),
     ((''GET'', ''/api/daemon/status''), dash_api_daemon_status),
     ((''GET'', ''/api/daemon/logs''), dash_api_daemon_logs),
     ((''GET'', ''/api/last_block''), dash_api_last_block),
     ((''GET'', ''/api/block/:height''), dash_api_block),
     ((''GET'', ''/api/peers''), dash_api_peers),
     ((''GET'', ''/api/blocks/recent''), dash_api_blocks_recent),
     ((''GET'', ''/api/miner/status''), dash_api_miner_status),
     ((''POST'', ''/api/mining/start''), dash_api_mining_start),
     ((''POST'', ''/api/mining/stop''), dash_api_mining_stop),
     ((''GET'', ''/api/mining/status''), dash_api_mining_status),
     ((''GET'', ''/api/mining/xmrig-available''), dash_api_xmrig_available),
     ((''GET'', ''/api/wallet/list''), dash_api_wallet_list),
     ((''POST'', ''/api/wallet/create''), dash_api_wallet_create),
     ((''POST'', ''/api/wallet/open''), dash_api_wallet_open),
     ((''POST'', ''/api/wallet/restore''), dash_api_wallet_restore),
     ((''GET'', ''/api/wallet/balance''), dash_api_wallet_balance),
     ((''GET'', ''/api/wallet/address''), dash_api_wallet_address),
     ((''GET'', ''/api/wallet/transfers''), dash_api_wallet_transfers),
     ((''POST'', ''/api/wallet/send''), dash_api_wallet_send),
     ((''POST'', ''/api/wallet/refresh''), dash_api_wallet_refresh),
     ((''POST'', ''/api/wallet/close''), dash_api_wallet_close),
     ((''GET'', ''/api/wallet/status''), dash_api_wallet_status)]"

inductive dash_step :: "dash_event env \<Rightarrow> dash \<Rightarrow> dash \<Rightarrow> bool" for E where
  request: "exit_code s = None \<Longrightarrow> (rt, h) \<in> set dash_routes \<Longrightarrow> \<not> nullish (in_body r) \<Longrightarrow>
     dash_step E s (settle (h E r) s)"
| event: "exit_code s = None \<Longrightarrow> dash_step E s (dash_listener e s)"
| listening: "exit_code s = None \<Longrightarrow> dash_step E s (settle (dash_on_listening E) s)"
| sigint: "exit_code s = None \<Longrightarrow> dash_step E s (settle dash_on_sigint s)"

inductive dash_reachable :: "dash_event env \<Rightarrow> dash \<Rightarrow> bool" for E where
  start: "dash_reachable E (settle (dash_startup E) dash_init)"
| step: "dash_reachable E s \<Longrightarrow> dash_step E s t \<Longrightarrow> dash_reachable E t"

section \<open>Every request is answered\<close>

lemmas dash_core_defs = dash_api_info_def dash_api_daemon_start_def dash_api_daemon_stop_def
  dash_api_daemon_status_def dash_api_daemon_logs_def dash_api_last_block_def dash_api_block_def
  dash_api_peers_def dash_api_blocks_recent_def

lemmas dash_mining_defs = dash_api_miner_status_def dash_api_mining_start_def
  dash_api_mining_stop_def dash_api_mining_status_def dash_api_xmrig_available_def
  dash_start_builtin_def dash_kill_xmrig_def dash_parseXmrigLog_def dash_isXmrigAvailable_def

lemmas dash_wallet_defs = dash_api_wallet_list_def dash_api_wallet_create_def
  dash_api_wallet_open_def dash_api_wallet_restore_def dash_api_wallet_balance_def
  dash_api_wallet_address_def dash_api_wallet_transfers_def dash_api_wallet_send_def
  dash_api_wallet_refresh_def dash_api_wallet_close_def dash_api_wallet_status_def handler_defs

lemma dash_routes_no_throw:
  assumes "(rt, h) \<in> set dash_routes" and "\<not> nullish (in_body r)" and "plain_name r"
  shows "no_throw (h E r)"
  using assms unfolding dash_routes_def
  by (auto simp: dash_core_defs dash_mining_defs dash_wallet_defs Let_def
      intro!: no_throw_intros no_throw_length_less)

section \<open>The miner's globals\<close>

text \<open>
  While an XMRig process is tracked it has not been signalled, and the recorded configuration
  names a mining address and a thread count.
\<close>

definition miner_inv :: "dash \<Rightarrow> bool" where
  "miner_inv s \<longleftrightarrow> (\<forall>c. xmrigProcess s = Some c \<longrightarrow> \<not> child_killed c \<and>
     truthy (js_opt (xmrigConfig s) ''address'') \<and> truthy (js_opt (xmrigConfig s) ''threads''))"

lemma miner_inv_none: "xmrigProcess s = None \<Longrightarrow> miner_inv s"
  by (simp add: miner_inv_def)

lemma miner_inv_other [simp]:
  "miner_inv (s\<lparr>walletRpcProcess := w\<rparr>) = miner_inv s" "miner_inv (s\<lparr>daemonProcess := w\<rparr>) = miner_inv s"
  "miner_inv (s\<lparr>currentWalletName := n\<rparr>) = miner_inv s" "miner_inv (s\<lparr>exit_code := x\<rparr>) = miner_inv s"
  by (simp_all add: miner_inv_def)

lemma miner_inv_note [simp]: "miner_inv (note_effect ef s) = miner_inv s"
  by (simp add: miner_inv_def note_effect_def)

lemma dash_listener_miner_inv: "miner_inv s \<Longrightarrow> miner_inv (dash_listener e s)"
  by (cases e) (auto simp: miner_inv_def)

lemma stable_miner_inv: "stable dash_listener miner_inv"
  by (simp add: stable_def dash_listener_miner_inv)

lemmas miner_keeps = keeps_effects [OF stable_miner_inv]

lemma keeps_scan_log: "keeps miner_inv (modM (dash_scan_log content))"
  by (rule keeps_modM)
     (auto simp: dash_scan_log_def Let_def miner_inv_def split: option.splits)

lemma to_double_not_NaN [simp]: "to_double x \<noteq> NaN"
  by (simp add: to_double_def Let_def)

lemma dash_threadCount_truthy: "truthy (dash_threadCount E threads)"
proof (cases "truthy threads")
  case False
  define x where "x = num_sub (Fin (of_nat (env_cpus E))) (Fin 1)"
  have x: "x \<noteq> NaN" by (simp add: x_def num_sub_def num_add_def)
  have "truthy (JNum (num_max (Fin 1) x))"
    using x by (cases x) (auto simp: num_max_def num_lt_def)
  then show ?thesis using False by (simp add: dash_threadCount_def x_def)
qed (simp add: dash_threadCount_def)

text \<open>Tracking the new process and recording its configuration happen without a wait between.\<close>

lemma keeps_track_xmrig:
  assumes "truthy address" and "\<not> child_killed c"
  shows "keeps miner_inv (bindM (modM (\<lambda>s. s\<lparr>xmrigProcess := Some c\<rparr>)) (\<lambda>_.
     bindM (doM (OpenAppend dash_XMRIG_LOG)) (\<lambda>_.
     bindM (modM (\<lambda>s. s\<lparr>xmrigConfig := JObj [(''address'', address), (''threads'', dash_threadCount E threads)],
         xmrigHashrate := Fin 0, xmrigAccepted := 0\<rparr>)) (\<lambda>_.
     bindM (sleep E dash_listener 2000) (\<lambda>_. json_reply v)))))"
proof (rule keepsI)
  fix s :: dash
  define t where "t = note_effect (OpenAppend dash_XMRIG_LOG) (s\<lparr>xmrigProcess := Some c\<rparr>)
      \<lparr>xmrigConfig := JObj [(''address'', address), (''threads'', dash_threadCount E threads)],
       xmrigHashrate := Fin 0, xmrigAccepted := 0\<rparr>"
  have "miner_inv t"
    using assms by (simp add: t_def miner_inv_def note_effect_def dash_threadCount_truthy)
  moreover have "keeps miner_inv (bindM (sleep E dash_listener 2000) (\<lambda>_. json_reply v))"
    by (intro keeps_intros miner_keeps)
  ultimately show "miner_inv (snd (bindM (modM (\<lambda>s. s\<lparr>xmrigProcess := Some c\<rparr>)) (\<lambda>_.
     bindM (doM (OpenAppend dash_XMRIG_LOG)) (\<lambda>_.
     bindM (modM (\<lambda>s. s\<lparr>xmrigConfig := JObj [(''address'', address), (''threads'', dash_threadCount E threads)],
         xmrigHashrate := Fin 0, xmrigAccepted := 0\<rparr>)) (\<lambda>_.
     bindM (sleep E dash_listener 2000) (\<lambda>_. json_reply v)))) s))"
    unfolding bindM_run modM_run doM_run t_def [symmetric]
    by (auto simp: t_def intro: keepsD)
qed

lemma dash_start_xmrig_keeps:
  "truthy address \<Longrightarrow> keeps miner_inv (dash_start_xmrig E address threads)"
  unfolding dash_start_xmrig_def Let_def
  by (intro keeps_intros miner_keeps keeps_spawn_bind [OF stable_miner_inv] keeps_track_xmrig)

text \<open>The read-only helpers and the code shared by the endpoints.\<close>

lemma dash_rpc_keeps [keeps_intros]:
  assumes "stable dash_listener P"
  shows "keeps P (dash_walletRpc E m ps)" "keeps P (dash_daemonRpc E m ps)" "keeps P (dash_getJson E u)"
    "keeps P (dash_isDaemonRunning E)" "keeps P (dash_getDaemonPid E)"
  unfolding dash_walletRpc_def dash_daemonRpc_def dash_getJson_def dash_isDaemonRunning_def
    dash_getDaemonPid_def
  by (intro keeps_intros keeps_effects [OF assms])+

lemma dash_recent_loop_keeps [keeps_intros]:
  assumes "stable dash_listener P"
  shows "keeps P (dash_recent_loop E h count is blocks)"
  by (induction "is" arbitrary: blocks) (auto simp: Let_def intro!: keeps_intros assms)

lemma dash_startWalletRpc_keeps:
  assumes "stable dash_listener P" and "\<And>s c. P s \<Longrightarrow> P (s\<lparr>walletRpcProcess := Some c\<rparr>)"
  shows "keeps P (dash_startWalletRpc E)"
  unfolding dash_startWalletRpc_def
  by (intro keeps_intros keeps_effects [OF assms(1)] keeps_await_wallet [OF assms(1)] assms(2))

lemma dash_routes_miner_inv:
  assumes "(rt, h) \<in> set dash_routes" and "\<not> nullish (in_body r)"
  shows "keeps miner_inv (h E r)"
  using assms unfolding dash_routes_def
  by (auto simp: dash_core_defs dash_mining_defs dash_wallet_defs Let_def miner_inv_none
      intro!: keeps_intros miner_keeps stable_miner_inv dash_startWalletRpc_keeps
        dash_start_xmrig_keeps keeps_scan_log)

lemma dash_startup_miner_inv: "keeps miner_inv (dash_startup E)"
  unfolding dash_startup_def by (intro keeps_intros mkdir_missing_keeps [OF stable_miner_inv])

lemma dash_on_listening_miner_inv: "keeps miner_inv (dash_on_listening E)"
  unfolding dash_on_listening_def
  by (intro keeps_intros miner_keeps dash_startWalletRpc_keeps stable_miner_inv) simp

lemma dash_on_sigint_miner_inv: "keeps miner_inv dash_on_sigint"
  unfolding dash_on_sigint_def exitM_def
  by (intro keeps_intros miner_keeps) simp

lemma settle_miner_inv: "keeps miner_inv m \<Longrightarrow> miner_inv s \<Longrightarrow> miner_inv (settle m s)"
  by (rule keeps_settle) simp_all

lemma dash_step_miner_inv: "dash_step E s t \<Longrightarrow> miner_inv s \<Longrightarrow> miner_inv t"
  by (induction rule: dash_step.induct)
     (blast intro: settle_miner_inv dash_routes_miner_inv dash_listener_miner_inv
        dash_on_listening_miner_inv dash_on_sigint_miner_inv)+

lemma dash_reachable_miner_inv: "dash_reachable E s \<Longrightarrow> miner_inv s"
proof (induction rule: dash_reachable.induct)
  case start
  show ?case
    by (rule settle_miner_inv [OF dash_startup_miner_inv]) (simp add: miner_inv_def dash_init_def)
next
  case (step s t)
  then show ?case by (blast intro: dash_step_miner_inv)
qed

section \<open>The wallet session contract\<close>

definition dash_wallet :: "(dash_event, dash) wallet_handlers" where
  "dash_wallet = server_handlers dash_startWalletRpc dash_walletRpc dash_api_wallet_open"

text \<open>The names a request can make current: its \<open>name\<close>, or \<open>filename\<close> when \<open>name\<close> is falsy.\<close>

definition dash_names :: "http_in \<Rightarrow> js set" where
  "dash_names r = {js_prop (in_body r) ''name'', js_or (js_prop (in_body r) ''name'') (js_prop (in_body r) ''filename'')}"

lemma dash_listener_name [simp]: "currentWalletName (dash_listener e s) = currentWalletName s"
  by (cases e) simp_all

lemma stable_name: "stable dash_listener (\<lambda>s. P (currentWalletName s))"
  by (simp add: stable_def note_effect_def)

interpretation dash_api: wallet_server dash_startWalletRpc dash_walletRpc dash_api_wallet_open dash_names
proof unfold_locales
  fix E r and P :: "js \<Rightarrow> bool" and m ps
  show "keeps (\<lambda>s. P (currentWalletName s)) (dash_startWalletRpc E)"
    by (intro dash_startWalletRpc_keeps stable_name) simp
  show "keeps (\<lambda>s. P (currentWalletName s)) (dash_walletRpc E m ps)"
    by (intro keeps_intros stable_name)
  show "js_prop (in_body r) ''name'' \<in> dash_names r"
    by (simp add: dash_names_def)
  show "(\<exists>w p. w \<in> dash_names r \<and> dash_api_wallet_open E r = open_block (dash_startWalletRpc E) (dash_walletRpc E) w p)
      \<or> (\<exists>e. dash_api_wallet_open E r = throwM e)
      \<or> (\<exists>v. dash_api_wallet_open E r = status_reply 400 (JObj [(''error'', v)]))"
    by (cases "nullish (in_body r)") (auto simp: dash_api_wallet_open_def dash_names_def js_get_def Let_def)
qed

end
