(* ===== verification/Js_Text.thy ===== *)
theory Js_Text
  imports Js_Number
begin

text \<open>
  Round trips between numbers and their decimal text: what \<open>parseInt\<close> and \<open>parseFloat\<close> read back
  from digits the program wrote, and which characters the text of a number can contain.
\<close>

section \<open>Reading digits\<close>

lemma digit_not_space: "is_digit c \<Longrightarrow> \<not> js_space c"
  by (auto simp: is_digit_def js_space_def)

lemma digit_not_sign: "is_digit c \<Longrightarrow> c \<noteq> CHR ''+'' \<and> c \<noteq> CHR ''-'' \<and> c \<noteq> CHR ''.'' \<and> c \<noteq> CHR ''I''"
  by (auto simp: is_digit_def)

lemma skip_space_digits: "\<forall>c \<in> set ds. is_digit c \<Longrightarrow> ds \<noteq> [] \<Longrightarrow> skip_space (ds @ r) = ds @ r"
  by (cases ds) (auto simp: skip_space_def digit_not_space)

lemma scan_sign_digits:
  "\<forall>c \<in> set ds. is_digit c \<Longrightarrow> ds \<noteq> [] \<Longrightarrow> scan_sign (ds @ r) = (False, ds @ r)"
  by (cases ds) (auto simp: scan_sign_def dest: digit_not_sign)

lemma hex_val_digit: "is_digit c \<Longrightarrow> hex_val c = digit_val c \<and> hex_val c < 10"
  by (auto simp: is_digit_def hex_val_def digit_val_def Let_def)

lemma radix_digits_dec: "\<forall>c \<in> set ds. is_digit c \<Longrightarrow> radix_digits 10 ds = ds"
  unfolding radix_digits_def using hex_val_digit by (intro takeWhile_eq_all_conv [THEN iffD2]) blast

lemma radix_value_dec: "\<forall>c \<in> set ds. is_digit c \<Longrightarrow> radix_value 10 ds = digits_value ds"
  unfolding radix_value_def digits_value_def
  by (rule foldl_cong) (simp_all add: hex_val_digit)

lemma to_double_int:
  assumes "0 \<le> i" and "i \<le> 2 ^ 53"
  shows "to_double (of_int i) = Fin (of_int i)"
proof -
  have r: "rnd (of_int i) = of_int i" using assms by (rule rnd_int)
  have "(of_int i :: rat) \<le> 2 ^ 53" using assms(2) by (metis of_int_le_iff of_int_numeral of_int_power)
  also have "(2 :: rat) ^ 53 < 2 ^ 1024" by (rule power_strict_increasing) simp_all
  finally show ?thesis using assms(1) to_double_Fin [of "of_int i"] r by simp
qed

lemma to_double_int_neg:
  assumes "0 \<le> i" and "i \<le> 2 ^ 53"
  shows "to_double (- of_int i) = Fin (- of_int i)"
  using to_double_int [OF assms] assms(1) unfolding to_double_def Let_def
  by (auto simp: rnd_def split: if_splits)

text \<open>A process id, a height or a count written in decimal reads back as itself.\<close>

lemma parseInt10_dec_string:
  assumes "0 \<le> n" and "n \<le> 2 ^ 53"
  shows "parseInt10_text (dec_string n) = Fin (of_int n)"
  using assms dec_string_digits [of n] skip_space_digits [of "dec_string n" "[]"]
    scan_sign_digits [of "dec_string n" "[]"]
  by (simp add: parseInt10_text_def parseInt_radix_def radix_digits_dec radix_value_dec signed_def
      to_double_int Let_def)

lemma js_trim_digits:
  assumes "\<forall>c \<in> set ds. is_digit c"
  shows "js_trim ds = ds"
proof -
  have "dropWhile js_space xs = xs" if "\<forall>c \<in> set xs. is_digit c" for xs
    using that by (cases xs) (auto simp: digit_not_space)
  from this [of ds] this [of "rev ds"] show ?thesis using assms by (simp add: js_trim_def)
qed

text \<open>A plain decimal fraction reads as the double nearest to its exact value.\<close>

lemma span_digits:
  assumes "\<forall>c \<in> set ds. is_digit c" and "r = [] \<or> \<not> is_digit (hd r)"
  shows "takeWhile is_digit (ds @ r) = ds" "dropWhile is_digit (ds @ r) = r"
  using assms by (cases r; simp add: takeWhile_append dropWhile_append)+

lemma dot_not_digit [simp]: "\<not> is_digit (CHR ''.'')"
  by (simp add: is_digit_def)

lemma scan_decimal_fraction:
  assumes "\<forall>c \<in> set ip. is_digit c" and "\<forall>c \<in> set fp. is_digit c" and "ip \<noteq> []"
  shows "scan_decimal (ip @ CHR ''.'' # fp) = Some (of_int (digits_value (ip @ fp)) / 10 ^ length fp, [])"
proof -
  have f: "takeWhile is_digit fp = fp" "dropWhile is_digit fp = []"
    using assms(2) by (simp_all add: takeWhile_eq_all_conv)
  show ?thesis
    using span_digits [OF assms(1), of "CHR ''.'' # fp"] assms(3)
    by (simp add: scan_decimal_def scan_exp_def pow10_def Let_def f)
qed

lemma parseFloat_fraction:
  assumes "\<forall>c \<in> set ip. is_digit c" and "\<forall>c \<in> set fp. is_digit c" and "ip \<noteq> []"
  shows "parseFloat_text (ip @ CHR ''.'' # fp) = to_double (of_int (digits_value (ip @ fp)) / 10 ^ length fp)"
proof -
  have "\<not> starts_with (ip @ CHR ''.'' # fp) ''Infinity''"
    using assms(1,3) by (cases ip) (auto dest: digit_not_sign)
  then show ?thesis
    using skip_space_digits [OF assms(1,3)] scan_sign_digits [OF assms(1,3)]
      scan_decimal_fraction [OF assms]
    by (simp add: parseFloat_text_def signed_def)
qed

section \<open>Fixed-point text\<close>

lemma digits_value_zeros: "digits_value (replicate k (CHR ''0'') @ ds) = digits_value ds"
proof (induction ds rule: rev_induct)
  case Nil
  show ?case by (induction k) (simp_all add: digits_value_def digit_val_def)
next
  case (snoc c ds)
  then show ?case by (simp flip: append_assoc)
qed

text \<open>\<open>toFixed\<close> writes exactly \<open>n / 10 ^ f\<close>.\<close>

lemma fixed_text_value:
  assumes "0 \<le> n"
  shows "scan_decimal (fixed_text f n) = Some (of_int n / 10 ^ f, [])"
proof -
  define ds where "ds = replicate (Suc f - length (dec_string n)) (CHR ''0'') @ dec_string n"
  define k where "k = length ds - f"
  have len: "Suc f \<le> length ds" by (simp add: ds_def)
  have dig: "\<forall>c \<in> set ds. is_digit c"
    using dec_string_digits [OF assms] by (auto simp: ds_def is_digit_def)
  have "scan_decimal (take k ds @ CHR ''.'' # drop k ds)
      = Some (of_int (digits_value (take k ds @ drop k ds)) / 10 ^ length (drop k ds), [])"
    using dig len by (intro scan_decimal_fraction) (auto dest: in_set_takeD in_set_dropD simp: k_def)
  moreover have "length (drop k ds) = f" using len by (simp add: k_def)
  moreover have "digits_value ds = n" using assms by (simp add: ds_def digits_value_zeros)
  moreover have "fixed_text f n = take k ds @ CHR ''.'' # drop k ds"
    unfolding fixed_text_def Let_def ds_def [symmetric] k_def by simp
  ultimately show ?thesis by simp
qed

section \<open>Characters of a number\<close>

lemma number_char_digits: "\<forall>c \<in> set ds. is_digit c \<Longrightarrow> \<forall>c \<in> set ds. number_char c"
  by (auto simp: number_char_def)

lemma dec_string_chars: "0 \<le> n \<Longrightarrow> \<forall>c \<in> set (dec_string n). number_char c"
  by (rule number_char_digits [OF dec_string_digits])

lemma pow10_pos: "0 < pow10 k"
  by (simp add: pow10_def)

lemma digit_candidate_nonneg:
  assumes "0 < x" and "digit_candidate x n k = Some c"
  shows "0 \<le> c"
proof -
  have "0 < x / pow10 (n - k)" using assms(1) pow10_pos by simp
  then have "0 \<le> \<lfloor>x / pow10 (n - k)\<rfloor>" "0 \<le> \<lceil>x / pow10 (n - k)\<rceil>" by linarith+
  moreover have "c = \<lfloor>x / pow10 (n - k)\<rfloor> \<or> c = \<lceil>x / pow10 (n - k)\<rceil>"
    using assms(2) unfolding digit_candidate_def Let_def by (simp split: if_splits)
  ultimately show ?thesis by blast
qed

lemma shortest_digits_chars: "0 < x \<Longrightarrow> \<forall>c \<in> set (shortest_digits ks x n). is_digit c"
proof (induction ks)
  case Nil
  have "0 \<le> x / pow10 (n - 17)" using Nil pow10_pos [of "n - 17"] by simp
  then have "0 \<le> rne (x / pow10 (n - 17))" using rne_mono [of 0] rne_of_int [of 0] by fastforce
  then show ?case by (simp add: dec_string_digits)
next
  case (Cons k ks)
  then show ?case by (auto split: option.splits dest: digit_candidate_nonneg dec_string_digits)
qed

lemma format_digits_chars:
  assumes "\<forall>c \<in> set ds. is_digit c"
  shows "\<forall>c \<in> set (format_digits ds n). number_char c"
proof -
  have d: "\<forall>c \<in> set ds. number_char c" using number_char_digits [OF assms] .
  have t: "\<forall>c \<in> set (take k ds) \<union> set (drop k ds). number_char c" for k
    using d by (auto dest: in_set_takeD in_set_dropD)
  have z: "number_char (CHR ''0'')" "number_char (CHR ''.'')" "number_char (CHR ''e'')"
      "number_char (CHR ''+'')" "number_char (CHR ''-'')"
    by (simp_all add: number_char_def is_digit_def)
  have "\<forall>c \<in> set (exp_suffix e). number_char c" for e
    using dec_string_chars [of e] dec_string_chars [of "- e"] z by (auto simp: exp_suffix_def)
  then show ?thesis using d t z by (auto simp: format_digits_def Let_def dest: in_set_takeD in_set_dropD)
qed

lemma pos_to_string_chars: "0 \<le> x \<Longrightarrow> \<forall>c \<in> set (pos_to_string x). number_char c"
proof (cases "x = of_int \<lfloor>x\<rfloor> \<and> x \<le> 2 ^ 53")
  case True
  assume "0 \<le> x"
  then show ?thesis using True dec_string_chars [of "\<lfloor>x\<rfloor>"] by (simp add: pos_to_string_def)
next
  case False
  assume "0 \<le> x"
  with False have "0 < x" by (cases "x = 0") auto
  then show ?thesis
    using False format_digits_chars [OF shortest_digits_chars] by (auto simp: pos_to_string_def)
qed

text \<open>The text of a number contains no character that a shell or a URL gives a meaning to.\<close>

lemma num_to_string_chars: "\<forall>c \<in> set (num_to_string a). number_char c"
proof (cases a)
  case (Fin x)
  then show ?thesis
    using pos_to_string_chars [of x] pos_to_string_chars [of "- x"]
    by (auto simp: num_to_string_def number_char_def)
qed (auto simp: num_to_string_def number_char_def)

end
