(* ===== verification/Dash_Props.thy ===== *)
theory Dash_Props
  imports Dash_Server Js_Text
begin

text \<open>
  The properties of the dashboard server: every request is answered, the miner's globals stay
  consistent, what a transfer sends, what a balance shows, which blocks and log lines are asked for,
  and how the wallet RPC server and the daemon are started.
\<close>

section \<open>Requests\<close>

text \<open>
  C2. For every route of the dashboard, every environment, every state and every request whose body
  express parsed and whose \<open>name\<close> is not an object, the handler answers, unless a process event
  ends the server while the handler waits; and handling the request itself never ends the server.
\<close>
theorem dash_request_answered:
  assumes "(rt, h) \<in> set dash_routes" and "\<not> nullish (in_body r)" and "plain_name r"
  shows "(exit_code (snd (h E r s)) = None \<longrightarrow> (\<exists>a. fst (h E r s) = Inr a))
    \<and> settle (h E r) s = snd (h E r s)"
  using dash_routes_no_throw [OF assms, of E] settle_no_throw no_throwD [of "h E r" s]
  by (metis prod.collapse)

text \<open>Instance of C2: a \<open>create\<close> request that carries no name.\<close>
theorem dash_request_answered_witness:
  "exit_code (snd (dash_api_wallet_create example_env (with_body (JObj [])) dash_init)) = None
    \<and> (\<exists>a. fst (dash_api_wallet_create example_env (with_body (JObj [])) dash_init) = Inr a)
    \<and> settle (dash_api_wallet_create example_env (with_body (JObj []))) dash_init
        = snd (dash_api_wallet_create example_env (with_body (JObj [])) dash_init)"
  using dash_request_answered [of "(''POST'', ''/api/wallet/create'')" dash_api_wallet_create
      "with_body (JObj [])" example_env dash_init]
  by (simp add: dash_routes_def plain_name_def dash_api_wallet_create_def create_handler_def io_simps dash_init_def)


section \<open>Mining\<close>


definition dash_start_request :: http_in where
  "dash_start_request = with_body (JObj [(''address'', JStr ''4abc''), (''threads'', js_nat 2)])"

definition is_child_kill :: "effect \<Rightarrow> bool" where
  "is_child_kill ef = (case ef of ChildKill p \<Rightarrow> True | _ \<Rightarrow> False)"

text \<open>The state after a mining request that starts XMRig without trouble.\<close>

lemma dash_mining_start_run:
  assumes "quiet E" and "\<forall>t p. env_exists E t p" and "\<forall>t. env_fs E t = None" and "\<forall>t. env_spawn E t = Inr (Some (pid t))"
    and "exit_code s = None" and "\<forall>c. xmrigProcess s = Some c \<longrightarrow> \<not> child_killed c"
    and "in_body r = JObj [(''address'', JStr a), (''threads'', js_nat n)]" and "a \<noteq> []" and "0 < n"
  shows "\<exists>v s1 p. dash_api_mining_start E r s = (Inr (Reply 200 v), s1) \<and> exit_code s1 = None
    \<and> xmrigProcess s1 = Some \<lparr>child_pid = Some p, child_killed = False\<rparr>
    \<and> filter is_child_kill (trace s1) = filter is_child_kill (trace s)
        @ (case xmrigProcess s of None \<Rightarrow> [] | Some c \<Rightarrow> [ChildKill (child_pid c)])"
  using assms
  by (cases "env_fetch E (trace (case xmrigProcess s of None \<Rightarrow> s | Some c \<Rightarrow> note_effect (ChildKill (child_pid c)) s)
          @ [Fetch (get_request (dash_DAEMON_HTTP @ ''/stop_mining''))]) (get_request (dash_DAEMON_HTTP @ ''/stop_mining''))";
      cases "xmrigProcess s")
     (simp_all add: dash_api_mining_start_def dash_kill_xmrig_def dash_xmrig_running_def dash_isXmrigAvailable_def
      dash_start_xmrig_def dash_threadCount_def call_toString_def io_simps Let_def is_child_kill_def note_effect_def)

text \<open>A stop request signals the tracked miner, and nothing when none is tracked.\<close>

lemma dash_mining_stop_kills:
  assumes "quiet E" and "exit_code s = None" and "xmrigProcess s = None"
  shows "filter is_child_kill (trace (snd (dash_api_mining_stop E r s))) = filter is_child_kill (trace s)"
  using assms
  by (cases "env_fetch E (trace s @ [Fetch (get_request (dash_DAEMON_HTTP @ ''/stop_mining''))])
       (get_request (dash_DAEMON_HTTP @ ''/stop_mining''))")
     (simp_all add: dash_api_mining_stop_def dash_kill_xmrig_def dash_xmrig_running_def dash_getJson_def
        io_simps Let_def is_child_kill_def split: sum.splits)

text \<open>
  C29. Restarting the miner loses it. With XMRig installed and nothing failing, a start request made
  while a miner runs signals the old process and tracks the new one; but when the \<open>exit\<close> event of
  the old process then arrives, its listener clears the globals of the new one: the server reports
  no XMRig process, and a following stop request signals nothing, although the new process was
  never signalled.
\<close>
theorem dash_restart_loses_miner:
  assumes "quiet E" and "\<forall>t p. env_exists E t p" and "\<forall>t. env_fs E t = None" and "\<forall>t. env_spawn E t = Inr (Some (pid t))"
    and "exit_code s = None" and "xmrigProcess s = Some old" and "\<not> child_killed old"
    and "in_body r = JObj [(''address'', JStr a), (''threads'', js_nat n)]" and "a \<noteq> []" and "0 < n"
  shows "\<exists>v s1 new. dash_api_mining_start E r s = (Inr (Reply 200 v), s1) \<and> xmrigProcess s1 = Some new
    \<and> \<not> dash_xmrig_running (dash_listener (XmrigExit code) s1)
    \<and> filter is_child_kill (trace (snd (dash_api_mining_stop E r' (dash_listener (XmrigExit code) s1))))
        = filter is_child_kill (trace s) @ [ChildKill (child_pid old)]"
proof -
  obtain v s1 p where run: "dash_api_mining_start E r s = (Inr (Reply 200 v), s1)" "exit_code s1 = None"
      "xmrigProcess s1 = Some \<lparr>child_pid = Some p, child_killed = False\<rparr>"
      "filter is_child_kill (trace s1) = filter is_child_kill (trace s) @ [ChildKill (child_pid old)]"
    using dash_mining_start_run [OF assms(1-5) _ assms(8-10)] assms(6,7) by auto
  moreover have "filter is_child_kill (trace (snd (dash_api_mining_stop E r' (dash_listener (XmrigExit code) s1))))
      = filter is_child_kill (trace (dash_listener (XmrigExit code) s1))"
    using assms(1) run(2) by (intro dash_mining_stop_kills) simp_all
  ultimately show ?thesis by (auto simp: dash_xmrig_running_def)
qed

definition dash_mining_state :: dash where
  "dash_mining_state = dash_init\<lparr>xmrigProcess := Some \<lparr>child_pid = Some 7, child_killed = False\<rparr>\<rparr>"

text \<open>Instance of C29.\<close>
theorem dash_restart_loses_miner_witness:
  "\<exists>v s1 new. dash_api_mining_start (online_env (JObj [])) dash_start_request dash_mining_state = (Inr (Reply 200 v), s1)
    \<and> xmrigProcess s1 = Some new
    \<and> \<not> dash_xmrig_running (dash_listener (XmrigExit 0) s1)
    \<and> filter is_child_kill (trace (snd (dash_api_mining_stop (online_env (JObj [])) (with_body (JObj []))
          (dash_listener (XmrigExit 0) s1)))) = [ChildKill (Some 7)]"
  using dash_restart_loses_miner [of "online_env (JObj [])" "\<lambda>t. 4242" dash_mining_state
      "\<lparr>child_pid = Some 7, child_killed = False\<rparr>" dash_start_request "''4abc''" 2 0 "with_body (JObj [])"]
  by (simp add: dash_mining_state_def dash_init_def dash_start_request_def)

lemma dash_init_reachable: "dash_reachable example_env dash_init"
  using dash_reachable.start [of example_env]
  by (simp add: dash_startup_def mkdir_missing_def settle_def io_simps)

definition dash_started :: dash where
  "dash_started = settle (dash_api_mining_start example_env dash_start_request) dash_init"


section \<open>Effects of the handlers\<close>

lemma dash_listener_trace [simp]: "trace (dash_listener e s) = trace s"
  by (cases e) simp_all

lemma dash_deliver_trace [simp]: "trace (deliver E dash_listener s) = trace s"
proof -
  have "trace (fold dash_listener es t) = trace t" for es and t :: dash
    by (induction es arbitrary: t) simp_all
  then show ?thesis by (simp add: deliver_def)
qed

definition dash_header_request :: "jsnum \<Rightarrow> effect" where
  "dash_header_request h = Fetch (post_json dash_DAEMON_RPC
     (rpc_call ''get_block_header_by_height'' (JObj [(''height'', JNum h)])))"

lemma dash_nth_height_int:
  assumes "int i < H" and "H \<le> 2 ^ 53"
  shows "dash_nth_height (Fin (of_int H)) i = Fin (of_int (H - 1 - int i))"
proof -
  have "num_sub (Fin (of_int H)) (Fin 1) = Fin (of_int (H - 1))"
    using assms to_double_int [of "H - 1"] by (simp add: num_sub_def num_add_def)
  moreover have "num_sub (Fin (of_int (H - 1))) (Fin (of_nat i)) = Fin (of_int (H - 1 - int i))"
    using assms to_double_int [of "H - 1 - int i"] by (simp add: num_sub_def num_add_def)
  ultimately show ?thesis by (simp add: dash_nth_height_def)
qed

lemma dash_recent_loop_trace:
  assumes "H \<le> 2 ^ 53" and "count = num_min (Fin 20) (Fin (of_int H))"
  shows "\<exists>m \<le> length is. trace (snd (dash_recent_loop E (Fin (of_int H)) count is blocks s))
      = trace s @ map (\<lambda>i. dash_header_request (Fin (of_int (H - 1 - int i)))) (take m is)
    \<and> (\<forall>i \<in> set (take m is). int i < H)"
proof (induction "is" arbitrary: blocks s)
  case Nil
  then show ?case by (simp add: ret_run)
next
  case (Cons i "is")
  show ?case
  proof (cases "num_lt (Fin (of_nat i)) count")
    case False
    then show ?thesis by (intro exI [of _ 0]) (simp add: ret_run)
  next
    case True
    then have i: "int i < H"
      using assms(2) by (auto simp: num_min_def num_lt_def split: if_splits)
    have h: "dash_nth_height (Fin (of_int H)) i = Fin (of_int (H - 1 - int i))"
      using dash_nth_height_int [OF i assms(1)] .
    let ?rpc = "dash_daemonRpc E ''get_block_header_by_height'' (JObj [(''height'', JNum (Fin (of_int (H - 1 - int i))))])"
    obtain r t where r: "?rpc s = (r, t)" by force
    then have t: "trace t = trace s @ [dash_header_request (Fin (of_int (H - 1 - int i)))]"
      by (auto simp: dash_daemonRpc_def io_simps dash_header_request_def Let_def split: sum.splits if_splits)
    let ?s' = "snd (dash_recent_loop E (Fin (of_int H)) count (i # is) blocks s)"
    have "trace ?s' = trace t \<or> (\<exists>bs. ?s' = snd (dash_recent_loop E (Fin (of_int H)) count is bs t))"
      using True i r by (auto simp: h num_lt_def bindM_run liftE_run Let_def split: sum.splits)
    then consider "trace ?s' = trace t" | bs where "?s' = snd (dash_recent_loop E (Fin (of_int H)) count is bs t)"
      by blast
    then show ?thesis
    proof cases
      case 1
      then show ?thesis using t i by (intro exI [of _ 1]) simp
    next
      case (2 bs)
      obtain m where "m \<le> length is" "trace ?s' = trace t @ map (\<lambda>i. dash_header_request (Fin (of_int (H - 1 - int i)))) (take m is)"
          "\<forall>i \<in> set (take m is). int i < H"
        using Cons.IH [of bs t] unfolding 2 by blast
      then show ?thesis using t i by (intro exI [of _ "Suc m"]) simp
    qed
  qed
qed

definition dash_info_request :: http_request where
  "dash_info_request = get_request (dash_DAEMON_HTTP @ ''/get_info'')"

lemma dash_getInfo_run:
  assumes "env_fetch E (trace s @ [Fetch dash_info_request]) dash_info_request = Inr resp" and "res_json resp = Inr info"
  shows "dash_getJson E (dash_DAEMON_HTTP @ ''/get_info'') s
    = (let t = deliver E dash_listener (note_effect (Fetch dash_info_request) s) in
       (if exit_code t = None then Inr info else Inl process_ended, t))"
  using assms unfolding dash_getJson_def dash_info_request_def [symmetric]
  by (simp add: bindM_run fetch_def awaitM_def liftE_run Let_def)

text \<open>Once the info is there, the effects are those of the loop.\<close>

lemma dash_recent_trace:
  assumes "dash_getJson E (dash_DAEMON_HTTP @ ''/get_info'') s = (Inr info, t)"
    and "\<not> nullish info" and "js_prop info ''height'' = JNum h"
  shows "trace (snd (dash_api_blocks_recent E r s))
    = trace (snd (dash_recent_loop E h (num_min (Fin 20) h) [0..<20] [] t))"
proof -
  define L where "L = [0..<20 :: nat]"
  obtain v u where vu: "dash_recent_loop E h (num_min (Fin 20) h) L [] t = (v, u)" by force
  have "trace (snd (dash_api_blocks_recent E r s)) = trace u"
    unfolding dash_api_blocks_recent_def L_def [symmetric]
    using assms vu by (cases v) (simp_all add: bindM_run try_catch_run json_reply_run status_reply_run)
  then show ?thesis using vu unfolding L_def by simp
qed


definition dash_height_env :: "dash_event env" where
  "dash_height_env = online_env (JObj [(''height'', js_int 3)])"


text \<open>
  C23. The only command \<open>/api/daemon/logs\<close> ever runs is \<open>tail\<close> on the log file with a line count that
  consists of number characters: no part of the query string reaches the shell.
\<close>
theorem dash_logs_command:
  "trace (snd (dash_api_daemon_logs E r s)) = trace s \<or>
   (\<exists>t. list_all number_char t \<and> trace (snd (dash_api_daemon_logs E r s))
      = trace s @ [Exec (''tail -'' @ t @ '' '' @ [CHR 0x22] @ ''/tmp/cocained_local.log'' @ [CHR 0x22])])"
proof -
  have "list_all number_char (num_to_string n)" for n
    using num_to_string_chars [of n] by (simp add: list_all_iff)
  then show ?thesis
    by (cases "dash_log_lines (in_query r)"; cases "env_exists E (trace s) dash_LOG_FILE")
       (auto simp: dash_api_daemon_logs_def bindM_run try_catch_run liftE_run throwM_run existsM_def exec_await_def awaitM_def
          json_reply_run Let_def dash_tail_command_def dash_LOG_FILE_def split: sum.splits)
qed


text \<open>
  C26. A wallet RPC binary that cannot be executed does not harm the dashboard: when the \<open>error\<close>
  event arrives during the wait, the start completes, the server keeps running and no process is
  tracked, so a later request tries again.
\<close>
theorem dash_wallet_error_survived:
  assumes "exit_code s = None" and "walletRpcProcess s = None" and "env_exists E (trace s) (dash_WALLET_RPC_BIN E)"
    and "\<forall>t. env_spawn E t = Inr None" and "\<forall>t. env_events E t = [WalletError]"
  shows "\<exists>s'. dash_startWalletRpc E s = (Inr (), s') \<and> exit_code s' = None \<and> walletRpcProcess s' = None"
  using assms by (simp add: dash_startWalletRpc_def io_simps Let_def deliver_def)

text \<open>Instance of C26.\<close>
theorem dash_wallet_error_survived_witness:
  "\<exists>s'. dash_startWalletRpc (example_env\<lparr>env_spawn := \<lambda>t. Inr None, env_events := \<lambda>t. [WalletError]\<rparr>) dash_init = (Inr (), s')
    \<and> exit_code s' = None \<and> walletRpcProcess s' = None"
  using dash_wallet_error_survived [of dash_init "example_env\<lparr>env_spawn := \<lambda>t. Inr None, env_events := \<lambda>t. [WalletError]\<rparr>"]
  by (simp add: dash_init_def)

text \<open>
  Whether the daemon answers \<open>/get_info\<close> with a success status after the effects \<open>t\<close>.
\<close>

definition dash_up :: "dash_event env \<Rightarrow> effect list \<Rightarrow> bool" where
  "dash_up E t = (case env_fetch E t (get_request (dash_DAEMON_HTTP @ ''/get_info'')) of
     Inl e \<Rightarrow> False | Inr r \<Rightarrow> res_ok r)"

lemma dash_isDaemonRunning_run:
  "quiet E \<Longrightarrow> exit_code s = None \<Longrightarrow> dash_isDaemonRunning E s
    = (Inr (dash_up E (trace s @ [Fetch (get_request (dash_DAEMON_HTTP @ ''/get_info''))])),
       note_effect (Fetch (get_request (dash_DAEMON_HTTP @ ''/get_info''))) s)"
  by (simp add: dash_isDaemonRunning_def dash_up_def io_simps Let_def split: sum.splits)

definition dash_daemon_effects :: "dash_event env \<Rightarrow> effect list" where
  "dash_daemon_effects E = (let probe = Fetch (get_request (dash_DAEMON_HTTP @ ''/get_info'')) in
     [probe, OpenAppend dash_LOG_FILE, OpenAppend dash_LOG_FILE, Spawn (dash_DAEMON_BIN E) (dash_daemon_args E),
      Sleep 3000, probe])"

text \<open>
  C19. Starting the daemon in a quiet environment where files open and processes start: if it already
  answers, the reply is \<open>busy\<close> and nothing is started; otherwise the log is opened, the daemon is
  spawned exactly once, and the reply is \<open>OK\<close> exactly when the daemon answers after three seconds.
\<close>
theorem dash_daemon_start_outcome:
  assumes "quiet E" and "exit_code s = None" and "\<forall>t. env_fs E t = None" and "\<forall>t. env_spawn E t = Inr (Some p)"
  shows "\<exists>a s'. dash_api_daemon_start E r s = (Inr (Reply 200 a), s') \<and>
    (if dash_up E (trace s @ take 1 (dash_daemon_effects E))
     then js_opt a ''status'' = JStr ''busy'' \<and> trace s' = trace s @ take 1 (dash_daemon_effects E)
     else js_opt a ''status'' = JStr (if dash_up E (trace s @ dash_daemon_effects E) then ''OK'' else ''error'')
       \<and> trace s' = trace s @ dash_daemon_effects E \<and> daemonProcess s' = Some \<lparr>child_pid = Some p, child_killed = False\<rparr>)"
  using assms
  by (simp add: dash_api_daemon_start_def bindM_run try_catch_run dash_isDaemonRunning_run json_reply_run fsM_def
      spawnM_def modM_run sleep_def awaitM_def Let_def dash_daemon_effects_def note_effect_def)

text \<open>Instance of C19: nothing listens, before or after.\<close>
theorem dash_daemon_start_outcome_witness:
  "\<exists>a s'. dash_api_daemon_start example_env (with_body (JObj [])) dash_init = (Inr (Reply 200 a), s') \<and>
    (if dash_up example_env (take 1 (dash_daemon_effects example_env))
     then js_opt a ''status'' = JStr ''busy'' \<and> trace s' = take 1 (dash_daemon_effects example_env)
     else js_opt a ''status'' = JStr (if dash_up example_env (dash_daemon_effects example_env) then ''OK'' else ''error'')
       \<and> trace s' = dash_daemon_effects example_env \<and> daemonProcess s' = Some \<lparr>child_pid = Some 4242, child_killed = False\<rparr>)"
proof -
  have "\<not> dash_up example_env t" for t by (simp add: dash_up_def)
  with dash_daemon_start_outcome [of example_env dash_init 4242 "with_body (JObj [])"] show ?thesis
    by (simp add: dash_init_def)
qed

section \<open>The miner's log and the fallback\<close>

lemma dash_first_rate_append:
  "\<forall>l \<in> set ls. rx_search dash_speed_rx l = None \<Longrightarrow> dash_first_rate (ls @ ms) = dash_first_rate ms"
  by (induction ls) simp_all

lemma dash_first_rate_None:
  "\<forall>l \<in> set ls. rx_search dash_speed_rx l = None \<Longrightarrow> dash_first_rate ls = None"
  using dash_first_rate_append [of ls "[]"] by simp

text \<open>
  C20. The reported hash rate is the latest one: if among the last 50 lines of the log the line \<open>l\<close>
  reports a speed and no later line does, reading the log sets the rate to that of \<open>l\<close>, scaled by its
  unit, and the accepted count to the number of occurrences of \<open>accepted\<close> in the whole log; the
  tracked process and its configuration are untouched.
\<close>
theorem dash_hashrate_latest:
  assumes "last_n 50 (split_on (CHR 0x0A) content) = before @ l # after"
    and "rx_search dash_speed_rx l = Some m" and "list_all (\<lambda>x. rx_search dash_speed_rx x = None) after"
  shows "dash_scan_log content s = s\<lparr>xmrigHashrate := dash_rate m, xmrigAccepted := count_i ''accepted'' content\<rparr>"
proof -
  have "dash_first_rate (rev (before @ l # after)) = dash_first_rate (rev after @ l # rev before)" by simp
  also have "\<dots> = Some (dash_rate m)"
    using assms(2,3) dash_first_rate_append [of "rev after"] by (simp add: list_all_iff)
  finally show ?thesis using assms(1) by (simp add: dash_scan_log_def Let_def)
qed

definition dash_log_line :: string where
  "dash_log_line = ''speed 10s/60s/15m 2.5 kH/s''"

text \<open>Instance of C20: one line that reports 2.5 kH/s, read as 2500 H/s.\<close>
theorem dash_hashrate_latest_witness:
  "dash_scan_log dash_log_line dash_init = dash_init\<lparr>xmrigHashrate := Fin 2500, xmrigAccepted := 0\<rparr>"
proof -
  define m where "m = (case rx_search dash_speed_rx dash_log_line of Some m \<Rightarrow> m | None \<Rightarrow> [])"
  have m: "rx_search dash_speed_rx dash_log_line = Some m" unfolding m_def by code_simp
  have r: "dash_rate m = Fin 2500" unfolding m_def by code_simp
  have lines: "last_n 50 (split_on (CHR 0x0A) dash_log_line) = [] @ dash_log_line # []" by code_simp
  have "count_i ''accepted'' dash_log_line = 0" by code_simp
  then show ?thesis using dash_hashrate_latest [OF lines m, of dash_init] r by simp
qed

text \<open>
  C24. When XMRig is installed but its configuration cannot be written, mining falls back to the
  daemon's own miner: no process is spawned, the last request asks the daemon to start mining with
  the address pasted into the URL as it came, and the answer is what the daemon said, marked as
  \<open>builtin\<close>.
\<close>
theorem dash_mining_fallback:
  assumes "quiet E" and "\<forall>t p. env_exists E t p" and "\<forall>t. env_fs E t = Some e" and "exit_code s = None"
    and "xmrigProcess s = None" and "in_body r = JObj [(''address'', JStr a), (''threads'', js_nat n)]"
    and "a \<noteq> []" and "0 < n" and "\<forall>t q. env_fetch E t q = Inr \<lparr>res_status = 200, res_json = Inr (JObj ps)\<rparr>"
  shows "\<exists>s'. dash_api_mining_start E r s = (Inr (Reply 200 (JObj (own_set ''miner'' (JStr ''builtin'') (spread_onto [] (JObj ps))))), s')
    \<and> xmrigProcess s' = None \<and> trace s' = trace s @ [Fetch (get_request (dash_DAEMON_HTTP @ ''/stop_mining'')),
        WriteFile dash_configPath (stringify_pretty (dash_xmrig_config (JStr a))),
        Fetch (get_request (dash_DAEMON_HTTP @ ''/start_mining?miner_address='' @ a @ ''&threads_count='' @ num_to_string (Fin (of_nat n))))]"
  using assms
  by (simp add: dash_api_mining_start_def dash_kill_xmrig_def dash_xmrig_running_def dash_isXmrigAvailable_def
      dash_start_xmrig_def dash_start_builtin_def dash_builtin_url_def dash_getJson_def io_simps Let_def note_effect_def)

definition dash_full_disk :: "dash_event env" where
  "dash_full_disk = (online_env (JObj [(''status'', JStr ''OK'')]))\<lparr>env_fs := \<lambda>t. Some (Exn ''ENOSPC'')\<rparr>"

text \<open>Instance of C24: a full disk, and an address that smuggles a second parameter into the URL.\<close>
theorem dash_mining_fallback_witness:
  "\<exists>s'. dash_api_mining_start dash_full_disk
      (with_body (JObj [(''address'', JStr ''4abc&x=1''), (''threads'', js_nat 2)])) dash_init
        = (Inr (Reply 200 (JObj (own_set ''miner'' (JStr ''builtin'') (spread_onto [] (JObj [(''status'', JStr ''OK'')]))))), s')
    \<and> xmrigProcess s' = None \<and> trace s' = trace dash_init @ [Fetch (get_request (dash_DAEMON_HTTP @ ''/stop_mining'')),
        WriteFile dash_configPath (stringify_pretty (dash_xmrig_config (JStr ''4abc&x=1''))),
        Fetch (get_request (dash_DAEMON_HTTP @ ''/start_mining?miner_address='' @ ''4abc&x=1'' @ ''&threads_count='' @ num_to_string (Fin (of_nat 2))))]"
  by (rule dash_mining_fallback [where e = "Exn ''ENOSPC''"])
     (simp_all add: dash_full_disk_def quiet_def online_env_def dash_init_def)

end
