(* ===== verification/Controller.thy ===== *)
theory Controller
  imports Node_Env
begin

text \<open>
  \<open>dashboard/controller.js\<close>: the local process controller. It starts and stops the daemon and an
  XMRig miner, tracks their process ids, and reads their log files. Handlers are named after their
  routes. The daemon endpoints and log endpoints come first, then the miner endpoints, the step
  relation over requests and events, and what holds in every reachable state.
\<close>

section \<open>Constants and state\<close>

definition ctl_PORT :: int where
  "ctl_PORT = 8787"

definition ctl_DAEMON_RPC :: string where
  "ctl_DAEMON_RPC = ''http://127.0.0.1:19081''"

definition ctl_SEED_NODE :: string where
  "ctl_SEED_NODE = ''138.68.128.104:19080''"

definition ctl_SCRIPT_DIR :: "'e env \<Rightarrow> string" where
  "ctl_SCRIPT_DIR E = path_join [env_dirname E, ''..'']"

definition ctl_DAEMON_BIN :: "'e env \<Rightarrow> string" where
  "ctl_DAEMON_BIN E = path_join [ctl_SCRIPT_DIR E, ''build'', ''bin'', ''cocained'']"

definition ctl_DATA_DIR :: "'e env \<Rightarrow> string" where
  "ctl_DATA_DIR E = path_join [ctl_SCRIPT_DIR E, ''blockchain'']"

definition ctl_LOG_DIR :: "'e env \<Rightarrow> string" where
  "ctl_LOG_DIR E = path_join [ctl_SCRIPT_DIR E, ''logs'']"

definition ctl_DAEMON_LOG :: "'e env \<Rightarrow> string" where
  "ctl_DAEMON_LOG E = path_join [ctl_LOG_DIR E, ''daemon.log'']"

definition ctl_MINER_LOG :: "'e env \<Rightarrow> string" where
  "ctl_MINER_LOG E = path_join [ctl_LOG_DIR E, ''miner.log'']"

text \<open>The module's \<open>let\<close> variables; a process id is \<open>null\<close>, \<open>undefined\<close> (failed start) or a number.\<close>

record ctl = io_base +
  ctl_daemonProcess :: "child option"
  ctl_minerProcess :: "child option"
  ctl_daemonPid :: js
  ctl_minerPid :: js
  ctl_minerConfig :: js

definition ctl_init :: ctl where
  "ctl_init = \<lparr>trace = [], exit_code = None, ctl_daemonProcess = None, ctl_minerProcess = None,
     ctl_daemonPid = JNull, ctl_minerPid = JNull, ctl_minerConfig = JNull\<rparr>"

text \<open>
  Events: the \<open>exit\<close> listeners of both processes and the callback of \<open>pgrep\<close>. Neither process nor
  the log streams have an \<open>error\<close> listener, so an \<open>error\<close> event ends the controller.
\<close>

datatype ctl_event = CtlDaemonExit int | CtlMinerExit int | CtlError | CtlPgrep "exn + string"

fun ctl_listener :: "ctl_event \<Rightarrow> ctl \<Rightarrow> ctl" where
  "ctl_listener (CtlDaemonExit c) s = s\<lparr>ctl_daemonPid := JNull, ctl_daemonProcess := None\<rparr>"
| "ctl_listener (CtlMinerExit c) s =
     s\<lparr>ctl_minerPid := JNull, ctl_minerProcess := None, ctl_minerConfig := JNull\<rparr>"
| "ctl_listener CtlError s = s\<lparr>exit_code := Some 1\<rparr>"
| "ctl_listener (CtlPgrep r) s = (case r of Inl e \<Rightarrow> s
     | Inr stdout \<Rightarrow> if js_trim stdout = [] then s
                     else s\<lparr>ctl_daemonPid := JNum (parseInt_text (js_trim stdout))\<rparr>)"

definition pid_js :: "child \<Rightarrow> js" where
  "pid_js c = (case child_pid c of None \<Rightarrow> JUndef | Some p \<Rightarrow> js_int p)"

section \<open>Helpers\<close>

text \<open>\<open>process.kill(pid, 0)\<close> in a \<open>try\<close>: whether the process exists.\<close>

definition ctl_isProcessRunning :: "ctl_event env \<Rightarrow> js \<Rightarrow> (ctl, bool) io" where
  "ctl_isProcessRunning E pid =
     getM (\<lambda>s. case as_pid pid of None \<Rightarrow> False | Some p \<Rightarrow> env_alive E (trace s) p)"

definition ctl_kill :: "ctl_event env \<Rightarrow> js \<Rightarrow> (ctl, unit) io" where
  "ctl_kill E pid = (case as_pid pid of
     None \<Rightarrow> throwM (Exn ''The pid argument must be of type number'')
   | Some p \<Rightarrow> killM E p ''SIGTERM'')"

text \<open>\<open>pid && isProcessRunning(pid)\<close> as a condition.\<close>

definition ctl_tracked_alive :: "ctl_event env \<Rightarrow> js \<Rightarrow> (ctl, bool) io" where
  "ctl_tracked_alive E pid = (if truthy pid then ctl_isProcessRunning E pid else ret False)"

text \<open>\<open>xs.slice(-n)\<close>: a negative start counts from the end.\<close>

definition slice_from :: "int \<Rightarrow> 'a list \<Rightarrow> 'a list" where
  "slice_from k xs = drop (nat (if k < 0 then max 0 (int (length xs) + k) else k)) xs"

definition slice_last :: "jsnum \<Rightarrow> 'a list \<Rightarrow> 'a list" where
  "slice_last n xs = (case n of NaN \<Rightarrow> xs | Inf negative \<Rightarrow> (if negative then [] else xs)
     | Fin x \<Rightarrow> slice_from (if x < 0 then \<lfloor>- x\<rfloor> else - \<lfloor>x\<rfloor>) xs)"

definition ctl_readLogTail :: "ctl_event env \<Rightarrow> string \<Rightarrow> jsnum \<Rightarrow> (ctl, string list) io" where
  "ctl_readLogTail E filePath lines =
     try_catch
       (bindM (existsM E filePath) (\<lambda>ex.
        if \<not> ex then ret []
        else bindM (readFileM E filePath) (\<lambda>content. ret (slice_last lines (nonblank_lines content)))))
       (\<lambda>e. ret [''Error reading log: '' @ message e])"

text \<open>A fetch of \<open>/get_info\<close> in a \<open>try\<close> block: whether the daemon answered with a success status.\<close>

definition ctl_daemon_up :: "ctl_event env \<Rightarrow> (ctl, bool) io" where
  "ctl_daemon_up E =
     try_catch (bindM (fetch E ctl_listener (get_request (ctl_DAEMON_RPC @ ''/get_info''))) (\<lambda>r. ret (res_ok r)))
       (\<lambda>_. ret False)"

section \<open>Daemon endpoints\<close>

definition ctl_pkill :: string where
  "ctl_pkill = ''pkill -f '' @ [CHR 0x22] @ ''cocained.*blockchain'' @ [CHR 0x22] @ '' || true''"

definition ctl_pgrep :: string where
  "ctl_pgrep = ''pgrep -f '' @ [CHR 0x22] @ ''cocained.*blockchain'' @ [CHR 0x22]"

definition ctl_daemon_args :: "'e env \<Rightarrow> string list" where
  "ctl_daemon_args E = [''--data-dir'', ctl_DATA_DIR E, ''--log-level'', ''1'', ''--rpc-bind-ip'', ''127.0.0.1'',
     ''--rpc-bind-port'', ''19081'', ''--p2p-bind-ip'', ''127.0.0.1'', ''--p2p-bind-port'', ''19080'',
     ''--add-exclusive-node'', ctl_SEED_NODE]"

text \<open>The \<open>for\<close> loop that waits for the daemon: one second, then a check, \<open>n\<close> times at most.\<close>

fun ctl_wait_daemon :: "ctl_event env \<Rightarrow> nat \<Rightarrow> (ctl, bool) io" where
  "ctl_wait_daemon E 0 = ret False"
| "ctl_wait_daemon E (Suc n) =
     bindM (sleep E ctl_listener 1000) (\<lambda>_.
     bindM (ctl_daemon_up E) (\<lambda>up. if up then ret True else ctl_wait_daemon E n))"

definition ctl_busy :: "string \<Rightarrow> js" where
  "ctl_busy what = JObj [(''status'', JStr ''busy''), (''message'', JStr (what @ '' already running''))]"

definition ctl_fail :: "exn \<Rightarrow> js" where
  "ctl_fail e = JObj [(''status'', JStr ''error''), (''error'', JStr (message e))]"

definition ctl_daemon_start :: "ctl_event env \<Rightarrow> http_in \<Rightarrow> (ctl, reply) io" where
  "ctl_daemon_start E req =
     bindM (ctl_daemon_up E) (\<lambda>up.
     if up then json_reply (ctl_busy ''Daemon'')
     else
     bindM (getM ctl_daemonPid) (\<lambda>pid.
     bindM (ctl_tracked_alive E pid) (\<lambda>alive.
     if alive then json_reply (ctl_busy ''Daemon'')
     else
     try_catch
       (bindM (if env_platform E \<noteq> ''win32'' then doM (Exec ctl_pkill) else ret ()) (\<lambda>_.
        bindM (createWriteStreamM (ctl_DAEMON_LOG E)) (\<lambda>logStream.
        bindM (spawn_stdioM E (ctl_DAEMON_BIN E) (ctl_daemon_args E) logStream) (\<lambda>c.
        bindM (modM (\<lambda>s. s\<lparr>ctl_daemonProcess := Some c, ctl_daemonPid := pid_js c\<rparr>)) (\<lambda>_.
        bindM (ctl_wait_daemon E 10) (\<lambda>started.
        bindM (getM ctl_daemonPid) (\<lambda>pid.
        json_reply (JObj [(''status'', JStr ''OK''), (''pid'', pid),
          (''message'', JStr (if started then ''Daemon started'' else ''Daemon started (verifying...)''))]))))))))
       (\<lambda>error. status_reply 500 (ctl_fail error)))))"

definition ctl_daemon_stop :: "ctl_event env \<Rightarrow> http_in \<Rightarrow> (ctl, reply) io" where
  "ctl_daemon_stop E req =
     try_catch
       (bindM (getM ctl_daemonPid) (\<lambda>pid.
        bindM (ctl_tracked_alive E pid) (\<lambda>alive.
        bindM (if alive then try_catch (ctl_kill E pid) (\<lambda>_. ret ()) else ret ()) (\<lambda>_.
        bindM (doM (Exec (if env_platform E \<noteq> ''win32'' then ctl_pkill
                          else ''taskkill /F /IM cocained.exe 2>nul || true''))) (\<lambda>_.
        bindM (sleep E ctl_listener 2000) (\<lambda>_.
        bindM (modM (\<lambda>s. s\<lparr>ctl_daemonPid := JNull, ctl_daemonProcess := None\<rparr>)) (\<lambda>_.
        json_reply (JObj [(''status'', JStr ''OK''), (''message'', JStr ''Daemon stopped'')]))))))))
       (\<lambda>error. status_reply 500 (ctl_fail error))"

text \<open>The answer for a daemon that responds: fixed fields, then everything the daemon reported.\<close>

definition ctl_status_obj :: "js \<Rightarrow> js \<Rightarrow> js \<Rightarrow> js" where
  "ctl_status_obj pid peers data = JObj (spread_onto
     [(''running'', JBool True), (''pid'', js_or pid (JStr ''unknown'')), (''height'', js_prop data ''height''),
      (''synced'', js_prop data ''synchronized''), (''peers'', peers),
      (''outgoing'', js_or (js_prop data ''outgoing_connections_count'') (js_nat 0)),
      (''incoming'', js_or (js_prop data ''incoming_connections_count'') (js_nat 0)),
      (''busy_syncing'', js_or (js_prop data ''busy_syncing'') (JBool False)),
      (''target_height'', js_or (js_prop data ''target_height'') (js_nat 0))] data)"

definition ctl_daemon_status :: "ctl_event env \<Rightarrow> http_in \<Rightarrow> (ctl, reply) io" where
  "ctl_daemon_status E req =
     try_catch
       (bindM (fetch E ctl_listener (get_request (ctl_DAEMON_RPC @ ''/get_info''))) (\<lambda>response.
        if \<not> res_ok response then
          bindM (getM ctl_daemonPid) (\<lambda>pid.
          bindM (ctl_tracked_alive E pid) (\<lambda>alive.
          if alive then json_reply (JObj [(''running'', JBool True), (''pid'', pid), (''error'', JStr ''Daemon starting...'')])
          else json_reply (JObj [(''running'', JBool False), (''error'', JStr ''Daemon not responding'')])))
        else
          bindM (liftE (res_json response)) (\<lambda>data.
          bindM (liftE (js_get data ''outgoing_connections_count'')) (\<lambda>outgoing.
          bindM (liftE (js_add (js_or outgoing (js_nat 0))
             (js_or (js_prop data ''incoming_connections_count'') (js_nat 0)))) (\<lambda>peers.
          bindM (getM ctl_daemonPid) (\<lambda>pid.
          bindM (if \<not> truthy pid \<and> env_platform E \<noteq> ''win32'' then doM (Exec ctl_pgrep) else ret ()) (\<lambda>_.
          json_reply (ctl_status_obj pid peers data))))))))
       (\<lambda>error. json_reply (JObj [(''running'', JBool False), (''error'', JStr (message error))]))"

text \<open>
  The log and miner status handlers are plain functions. What they raise is answered by the error
  page of Express, which is not a JSON value.
\<close>

definition express_guard :: "('z io_base_scheme, reply) io \<Rightarrow> ('z io_base_scheme, reply) io" where
  "express_guard m = try_catch m (\<lambda>_. status_reply 500 JUndef)"

definition ctl_log_lines :: "js \<Rightarrow> exn + jsnum" where
  "ctl_log_lines query = (case js_get query ''lines'' of Inl e \<Rightarrow> Inl e
     | Inr l \<Rightarrow> (case js_parseInt l of Inl e \<Rightarrow> Inl e
         | Inr n \<Rightarrow> Inr (if truthy (JNum n) then n else Fin 50)))"

definition ctl_logs :: "ctl_event env \<Rightarrow> string \<Rightarrow> http_in \<Rightarrow> (ctl, reply) io" where
  "ctl_logs E file req = express_guard
     (bindM (liftE (ctl_log_lines (in_query req))) (\<lambda>lines.
      bindM (ctl_readLogTail E file lines) (\<lambda>logs.
      json_reply (JObj [(''logs'', JArr (map JStr logs))]))))"

definition ctl_daemon_logs :: "ctl_event env \<Rightarrow> http_in \<Rightarrow> (ctl, reply) io" where
  "ctl_daemon_logs E = ctl_logs E (ctl_DAEMON_LOG E)"

definition ctl_miner_logs :: "ctl_event env \<Rightarrow> http_in \<Rightarrow> (ctl, reply) io" where
  "ctl_miner_logs E = ctl_logs E (ctl_MINER_LOG E)"

section \<open>Miner endpoints\<close>

definition ctl_xmrig_paths :: "'e env \<Rightarrow> string list" where
  "ctl_xmrig_paths E = [path_join [ctl_SCRIPT_DIR E, ''xmrig''], path_join [ctl_SCRIPT_DIR E, ''xmrig.exe''],
     path_join [ctl_SCRIPT_DIR E, ''tools'', ''xmrig''], path_join [ctl_SCRIPT_DIR E, ''tools'', ''xmrig.exe''],
     ''/usr/local/bin/xmrig'', ''xmrig'', ''xmrig.exe'']"

text \<open>The search loop: a bare command name is taken without looking.\<close>

fun ctl_find_xmrig :: "ctl_event env \<Rightarrow> string list \<Rightarrow> (ctl, string option) io" where
  "ctl_find_xmrig E [] = ret None"
| "ctl_find_xmrig E (p # ps) =
     (if p = ''xmrig'' \<or> p = ''xmrig.exe'' then ret (Some p)
      else bindM (existsM E p) (\<lambda>ex. if ex then ret (Some p) else ctl_find_xmrig E ps))"

definition ctl_xmrig_config :: "'e env \<Rightarrow> js \<Rightarrow> js \<Rightarrow> js" where
  "ctl_xmrig_config E address threads = JObj [(''autosave'', JBool True),
     (''cpu'', JObj [(''enabled'', JBool True), (''huge-pages'', JBool True), (''hw-aes'', JNull),
        (''priority'', JNull), (''memory-pool'', JBool False), (''yield'', JBool True)]),
     (''opencl'', JBool False), (''cuda'', JBool False), (''donate-level'', js_nat 0),
     (''log-file'', JStr (ctl_MINER_LOG E)),
     (''pools'', JArr [JObj [(''algo'', JStr ''cryptonight''), (''coin'', JNull), (''url'', JStr ''127.0.0.1:19081''),
        (''user'', address), (''pass'', JStr ''x''), (''rig-id'', JNull), (''nicehash'', JBool False),
        (''keepalive'', JBool True), (''enabled'', JBool True), (''tls'', JBool False),
        (''tls-fingerprint'', JNull), (''daemon'', JBool True), (''daemon-poll-interval'', js_nat 1000)]]),
     (''retries'', js_nat 5), (''retry-pause'', js_nat 5), (''print-time'', js_nat 60),
     (''health-print-time'', js_nat 60), (''syslog'', JBool False), (''user-agent'', JNull),
     (''verbose'', js_nat 0), (''colors'', JBool False), (''threads'', js_or threads (js_nat 2))]"

definition ctl_configPath :: "'e env \<Rightarrow> string" where
  "ctl_configPath E = path_join [ctl_LOG_DIR E, ''xmrig-config.json'']"

definition ctl_no_xmrig :: js where
  "ctl_no_xmrig = JObj [(''status'', JStr ''error''), (''error'', JStr ''XMRig not found. Please install XMRig first.''),
     (''install'', JStr ''Download from https://github.com/xmrig/xmrig/releases'')]"

text \<open>Writing the configuration and starting XMRig; the globals change without a wait between.\<close>

definition ctl_launch_miner :: "ctl_event env \<Rightarrow> string \<Rightarrow> js \<Rightarrow> js \<Rightarrow> (ctl, reply) io" where
  "ctl_launch_miner E xmrigBin address threads =
     bindM (fsM E (WriteFile (ctl_configPath E) (stringify_pretty (ctl_xmrig_config E address threads)))) (\<lambda>_.
     bindM (spawnM E xmrigBin [''--config'', ctl_configPath E]) (\<lambda>c.
     bindM (modM (\<lambda>s. note_effect (OpenAppend (ctl_MINER_LOG E)) (s\<lparr>ctl_minerProcess := Some c\<rparr>)
         \<lparr>ctl_minerPid := pid_js c,
          ctl_minerConfig := JObj [(''address'', address), (''threads'', js_or threads (js_nat 2))]\<rparr>)) (\<lambda>_.
     json_reply (JObj [(''status'', JStr ''OK''), (''pid'', pid_js c), (''address'', address),
       (''threads'', js_or threads (js_nat 2)), (''message'', JStr ''Miner started'')]))))"

text \<open>The check that the daemon answers; the answer to send when it does not.\<close>

definition ctl_need_daemon :: "ctl_event env \<Rightarrow> (ctl, js option) io" where
  "ctl_need_daemon E =
     try_catch
       (bindM (fetch E ctl_listener (get_request (ctl_DAEMON_RPC @ ''/get_info''))) (\<lambda>daemonStatus.
        ret (if res_ok daemonStatus then None
             else Some (JObj [(''status'', JStr ''error''), (''error'', JStr ''Daemon not running. Start daemon first.'')]))))
       (\<lambda>_. ret (Some (JObj [(''status'', JStr ''error''),
              (''error'', JStr ''Cannot connect to daemon. Start daemon first.'')])))"

definition ctl_miner_start :: "ctl_event env \<Rightarrow> http_in \<Rightarrow> (ctl, reply) io" where
  "ctl_miner_start E req =
     bindM (liftE (js_get (in_body req) ''address'')) (\<lambda>address.
     bindM (liftE (js_get (in_body req) ''threads'')) (\<lambda>threads.
     if \<not> truthy address
     then status_reply 400 (JObj [(''status'', JStr ''error''), (''error'', JStr ''Mining address required'')])
     else
     bindM (getM ctl_minerProcess) (\<lambda>p.
     bindM (getM ctl_minerPid) (\<lambda>pid.
     bindM (if p \<noteq> None then ctl_isProcessRunning E pid else ret False) (\<lambda>busy.
     if busy then json_reply (ctl_busy ''Miner'')
     else
     bindM (ctl_need_daemon E) (\<lambda>problem.
     case problem of Some v \<Rightarrow> status_reply 400 v
     | None \<Rightarrow>
       try_catch
         (bindM (ctl_find_xmrig E (ctl_xmrig_paths E)) (\<lambda>xmrigBin.
          case xmrigBin of None \<Rightarrow> status_reply 400 ctl_no_xmrig
          | Some b \<Rightarrow> ctl_launch_miner E b address threads))
         (\<lambda>error. status_reply 500 (ctl_fail error))))))))"

definition ctl_miner_stop :: "ctl_event env \<Rightarrow> http_in \<Rightarrow> (ctl, reply) io" where
  "ctl_miner_stop E req =
     try_catch
       (bindM (getM ctl_minerPid) (\<lambda>pid.
        bindM (ctl_tracked_alive E pid) (\<lambda>alive.
        bindM (if alive then bindM (ctl_kill E pid) (\<lambda>_. sleep E ctl_listener 1000) else ret ()) (\<lambda>_.
        bindM (modM (\<lambda>s. s\<lparr>ctl_minerPid := JNull, ctl_minerProcess := None, ctl_minerConfig := JNull\<rparr>)) (\<lambda>_.
        json_reply (JObj [(''status'', JStr ''OK''), (''message'', JStr ''Miner stopped'')]))))))
       (\<lambda>error. status_reply 500 (ctl_fail error))"

text \<open>\<open>/speed.*?(\d+\.?\d*)\s+H\/s/\<close>.\<close>

definition ctl_speed_rx :: "rx_item list" where
  "ctl_speed_rx = lit ''speed'' @ [Lazy not_newline] @ decimal_group @ rx_plus js_space @ lit ''H/s''"

text \<open>The loop over the reversed log lines: hash rate, accepted and rejected shares.\<close>

fun ctl_scan_log :: "string list \<Rightarrow> nat \<Rightarrow> nat \<Rightarrow> jsnum \<times> nat \<times> nat" where
  "ctl_scan_log [] accepted rejected = (Fin 0, accepted, rejected)"
| "ctl_scan_log (line # ls) accepted rejected =
     (case rx_search ctl_speed_rx line of
        Some m \<Rightarrow> (parseFloat_text (capture m 1), accepted, rejected)
      | None \<Rightarrow> ctl_scan_log ls (if includes_sub line ''accepted'' then Suc accepted else accepted)
                                (if includes_sub line ''rejected'' then Suc rejected else rejected))"

definition ctl_miner_status :: "ctl_event env \<Rightarrow> http_in \<Rightarrow> (ctl, reply) io" where
  "ctl_miner_status E req = express_guard
     (bindM (getM ctl_minerPid) (\<lambda>pid.
      bindM (ctl_isProcessRunning E pid) (\<lambda>alive.
      bindM (ctl_readLogTail E (ctl_MINER_LOG E) (Fin 20)) (\<lambda>logs.
      bindM (getM ctl_minerConfig) (\<lambda>config.
      case ctl_scan_log (rev logs) 0 0 of (hashrate, accepted, rejected) \<Rightarrow>
        json_reply (JObj [(''running'', js_and pid (JBool alive)), (''pid'', pid),
          (''address'', js_or (js_opt config ''address'') JNull),
          (''threads'', js_or (js_opt config ''threads'') (js_nat 0)),
          (''hashrate'', JNum hashrate), (''accepted'', js_nat accepted), (''rejected'', js_nat rejected)]))))))"

section \<open>Start-up, shut-down, steps\<close>

definition ctl_startup :: "ctl_event env \<Rightarrow> (ctl, unit) io" where
  "ctl_startup E = bindM (mkdir_missing E (ctl_LOG_DIR E)) (\<lambda>_. mkdir_missing E (ctl_DATA_DIR E))"

definition ctl_on_sigint :: "ctl_event env \<Rightarrow> (ctl, unit) io" where
  "ctl_on_sigint E =
     bindM (getM ctl_minerPid) (\<lambda>m.
     bindM (if truthy m then ctl_kill E m else ret ()) (\<lambda>_.
     bindM (getM ctl_daemonPid) (\<lambda>d.
     bindM (if truthy d then ctl_kill E d else ret ()) (\<lambda>_.
     exitM 0))))"

type_synonym ctl_handler = "ctl_event env \<Rightarrow> http_in \<Rightarrow> (ctl, reply) io"

definition ctl_routes :: "((string \<times> string) \<times> ctl_handler) list" where
  "ctl_routes =
    [((''POST'', ''/daemon/start''), ctl_daemon_start),
     ((''POST'', ''/daemon/stop''), ctl_daemon_stop),
     ((''GET'', ''/daemon/status''), ctl_daemon_status),
     ((''GET'', ''/daemon/logs''), ctl_daemon_logs),
     ((''POST'', ''/miner/start''), ctl_miner_start),
     ((''POST'', ''/miner/stop''), ctl_miner_stop),
     ((''GET'', ''/miner/status''), ctl_miner_status),
     ((''GET'', ''/miner/logs''), ctl_miner_logs)]"

inductive ctl_step :: "ctl_event env \<Rightarrow> ctl \<Rightarrow> ctl \<Rightarrow> bool" for E where
  request: "exit_code s = None \<Longrightarrow> (rt, h) \<in> set ctl_routes \<Longrightarrow> \<not> nullish (in_body r) \<Longrightarrow>
     ctl_step E s (settle (h E r) s)"
| event: "exit_code s = None \<Longrightarrow> ctl_step E s (ctl_listener e s)"
| sigint: "exit_code s = None \<Longrightarrow> ctl_step E s (settle (ctl_on_sigint E) s)"

inductive ctl_reachable :: "ctl_event env \<Rightarrow> ctl \<Rightarrow> bool" for E where
  start: "ctl_reachable E (settle (ctl_startup E) ctl_init)"
| step: "ctl_reachable E s \<Longrightarrow> ctl_step E s t \<Longrightarrow> ctl_reachable E t"

section \<open>Every request is answered\<close>

lemmas ctl_daemon_defs = ctl_daemon_start_def ctl_daemon_stop_def ctl_daemon_status_def
  ctl_daemon_logs_def ctl_logs_def

lemmas ctl_miner_defs = ctl_miner_start_def ctl_miner_stop_def ctl_miner_status_def ctl_miner_logs_def

lemma ctl_helpers_no_throw [no_throw_intros]:
  "no_throw (ctl_daemon_up E)" "no_throw (ctl_isProcessRunning E pid)" "no_throw (ctl_tracked_alive E pid)"
  "no_throw (ctl_need_daemon E)" "no_throw (express_guard m)"
  unfolding ctl_daemon_up_def ctl_isProcessRunning_def ctl_tracked_alive_def ctl_need_daemon_def
    express_guard_def
  by (intro no_throw_intros)+

lemma ctl_routes_no_throw:
  assumes "(rt, h) \<in> set ctl_routes" and "\<not> nullish (in_body r)"
  shows "no_throw (h E r)"
  using assms unfolding ctl_routes_def
  by (auto simp: ctl_daemon_defs ctl_miner_defs js_get_def intro!: no_throw_intros)

section \<open>The miner's globals\<close>

text \<open>
  The process, its id and its configuration are set and cleared together; the configuration of a
  tracked miner names an address.
\<close>

definition ctl_miner_inv :: "ctl \<Rightarrow> bool" where
  "ctl_miner_inv s \<longleftrightarrow>
     (ctl_minerProcess s = None \<longrightarrow> ctl_minerPid s = JNull \<and> ctl_minerConfig s = JNull) \<and>
     (\<forall>c. ctl_minerProcess s = Some c \<longrightarrow>
        ctl_minerPid s = pid_js c \<and> truthy (js_opt (ctl_minerConfig s) ''address''))"

text \<open>No daemon process is ever tracked.\<close>

definition ctl_inv :: "ctl \<Rightarrow> bool" where
  "ctl_inv s \<longleftrightarrow> ctl_miner_inv s \<and> ctl_daemonProcess s = None"

lemma ctl_inv_other [simp]:
  "ctl_inv (note_effect ef s) = ctl_inv s" "ctl_inv (s\<lparr>exit_code := x\<rparr>) = ctl_inv s"
  "ctl_inv (s\<lparr>ctl_daemonPid := v\<rparr>) = ctl_inv s"
  by (simp_all add: ctl_inv_def ctl_miner_inv_def note_effect_def)

lemma ctl_listener_inv: "ctl_inv s \<Longrightarrow> ctl_inv (ctl_listener e s)"
  by (cases e) (auto simp: ctl_inv_def ctl_miner_inv_def split: sum.splits)

lemma stable_ctl_inv: "stable ctl_listener ctl_inv"
  by (simp add: stable_def ctl_listener_inv)

lemmas ctl_keeps = keeps_effects [OF stable_ctl_inv]

lemma ctl_helpers_keep [keeps_intros]:
  "keeps ctl_inv (ctl_daemon_up E)" "keeps ctl_inv (ctl_isProcessRunning E pid)"
  "keeps ctl_inv (ctl_tracked_alive E pid)" "keeps ctl_inv (ctl_need_daemon E)"
  "keeps ctl_inv (ctl_kill E pid)" "keeps ctl_inv (ctl_readLogTail E f n)"
  "keeps ctl_inv (createWriteStreamM f)"
  unfolding ctl_daemon_up_def ctl_isProcessRunning_def ctl_tracked_alive_def ctl_need_daemon_def
    ctl_kill_def ctl_readLogTail_def
  by ((intro keeps_intros ctl_keeps | simp add: keeps_def createWriteStreamM_def)+)

lemma ctl_find_xmrig_keeps [keeps_intros]: "keeps P (ctl_find_xmrig E ps)"
  by (induction ps) (auto intro!: keeps_intros)

text \<open>A stream that has just been created has no descriptor, so \<open>spawn\<close> on it raises.\<close>

lemma spawn_new_stream:
  "bindM (createWriteStreamM p) (\<lambda>w. bindM (spawn_stdioM E bin args w) f)
     = (\<lambda>s. (Inl (Exn (''The argument '' @ [CHR 0x27] @ ''stdio'' @ [CHR 0x27] @ '' is invalid. Received '' @
        env_inspect E p)), note_effect (OpenAppend p) s))"
  by (simp add: fun_eq_iff bindM_run createWriteStreamM_def spawn_stdioM_def throwM_def)

lemma ctl_launch_keeps: "truthy address \<Longrightarrow> keeps ctl_inv (ctl_launch_miner E b address threads)"
  unfolding ctl_launch_miner_def
  by (intro keeps_intros ctl_keeps)
     (simp add: ctl_inv_def ctl_miner_inv_def note_effect_def)

lemma keeps_new_stream:
  "keeps ctl_inv (bindM (createWriteStreamM p) (\<lambda>w. bindM (spawn_stdioM E bin args w) f))"
  by (simp add: spawn_new_stream keeps_def)

lemma ctl_inv_clear [simp]:
  "ctl_inv s \<Longrightarrow> ctl_inv (s\<lparr>ctl_daemonPid := v, ctl_daemonProcess := None\<rparr>)"
  "ctl_inv s \<Longrightarrow> ctl_inv (s\<lparr>ctl_minerPid := JNull, ctl_minerProcess := None, ctl_minerConfig := JNull\<rparr>)"
  by (simp_all add: ctl_inv_def ctl_miner_inv_def)

lemma ctl_daemon_start_keeps: "keeps ctl_inv (ctl_daemon_start E r)"
  unfolding ctl_daemon_start_def
  by (intro keeps_new_stream keeps_intros ctl_keeps)

lemma ctl_routes_inv:
  assumes "(rt, h) \<in> set ctl_routes" and "\<not> nullish (in_body r)"
  shows "keeps ctl_inv (h E r)"
  using assms unfolding ctl_routes_def
  by (auto simp: ctl_daemon_stop_def ctl_daemon_status_def ctl_daemon_logs_def ctl_logs_def
      ctl_miner_defs js_get_def express_guard_def
      intro!: ctl_daemon_start_keeps keeps_intros ctl_keeps ctl_launch_keeps)

lemma ctl_on_sigint_inv: "keeps ctl_inv (ctl_on_sigint E)"
  unfolding ctl_on_sigint_def exitM_def by (intro keeps_intros ctl_keeps) simp

lemma settle_ctl_inv: "keeps ctl_inv m \<Longrightarrow> ctl_inv s \<Longrightarrow> ctl_inv (settle m s)"
  by (rule keeps_settle) simp_all

lemma ctl_step_inv: "ctl_step E s t \<Longrightarrow> ctl_inv s \<Longrightarrow> ctl_inv t"
  by (induction rule: ctl_step.induct)
     (blast intro: settle_ctl_inv ctl_routes_inv ctl_listener_inv ctl_on_sigint_inv)+

lemma ctl_startup_inv: "keeps ctl_inv (ctl_startup E)"
  unfolding ctl_startup_def by (intro keeps_intros mkdir_missing_keeps [OF stable_ctl_inv])

lemma ctl_reachable_inv: "ctl_reachable E s \<Longrightarrow> ctl_inv s"
proof (induction rule: ctl_reachable.induct)
  case start
  show ?case
    by (rule settle_ctl_inv [OF ctl_startup_inv]) (simp add: ctl_inv_def ctl_miner_inv_def ctl_init_def)
next
  case (step s t)
  then show ?case by (blast intro: ctl_step_inv)
qed

section \<open>Effects of the handlers\<close>

lemma ctl_listener_trace [simp]: "trace (ctl_listener e s) = trace s"
  by (cases e) (auto split: sum.splits)

lemma ctl_deliver_trace [simp]: "trace (deliver E ctl_listener s) = trace s"
proof -
  have "trace (fold ctl_listener es t) = trace t" for es and t :: ctl
    by (induction es arbitrary: t) simp_all
  then show ?thesis by (simp add: deliver_def)
qed

definition is_spawn :: "effect \<Rightarrow> bool" where
  "is_spawn ef = (case ef of Spawn b as \<Rightarrow> True | _ \<Rightarrow> False)"

text \<open>The search for XMRig always ends at the bare command name at the latest.\<close>

lemma ctl_find_xmrig_found:
  "\<exists>p \<in> set ps. p = ''xmrig'' \<or> p = ''xmrig.exe'' \<Longrightarrow> \<exists>b s'. ctl_find_xmrig E ps s = (Inr (Some b), s')"
  by (induction ps) (auto simp: io_simps)

lemma slice_from_suffix: "\<exists>ys. xs = ys @ slice_from k xs"
  unfolding slice_from_def by (metis append_take_drop_id)

lemma slice_last_suffix: "\<exists>ys. xs = ys @ slice_last n xs"
  by (auto simp: slice_last_def slice_from_suffix split: jsnum.splits)

lemma slice_last_nat:
  assumes "0 < n"
  shows "slice_last (Fin (of_nat n)) xs = last_n n xs"
proof -
  have "nat (max 0 (int (length xs) - int n)) = length xs - n" by linarith
  then show ?thesis using assms by (simp add: slice_last_def slice_from_def last_n_def)
qed

end
