(* ===== verification/Controller_Props.thy ===== *)
theory Controller_Props
  imports Controller
begin

text \<open>
  The properties of the process controller: every request is answered, the miner's globals stay
  consistent, the daemon endpoint never starts a daemon, and what the miner and log endpoints do.
\<close>

section \<open>Requests and invariants\<close>

text \<open>
  C9. For every route of the controller, every environment, state and parsed body, the handler
  answers, unless a process event ends the controller while the handler waits; and handling the
  request itself never ends the controller.
\<close>
theorem ctl_request_answered:
  assumes "(rt, h) \<in> set ctl_routes" and "\<not> nullish (in_body r)"
  shows "(exit_code (snd (h E r s)) = None \<longrightarrow> (\<exists>a. fst (h E r s) = Inr a))
    \<and> settle (h E r) s = snd (h E r s)"
  using ctl_routes_no_throw [OF assms, of E] settle_no_throw no_throwD [of "h E r" s]
  by (metis prod.collapse)

text \<open>Instance of C9: a miner request without an address.\<close>
theorem ctl_request_answered_witness:
  "exit_code (snd (ctl_miner_start example_env (with_body (JObj [])) ctl_init)) = None
    \<and> (\<exists>a. fst (ctl_miner_start example_env (with_body (JObj [])) ctl_init) = Inr a)
    \<and> settle (ctl_miner_start example_env (with_body (JObj []))) ctl_init
        = snd (ctl_miner_start example_env (with_body (JObj [])) ctl_init)"
  using ctl_request_answered [of "(''POST'', ''/miner/start'')" ctl_miner_start "with_body (JObj [])" example_env ctl_init]
  by (simp add: ctl_routes_def ctl_miner_start_def io_simps ctl_init_def)

text \<open>
  C8. In every reachable state of the controller the miner's process, process id and configuration
  are set and cleared together: without a process all three are \<open>null\<close>, and with one the recorded id
  is the id of that process and the configuration names an address.
\<close>
theorem ctl_miner_consistent:
  assumes "ctl_reachable E s"
  shows "case ctl_minerProcess s of None \<Rightarrow> ctl_minerPid s = JNull \<and> ctl_minerConfig s = JNull
    | Some c \<Rightarrow> ctl_minerPid s = pid_js c \<and> truthy (js_opt (ctl_minerConfig s) ''address'')"
  using ctl_reachable_inv [OF assms] by (simp add: ctl_inv_def ctl_miner_inv_def split: option.splits)

lemma ctl_init_reachable: "ctl_reachable example_env ctl_init"
  using ctl_reachable.start [of example_env]
  by (simp add: ctl_startup_def mkdir_missing_def settle_def io_simps)

text \<open>Instance of C8: the initial state.\<close>
theorem ctl_miner_consistent_witness:
  "case ctl_minerProcess ctl_init of None \<Rightarrow> ctl_minerPid ctl_init = JNull \<and> ctl_minerConfig ctl_init = JNull
    | Some c \<Rightarrow> ctl_minerPid ctl_init = pid_js c \<and> truthy (js_opt (ctl_minerConfig ctl_init) ''address'')"
  by (rule ctl_miner_consistent [OF ctl_init_reachable])

section \<open>The daemon\<close>

lemma ctl_daemon_up_spawns:
  "filter is_spawn (trace (snd (ctl_daemon_up E s))) = filter is_spawn (trace s)"
  by (auto simp: ctl_daemon_up_def io_simps Let_def is_spawn_def split: sum.splits)

text \<open>
  C30. \<open>POST /daemon/start\<close> never starts a daemon. Its log stream has no file descriptor when
  \<open>spawn\<close> receives it as \<open>stdio\<close>, so \<open>spawn\<close> raises: whatever the environment and the state, the
  request performs no spawn, and its answer is \<open>busy\<close> or a status 500.
\<close>
theorem ctl_daemon_never_started:
  "filter is_spawn (trace (snd (ctl_daemon_start E r s))) = filter is_spawn (trace s) \<and>
   (case fst (ctl_daemon_start E r s) of Inl e \<Rightarrow> exit_code (snd (ctl_daemon_start E r s)) \<noteq> None
    | Inr a \<Rightarrow> status a = 500 \<or> answer a = ctl_busy ''Daemon'')"
proof -
  obtain v t where up: "ctl_daemon_up E s = (v, t)" by force
  have sp: "filter is_spawn (trace t) = filter is_spawn (trace s)"
    using ctl_daemon_up_spawns [of E s] up by simp
  have ex: "exit_code t \<noteq> None" if "v = Inl e" for e
    using ctl_helpers_no_throw(1) [of E] no_throwD [of "ctl_daemon_up E" s v t] up that by auto
  show ?thesis
    using up sp ex
    by (cases v; cases "exit_code t")
       (auto simp: ctl_daemon_start_def spawn_new_stream bindM_run try_catch_run json_reply_run status_reply_run
          getM_run ctl_tracked_alive_def ctl_isProcessRunning_def ret_run doM_run is_spawn_def)
qed

section \<open>The miner\<close>

text \<open>
  C21. One miner at a time: while the tracked miner process exists, a start request answers \<open>busy\<close>
  and changes nothing.
\<close>
theorem ctl_one_miner:
  assumes "ctl_minerProcess s = Some c" and "as_pid (ctl_minerPid s) = Some p" and "env_alive E (trace s) p"
    and "\<not> nullish (in_body r)" and "truthy (js_prop (in_body r) ''address'')"
  shows "ctl_miner_start E r s = (Inr (Reply 200 (ctl_busy ''Miner'')), s)"
  using assms by (simp add: ctl_miner_start_def js_get_def bindM_run getM_run ctl_isProcessRunning_def json_reply_run)

definition ctl_mining_state :: ctl where
  "ctl_mining_state = ctl_init\<lparr>ctl_minerProcess := Some \<lparr>child_pid = Some 7, child_killed = False\<rparr>,
     ctl_minerPid := js_int 7, ctl_daemonPid := js_int 9\<rparr>"

text \<open>Instance of C21.\<close>
theorem ctl_one_miner_witness:
  "ctl_miner_start example_env (with_body (JObj [(''address'', JStr ''4abc'')])) ctl_mining_state
    = (Inr (Reply 200 (ctl_busy ''Miner'')), ctl_mining_state)"
  by (rule ctl_one_miner [of _ "\<lparr>child_pid = Some 7, child_killed = False\<rparr>" 7])
     (simp_all add: ctl_mining_state_def as_pid_def)

text \<open>
  C35. The error \<open>XMRig not found\<close> is unreachable: no request to \<open>/miner/start\<close> is answered with it,
  because the search accepts the bare command name without looking for it.
\<close>
theorem ctl_xmrig_always_found:
  "fst (ctl_miner_start E r s) \<noteq> Inr (Reply 400 ctl_no_xmrig)"
proof -
  have found: "\<exists>b t'. ctl_find_xmrig E (ctl_xmrig_paths E) t = (Inr (Some b), t')" for t
    by (rule ctl_find_xmrig_found) (auto simp: ctl_xmrig_paths_def)
  have launch: "fst (ctl_launch_miner E b a n t) \<noteq> Inr (Reply 400 v)" for b a n t v
    by (auto simp: ctl_launch_miner_def io_simps Let_def split: sum.splits option.splits)
  have need: "ctl_need_daemon E t \<noteq> (Inr (Some ctl_no_xmrig), u)" for t u
    by (auto simp: ctl_need_daemon_def io_simps Let_def ctl_no_xmrig_def split: sum.splits)
  have rest: "fst (try_catch (bindM (ctl_find_xmrig E (ctl_xmrig_paths E)) (\<lambda>x. case x of
      None \<Rightarrow> status_reply 400 ctl_no_xmrig | Some b \<Rightarrow> ctl_launch_miner E b a n)) (\<lambda>e. status_reply 500 (ctl_fail e)) t)
      \<noteq> Inr (Reply 400 ctl_no_xmrig)" for a n t
  proof -
    obtain b t' where f: "ctl_find_xmrig E (ctl_xmrig_paths E) t = (Inr (Some b), t')" using found by blast
    show ?thesis using launch [of b a n t' ctl_no_xmrig]
      by (auto simp: try_catch_run bindM_run f status_reply_run split: prod.splits sum.splits)
  qed
  have "JObj [(''status'', JStr ''error''), (''error'', JStr ''Mining address required'')] \<noteq> ctl_no_xmrig"
    by (simp add: ctl_no_xmrig_def)
  then show ?thesis
    using rest
    by (auto simp: ctl_miner_start_def bindM_run liftE_run getM_run json_reply_run status_reply_run ret_run
        need ctl_isProcessRunning_def split: sum.splits prod.splits option.splits)
qed


definition ctl_speed_line :: string where
  "ctl_speed_line = ''speed 10s/60s/15m 123.5 H/s max 150.0 H/s''"

lemma ctl_speed_line_match:
  "rx_search ctl_speed_rx ctl_speed_line = Some [(1, ''123.5''), (1, ''123.5 H/s max 150.0 H/s'')]"
  by code_simp


text \<open>
  C37. On an interrupt the daemon may be left running: when the signal to the recorded miner raises
  (the process is gone), the handler ends there; the daemon is never signalled and the controller
  ends with code 1 instead of 0.
\<close>
theorem ctl_sigint_stale_miner:
  assumes "exit_code s = None" and "truthy (ctl_minerPid s)" and "as_pid (ctl_minerPid s) = Some p"
    and "env_kill E (trace s @ [PidKill p ''SIGTERM'']) = Some e"
  shows "trace (settle (ctl_on_sigint E) s) = trace s @ [PidKill p ''SIGTERM'']
    \<and> exit_code (settle (ctl_on_sigint E) s) = Some 1"
  using assms by (simp add: ctl_on_sigint_def ctl_kill_def settle_def io_simps Let_def)

text \<open>Instance of C37.\<close>
theorem ctl_sigint_stale_miner_witness:
  "trace (settle (ctl_on_sigint (example_env\<lparr>env_kill := \<lambda>t. Some (Exn ''kill ESRCH'')\<rparr>)) ctl_mining_state)
      = [PidKill 7 ''SIGTERM'']
    \<and> exit_code (settle (ctl_on_sigint (example_env\<lparr>env_kill := \<lambda>t. Some (Exn ''kill ESRCH'')\<rparr>)) ctl_mining_state) = Some 1"
  using ctl_sigint_stale_miner [of ctl_mining_state 7 "example_env\<lparr>env_kill := \<lambda>t. Some (Exn ''kill ESRCH'')\<rparr>" "Exn ''kill ESRCH''"]
  by (simp add: ctl_mining_state_def ctl_init_def as_pid_def)

section \<open>Logs\<close>

text \<open>
  C16. \<open>readLogTail\<close> with a positive count \<open>n\<close> returns the last \<open>n\<close> non-blank lines of the file in
  their order (all of them when there are fewer), the empty list for a missing file, and a single
  error line for an unreadable one; it never raises and has no effect.
\<close>
theorem ctl_readLogTail_spec:
  assumes "0 < n" and "exit_code s = None"
  shows "ctl_readLogTail E f (Fin (of_nat n)) s =
    (Inr (if \<not> env_exists E (trace s) f then []
          else case env_readfile E (trace s) f of
            Inl e \<Rightarrow> [''Error reading log: '' @ message e]
          | Inr content \<Rightarrow> last_n n (nonblank_lines content)), s)"
  using assms by (auto simp: ctl_readLogTail_def io_simps slice_last_nat split: sum.splits)

text \<open>Instance of C16.\<close>
theorem ctl_readLogTail_spec_witness:
  "ctl_readLogTail (example_env\<lparr>env_readfile := \<lambda>t p. Inr ''a''\<rparr>) ''miner.log'' (Fin (of_nat 20)) ctl_init =
    (Inr (if \<not> env_exists (example_env\<lparr>env_readfile := \<lambda>t p. Inr ''a''\<rparr> :: ctl_event env) (trace ctl_init) ''miner.log'' then []
          else case env_readfile (example_env\<lparr>env_readfile := \<lambda>t p. Inr ''a''\<rparr> :: ctl_event env) (trace ctl_init) ''miner.log'' of
            Inl e \<Rightarrow> [''Error reading log: '' @ message e]
          | Inr content \<Rightarrow> last_n 20 (nonblank_lines content)), ctl_init)"
  by (rule ctl_readLogTail_spec) (simp_all add: ctl_init_def)

end
