(* ===== verification/Release_Server.thy ===== *)
theory Release_Server
  imports Wallet_Handlers
begin

text \<open>
  \<open>release/dashboard/server.js\<close>: the dashboard shipped with a release. It keeps only the wallet
  globals, starts the wallet RPC server without checking for its binary and without an \<open>error\<close>
  listener, and forwards mining requests to the daemon. Handlers are named after their routes; the
  wallet endpoints instantiate \<open>Wallet_Handlers\<close>.
\<close>

section \<open>Constants and state\<close>

definition rel_DAEMON_HTTP :: string where
  "rel_DAEMON_HTTP = ''http://127.0.0.1:19081''"

definition rel_DAEMON_RPC :: string where
  "rel_DAEMON_RPC = ''http://127.0.0.1:19081/json_rpc''"

definition rel_WALLET_RPC :: string where
  "rel_WALLET_RPC = ''http://127.0.0.1:19083/json_rpc''"

definition rel_WALLET_DIR :: "'e env \<Rightarrow> string" where
  "rel_WALLET_DIR E = path_join [env_dirname E, ''..'', ''wallets'']"

definition rel_WALLET_RPC_BIN :: "'e env \<Rightarrow> string" where
  "rel_WALLET_RPC_BIN E = path_join [env_dirname E, ''..'', ''build'', ''bin'', ''cocaine-wallet-rpc'']"

text \<open>Only \<open>walletRpcProcess\<close> and \<open>currentWalletName\<close>.\<close>

type_synonym rel = wallet_base

definition rel_init :: rel where
  "rel_init = \<lparr>trace = [], exit_code = None, walletRpcProcess = None, currentWalletName = JNull\<rparr>"

text \<open>There is no \<open>error\<close> listener: a failed start is an uncaught exception.\<close>

datatype rel_event = RelWalletError | RelWalletClose int

fun rel_listener :: "rel_event \<Rightarrow> rel \<Rightarrow> rel" where
  "rel_listener RelWalletError s = s\<lparr>exit_code := Some 1\<rparr>"
| "rel_listener (RelWalletClose c) s = s\<lparr>walletRpcProcess := None\<rparr>"

abbreviation rfetch :: "rel_event env \<Rightarrow> http_request \<Rightarrow> (rel, http_response) io" where
  "rfetch E \<equiv> fetch E rel_listener"

section \<open>RPC helpers\<close>

definition rel_walletRpc :: "rel_event env \<Rightarrow> string \<Rightarrow> js \<Rightarrow> (rel, js) io" where
  "rel_walletRpc E method params =
     bindM (rfetch E (post_json rel_WALLET_RPC (rpc_call method params)))
       (\<lambda>response. liftE (res_json response))"

definition rel_daemonRpc :: "rel_event env \<Rightarrow> string \<Rightarrow> js \<Rightarrow> (rel, js) io" where
  "rel_daemonRpc E method params =
     bindM (rfetch E (post_json rel_DAEMON_RPC (rpc_call method params)))
       (\<lambda>response. liftE (res_json response))"

definition rel_wallet_args :: "'e env \<Rightarrow> string list" where
  "rel_wallet_args E = [''--daemon-address'', ''127.0.0.1:19081'', ''--rpc-bind-port'', ''19083'',
     ''--disable-rpc-login'', ''--wallet-dir'', rel_WALLET_DIR E, ''--log-level'', ''1'']"

definition rel_startWalletRpc :: "rel_event env \<Rightarrow> (rel, unit) io" where
  "rel_startWalletRpc E =
     bindM (getM walletRpcProcess) (\<lambda>p.
     if p \<noteq> None then ret () else
     bindM (spawnM E (rel_WALLET_RPC_BIN E) (rel_wallet_args E)) (\<lambda>c.
     bindM (modM (\<lambda>s. s\<lparr>walletRpcProcess := Some c\<rparr>)) (\<lambda>_.
     await_wallet E rel_listener)))"

section \<open>Daemon and mining endpoints\<close>

definition rel_api_info :: "rel_event env \<Rightarrow> http_in \<Rightarrow> (rel, reply) io" where
  "rel_api_info E req =
     try_catch (bindM (rel_daemonRpc E ''get_info'' (JObj [])) json_reply)
       (\<lambda>error. status_reply 500 (error_obj error [(''daemon_running'', JBool False)]))"

definition rel_api_last_block :: "rel_event env \<Rightarrow> http_in \<Rightarrow> (rel, reply) io" where
  "rel_api_last_block E req =
     try_catch (bindM (rel_daemonRpc E ''get_last_block_header'' (JObj [])) json_reply)
       (\<lambda>error. status_reply 500 (error_obj error []))"

definition rel_api_block :: "rel_event env \<Rightarrow> http_in \<Rightarrow> (rel, reply) io" where
  "rel_api_block E req =
     try_catch
       (bindM (liftE (js_parseInt (js_prop (in_params req) ''height''))) (\<lambda>h.
        bindM (rel_daemonRpc E ''get_block_header_by_height'' (JObj [(''height'', JNum h)])) json_reply))
       (\<lambda>error. status_reply 500 (error_obj error []))"

definition rel_api_mining_status :: "rel_event env \<Rightarrow> http_in \<Rightarrow> (rel, reply) io" where
  "rel_api_mining_status E req =
     try_catch
       (bindM (rfetch E (get_request (rel_DAEMON_HTTP @ ''/mining_status''))) (\<lambda>response.
        bindM (liftE (res_json response)) json_reply))
       (\<lambda>error. status_reply 500 (error_obj error []))"

definition rel_mining_body :: "js \<Rightarrow> js \<Rightarrow> js" where
  "rel_mining_body address threads = JObj [(''miner_address'', address),
     (''threads_count'', js_or threads (js_nat 2)), (''do_background_mining'', JBool False),
     (''ignore_battery'', JBool True)]"

definition rel_api_mining_start :: "rel_event env \<Rightarrow> http_in \<Rightarrow> (rel, reply) io" where
  "rel_api_mining_start E req =
     bindM (liftE (js_get (in_body req) ''address'')) (\<lambda>address.
     bindM (liftE (js_get (in_body req) ''threads'')) (\<lambda>threads.
     try_catch
       (bindM (rfetch E (post_json (rel_DAEMON_HTTP @ ''/start_mining'') (rel_mining_body address threads))) (\<lambda>response.
        bindM (liftE (res_json response)) json_reply))
       (\<lambda>error. status_reply 500 (error_obj error []))))"

text \<open>A \<open>POST\<close> without a body.\<close>

definition rel_post_empty :: "string \<Rightarrow> http_request" where
  "rel_post_empty url = \<lparr>req_url = url, req_method = ''POST'', req_headers = [], req_body = None\<rparr>"

definition rel_api_mining_stop :: "rel_event env \<Rightarrow> http_in \<Rightarrow> (rel, reply) io" where
  "rel_api_mining_stop E req =
     try_catch
       (bindM (rfetch E (rel_post_empty (rel_DAEMON_HTTP @ ''/stop_mining''))) (\<lambda>response.
        bindM (liftE (res_json response)) json_reply))
       (\<lambda>error. status_reply 500 (error_obj error []))"

section \<open>Wallet endpoints\<close>

text \<open>A transfer uses ring size 16.\<close>

definition rel_api_wallet_list :: "rel_event env \<Rightarrow> http_in \<Rightarrow> (rel, reply) io" where
  "rel_api_wallet_list E = list_handler E (rel_WALLET_DIR E)"

definition rel_api_wallet_create :: "rel_event env \<Rightarrow> http_in \<Rightarrow> (rel, reply) io" where
  "rel_api_wallet_create E = create_handler (rel_startWalletRpc E) (rel_walletRpc E)"

text \<open>No check of the name: an absent name is sent on and becomes current.\<close>

definition rel_api_wallet_open :: "rel_event env \<Rightarrow> http_in \<Rightarrow> (rel, reply) io" where
  "rel_api_wallet_open E req =
     bindM (liftE (js_get (in_body req) ''name'')) (\<lambda>name.
     bindM (liftE (js_get (in_body req) ''password'')) (\<lambda>password.
     open_block (rel_startWalletRpc E) (rel_walletRpc E) name password))"

definition rel_api_wallet_restore :: "rel_event env \<Rightarrow> http_in \<Rightarrow> (rel, reply) io" where
  "rel_api_wallet_restore E = restore_handler (rel_startWalletRpc E) (rel_walletRpc E)"

definition rel_api_wallet_balance :: "rel_event env \<Rightarrow> http_in \<Rightarrow> (rel, reply) io" where
  "rel_api_wallet_balance E = balance_handler (rel_walletRpc E)"

definition rel_api_wallet_address :: "rel_event env \<Rightarrow> http_in \<Rightarrow> (rel, reply) io" where
  "rel_api_wallet_address E = address_handler (rel_walletRpc E)"

definition rel_api_wallet_transfers :: "rel_event env \<Rightarrow> http_in \<Rightarrow> (rel, reply) io" where
  "rel_api_wallet_transfers E = transfers_handler (rel_walletRpc E)"

definition rel_api_wallet_send :: "rel_event env \<Rightarrow> http_in \<Rightarrow> (rel, reply) io" where
  "rel_api_wallet_send E = send_handler 16 (rel_walletRpc E)"

definition rel_api_wallet_refresh :: "rel_event env \<Rightarrow> http_in \<Rightarrow> (rel, reply) io" where
  "rel_api_wallet_refresh E = refresh_handler (rel_walletRpc E)"

definition rel_api_wallet_close :: "rel_event env \<Rightarrow> http_in \<Rightarrow> (rel, reply) io" where
  "rel_api_wallet_close E = close_handler (rel_walletRpc E)"

definition rel_api_wallet_status :: "rel_event env \<Rightarrow> http_in \<Rightarrow> (rel, reply) io" where
  "rel_api_wallet_status E = status_handler (rel_walletRpc E)"

section \<open>Start-up and shut-down\<close>

definition rel_startup :: "rel_event env \<Rightarrow> (rel, unit) io" where
  "rel_startup E =
     mkdir_missing E (rel_WALLET_DIR E)"

definition rel_PORT :: int where
  "rel_PORT = 8080"

definition rel_on_listening :: "rel_event env \<Rightarrow> (rel, unit) io" where
  "rel_on_listening E =
     bindM (try_catch (rel_startWalletRpc E) (\<lambda>_. ret ())) (\<lambda>_.
     bindM (sleep E rel_listener 500) (\<lambda>_.
     doM (Browser (''http://localhost:'' @ dec_string rel_PORT))))"

definition rel_on_error :: "string \<Rightarrow> exn \<Rightarrow> (rel, unit) io" where
  "rel_on_error code err = (if code = ''EADDRINUSE'' then exitM 1 else throwM err)"

definition rel_on_sigint :: "(rel, unit) io" where
  "rel_on_sigint =
     bindM (getM walletRpcProcess) (\<lambda>p.
     bindM (case p of None \<Rightarrow> ret () | Some c \<Rightarrow> doM (ChildKill (child_pid c))) (\<lambda>_.
     exitM 0))"

section \<open>Routes\<close>

type_synonym rel_handler = "rel_event env \<Rightarrow> http_in \<Rightarrow> (rel, reply) io"

definition rel_routes :: "((string \<times> string) \<times> rel_handler) list" where
  "rel_routes =
    [((''GET'', ''/api/info''), rel_api_info),
     ((''GET'', ''/api/last_block''), rel_api_last_block),
     ((''GET'', ''/api/block/:height''), rel_api_block),
     ((''GET'', ''/api/mining_status''), rel_api_mining_status),
     ((''POST'', ''/api/mining/start''), rel_api_mining_start),
     ((''POST'', ''/api/mining/stop''), rel_api_mining_stop),
     ((''GET'', ''/api/wallet/list''), rel_api_wallet_list),
     ((''POST'', ''/api/wallet/create''), rel_api_wallet_create),
     ((''POST'', ''/api/wallet/open''), rel_api_wallet_open),
     ((''POST'', ''/api/wallet/restore''), rel_api_wallet_restore),
     ((''GET'', ''/api/wallet/balance''), rel_api_wallet_balance),
     ((''GET'', ''/api/wallet/address''), rel_api_wallet_address),
     ((''GET'', ''/api/wallet/transfers''), rel_api_wallet_transfers),
     ((''POST'', ''/api/wallet/send''), rel_api_wallet_send),
     ((''POST'', ''/api/wallet/refresh''), rel_api_wallet_refresh),
     ((''POST'', ''/api/wallet/close''), rel_api_wallet_close),
     ((''GET'', ''/api/wallet/status''), rel_api_wallet_status)]"

inductive rel_step :: "rel_event env \<Rightarrow> rel \<Rightarrow> rel \<Rightarrow> bool" for E where
  request: "exit_code s = None \<Longrightarrow> (rt, h) \<in> set rel_routes \<Longrightarrow> \<not> nullish (in_body r) \<Longrightarrow>
     rel_step E s (settle (h E r) s)"
| event: "exit_code s = None \<Longrightarrow> rel_step E s (rel_listener e s)"
| listening: "exit_code s = None \<Longrightarrow> rel_step E s (settle (rel_on_listening E) s)"
| sigint: "exit_code s = None \<Longrightarrow> rel_step E s (settle rel_on_sigint s)"

lemmas rel_api_defs = rel_api_info_def rel_api_last_block_def rel_api_block_def rel_api_mining_status_def
  rel_api_mining_start_def rel_api_mining_stop_def

lemmas rel_wallet_defs = rel_api_wallet_list_def rel_api_wallet_create_def rel_api_wallet_open_def
  rel_api_wallet_restore_def rel_api_wallet_balance_def rel_api_wallet_address_def
  rel_api_wallet_transfers_def rel_api_wallet_send_def rel_api_wallet_refresh_def rel_api_wallet_close_def
  rel_api_wallet_status_def handler_defs

lemma rel_routes_no_throw:
  assumes "(rt, h) \<in> set rel_routes" and "\<not> nullish (in_body r)" and "plain_name r"
  shows "no_throw (h E r)"
  using assms unfolding rel_routes_def
  by (auto simp: rel_api_defs rel_wallet_defs Let_def intro!: no_throw_intros no_throw_length_less)

section \<open>The wallet session contract\<close>

text \<open>The only name a request can make current is its \<open>name\<close>.\<close>

definition rel_names :: "http_in \<Rightarrow> js set" where
  "rel_names r = {js_prop (in_body r) ''name''}"

definition rel_wallet :: "(rel_event, rel) wallet_handlers" where
  "rel_wallet = server_handlers rel_startWalletRpc rel_walletRpc rel_api_wallet_open"

lemma rel_listener_name [simp]: "currentWalletName (rel_listener e s) = currentWalletName s"
  by (cases e) simp_all

lemma rel_stable_name: "stable rel_listener (\<lambda>s. P (currentWalletName s))"
  by (simp add: stable_def note_effect_def)

interpretation rel_api: wallet_server rel_startWalletRpc rel_walletRpc rel_api_wallet_open rel_names
proof unfold_locales
  fix E r and P :: "js \<Rightarrow> bool" and m ps
  show "keeps (\<lambda>s. P (currentWalletName s)) (rel_startWalletRpc E)"
    unfolding rel_startWalletRpc_def
    by (intro keeps_intros keeps_effects [OF rel_stable_name] keeps_await_wallet [OF rel_stable_name]) simp
  show "keeps (\<lambda>s. P (currentWalletName s)) (rel_walletRpc E m ps)"
    unfolding rel_walletRpc_def by (intro keeps_intros keeps_effects [OF rel_stable_name])
  show "js_prop (in_body r) ''name'' \<in> rel_names r"
    by (simp add: rel_names_def)
  show "(\<exists>w p. w \<in> rel_names r \<and> rel_api_wallet_open E r = open_block (rel_startWalletRpc E) (rel_walletRpc E) w p)
      \<or> (\<exists>e. rel_api_wallet_open E r = throwM e)
      \<or> (\<exists>v. rel_api_wallet_open E r = status_reply 400 (JObj [(''error'', v)]))"
    by (cases "nullish (in_body r)") (auto simp: rel_api_wallet_open_def rel_names_def js_get_def)
qed

end
