(* ===== verification/Desktop_Server.thy ===== *)
theory Desktop_Server
  imports Wallet_Handlers
begin

text \<open>
  \<open>desktop-app/server.js\<close>: the server inside the Electron app. It has its own small \<open>fetch\<close> over
  \<open>http.request\<close>, takes its directories from the environment variables \<open>main.js\<close> sets, adds
  explorer endpoints, and follows a transfer that failed for want of outputs with a consolidation.
  Handlers are named after their routes; the other wallet endpoints instantiate \<open>Wallet_Handlers\<close>.
\<close>

section \<open>Constants and paths\<close>

text \<open>\<open>process.env[k] || d\<close>: an empty variable counts as unset.\<close>

definition env_or :: "'e env \<Rightarrow> string \<Rightarrow> string \<Rightarrow> string" where
  "env_or E k d = (case env_vars E k of None \<Rightarrow> d | Some v \<Rightarrow> if v = [] then d else v)"

definition desk_PORT :: "'e env \<Rightarrow> string" where
  "desk_PORT E = env_or E ''PORT'' ''8080''"

definition desk_DAEMON_RPC :: string where
  "desk_DAEMON_RPC = ''http://127.0.0.1:19081/json_rpc''"

definition desk_DAEMON_HTTP :: string where
  "desk_DAEMON_HTTP = ''http://127.0.0.1:19081''"

definition desk_WALLET_RPC :: string where
  "desk_WALLET_RPC = ''http://127.0.0.1:19083/json_rpc''"

definition desk_SEED_NODE_RPC :: string where
  "desk_SEED_NODE_RPC = ''http://138.68.128.104:19081''"

definition desk_getBasePath :: "'e env \<Rightarrow> string" where
  "desk_getBasePath E = (case env_resources E of None \<Rightarrow> env_dirname E
     | Some p \<Rightarrow> if p = [] then env_dirname E else p)"

definition desk_WALLET_DIR :: "'e env \<Rightarrow> string" where
  "desk_WALLET_DIR E = env_or E ''WALLET_DIR'' (path_join [desk_getBasePath E, ''wallets''])"

definition desk_WALLET_RPC_BIN :: "'e env \<Rightarrow> string" where
  "desk_WALLET_RPC_BIN E = env_or E ''WALLET_RPC_BIN'' (path_join [desk_getBasePath E, ''bin'',
     if env_platform E = ''win32'' then ''cocaine-wallet-rpc.exe'' else ''cocaine-wallet-rpc''])"

section \<open>State and listeners\<close>

type_synonym desk = wallet_base

definition desk_init :: desk where
  "desk_init = \<lparr>trace = [], exit_code = None, walletRpcProcess = None, currentWalletName = JNull\<rparr>"

text \<open>There is no \<open>error\<close> listener: a failed start is an uncaught exception.\<close>

datatype desk_event = DeskWalletError | DeskWalletClose int

fun desk_listener :: "desk_event \<Rightarrow> desk \<Rightarrow> desk" where
  "desk_listener DeskWalletError s = s\<lparr>exit_code := Some 1\<rparr>"
| "desk_listener (DeskWalletClose c) s = s\<lparr>walletRpcProcess := None\<rparr>"

section \<open>The fetch replacement\<close>

text \<open>
  The parts of a URL \<open>http://host:port/path?query\<close> that \<open>new URL\<close> gives: \<open>hostname\<close>, \<open>port\<close> and
  \<open>pathname\<close>. Every URL of the server has this form.
\<close>

definition url_rest :: "string \<Rightarrow> string" where
  "url_rest url = drop (length ''http://'') url"

definition url_hostname :: "string \<Rightarrow> string" where
  "url_hostname url = takeWhile (\<lambda>c. c \<noteq> CHR '':'' \<and> c \<noteq> CHR ''/'') (url_rest url)"

definition url_port :: "string \<Rightarrow> string" where
  "url_port url = takeWhile is_digit (drop (length (url_hostname url) + 1) (url_rest url))"

definition url_pathname :: "string \<Rightarrow> string" where
  "url_pathname url = takeWhile (\<lambda>c. c \<noteq> CHR ''?'' \<and> c \<noteq> CHR ''#'')
     (dropWhile (\<lambda>c. c \<noteq> CHR ''/'') (url_rest url))"

text \<open>The options object of \<open>fetch\<close>; an absent method is \<open>GET\<close>.\<close>

record fetch_options =
  opt_method :: "string option"
  opt_headers :: "(string \<times> string) list"
  opt_body :: "string option"

text \<open>
  What \<open>http.request\<close> is asked to send: the query of the URL is not passed on, and a non-empty body
  adds its \<open>Content-Length\<close> in bytes.
\<close>

definition desk_http_request :: "string \<Rightarrow> fetch_options \<Rightarrow> http_request" where
  "desk_http_request url options = \<lparr>
     req_url = ''http://'' @ url_hostname url @ '':'' @ url_port url @ url_pathname url,
     req_method = (case opt_method options of None \<Rightarrow> ''GET'' | Some m \<Rightarrow> m),
     req_headers = (case opt_body options of None \<Rightarrow> opt_headers options
       | Some b \<Rightarrow> if b = [] then opt_headers options
           else opt_headers options @ [(''Content-Length'', dec_string (int (byte_length b)))]),
     req_body = (case opt_body options of None \<Rightarrow> None | Some b \<Rightarrow> if b = [] then None else Some b)\<rparr>"

definition desk_fetch :: "desk_event env \<Rightarrow> string \<Rightarrow> fetch_options \<Rightarrow> (desk, http_response) io" where
  "desk_fetch E url options = fetch E desk_listener (desk_http_request url options)"

definition desk_get :: fetch_options where
  "desk_get = \<lparr>opt_method = None, opt_headers = [], opt_body = None\<rparr>"

definition desk_post :: "js \<Rightarrow> fetch_options" where
  "desk_post v = \<lparr>opt_method = Some ''POST'', opt_headers = [(''Content-Type'', ''application/json'')],
     opt_body = Some (stringify v)\<rparr>"

text \<open>\<open>fetch(url, options)\<close> followed by \<open>response.json()\<close>.\<close>

definition desk_fetchJson :: "desk_event env \<Rightarrow> string \<Rightarrow> fetch_options \<Rightarrow> (desk, js) io" where
  "desk_fetchJson E url options = bindM (desk_fetch E url options) (\<lambda>response. liftE (res_json response))"

section \<open>RPC helpers\<close>

definition desk_walletRpc :: "desk_event env \<Rightarrow> string \<Rightarrow> js \<Rightarrow> (desk, js) io" where
  "desk_walletRpc E method params =
     bindM (desk_fetch E desk_WALLET_RPC (desk_post (rpc_call method params)))
       (\<lambda>response. liftE (res_json response))"

definition desk_daemonRpc :: "desk_event env \<Rightarrow> string \<Rightarrow> js \<Rightarrow> (desk, js) io" where
  "desk_daemonRpc E method params =
     bindM (desk_fetch E desk_DAEMON_RPC (desk_post (rpc_call method params)))
       (\<lambda>response. liftE (res_json response))"

definition desk_wallet_args :: "'e env \<Rightarrow> string list" where
  "desk_wallet_args E = [''--daemon-address'', ''127.0.0.1:19081'', ''--rpc-bind-port'', ''19083'',
     ''--disable-rpc-login'', ''--wallet-dir'', desk_WALLET_DIR E, ''--log-level'', ''1'']"

definition desk_startWalletRpc :: "desk_event env \<Rightarrow> (desk, unit) io" where
  "desk_startWalletRpc E =
     bindM (getM walletRpcProcess) (\<lambda>p.
     if p \<noteq> None then ret () else
     bindM (spawnM E (desk_WALLET_RPC_BIN E) (desk_wallet_args E)) (\<lambda>c.
     bindM (modM (\<lambda>s. s\<lparr>walletRpcProcess := Some c\<rparr>)) (\<lambda>_.
     await_wallet E desk_listener)))"

section \<open>Daemon, mining and explorer endpoints\<close>

definition desk_api_info :: "desk_event env \<Rightarrow> http_in \<Rightarrow> (desk, reply) io" where
  "desk_api_info E req =
     try_catch (bindM (desk_daemonRpc E ''get_info'' (JObj [])) json_reply)
       (\<lambda>error. status_reply 500 (error_obj error [(''daemon_running'', JBool False)]))"

definition desk_api_last_block :: "desk_event env \<Rightarrow> http_in \<Rightarrow> (desk, reply) io" where
  "desk_api_last_block E req =
     try_catch (bindM (desk_daemonRpc E ''get_last_block_header'' (JObj [])) json_reply)
       (\<lambda>error. status_reply 500 (error_obj error []))"

definition desk_api_block :: "desk_event env \<Rightarrow> http_in \<Rightarrow> (desk, reply) io" where
  "desk_api_block E req =
     try_catch
       (bindM (liftE (js_parseInt (js_prop (in_params req) ''height''))) (\<lambda>h.
        bindM (desk_daemonRpc E ''get_block_header_by_height'' (JObj [(''height'', JNum h)])) json_reply))
       (\<lambda>error. status_reply 500 (error_obj error []))"

definition desk_api_mining_status :: "desk_event env \<Rightarrow> http_in \<Rightarrow> (desk, reply) io" where
  "desk_api_mining_status E req =
     try_catch (bindM (desk_fetchJson E (desk_DAEMON_HTTP @ ''/mining_status'') desk_get) json_reply)
       (\<lambda>error. status_reply 500 (error_obj error []))"

definition desk_mining_body :: "js \<Rightarrow> js \<Rightarrow> js" where
  "desk_mining_body address threads = JObj [(''miner_address'', address),
     (''threads_count'', js_or threads (js_nat 2)), (''do_background_mining'', JBool False),
     (''ignore_battery'', JBool True)]"

definition desk_api_mining_start :: "desk_event env \<Rightarrow> http_in \<Rightarrow> (desk, reply) io" where
  "desk_api_mining_start E req =
     bindM (liftE (js_get (in_body req) ''address'')) (\<lambda>address.
     bindM (liftE (js_get (in_body req) ''threads'')) (\<lambda>threads.
     try_catch
       (bindM (desk_fetchJson E (desk_DAEMON_HTTP @ ''/start_mining'') (desk_post (desk_mining_body address threads))) json_reply)
       (\<lambda>error. status_reply 500 (error_obj error []))))"

definition desk_api_mining_stop :: "desk_event env \<Rightarrow> http_in \<Rightarrow> (desk, reply) io" where
  "desk_api_mining_stop E req =
     try_catch
       (bindM (desk_fetchJson E (desk_DAEMON_HTTP @ ''/stop_mining'')
          \<lparr>opt_method = Some ''POST'', opt_headers = [], opt_body = None\<rparr>) json_reply)
       (\<lambda>error. status_reply 500 (error_obj error []))"

definition desk_api_connections :: "desk_event env \<Rightarrow> http_in \<Rightarrow> (desk, reply) io" where
  "desk_api_connections E req =
     try_catch (bindM (desk_fetchJson E (desk_DAEMON_HTTP @ ''/get_connections'') desk_get) json_reply)
       (\<lambda>error. status_reply 500 (error_obj error [(''connections'', JArr [])]))"

definition desk_api_peers :: "desk_event env \<Rightarrow> http_in \<Rightarrow> (desk, reply) io" where
  "desk_api_peers E req =
     try_catch (bindM (desk_fetchJson E (desk_DAEMON_HTTP @ ''/get_peer_list'') desk_get) json_reply)
       (\<lambda>error. status_reply 500 (error_obj error []))"

definition desk_api_block_count :: "desk_event env \<Rightarrow> http_in \<Rightarrow> (desk, reply) io" where
  "desk_api_block_count E req =
     try_catch (bindM (desk_daemonRpc E ''get_block_count'' (JObj [])) json_reply)
       (\<lambda>error. status_reply 500 (error_obj error []))"

definition desk_api_coinbase_tx_sum :: "desk_event env \<Rightarrow> http_in \<Rightarrow> (desk, reply) io" where
  "desk_api_coinbase_tx_sum E req =
     try_catch
       (bindM (desk_fetchJson E (desk_DAEMON_HTTP @ ''/get_info'') desk_get) (\<lambda>infoData.
        bindM (liftE (js_get infoData ''height'')) (\<lambda>h.
        bindM (desk_daemonRpc E ''get_coinbase_tx_sum''
          (JObj [(''height'', js_nat 0), (''count'', js_or h (js_nat 1000))])) json_reply)))
       (\<lambda>error. status_reply 500 (error_obj error []))"

definition desk_api_blocks_range :: "desk_event env \<Rightarrow> http_in \<Rightarrow> (desk, reply) io" where
  "desk_api_blocks_range E req =
     try_catch
       (bindM (liftE (js_parseInt (js_prop (in_params req) ''start''))) (\<lambda>start.
        bindM (liftE (js_parseInt (js_prop (in_params req) ''end''))) (\<lambda>stop.
        bindM (desk_daemonRpc E ''get_block_headers_range''
          (JObj [(''start_height'', JNum start), (''end_height'', JNum stop)])) json_reply)))
       (\<lambda>error. status_reply 500 (error_obj error []))"

definition desk_api_seed_info :: "desk_event env \<Rightarrow> http_in \<Rightarrow> (desk, reply) io" where
  "desk_api_seed_info E req =
     try_catch (bindM (desk_fetchJson E (desk_SEED_NODE_RPC @ ''/get_info'') desk_get) json_reply)
       (\<lambda>error. status_reply 500 (error_obj error [(''height'', JNull)]))"

section \<open>Wallet endpoints\<close>

definition desk_api_wallet_list :: "desk_event env \<Rightarrow> http_in \<Rightarrow> (desk, reply) io" where
  "desk_api_wallet_list E = list_handler E (desk_WALLET_DIR E)"

definition desk_api_wallet_create :: "desk_event env \<Rightarrow> http_in \<Rightarrow> (desk, reply) io" where
  "desk_api_wallet_create E = create_handler (desk_startWalletRpc E) (desk_walletRpc E)"

text \<open>No check of the name: an absent name is sent on and becomes current.\<close>

definition desk_api_wallet_open :: "desk_event env \<Rightarrow> http_in \<Rightarrow> (desk, reply) io" where
  "desk_api_wallet_open E req =
     bindM (liftE (js_get (in_body req) ''name'')) (\<lambda>name.
     bindM (liftE (js_get (in_body req) ''password'')) (\<lambda>password.
     open_block (desk_startWalletRpc E) (desk_walletRpc E) name password))"

definition desk_api_wallet_restore :: "desk_event env \<Rightarrow> http_in \<Rightarrow> (desk, reply) io" where
  "desk_api_wallet_restore E = restore_handler (desk_startWalletRpc E) (desk_walletRpc E)"

definition desk_api_wallet_balance :: "desk_event env \<Rightarrow> http_in \<Rightarrow> (desk, reply) io" where
  "desk_api_wallet_balance E = balance_handler (desk_walletRpc E)"

definition desk_api_wallet_address :: "desk_event env \<Rightarrow> http_in \<Rightarrow> (desk, reply) io" where
  "desk_api_wallet_address E = address_handler (desk_walletRpc E)"

definition desk_api_wallet_transfers :: "desk_event env \<Rightarrow> http_in \<Rightarrow> (desk, reply) io" where
  "desk_api_wallet_transfers E = transfers_handler (desk_walletRpc E)"

text \<open>
  \<open>message.includes(t)\<close>: a string has the substring, an array the element; other values have no such
  method.
\<close>

definition js_includes :: "js \<Rightarrow> string \<Rightarrow> exn + bool" where
  "js_includes v t = (case v of JStr s \<Rightarrow> Inr (includes_sub s t) | JArr xs \<Rightarrow> Inr (JStr t \<in> set xs)
     | _ \<Rightarrow> Inl (Exn ''data.error.message.includes is not a function''))"

text \<open>The condition under which a failed transfer is followed by a consolidation.\<close>

definition desk_needs_sweep :: "js \<Rightarrow> exn + bool" where
  "desk_needs_sweep err =
     (if \<not> truthy err \<or> \<not> truthy (js_prop err ''message'') then Inr False
      else case js_includes (js_prop err ''message'') ''not enough outputs'' of Inl e \<Rightarrow> Inl e
        | Inr b \<Rightarrow> if b then Inr True else js_includes (js_prop err ''message'') ''sweep_dust'')"

definition desk_sweep_params :: "js \<Rightarrow> js" where
  "desk_sweep_params myAddress = JObj [(''address'', myAddress), (''priority'', js_nat 1), (''ring_size'', js_nat 16)]"

definition desk_consolidating_obj :: "js \<Rightarrow> js" where
  "desk_consolidating_obj result = JObj [(''success'', JBool False), (''consolidating'', JBool True),
     (''error'', JStr ''Outputs are being consolidated. Please wait for confirmation (~2 min) then try again.''),
     (''tx_hash_list'', js_prop result ''tx_hash_list'')]"

text \<open>\<open>sweep_all\<close> to the wallet's own address, when it is known.\<close>

definition desk_consolidate :: "desk_event env \<Rightarrow> js \<Rightarrow> (desk, reply) io" where
  "desk_consolidate E err =
     bindM (desk_walletRpc E ''get_address'' (JObj [])) (\<lambda>addrData.
     bindM (liftE (js_get addrData ''result'')) (\<lambda>ar.
     let myAddress = js_opt ar ''address'' in
     if truthy myAddress then
       bindM (desk_walletRpc E ''sweep_all'' (desk_sweep_params myAddress)) (\<lambda>sweepData.
       bindM (liftE (js_get sweepData ''result'')) (\<lambda>sr.
       if truthy sr then json_reply (desk_consolidating_obj sr) else json_reply (failure_obj err)))
     else json_reply (failure_obj err)))"

definition desk_api_wallet_send :: "desk_event env \<Rightarrow> http_in \<Rightarrow> (desk, reply) io" where
  "desk_api_wallet_send E req =
     bindM (liftE (js_get (in_body req) ''address'')) (\<lambda>address.
     bindM (liftE (js_get (in_body req) ''amount'')) (\<lambda>amount.
     bindM (liftE (js_get (in_body req) ''payment_id'')) (\<lambda>payment_id.
     if \<not> truthy address \<or> \<not> truthy amount
     then status_reply 400 (JObj [(''error'', JStr ''Address and amount required'')])
     else
     try_catch
       (bindM (liftE (atomic_amount amount)) (\<lambda>atomicAmount.
        bindM (desk_walletRpc E ''transfer'' (transfer_params 16 address atomicAmount payment_id)) (\<lambda>data.
        bindM (liftE (error_of data)) (\<lambda>err.
        bindM (liftE (desk_needs_sweep err)) (\<lambda>sweep.
        if sweep then desk_consolidate E err
        else if truthy err then json_reply (failure_obj err)
        else let result = js_prop data ''result'' in
          bindM (liftE (coins_of (js_opt result ''fee''))) (\<lambda>fee.
          json_reply (JObj [(''success'', JBool True), (''tx_hash'', js_opt result ''tx_hash''),
            (''tx_key'', js_opt result ''tx_key''), (''fee'', JNum fee)])))))))
       (\<lambda>error. status_reply 500 (error_obj error [])))))"

definition desk_api_wallet_refresh :: "desk_event env \<Rightarrow> http_in \<Rightarrow> (desk, reply) io" where
  "desk_api_wallet_refresh E = refresh_handler (desk_walletRpc E)"

definition desk_api_wallet_close :: "desk_event env \<Rightarrow> http_in \<Rightarrow> (desk, reply) io" where
  "desk_api_wallet_close E = close_handler (desk_walletRpc E)"

definition desk_api_wallet_status :: "desk_event env \<Rightarrow> http_in \<Rightarrow> (desk, reply) io" where
  "desk_api_wallet_status E = status_handler (desk_walletRpc E)"

section \<open>Start-up and shut-down\<close>

definition desk_startup :: "desk_event env \<Rightarrow> (desk, unit) io" where
  "desk_startup E = mkdir_missing E (desk_WALLET_DIR E)"

definition desk_on_listening :: "desk_event env \<Rightarrow> (desk, unit) io" where
  "desk_on_listening E = try_catch (desk_startWalletRpc E) (\<lambda>_. ret ())"

definition desk_on_error :: "string \<Rightarrow> exn \<Rightarrow> (desk, unit) io" where
  "desk_on_error code err = (if code = ''EADDRINUSE'' then exitM 1 else throwM err)"

definition desk_on_sigint :: "(desk, unit) io" where
  "desk_on_sigint =
     bindM (getM walletRpcProcess) (\<lambda>p.
     bindM (case p of None \<Rightarrow> ret () | Some c \<Rightarrow> doM (ChildKill (child_pid c))) (\<lambda>_.
     exitM 0))"

section \<open>Routes\<close>

type_synonym desk_handler = "desk_event env \<Rightarrow> http_in \<Rightarrow> (desk, reply) io"

definition desk_routes :: "((string \<times> string) \<times> desk_handler) list" where
  "desk_routes =
    [((''GET'', ''/api/info''), desk_api_info),
     ((''GET'', ''/api/last_block''), desk_api_last_block),
     ((''GET'', ''/api/block/:height''), desk_api_block),
     ((''GET'', ''/api/mining_status''), desk_api_mining_status),
     ((''POST'', ''/api/mining/start''), desk_api_mining_start),
     ((''POST'', ''/api/mining/stop''), desk_api_mining_stop),
     ((''GET'', ''/api/wallet/list''), desk_api_wallet_list),
     ((''POST'', ''/api/wallet/create''), desk_api_wallet_create),
     ((''POST'', ''/api/wallet/open''), desk_api_wallet_open),
     ((''POST'', ''/api/wallet/restore''), desk_api_wallet_restore),
     ((''GET'', ''/api/wallet/balance''), desk_api_wallet_balance),
     ((''GET'', ''/api/wallet/address''), desk_api_wallet_address),
     ((''GET'', ''/api/connections''), desk_api_connections),
     ((''GET'', ''/api/peers''), desk_api_peers),
     ((''GET'', ''/api/block_count''), desk_api_block_count),
     ((''GET'', ''/api/coinbase_tx_sum''), desk_api_coinbase_tx_sum),
     ((''GET'', ''/api/blocks_range/:start/:end''), desk_api_blocks_range),
     ((''GET'', ''/api/seed_info''), desk_api_seed_info),
     ((''GET'', ''/api/wallet/transfers''), desk_api_wallet_transfers),
     ((''POST'', ''/api/wallet/send''), desk_api_wallet_send),
     ((''POST'', ''/api/wallet/refresh''), desk_api_wallet_refresh),
     ((''POST'', ''/api/wallet/close''), desk_api_wallet_close),
     ((''GET'', ''/api/wallet/status''), desk_api_wallet_status)]"

inductive desk_step :: "desk_event env \<Rightarrow> desk \<Rightarrow> desk \<Rightarrow> bool" for E where
  request: "exit_code s = None \<Longrightarrow> (rt, h) \<in> set desk_routes \<Longrightarrow> \<not> nullish (in_body r) \<Longrightarrow>
     desk_step E s (settle (h E r) s)"
| event: "exit_code s = None \<Longrightarrow> desk_step E s (desk_listener e s)"
| listening: "exit_code s = None \<Longrightarrow> desk_step E s (settle (desk_on_listening E) s)"
| sigint: "exit_code s = None \<Longrightarrow> desk_step E s (settle desk_on_sigint s)"

lemmas desk_api_defs = desk_api_info_def desk_api_last_block_def desk_api_block_def desk_api_mining_status_def
  desk_api_mining_start_def desk_api_mining_stop_def
  desk_api_connections_def desk_api_peers_def desk_api_block_count_def desk_api_coinbase_tx_sum_def
  desk_api_blocks_range_def desk_api_seed_info_def

lemmas desk_wallet_defs = desk_api_wallet_list_def desk_api_wallet_create_def desk_api_wallet_open_def
  desk_api_wallet_restore_def desk_api_wallet_balance_def desk_api_wallet_address_def
  desk_api_wallet_transfers_def desk_api_wallet_send_def desk_api_wallet_refresh_def desk_api_wallet_close_def
  desk_api_wallet_status_def handler_defs

lemma desk_routes_no_throw:
  assumes "(rt, h) \<in> set desk_routes" and "\<not> nullish (in_body r)" and "plain_name r"
  shows "no_throw (h E r)"
  using assms unfolding desk_routes_def
  by (auto simp: desk_api_defs desk_wallet_defs Let_def intro!: no_throw_intros no_throw_length_less)

section \<open>The wallet session contract\<close>

text \<open>The only name a request can make current is its \<open>name\<close>.\<close>

definition desk_names :: "http_in \<Rightarrow> js set" where
  "desk_names r = {js_prop (in_body r) ''name''}"

definition desk_wallet :: "(desk_event, desk) wallet_handlers" where
  "desk_wallet = server_handlers desk_startWalletRpc desk_walletRpc desk_api_wallet_open"

lemma desk_listener_name [simp]: "currentWalletName (desk_listener e s) = currentWalletName s"
  by (cases e) simp_all

lemma desk_stable_name: "stable desk_listener (\<lambda>s. P (currentWalletName s))"
  by (simp add: stable_def note_effect_def)

interpretation desk_api: wallet_server desk_startWalletRpc desk_walletRpc desk_api_wallet_open desk_names
proof unfold_locales
  fix E r and P :: "js \<Rightarrow> bool" and m ps
  show "keeps (\<lambda>s. P (currentWalletName s)) (desk_startWalletRpc E)"
    unfolding desk_startWalletRpc_def
    by (intro keeps_intros keeps_effects [OF desk_stable_name] keeps_await_wallet [OF desk_stable_name]) simp
  show "keeps (\<lambda>s. P (currentWalletName s)) (desk_walletRpc E m ps)"
    unfolding desk_walletRpc_def desk_fetch_def by (intro keeps_intros keeps_effects [OF desk_stable_name])
  show "js_prop (in_body r) ''name'' \<in> desk_names r"
    by (simp add: desk_names_def)
  show "(\<exists>w p. w \<in> desk_names r \<and> desk_api_wallet_open E r = open_block (desk_startWalletRpc E) (desk_walletRpc E) w p)
      \<or> (\<exists>e. desk_api_wallet_open E r = throwM e)
      \<or> (\<exists>v. desk_api_wallet_open E r = status_reply 400 (JObj [(''error'', v)]))"
    by (cases "nullish (in_body r)") (auto simp: desk_api_wallet_open_def desk_names_def js_get_def)
qed

end
