(* ===== verification/Server_Equiv.thy ===== *)
theory Server_Equiv
  imports Release_Server Desktop_Server
begin

text \<open>
  The release server against the desktop server. Both are written over the same wallet handlers, but
  the desktop server brings its own \<open>fetch\<close>, which adds a \<open>Content-Length\<close> header, and takes its
  paths from the environment. A relation between the computations of the two servers, closed under
  the constructs the handlers are made of, shows that they answer alike.
\<close>

section \<open>Worlds that do not look at headers\<close>

fun strip_headers :: "effect \<Rightarrow> effect" where
  "strip_headers (Fetch r) = Fetch (r\<lparr>req_headers := []\<rparr>)"
| "strip_headers ef = ef"

fun as_rel_event :: "desk_event \<Rightarrow> rel_event" where
  "as_rel_event DeskWalletError = RelWalletError"
| "as_rel_event (DeskWalletClose c) = RelWalletClose c"

definition same_effects :: "effect list \<Rightarrow> effect list \<Rightarrow> bool" where
  "same_effects t t' \<longleftrightarrow> map strip_headers t = map strip_headers t'"

text \<open>
  The two environments are one world: after the same effects up to headers they give the same answers
  and events, and the two servers use the same wallet directory and the same binary.
\<close>

definition same_world :: "rel_event env \<Rightarrow> desk_event env \<Rightarrow> bool" where
  "same_world E E' \<longleftrightarrow>
     (\<forall>t t'. same_effects t t' \<longrightarrow>
        (\<forall>r h h'. env_fetch E t (r\<lparr>req_headers := h\<rparr>) = env_fetch E' t' (r\<lparr>req_headers := h'\<rparr>))
        \<and> env_events E t = map as_rel_event (env_events E' t')
        \<and> env_readdir E t = env_readdir E' t' \<and> env_spawn E t = env_spawn E' t' \<and> env_stdout E t = env_stdout E' t')
     \<and> rel_WALLET_DIR E = desk_WALLET_DIR E' \<and> rel_WALLET_RPC_BIN E = desk_WALLET_RPC_BIN E'"

definition same_state :: "rel \<Rightarrow> desk \<Rightarrow> bool" where
  "same_state s s' \<longleftrightarrow> same_effects (trace s) (trace s') \<and> exit_code s' = exit_code s
     \<and> walletRpcProcess s' = walletRpcProcess s \<and> currentWalletName s' = currentWalletName s"

lemma same_effects_append [simp]:
  "same_effects (t @ [ef]) (t' @ [ef']) \<longleftrightarrow> same_effects t t' \<and> strip_headers ef = strip_headers ef'"
  by (simp add: same_effects_def)

lemma same_state_note:
  "same_state s s' \<Longrightarrow> strip_headers ef = strip_headers ef' \<Longrightarrow> same_state (note_effect ef s) (note_effect ef' s')"
  by (simp add: same_state_def note_effect_def)

lemma same_state_listener: "same_state s s' \<Longrightarrow> same_state (rel_listener (as_rel_event e) s) (desk_listener e s')"
  by (cases e) (simp_all add: same_state_def)

lemma same_state_listeners:
  "same_state s s' \<Longrightarrow> same_state (fold rel_listener (map as_rel_event es) s) (fold desk_listener es s')"
  by (induction es arbitrary: s s') (simp_all add: same_state_listener)

lemma same_worldD:
  assumes "same_world E E'" and "same_effects t t'"
  shows "env_fetch E t (r\<lparr>req_headers := h\<rparr>) = env_fetch E' t' (r\<lparr>req_headers := h'\<rparr>)"
    and "env_events E t = map as_rel_event (env_events E' t')" and "env_readdir E t = env_readdir E' t'"
    and "env_spawn E t = env_spawn E' t'" and "env_stdout E t = env_stdout E' t'"
  using assms by (auto simp: same_world_def)

section \<open>Computations that agree\<close>

definition agree :: "(rel, 'a) io \<Rightarrow> (desk, 'a) io \<Rightarrow> bool" where
  "agree m m' \<longleftrightarrow> (\<forall>s s'. same_state s s' \<longrightarrow> fst (m s) = fst (m' s') \<and> same_state (snd (m s)) (snd (m' s')))"

lemma agreeD:
  "agree m m' \<Longrightarrow> same_state s s' \<Longrightarrow> fst (m s) = fst (m' s') \<and> same_state (snd (m s)) (snd (m' s'))"
  by (simp add: agree_def)

named_theorems agree_intros \<open>constructs under which agreement of computations is closed\<close>

lemma agree_values [agree_intros]:
  "agree (ret a) (ret a)" "agree (throwM e) (throwM e)" "agree (liftE r) (liftE r)"
  "agree (json_reply v) (json_reply v)" "agree (status_reply n v) (status_reply n v)"
  by (simp_all add: agree_def io_simps)

lemma agree_getM: "(\<And>s s'. same_state s s' \<Longrightarrow> f s = f' s') \<Longrightarrow> agree (getM f) (getM f')"
  by (simp add: agree_def getM_run)

lemma agree_modM: "(\<And>s s'. same_state s s' \<Longrightarrow> same_state (f s) (f' s')) \<Longrightarrow> agree (modM f) (modM f')"
  by (simp add: agree_def modM_run)

lemma agree_state [agree_intros]:
  "agree (getM walletRpcProcess) (getM walletRpcProcess)" "agree (getM currentWalletName) (getM currentWalletName)"
  "agree (modM (\<lambda>s. s\<lparr>walletRpcProcess := p\<rparr>)) (modM (\<lambda>s. s\<lparr>walletRpcProcess := p\<rparr>))"
  "agree (modM (\<lambda>s. s\<lparr>currentWalletName := n\<rparr>)) (modM (\<lambda>s. s\<lparr>currentWalletName := n\<rparr>))"
  by (rule agree_getM agree_modM; simp add: same_state_def)+

lemma agree_bindM [agree_intros]:
  assumes "agree m m'" and "\<And>a. agree (f a) (f' a)"
  shows "agree (bindM m f) (bindM m' f')"
  unfolding agree_def
proof (intro allI impI)
  fix s s' assume "same_state s s'"
  from agreeD [OF assms(1) this] obtain r t t' where "m s = (r, t)" "m' s' = (r, t')" "same_state t t'"
    by (metis prod.collapse)
  then show "fst (bindM m f s) = fst (bindM m' f' s') \<and> same_state (snd (bindM m f s)) (snd (bindM m' f' s'))"
    using agreeD [OF assms(2)] by (cases r) (simp_all add: bindM_run)
qed

lemma agree_try_catch [agree_intros]:
  assumes "agree m m'" and "\<And>e. agree (h e) (h' e)"
  shows "agree (try_catch m h) (try_catch m' h')"
  unfolding agree_def
proof (intro allI impI)
  fix s s' assume "same_state s s'"
  from agreeD [OF assms(1) this] obtain r t t' where "m s = (r, t)" "m' s' = (r, t')" "same_state t t'"
    by (metis prod.collapse)
  moreover from this(3) have "exit_code t' = exit_code t" by (simp add: same_state_def)
  ultimately show "fst (try_catch m h s) = fst (try_catch m' h' s')
      \<and> same_state (snd (try_catch m h s)) (snd (try_catch m' h' s'))"
    using agreeD [OF assms(2)] by (cases r) (simp_all add: try_catch_run)
qed

lemma agree_if [agree_intros]: "agree m m' \<Longrightarrow> agree n n' \<Longrightarrow> agree (if b then m else n) (if b then m' else n')"
  by simp

lemma agree_awaitM:
  assumes "same_world E E'" and "strip_headers ef = strip_headers ef'"
    and "\<And>t t'. same_effects t t' \<Longrightarrow> ans t = ans' t'"
  shows "agree (awaitM E rel_listener ef ans) (awaitM E' desk_listener ef' ans')"
  unfolding agree_def
proof (intro allI impI)
  fix s s' assume "same_state s s'"
  then have n: "same_state (note_effect ef s) (note_effect ef' s')" by (rule same_state_note [OF _ assms(2)])
  then have e: "same_effects (trace s @ [ef]) (trace s' @ [ef'])" by (simp add: same_state_def)
  have d: "same_state (deliver E rel_listener (note_effect ef s)) (deliver E' desk_listener (note_effect ef' s'))"
    using same_state_listeners [OF n, of "env_events E' (trace s' @ [ef'])"] same_worldD(2) [OF assms(1) e]
    by (simp add: deliver_def)
  then show "fst (awaitM E rel_listener ef ans s) = fst (awaitM E' desk_listener ef' ans' s')
      \<and> same_state (snd (awaitM E rel_listener ef ans s)) (snd (awaitM E' desk_listener ef' ans' s'))"
    using assms(3) [OF e] by (simp add: awaitM_def Let_def same_state_def)
qed

lemma agree_sleep: "same_world E E' \<Longrightarrow> agree (sleep E rel_listener ms) (sleep E' desk_listener ms)"
  unfolding sleep_def by (rule agree_awaitM) simp_all

lemma agree_fetch:
  assumes "same_world E E'" and "r\<lparr>req_headers := []\<rparr> = r'\<lparr>req_headers := []\<rparr>"
  shows "agree (fetch E rel_listener r) (fetch E' desk_listener r')"
  unfolding fetch_def
proof (rule agree_awaitM)
  fix t t' assume "same_effects t t'"
  from same_worldD(1) [OF assms(1) this, where r = r and h = "req_headers r" and h' = "req_headers r'"]
  show "env_fetch E t r = env_fetch E' t' r'" using assms(2) by (cases r; cases r') simp
qed (use assms in simp_all)

lemma agree_spawnM:
  assumes "same_world E E'"
  shows "agree (spawnM E bin args) (spawnM E' bin args)"
  unfolding agree_def
proof (intro allI impI)
  fix s s' assume "same_state s s'"
  then have n: "same_state (note_effect (Spawn bin args) s) (note_effect (Spawn bin args) s')"
    by (rule same_state_note) simp
  then have "env_spawn E (trace s @ [Spawn bin args]) = env_spawn E' (trace s' @ [Spawn bin args])"
    by (intro same_worldD(4) [OF assms]) (simp add: same_state_def)
  with n show "fst (spawnM E bin args s) = fst (spawnM E' bin args s')
      \<and> same_state (snd (spawnM E bin args s)) (snd (spawnM E' bin args s'))"
    by (simp add: spawnM_def Let_def)
qed

lemma agree_readdirM: "same_world E E' \<Longrightarrow> agree (readdirM E d) (readdirM E' d)"
  using same_worldD(3) by (fastforce simp: agree_def readdirM_def same_state_def)

lemma agree_await_wallet: "same_world E E' \<Longrightarrow> agree (await_wallet E rel_listener) (await_wallet E' desk_listener)"
  unfolding await_wallet_def
  using same_worldD(5) by (intro agree_intros agree_getM agree_sleep) (fastforce simp: same_state_def)+

section \<open>The helpers of the two servers\<close>

lemma desk_post_stripped:
  "(post_json url (JObj ps))\<lparr>req_headers := []\<rparr> = (desk_http_request url' (desk_post (JObj ps)))\<lparr>req_headers := []\<rparr>
   \<longleftrightarrow> url = ''http://'' @ url_hostname url' @ '':'' @ url_port url' @ url_pathname url'"
  by (simp add: post_json_def desk_http_request_def desk_post_def stringify_def)

lemmas url_defs = url_hostname_def url_port_def url_pathname_def url_rest_def is_digit_def

lemma agree_walletRpc:
  "same_world E E' \<Longrightarrow> agree (rel_walletRpc E m ps) (desk_walletRpc E' m ps)"
  unfolding rel_walletRpc_def desk_walletRpc_def desk_fetch_def rpc_call_def
  by (intro agree_intros agree_fetch)
     (simp_all add: desk_post_stripped rel_WALLET_RPC_def desk_WALLET_RPC_def url_defs)

lemma agree_daemonRpc:
  "same_world E E' \<Longrightarrow> agree (rel_daemonRpc E m ps) (desk_daemonRpc E' m ps)"
  unfolding rel_daemonRpc_def desk_daemonRpc_def desk_fetch_def rpc_call_def
  by (intro agree_intros agree_fetch)
     (simp_all add: desk_post_stripped rel_DAEMON_RPC_def desk_DAEMON_RPC_def url_defs)

lemma same_world_paths:
  assumes "same_world E E'"
  shows "rel_WALLET_DIR E = desk_WALLET_DIR E'" and "rel_WALLET_RPC_BIN E = desk_WALLET_RPC_BIN E'"
    and "rel_wallet_args E = desk_wallet_args E'"
  using assms by (simp_all add: same_world_def rel_wallet_args_def desk_wallet_args_def)

lemma agree_startWalletRpc:
  assumes "same_world E E'"
  shows "agree (rel_startWalletRpc E) (desk_startWalletRpc E')"
  unfolding rel_startWalletRpc_def desk_startWalletRpc_def same_world_paths [OF assms]
  by (intro agree_intros agree_spawnM [OF assms] agree_await_wallet [OF assms])

section \<open>The handlers of the two servers\<close>

lemma agree_list:
  assumes "same_world E E'"
  shows "agree (rel_api_wallet_list E r) (desk_api_wallet_list E' r)"
  unfolding rel_api_wallet_list_def desk_api_wallet_list_def list_handler_def same_world_paths [OF assms]
  by (intro agree_intros agree_readdirM [OF assms])

lemmas agree_server = agree_walletRpc agree_daemonRpc agree_startWalletRpc agree_list

lemma agree_wallet:
  assumes "same_world E E'"
  shows "agree (rel_api_wallet_create E r) (desk_api_wallet_create E' r)"
    and "agree (rel_api_wallet_open E r) (desk_api_wallet_open E' r)"
    and "agree (rel_api_wallet_restore E r) (desk_api_wallet_restore E' r)"
    and "agree (rel_api_wallet_balance E r) (desk_api_wallet_balance E' r)"
    and "agree (rel_api_wallet_address E r) (desk_api_wallet_address E' r)"
    and "agree (rel_api_wallet_transfers E r) (desk_api_wallet_transfers E' r)"
    and "agree (rel_api_wallet_refresh E r) (desk_api_wallet_refresh E' r)"
    and "agree (rel_api_wallet_close E r) (desk_api_wallet_close E' r)"
    and "agree (rel_api_wallet_status E r) (desk_api_wallet_status E' r)"
  unfolding rel_wallet_defs desk_wallet_defs Let_def
  by (intro agree_intros agree_server [OF assms])+

lemma agree_daemon:
  assumes "same_world E E'"
  shows "agree (rel_api_info E r) (desk_api_info E' r)"
    and "agree (rel_api_last_block E r) (desk_api_last_block E' r)"
    and "agree (rel_api_block E r) (desk_api_block E' r)"
  unfolding rel_api_defs desk_api_defs by (intro agree_intros agree_server [OF assms])+

lemma mining_stripped:
  "(get_request (rel_DAEMON_HTTP @ ''/mining_status''))\<lparr>req_headers := []\<rparr>
    = (desk_http_request (desk_DAEMON_HTTP @ ''/mining_status'') desk_get)\<lparr>req_headers := []\<rparr>"
  "(post_json (rel_DAEMON_HTTP @ ''/start_mining'') (rel_mining_body a n))\<lparr>req_headers := []\<rparr>
    = (desk_http_request (desk_DAEMON_HTTP @ ''/start_mining'') (desk_post (desk_mining_body a n)))\<lparr>req_headers := []\<rparr>"
  "(rel_post_empty (rel_DAEMON_HTTP @ ''/stop_mining''))\<lparr>req_headers := []\<rparr>
    = (desk_http_request (desk_DAEMON_HTTP @ ''/stop_mining'')
         \<lparr>opt_method = Some ''POST'', opt_headers = [], opt_body = None\<rparr>)\<lparr>req_headers := []\<rparr>"
  by (simp_all add: rel_mining_body_def desk_mining_body_def desk_post_stripped)
     (simp_all add: rel_DAEMON_HTTP_def desk_DAEMON_HTTP_def url_defs get_request_def desk_get_def
        desk_http_request_def rel_post_empty_def)

lemma agree_mining:
  assumes "same_world E E'"
  shows "agree (rel_api_mining_status E r) (desk_api_mining_status E' r)"
    and "agree (rel_api_mining_start E r) (desk_api_mining_start E' r)"
    and "agree (rel_api_mining_stop E r) (desk_api_mining_stop E' r)"
  unfolding rel_api_defs desk_api_defs desk_fetchJson_def desk_fetch_def bindM_assoc
  by (intro agree_intros agree_fetch [OF assms] mining_stripped)+

section \<open>Sessions\<close>

text \<open>
  The answers to a sequence of requests, \<open>None\<close> where no route matches; a server that has ended
  answers nothing more.
\<close>

fun replies :: "((string \<times> string) \<times> ('e env \<Rightarrow> http_in \<Rightarrow> ('z io_base_scheme, reply) io)) list \<Rightarrow> 'e env \<Rightarrow>
    ((string \<times> string) \<times> http_in) list \<Rightarrow> 'z io_base_scheme \<Rightarrow> (exn + reply) option list" where
  "replies routes E [] s = []"
| "replies routes E ((rt, r) # qs) s =
     (if exit_code s \<noteq> None then []
      else case map_of routes rt of
        None \<Rightarrow> None # replies routes E qs s
      | Some h \<Rightarrow> Some (fst (h E r s)) # replies routes E qs (settle (h E r) s))"

definition send_route :: "string \<times> string" where
  "send_route = (''POST'', ''/api/wallet/send'')"

lemma agree_settle: "agree m m' \<Longrightarrow> same_state s s' \<Longrightarrow> same_state (settle m s) (settle m' s')"
  using agreeD [of m m' s s'] by (auto simp: settle_def same_state_def split: prod.splits sum.splits)

lemma routes_agree:
  assumes "same_world E E'" and "map_of rel_routes rt = Some h" and "rt \<noteq> send_route"
  shows "\<exists>h'. map_of desk_routes rt = Some h' \<and> agree (h E r) (h' E' r)"
  using assms(2,3) agree_wallet [OF assms(1)] agree_daemon [OF assms(1)] agree_mining [OF assms(1)] agree_list [OF assms(1)]
  by (auto simp: rel_routes_def desk_routes_def send_route_def split: if_splits)


definition rel_world :: "rel_event env" where
  "rel_world = online_env (JObj [(''result'', JObj [(''address'', JStr ''4abc'')])])"

definition desk_world :: "desk_event env" where
  "desk_world = (online_env (JObj [(''result'', JObj [(''address'', JStr ''4abc'')])]))
     \<lparr>env_vars := [''WALLET_DIR'' \<mapsto> rel_WALLET_DIR rel_world, ''WALLET_RPC_BIN'' \<mapsto> rel_WALLET_RPC_BIN rel_world]\<rparr>"


end
