(* ===== verification/Desktop_Props.thy ===== *)
theory Desktop_Props
  imports Desktop_Server Js_Text
begin

text \<open>
  The properties particular to the desktop server: what its \<open>fetch\<close> sends, and which wallet calls a
  send request makes.
\<close>

section \<open>The fetch replacement\<close>

lemma takeWhile_stop: "\<forall>x \<in> set xs. P x \<Longrightarrow> ys = [] \<or> \<not> P (hd ys) \<Longrightarrow> takeWhile P (xs @ ys) = xs"
  by (cases ys) (auto simp: takeWhile_append)

lemma dropWhile_stop: "\<forall>x \<in> set xs. P x \<Longrightarrow> ys = [] \<or> \<not> P (hd ys) \<Longrightarrow> dropWhile P (xs @ ys) = ys"
  by (cases ys) (auto simp: dropWhile_append)

lemma url_parts:
  assumes "CHR '':'' \<notin> set host" and "CHR ''/'' \<notin> set host" and "\<forall>c \<in> set port. is_digit c"
    and "CHR ''?'' \<notin> set path" and "CHR ''#'' \<notin> set path" and "query = [] \<or> hd query = CHR ''?''"
    and url: "url = ''http://'' @ host @ '':'' @ port @ ''/'' @ path @ query"
  shows "url_hostname url = host" "url_port url = port" "url_pathname url = ''/'' @ path"
proof -
  have rest: "url_rest url = host @ CHR '':'' # port @ CHR ''/'' # path @ query"
    by (simp add: url_rest_def url)
  show h: "url_hostname url = host"
    unfolding url_hostname_def rest using assms(1,2) by (intro takeWhile_stop) auto
  have "\<not> is_digit (CHR ''/'')" by (simp add: is_digit_def)
  then have "takeWhile is_digit (port @ CHR ''/'' # path @ query) = port" using assms(3) by (intro takeWhile_stop) auto
  then show "url_port url = port" by (simp add: url_port_def h rest)
  have "CHR ''/'' \<notin> set port" using assms(3) by (auto simp: is_digit_def)
  then have "dropWhile (\<lambda>c. c \<noteq> CHR ''/'') ((host @ CHR '':'' # port) @ CHR ''/'' # path @ query) = CHR ''/'' # path @ query"
    using assms(2) by (intro dropWhile_stop) auto
  moreover have "takeWhile (\<lambda>c. c \<noteq> CHR ''?'' \<and> c \<noteq> CHR ''#'') ((CHR ''/'' # path) @ query) = CHR ''/'' # path"
    using assms(4-6) by (intro takeWhile_stop) auto
  ultimately show "url_pathname url = ''/'' @ path" by (simp add: url_pathname_def rest)
qed

text \<open>The bytes of a text in UTF-8, for units below 0x100.\<close>

definition utf8 :: "string \<Rightarrow> nat list" where
  "utf8 s = concat (map (\<lambda>c. let n = of_char c in if n < 128 then [n] else [192 + n div 64, 128 + n mod 64]) s)"

lemma length_utf8: "length (utf8 s) = byte_length s"
  by (induction s) (auto simp: utf8_def byte_length_def Let_def)



section \<open>Sending\<close>

lemma desk_listener_trace [simp]: "trace (desk_listener e s) = trace s"
  by (cases e) simp_all

lemma desk_deliver_trace [simp]: "trace (deliver E desk_listener s) = trace s"
proof -
  have "trace (fold desk_listener es t) = trace t" for es and t :: desk
    by (induction es arbitrary: t) simp_all
  then show ?thesis by (simp add: deliver_def)
qed

definition desk_rpc_request :: "string \<Rightarrow> js \<Rightarrow> http_request" where
  "desk_rpc_request m ps = desk_http_request desk_WALLET_RPC (desk_post (rpc_call m ps))"

text \<open>What the wallet RPC server answers to a call made after the effects \<open>t\<close>.\<close>

definition desk_answer :: "desk_event env \<Rightarrow> effect list \<Rightarrow> string \<Rightarrow> js \<Rightarrow> exn + js" where
  "desk_answer E t m ps = (case env_fetch E t (desk_rpc_request m ps) of Inl e \<Rightarrow> Inl e | Inr r \<Rightarrow> res_json r)"

lemma desk_walletRpc_effect:
  assumes "desk_walletRpc E m ps s = (r, t)"
  shows "trace t = trace s @ [Fetch (desk_rpc_request m ps)]
    \<and> (\<forall>d. r = Inr d \<longrightarrow> desk_answer E (trace t) m ps = Inr d)"
  using assms
  by (auto simp: desk_walletRpc_def desk_fetch_def desk_answer_def desk_rpc_request_def io_simps Let_def
      split: sum.splits if_splits)

text \<open>The calls of a consolidation, and that it never reports success.\<close>

definition sweeps_own :: "desk_event env \<Rightarrow> effect list \<Rightarrow> effect list \<Rightarrow> bool" where
  "sweeps_own E t fx \<longleftrightarrow>
     (let a = Fetch (desk_rpc_request ''get_address'' (JObj [])) in
      fx = [a] \<or> (\<exists>d. desk_answer E (t @ [a]) ''get_address'' (JObj []) = Inr d \<and>
        fx = [a, Fetch (desk_rpc_request ''sweep_all'' (desk_sweep_params (js_opt (js_prop d ''result'') ''address'')))]))"

lemma desk_consolidate_calls:
  assumes "desk_consolidate E err s = (v, t)"
  shows "\<exists>fx. trace t = trace s @ fx \<and> sweeps_own E (trace s) fx \<and> (\<forall>a. v = Inr a \<longrightarrow> \<not> succeeded a)"
proof -
  obtain r u where ru: "desk_walletRpc E ''get_address'' (JObj []) s = (r, u)" by force
  note a = desk_walletRpc_effect [OF ru]
  show ?thesis
  proof (cases "\<exists>d. r = Inr d \<and> \<not> nullish d \<and> truthy (js_opt (js_prop d ''result'') ''address'')")
    case False
    then have "trace t = trace u \<and> (\<forall>a. v = Inr a \<longrightarrow> \<not> succeeded a)"
      using assms ru by (auto simp: desk_consolidate_def bindM_run liftE_run js_get_def Let_def json_reply_run
          succeeded_def failure_obj_def split: sum.splits if_splits)
    then show ?thesis using a by (auto simp: sweeps_own_def Let_def)
  next
    case True
    then obtain d where d: "r = Inr d" "\<not> nullish d" "truthy (js_opt (js_prop d ''result'') ''address'')" by blast
    let ?my = "js_opt (js_prop d ''result'') ''address''"
    obtain q w where qw: "desk_walletRpc E ''sweep_all'' (desk_sweep_params ?my) u = (q, w)" by force
    have "t = w \<and> (\<forall>a. v = Inr a \<longrightarrow> \<not> succeeded a)"
      using assms ru qw d by (auto simp: desk_consolidate_def bindM_run liftE_run js_get_def Let_def json_reply_run
          succeeded_def failure_obj_def desk_consolidating_obj_def split: sum.splits if_splits)
    then show ?thesis using a d(1) desk_walletRpc_effect [OF qw] by (auto simp: sweeps_own_def Let_def)
  qed
qed

text \<open>The \<open>try\<close> block of the send handler, for an amount that converts to \<open>n\<close>.\<close>

definition no_success :: "exn + reply \<Rightarrow> bool" where
  "no_success v = (case v of Inl e \<Rightarrow> True | Inr a \<Rightarrow> \<not> succeeded a)"

lemma no_success_simps [simp]:
  "no_success (Inl e)" "no_success (Inr (Reply k (error_obj e' ps))) = (own_get ps ''success'' \<noteq> JBool True)"
  "no_success (Inr (Reply k (failure_obj err)))" "no_success (Inr (Reply k (JObj [(''error'', x)])))"
  by (simp_all add: no_success_def succeeded_def error_obj_def failure_obj_def)

lemma desk_send_block:
  assumes "\<not> nullish (in_body r)" and "truthy (js_prop (in_body r) ''address'')" and "truthy (js_prop (in_body r) ''amount'')"
    and "atomic_amount (js_prop (in_body r) ''amount'') = Inr n"
    and "T = Fetch (desk_rpc_request ''transfer'' (transfer_params 16 (js_prop (in_body r) ''address'') n (js_prop (in_body r) ''payment_id'')))"
    and "desk_api_wallet_send E r s = (v, t)"
  shows "trace t = trace s @ [T] \<or> (\<exists>gx. trace t = trace s @ T # gx \<and> sweeps_own E (trace s @ [T]) gx \<and> no_success v)"
proof -
  let ?ps = "transfer_params 16 (js_prop (in_body r) ''address'') n (js_prop (in_body r) ''payment_id'')"
  obtain q u where qu: "desk_walletRpc E ''transfer'' ?ps s = (q, u)" by force
  have u: "trace u = trace s @ [T]" using desk_walletRpc_effect [OF qu] assms(5) by simp
  show ?thesis
  proof (cases "\<exists>d. q = Inr d \<and> \<not> nullish d \<and> desk_needs_sweep (js_prop d ''error'') = Inr True")
    case False
    then have "trace t = trace u"
      using assms(1-4,6) qu
      by (auto simp: desk_api_wallet_send_def bindM_run try_catch_run liftE_run error_of_def js_get_def Let_def
          json_reply_run status_reply_run split: sum.splits if_splits)
    then show ?thesis using u by simp
  next
    case True
    then obtain d where d: "q = Inr d" "\<not> nullish d" "desk_needs_sweep (js_prop d ''error'') = Inr True" by blast
    obtain x w where xw: "desk_consolidate E (js_prop d ''error'') u = (x, w)" by force
    obtain gx where gx: "trace w = trace u @ gx" "sweeps_own E (trace u) gx" "\<forall>a. x = Inr a \<longrightarrow> \<not> succeeded a"
      using desk_consolidate_calls [OF xw] by blast
    have "t = w \<and> no_success v"
      using assms(1-4,6) qu d xw gx(3)
      by (cases x) (auto simp: desk_api_wallet_send_def bindM_run try_catch_run liftE_run error_of_def Let_def
          status_reply_run no_success_def succeeded_def error_obj_def split: if_splits)
    then show ?thesis using u gx by auto
  qed
qed

text \<open>
  C6. Which wallet calls a desktop send request makes. Either none, and success is not reported; or
  one \<open>transfer\<close> with the requested address and amount; or that transfer followed by \<open>get_address\<close>
  and at most one \<open>sweep_all\<close>, whose destination is the wallet's own address as \<open>get_address\<close> just
  reported it, and then success is not reported either. No transfer is ever made twice.
\<close>
theorem desk_send_calls:
  assumes "desk_api_wallet_send E r s = (v, t)"
  shows "trace t = trace s \<and> no_success v \<or>
    (\<exists>n T. atomic_amount (js_prop (in_body r) ''amount'') = Inr n
      \<and> T = Fetch (desk_rpc_request ''transfer'' (transfer_params 16 (js_prop (in_body r) ''address'') n (js_prop (in_body r) ''payment_id'')))
      \<and> (trace t = trace s @ [T] \<or>
         (\<exists>gx. trace t = trace s @ T # gx \<and> sweeps_own E (trace s @ [T]) gx \<and> no_success v)))"
proof (cases "\<not> nullish (in_body r) \<and> truthy (js_prop (in_body r) ''address'') \<and> truthy (js_prop (in_body r) ''amount'')
    \<and> (\<exists>n. atomic_amount (js_prop (in_body r) ''amount'') = Inr n)")
  case True
  then show ?thesis using desk_send_block [OF _ _ _ _ refl assms] by blast
next
  case False
  then have "t = s \<and> no_success v"
    using assms by (auto simp: desk_api_wallet_send_def bindM_run try_catch_run liftE_run throwM_run js_get_def
        status_reply_run split: sum.splits if_splits)
  then show ?thesis by simp
qed

definition desk_send_request :: http_in where
  "desk_send_request = with_body (JObj [(''address'', JStr ''4abc''), (''amount'', js_nat 1)])"

text \<open>Instance of C6: the wallet RPC server does not answer.\<close>
theorem desk_send_calls_witness:
  "let (v, t) = desk_api_wallet_send example_env desk_send_request desk_init in
    trace t = trace desk_init \<and> no_success v \<or>
    (\<exists>n T. atomic_amount (js_prop (in_body desk_send_request) ''amount'') = Inr n
      \<and> T = Fetch (desk_rpc_request ''transfer'' (transfer_params 16 (js_prop (in_body desk_send_request) ''address'') n
              (js_prop (in_body desk_send_request) ''payment_id'')))
      \<and> (trace t = trace desk_init @ [T] \<or>
         (\<exists>gx. trace t = trace desk_init @ T # gx \<and> sweeps_own example_env (trace desk_init @ [T]) gx \<and> no_success v)))"
proof -
  obtain v t where vt: "desk_api_wallet_send example_env desk_send_request desk_init = (v, t)" by force
  from desk_send_calls [OF vt] show ?thesis unfolding vt by simp
qed

end
