(* ===== verification/Desktop_Main.thy ===== *)
theory Desktop_Main
  imports Node_Env Js_Text
begin

text \<open>
  \<open>desktop-app/main.js\<close> and \<open>preload.js\<close>: the Electron main process. It finds the bundled
  binaries, starts the daemon and waits for it, starts the embedded server, opens the window, and
  stops the daemon through its pid file when the windows close or the app quits. The lifecycle is a
  sequence of inputs (\<open>main_input\<close>), each handled to its end.
\<close>

section \<open>Constants, state, paths\<close>

definition main_DAEMON_PORT :: int where
  "main_DAEMON_PORT = 19081"

definition main_SERVER_PORT :: int where
  "main_SERVER_PORT = 8080"

text \<open>\<open>mainWindow\<close> (whether it holds a window) and \<open>daemonProcess\<close>; \<open>serverProcess\<close> is never assigned.\<close>

record desktop = io_base +
  mainWindow :: bool
  main_daemonProcess :: "child option"

definition main_init :: desktop where
  "main_init = \<lparr>trace = [], exit_code = None, mainWindow = False, main_daemonProcess = None\<rparr>"

text \<open>
  The window's \<open>closed\<close> listener. The daemon process has no \<open>error\<close> listener: Electron reports an
  uncaught exception of the main process to the user and goes on.
\<close>

datatype main_event = WindowClosed | DaemonSpawnError

fun main_listener :: "main_event \<Rightarrow> desktop \<Rightarrow> desktop" where
  "main_listener WindowClosed s = s\<lparr>mainWindow := False\<rparr>"
| "main_listener DaemonSpawnError s = s"

definition main_env_key :: "string \<Rightarrow> string option" where
  "main_env_key filename =
     (if includes_sub (to_lower filename) ''cocained'' then Some ''COCAINE_DAEMON_PATH''
      else if includes_sub (to_lower filename) ''wallet-rpc'' then Some ''COCAINE_WALLET_RPC_PATH'' else None)"

text \<open>The bundled binary; Electron always sets \<open>process.resourcesPath\<close>.\<close>

definition main_bundled :: "'e env \<Rightarrow> string \<Rightarrow> string" where
  "main_bundled E filename =
     (if env_packaged E then path_join [case env_resources E of None \<Rightarrow> [] | Some r \<Rightarrow> r, ''bin'', filename]
      else path_join [env_dirname E, ''bin'', filename])"

definition main_getResourcePath :: "'e env \<Rightarrow> string \<Rightarrow> string" where
  "main_getResourcePath E filename =
     (case Option.bind (main_env_key filename) (env_vars E) of
        Some v \<Rightarrow> if v \<noteq> [] then v else main_bundled E filename
      | None \<Rightarrow> main_bundled E filename)"

definition main_getDataPath :: "'e env \<Rightarrow> string" where
  "main_getDataPath E = path_join [env_user_data E, ''blockchain'']"

definition main_getWalletPath :: "'e env \<Rightarrow> string" where
  "main_getWalletPath E = path_join [env_user_data E, ''wallets'']"

definition main_pidFile :: "'e env \<Rightarrow> string" where
  "main_pidFile E = path_join [main_getDataPath E, ''cocained.pid'']"

definition main_logFile :: "'e env \<Rightarrow> string" where
  "main_logFile E = path_join [main_getDataPath E, ''cocained.log'']"

section \<open>The daemon\<close>

definition main_height_request :: http_request where
  "main_height_request = get_request (''http://127.0.0.1:'' @ dec_string main_DAEMON_PORT @ ''/get_height'')"

text \<open>An error and a time-out both resolve to \<open>false\<close>.\<close>

definition main_isDaemonRunning :: "main_event env \<Rightarrow> (desktop, bool) io" where
  "main_isDaemonRunning E =
     try_catch (bindM (fetch E main_listener main_height_request) (\<lambda>res. ret (res_status res = 200)))
       (\<lambda>_. ret False)"

definition main_daemon_args :: "'e env \<Rightarrow> string list" where
  "main_daemon_args E = [''--non-interactive'', ''--data-dir'', main_getDataPath E, ''--log-level'', ''1'',
     ''--rpc-bind-ip'', ''127.0.0.1'', ''--rpc-bind-port'', dec_string main_DAEMON_PORT]"

definition main_daemonPath :: "'e env \<Rightarrow> string" where
  "main_daemonPath E = main_getResourcePath E (if env_platform E = ''win32'' then ''cocained.exe'' else ''cocained'')"

text \<open>The loop that waits for the daemon: one second, then a check, \<open>n\<close> times at most.\<close>

fun main_wait :: "main_event env \<Rightarrow> nat \<Rightarrow> (desktop, bool) io" where
  "main_wait E 0 = ret False"
| "main_wait E (Suc n) =
     bindM (sleep E main_listener 1000) (\<lambda>_.
     bindM (main_isDaemonRunning E) (\<lambda>up. if up then ret True else main_wait E n))"

text \<open>\<open>String(daemonProcess.pid)\<close>.\<close>

definition pid_text :: "child \<Rightarrow> string" where
  "pid_text c = (case child_pid c of None \<Rightarrow> ''undefined'' | Some p \<Rightarrow> int_string p)"

text \<open>Whether the binary is there; a failing \<open>chmod\<close> is ignored.\<close>

definition main_preflight :: "main_event env \<Rightarrow> (desktop, bool) io" where
  "main_preflight E =
     bindM (existsM E (main_daemonPath E)) (\<lambda>ex.
     if \<not> ex then ret False
     else bindM (if env_platform E \<noteq> ''win32''
                 then try_catch (fsM E (Chmod (main_daemonPath E))) (\<lambda>_. ret ()) else ret ()) (\<lambda>_.
          ret True))"

definition main_try :: "(desktop, 'a) io \<Rightarrow> (desktop, 'a option) io" where
  "main_try m = try_catch (bindM m (\<lambda>a. ret (Some a))) (\<lambda>_. ret None)"

definition main_startDaemon :: "main_event env \<Rightarrow> (desktop, bool) io" where
  "main_startDaemon E =
     bindM (main_isDaemonRunning E) (\<lambda>up.
     if up then ret True
     else
     bindM (mkdir_missing E (main_getDataPath E)) (\<lambda>_.
     bindM (main_preflight E) (\<lambda>ok.
     if \<not> ok then ret False
     else
     bindM (main_try (fsM E (OpenAppend (main_logFile E)))) (\<lambda>opened.
     if opened = None then ret False
     else
     bindM (main_try (spawnM E (main_daemonPath E) (main_daemon_args E))) (\<lambda>spawned.
     case spawned of
       None \<Rightarrow> bindM (main_try (fsM E CloseFile)) (\<lambda>_. ret False)
     | Some c \<Rightarrow>
         bindM (modM (\<lambda>s. s\<lparr>main_daemonProcess := Some c\<rparr>)) (\<lambda>_.
         bindM (main_try (fsM E (WriteFile (main_pidFile E) (pid_text c)))) (\<lambda>_.
         main_wait E 30)))))))"

text \<open>Signal the process group, or the process alone when that fails.\<close>

definition main_signal :: "main_event env \<Rightarrow> jsnum \<Rightarrow> (desktop, unit) io" where
  "main_signal E n = (case as_pid (JNum n) of None \<Rightarrow> throwM (Exn ''The pid argument must be of type number'')
     | Some p \<Rightarrow> killM E p ''SIGTERM'')"

definition main_terminate :: "main_event env \<Rightarrow> jsnum \<Rightarrow> (desktop, unit) io" where
  "main_terminate E pid =
     (if env_platform E = ''win32'' then execSyncM E (''taskkill /pid '' @ num_to_string pid @ '' /T /F'')
      else try_catch (main_signal E (num_sub (Fin 0) pid)) (\<lambda>_. main_signal E pid))"

definition main_stopDaemon :: "main_event env \<Rightarrow> (desktop, unit) io" where
  "main_stopDaemon E =
     bindM (try_catch
       (bindM (existsM E (main_pidFile E)) (\<lambda>ex.
        if ex then
          bindM (readFileM E (main_pidFile E)) (\<lambda>content.
          let pid = parseInt10_text (js_trim content) in
          bindM (if pid \<noteq> NaN then main_terminate E pid else ret ()) (\<lambda>_.
          fsM E (Unlink (main_pidFile E))))
        else ret ()))
       (\<lambda>_. ret ())) (\<lambda>_.
     modM (\<lambda>s. s\<lparr>main_daemonProcess := None\<rparr>))"

section \<open>Server, window, lifecycle\<close>

definition main_walletRpcPath :: "'e env \<Rightarrow> string" where
  "main_walletRpcPath E =
     main_getResourcePath E (if env_platform E = ''win32'' then ''cocaine-wallet-rpc.exe'' else ''cocaine-wallet-rpc'')"

definition main_startServer :: "main_event env \<Rightarrow> (desktop, unit) io" where
  "main_startServer E =
     bindM (doM (SetEnv ''WALLET_DIR'' (main_getWalletPath E))) (\<lambda>_.
     bindM (doM (SetEnv ''WALLET_RPC_BIN'' (main_walletRpcPath E))) (\<lambda>_.
     doM (Require ''./server.js'')))"

definition main_url :: string where
  "main_url = ''http://127.0.0.1:'' @ dec_string main_SERVER_PORT"

definition main_createWindow :: "main_event env \<Rightarrow> (desktop, unit) io" where
  "main_createWindow E =
     bindM (doM (Window main_url)) (\<lambda>_. modM (\<lambda>s. s\<lparr>mainWindow := True\<rparr>))"

definition main_whenReady :: "main_event env \<Rightarrow> (desktop, unit) io" where
  "main_whenReady E =
     bindM (main_startDaemon E) (\<lambda>daemonStarted.
     bindM (if daemonStarted then ret ()
            else doM (ErrorBox ''Failed to start COCAINE daemon. Please check logs.'')) (\<lambda>_.
     bindM (main_startServer E) (\<lambda>_.
     main_createWindow E)))"

definition main_all_closed :: "main_event env \<Rightarrow> (desktop, unit) io" where
  "main_all_closed E =
     bindM (main_stopDaemon E) (\<lambda>_.
     if env_platform E \<noteq> ''darwin'' then doM AppQuit else ret ())"

definition main_activate :: "main_event env \<Rightarrow> (desktop, unit) io" where
  "main_activate E =
     bindM (getM (\<lambda>s. env_windows E (trace s))) (\<lambda>n.
     if n = 0 then main_createWindow E else ret ())"

definition main_before_quit :: "main_event env \<Rightarrow> (desktop, unit) io" where
  "main_before_quit E = main_stopDaemon E"

datatype main_input = Ready | AllClosed | Activate | BeforeQuit | Happens main_event

fun main_handle :: "main_event env \<Rightarrow> main_input \<Rightarrow> desktop \<Rightarrow> desktop" where
  "main_handle E Ready s = snd (main_whenReady E s)"
| "main_handle E AllClosed s = snd (main_all_closed E s)"
| "main_handle E Activate s = snd (main_activate E s)"
| "main_handle E BeforeQuit s = snd (main_before_quit E s)"
| "main_handle E (Happens e) s = main_listener e s"

text \<open>What \<open>preload.js\<close> exposes to the page as \<open>window.cocaine\<close>.\<close>

definition preload_api :: "'e env \<Rightarrow> js" where
  "preload_api E = JObj [(''platform'', JStr (env_platform E)), (''version'', JStr ''1.0.0'')]"

section \<open>Waiting for the daemon\<close>

lemma main_listener_base [simp]:
  "trace (main_listener e s) = trace s" "exit_code (main_listener e s) = exit_code s"
  "main_daemonProcess (main_listener e s) = main_daemonProcess s"
  by (cases e; simp)+

lemma main_deliver_base [simp]:
  "trace (deliver E main_listener s) = trace s" "exit_code (deliver E main_listener s) = exit_code s"
  "main_daemonProcess (deliver E main_listener s) = main_daemonProcess s"
proof -
  have "trace (fold main_listener es t) = trace t \<and> exit_code (fold main_listener es t) = exit_code t
      \<and> main_daemonProcess (fold main_listener es t) = main_daemonProcess t" for es and t :: desktop
    by (induction es arbitrary: t) simp_all
  then show "trace (deliver E main_listener s) = trace s" "exit_code (deliver E main_listener s) = exit_code s"
      "main_daemonProcess (deliver E main_listener s) = main_daemonProcess s"
    by (simp_all add: deliver_def)
qed

lemma main_note_base [simp]: "main_daemonProcess (note_effect ef s) = main_daemonProcess s"
  by (simp add: note_effect_def)

text \<open>Whether the daemon answers the height request with status 200 after the effects \<open>t\<close>.\<close>

definition main_up :: "main_event env \<Rightarrow> effect list \<Rightarrow> bool" where
  "main_up E t = (case env_fetch E t main_height_request of Inl e \<Rightarrow> False | Inr r \<Rightarrow> res_status r = 200)"

definition main_polls :: "nat \<Rightarrow> effect list" where
  "main_polls k = concat (replicate k [Sleep 1000, Fetch main_height_request])"

lemma main_polls_simps [simp]:
  "main_polls 0 = []" "main_polls (Suc k) = Sleep 1000 # Fetch main_height_request # main_polls k"
  by (simp_all add: main_polls_def)

lemma main_isDaemonRunning_run:
  assumes "exit_code s = None"
  shows "main_isDaemonRunning E s = (Inr (main_up E (trace s @ [Fetch main_height_request])),
    deliver E main_listener (note_effect (Fetch main_height_request) s))"
  using assms by (simp add: main_isDaemonRunning_def main_up_def io_simps Let_def split: sum.splits)

lemma main_wait_Suc:
  assumes "exit_code s = None"
  obtains u where "exit_code u = None" "trace u = trace s @ main_polls 1"
    "main_daemonProcess u = main_daemonProcess s"
    "main_wait E (Suc n) s = (if main_up E (trace s @ main_polls 1) then (Inr True, u) else main_wait E n u)"
proof -
  define t where "t = deliver E main_listener (note_effect (Sleep 1000) s)"
  define u where "u = deliver E main_listener (note_effect (Fetch main_height_request) t)"
  have t: "exit_code t = None" "trace t = trace s @ [Sleep 1000]" "main_daemonProcess t = main_daemonProcess s"
    using assms by (simp_all add: t_def)
  have u: "exit_code u = None" "trace u = trace s @ main_polls 1" "main_daemonProcess u = main_daemonProcess s"
    using t by (simp_all add: u_def)
  have "main_wait E (Suc n) s = (if main_up E (trace s @ main_polls 1) then (Inr True, u) else main_wait E n u)"
    using assms main_isDaemonRunning_run [OF t(1)] t
    by (simp add: bindM_run sleep_def awaitM_def Let_def ret_run flip: t_def u_def)
  with u show thesis by (rule that)
qed

text \<open>The loop polls until the first success and gives up after \<open>n\<close> polls.\<close>

lemma main_wait_spec:
  assumes "exit_code s = None"
  shows "\<exists>b k s'. main_wait E n s = (Inr b, s') \<and> k \<le> n \<and> exit_code s' = None \<and>
    trace s' = trace s @ main_polls k \<and> main_daemonProcess s' = main_daemonProcess s \<and>
    (b \<longrightarrow> 0 < k \<and> main_up E (trace s @ main_polls k)) \<and>
    (\<not> b \<longrightarrow> k = n \<and> (\<forall>i \<in> {1..n}. \<not> main_up E (trace s @ main_polls i)))"
  using assms
proof (induction n arbitrary: s)
  case 0
  then show ?case by (auto simp: ret_run)
next
  case (Suc n)
  obtain u where u: "exit_code u = None" "trace u = trace s @ main_polls 1"
      "main_daemonProcess u = main_daemonProcess s" and
    run: "main_wait E (Suc n) s = (if main_up E (trace s @ main_polls 1) then (Inr True, u) else main_wait E n u)"
    using main_wait_Suc [OF Suc.prems] .
  show ?case
  proof (cases "main_up E (trace s @ main_polls 1)")
    case True
    then show ?thesis using run u by (intro exI [of _ True] exI [of _ 1] exI [of _ u]) simp
  next
    case False
    obtain b k s' where ih: "main_wait E n u = (Inr b, s')" "k \<le> n" "exit_code s' = None"
        "trace s' = trace u @ main_polls k" "main_daemonProcess s' = main_daemonProcess u"
        "b \<longrightarrow> 0 < k \<and> main_up E (trace u @ main_polls k)"
        "\<not> b \<longrightarrow> k = n \<and> (\<forall>i \<in> {1..n}. \<not> main_up E (trace u @ main_polls i))"
      using Suc.IH [OF u(1)] by blast
    have shift: "trace u @ main_polls i = trace s @ main_polls (Suc i)" for i using u(2) by simp
    have "\<not> main_up E (trace s @ main_polls (Suc j))" if "\<not> b" "j \<le> n" for j
    proof (cases j)
      case (Suc i)
      then have "j \<in> {1..n}" using that(2) by simp
      then show ?thesis using ih(7) that(1) unfolding shift by blast
    qed (use False in simp)
    then have "\<forall>i \<in> {1..Suc n}. \<not> main_up E (trace s @ main_polls i)" if "\<not> b"
      using that by (metis One_nat_def Suc_le_D Suc_le_mono atLeastAtMost_iff)
    then show ?thesis
      using run False ih shift u(3) by (intro exI [of _ b] exI [of _ "Suc k"] exI [of _ s']) auto
  qed
qed

text \<open>So the result says exactly whether one of the polls found the daemon up.\<close>

lemma main_wait_iff:
  assumes "exit_code s = None"
  shows "\<exists>s'. main_wait E n s = (Inr (\<exists>i \<in> {1..n}. main_up E (trace s @ main_polls i)), s')
    \<and> exit_code s' = None \<and> main_daemonProcess s' = main_daemonProcess s
    \<and> (\<exists>k \<le> n. trace s' = trace s @ main_polls k)"
proof -
  obtain b k s' where w: "main_wait E n s = (Inr b, s')" "k \<le> n" "exit_code s' = None"
      "trace s' = trace s @ main_polls k" "main_daemonProcess s' = main_daemonProcess s"
      "b \<longrightarrow> 0 < k \<and> main_up E (trace s @ main_polls k)"
      "\<not> b \<longrightarrow> k = n \<and> (\<forall>i \<in> {1..n}. \<not> main_up E (trace s @ main_polls i))"
    using main_wait_spec [OF assms] by blast
  have "b = (\<exists>i \<in> {1..n}. main_up E (trace s @ main_polls i))"
    using w(2,6,7) by (cases b) (auto intro!: bexI [of _ k])
  then show ?thesis using w by blast
qed

section \<open>Properties\<close>

text \<open>
  The effects of starting the daemon on a POSIX system, up to the wait: probe, \<open>chmod\<close>, log file,
  process, pid file.
\<close>

definition main_start_effects :: "main_event env \<Rightarrow> int \<Rightarrow> effect list" where
  "main_start_effects E p = [Fetch main_height_request, Chmod (main_daemonPath E), OpenAppend (main_logFile E),
     Spawn (main_daemonPath E) (main_daemon_args E), WriteFile (main_pidFile E) (int_string p)]"

text \<open>
  C7. On a POSIX system, when no daemon answers yet, the data directory and the daemon binary
  exist, no file operation fails and the process starts with id \<open>p\<close>, \<open>startDaemon\<close> performs exactly
  the start effects followed by at most 30 one-second polls, returns, and returns \<open>true\<close> exactly
  when one of these 30 polls finds the daemon answering with status 200.
\<close>
theorem main_startDaemon_outcome:
  assumes "exit_code s = None" and "env_platform E \<noteq> ''win32''"
    and "\<not> main_up E (trace s @ [Fetch main_height_request])"
    and "\<forall>t. env_exists E t (main_getDataPath E) \<and> env_exists E t (main_daemonPath E)"
    and "\<forall>t. env_fs E t = None" and "\<forall>t. env_spawn E t = Inr (Some p)"
  shows "\<exists>s' k. main_startDaemon E s = (Inr (\<exists>i \<in> {1..30}. main_up E (trace s @ main_start_effects E p @ main_polls i)), s')
    \<and> k \<le> 30 \<and> trace s' = trace s @ main_start_effects E p @ main_polls k
    \<and> main_daemonProcess s' = Some \<lparr>child_pid = Some p, child_killed = False\<rparr>"
proof -
  define c where "c = \<lparr>child_pid = Some p, child_killed = False\<rparr>"
  define t where "t = deliver E main_listener (note_effect (Fetch main_height_request) s)"
  define u where "u = note_effect (WriteFile (main_pidFile E) (int_string p))
    (note_effect (Spawn (main_daemonPath E) (main_daemon_args E)) (note_effect (OpenAppend (main_logFile E))
      (note_effect (Chmod (main_daemonPath E)) t))\<lparr>main_daemonProcess := Some c\<rparr>)"
  have t: "exit_code t = None" "trace t = trace s @ [Fetch main_height_request]" using assms(1) by (simp_all add: t_def)
  have u: "exit_code u = None" "trace u = trace s @ main_start_effects E p" "main_daemonProcess u = Some c"
    using t by (simp_all add: u_def main_start_effects_def)
  have "main_startDaemon E s = main_wait E 30 u"
    using assms t main_isDaemonRunning_run [OF assms(1), of E]
    by (simp add: main_startDaemon_def mkdir_missing_def main_preflight_def main_try_def io_simps Let_def
        pid_text_def c_def u_def flip: t_def)
  moreover obtain s' k where "main_wait E 30 u = (Inr (\<exists>i \<in> {1..30}. main_up E (trace u @ main_polls i)), s')"
      "k \<le> 30" "trace s' = trace u @ main_polls k" "main_daemonProcess s' = Some c"
    using main_wait_iff [OF u(1), of E 30] u(3) by auto
  ultimately show ?thesis using u(2) by (auto simp: c_def)
qed

definition main_late_env :: "main_event env" where
  "main_late_env = example_env\<lparr>env_fetch := (\<lambda>t r. if length t < 9 then Inl (Exn ''ECONNREFUSED'')
     else Inr \<lparr>res_status = 200, res_json = Inr (JObj [])\<rparr>)\<rparr>"

text \<open>Instance of C7: the daemon answers at the second poll.\<close>
theorem main_startDaemon_outcome_witness:
  "\<exists>s' k. main_startDaemon main_late_env main_init
      = (Inr (\<exists>i \<in> {1..30}. main_up main_late_env (main_start_effects main_late_env 4242 @ main_polls i)), s')
    \<and> k \<le> 30 \<and> trace s' = main_start_effects main_late_env 4242 @ main_polls k
    \<and> main_daemonProcess s' = Some \<lparr>child_pid = Some 4242, child_killed = False\<rparr>"
  using main_startDaemon_outcome [of main_init main_late_env 4242]
  by (simp add: main_init_def main_late_env_def main_up_def)

lemma main_stop_file:
  assumes "exit_code s = None" and "env_exists E (trace s) (main_pidFile E)"
    and "env_readfile E (trace s) (main_pidFile E) = Inr (int_string p)" and "0 < p" and "p < 2 ^ 31"
    and "env_platform E \<noteq> ''win32''"
  shows "main_stopDaemon E s = bindM (try_catch (bindM (try_catch (killM E (- p) ''SIGTERM'') (\<lambda>_. killM E p ''SIGTERM'')) (\<lambda>_.
      fsM E (Unlink (main_pidFile E)))) (\<lambda>_. ret ())) (\<lambda>_. modM (\<lambda>s. s\<lparr>main_daemonProcess := None\<rparr>)) s"
proof -
  have "parseInt10_text (js_trim (int_string p)) = Fin (of_int p)"
    using assms(4,5) parseInt10_dec_string [of p] js_trim_digits [OF dec_string_digits, of p]
    by (simp add: int_string_def)
  moreover have "num_sub (Fin 0) (Fin (of_int p)) = Fin (of_int (- p))"
    using assms(4,5) to_double_int_neg [of p] by (simp add: num_sub_def num_add_def)
  ultimately have "main_stopDaemon E s = bindM (try_catch (bindM (try_catch (main_signal E (Fin (of_int (- p))))
      (\<lambda>_. main_signal E (Fin (of_int p)))) (\<lambda>_. fsM E (Unlink (main_pidFile E)))) (\<lambda>_. ret ()))
      (\<lambda>_. modM (\<lambda>s. s\<lparr>main_daemonProcess := None\<rparr>)) s"
    using assms by (simp add: main_stopDaemon_def main_terminate_def bindM_run try_catch_run existsM_def readFileM_def Let_def)
  moreover have "main_signal E (Fin (of_int (- p))) = killM E (- p) ''SIGTERM''"
      "main_signal E (Fin (of_int p)) = killM E p ''SIGTERM''"
    using assms(4,5) by (simp_all add: main_signal_def as_pid_def)
  ultimately show ?thesis by simp
qed

text \<open>
  C14. Stopping signals what starting recorded: when the pid file holds the text \<open>startDaemon\<close> wrote
  for process \<open>p\<close> and the signal is accepted, \<open>stopDaemon\<close> signals the process group \<open>- p\<close>, removes
  the file, and forgets the process.
\<close>
theorem main_stopDaemon_round_trip:
  assumes "exit_code s = None" and "env_exists E (trace s) (main_pidFile E)"
    and "env_readfile E (trace s) (main_pidFile E) = Inr (pid_text \<lparr>child_pid = Some p, child_killed = False\<rparr>)"
    and "0 < p" and "p < 2 ^ 31" and "env_platform E \<noteq> ''win32''"
    and "\<forall>t. env_kill E t = None" and "\<forall>t. env_fs E t = None"
  shows "\<exists>s'. main_stopDaemon E s = (Inr (), s') \<and> main_daemonProcess s' = None
    \<and> trace s' = trace s @ [PidKill (- p) ''SIGTERM'', Unlink (main_pidFile E)]"
proof -
  have "env_readfile E (trace s) (main_pidFile E) = Inr (int_string p)"
    using assms(3) by (simp add: pid_text_def)
  from main_stop_file [OF assms(1,2) this assms(4-6)] show ?thesis
    using assms(1,7,8) by (simp add: io_simps Let_def)
qed

definition main_pid_env :: "main_event env" where
  "main_pid_env = example_env\<lparr>env_readfile := (\<lambda>t p. Inr (int_string 4242))\<rparr>"

text \<open>Instance of C14.\<close>
theorem main_stopDaemon_round_trip_witness:
  "\<exists>s'. main_stopDaemon main_pid_env main_init = (Inr (), s') \<and> main_daemonProcess s' = None
    \<and> trace s' = [PidKill (- 4242) ''SIGTERM'', Unlink (main_pidFile main_pid_env)]"
  using main_stopDaemon_round_trip [of main_init main_pid_env 4242]
  by (simp add: main_init_def main_pid_env_def pid_text_def)

text \<open>
  C38. A stale pid file survives: when the recorded process is gone, so that both signals raise,
  \<open>stopDaemon\<close> returns without removing the file, and the next run will signal that number again.
\<close>
theorem main_stale_pid_file:
  assumes "exit_code s = None" and "env_exists E (trace s) (main_pidFile E)"
    and "env_readfile E (trace s) (main_pidFile E) = Inr (int_string p)"
    and "0 < p" and "p < 2 ^ 31" and "env_platform E \<noteq> ''win32''"
    and "\<forall>t. env_kill E t = Some (Exn ''kill ESRCH'')"
  shows "\<exists>s'. main_stopDaemon E s = (Inr (), s')
    \<and> trace s' = trace s @ [PidKill (- p) ''SIGTERM'', PidKill p ''SIGTERM'']"
  unfolding main_stop_file [OF assms(1-6)]
  using assms(1,7) by (simp add: io_simps Let_def)

text \<open>Instance of C38.\<close>
theorem main_stale_pid_file_witness:
  "\<exists>s'. main_stopDaemon (main_pid_env\<lparr>env_kill := \<lambda>t. Some (Exn ''kill ESRCH'')\<rparr>) main_init = (Inr (), s')
    \<and> trace s' = [PidKill (- 4242) ''SIGTERM'', PidKill 4242 ''SIGTERM'']"
  using main_stale_pid_file [of main_init "main_pid_env\<lparr>env_kill := \<lambda>t. Some (Exn ''kill ESRCH'')\<rparr>" 4242]
  by (simp add: main_init_def main_pid_env_def)

lemma main_stopDaemon_quiet:
  assumes "exit_code s = None"
  shows "\<exists>s' fx. main_stopDaemon E s = (Inr (), s') \<and> exit_code s' = None \<and> main_daemonProcess s' = None
    \<and> mainWindow s' = mainWindow s \<and> trace s' = trace s @ fx \<and> (\<forall>ef \<in> set fx. \<not> (\<exists>b as. ef = Spawn b as))"
  using assms
  by (auto simp: main_stopDaemon_def main_terminate_def main_signal_def io_simps Let_def note_effect_def
      split: sum.splits option.splits)



end
