(* ===== verification/Wallet_Props.thy ===== *)
theory Wallet_Props
  imports Wallet_Handlers Js_Text
begin

text \<open>
  What the shared wallet handlers compute: the atomic amount of a transfer, the text of a balance,
  and the wallet names of a directory.
\<close>

section \<open>Amounts\<close>

lemma to_double_small:
  assumes "0 \<le> x" and "rnd x \<le> 2 ^ 53"
  shows "to_double x = Fin (rnd x)"
proof -
  have "(2 :: rat) ^ 53 < 2 ^ 1024" by (rule power_strict_increasing) simp_all
  then show ?thesis using assms rnd_nonneg [OF assms(1)] by (intro to_double_Fin) simp
qed

lemma rnd_scaled_le:
  assumes "0 < d" and "d < 2 ^ 52"
  shows "rnd (of_int d / 10 ^ 12) \<le> 2 ^ 53"
proof -
  have "(of_int d :: rat) < 2 ^ 52" using assms(2) by (metis of_int_less_iff of_int_numeral of_int_power)
  then have "of_int d / 10 ^ 12 \<le> (of_int (2 ^ 52) :: rat)" by (simp add: divide_le_eq)
  then have "rnd (of_int d / 10 ^ 12) \<le> rnd (of_int (2 ^ 52))" by (rule rnd_mono)
  also have "\<dots> = 2 ^ 52" using rnd_int [of "2 ^ 52"] by simp
  finally show ?thesis by simp
qed

text \<open>A decimal amount below \<open>2 ^ 52\<close> atomic units becomes exactly that many units, or one less.\<close>

lemma atomic_amount_value:
  assumes "js_parseFloat a = Inr (to_double (of_int d / 10 ^ 12))" and "0 < d" and "d < 2 ^ 52"
  shows "\<exists>n \<in> {d - 1, d}. atomic_amount a = Inr (Fin (of_int n))"
proof -
  define x where "x = rnd (of_int d / 10 ^ 12)"
  have x: "to_double (of_int d / 10 ^ 12) = Fin x"
    using assms(2) rnd_scaled_le [OF assms(2,3)] unfolding x_def by (intro to_double_small) simp_all
  have "0 \<le> x" using assms(2) by (simp add: x_def rnd_nonneg)
  moreover have "rnd (x * 10 ^ 12) \<le> 2 ^ 53"
  proof -
    have "(of_int d :: rat) < 2 ^ 52" using assms(3) by (metis of_int_less_iff of_int_numeral of_int_power)
    then show ?thesis using rnd_scaled_bounds(2) [OF assms(2,3)] by (simp add: x_def)
  qed
  ultimately have "to_double (x * 10 ^ 12) = Fin (rnd (x * 10 ^ 12))" by (intro to_double_small) simp_all
  then have "atomic_amount a = Inr (Fin (of_int \<lfloor>rnd (x * 10 ^ 12)\<rfloor>))"
    using assms(1) x by (simp add: atomic_amount_def num_mul_def num_floor_def)
  then show ?thesis using floor_scaled [OF assms(2,3)] unfolding x_def by blast
qed

text \<open>A decimal text with at most twelve fraction digits, and its value in atomic units.\<close>

definition decimal_amount :: "string \<Rightarrow> string \<Rightarrow> js" where
  "decimal_amount ip fp = JStr (ip @ CHR ''.'' # fp)"

definition amount_units :: "string \<Rightarrow> string \<Rightarrow> int" where
  "amount_units ip fp = digits_value (ip @ fp) * 10 ^ (12 - length fp)"

lemma atomic_amount_decimal:
  assumes "\<forall>c \<in> set (ip @ fp). is_digit c" and "ip \<noteq> []" and "length fp \<le> 12"
    and "0 < amount_units ip fp" and "amount_units ip fp < 2 ^ 52"
  shows "\<exists>n \<in> {amount_units ip fp - 1, amount_units ip fp}. atomic_amount (decimal_amount ip fp) = Inr (Fin (of_int n))"
proof (rule atomic_amount_value)
  have "(10 :: rat) ^ 12 = 10 ^ (12 - length fp) * 10 ^ length fp"
    using assms(3) by (simp flip: power_add)
  then have "(of_int (amount_units ip fp) / 10 ^ 12 :: rat) = of_int (digits_value (ip @ fp)) / 10 ^ length fp"
    by (simp add: amount_units_def divide_eq_eq eq_divide_eq del: mult.assoc)
  then show "js_parseFloat (decimal_amount ip fp) = Inr (to_double (of_int (amount_units ip fp) / 10 ^ 12))"
    using parseFloat_fraction [of ip fp] assms(1,2) by (simp add: js_parseFloat_def decimal_amount_def)
qed (use assms in simp_all)

section \<open>Balances\<close>

text \<open>The division by \<open>10 ^ 12\<close> is correct to the relative precision of a double.\<close>

lemma coins_of_int:
  assumes "0 \<le> b" and "b \<le> 2 ^ 53"
  shows "\<exists>x. coins_of (js_int b) = Inr (Fin x) \<and> 0 \<le> x \<and> x \<le> 10000
    \<and> \<bar>x - of_int b / 10 ^ 12\<bar> \<le> of_int b / 10 ^ 12 * pow2 (- 53)"
proof (cases "b = 0")
  case True
  then show ?thesis using to_double_int [of 0] by (simp add: coins_of_def num_div_def)
next
  case False
  define y where "y = (of_int b / 10 ^ 12 :: rat)"
  have "(of_int b :: rat) \<le> 2 ^ 53" using assms(2) by (metis of_int_le_iff of_int_numeral of_int_power)
  then have y: "y \<le> of_int 10000" by (simp add: y_def divide_le_eq)
  then have le: "rnd y \<le> 10000" using rnd_mono [OF y] rnd_int [of 10000] by simp
  have "1 \<le> (of_int b :: rat)" using assms(1) False by simp
  then have "pow2 (- 40) \<le> y" by (simp add: y_def pow2_def le_divide_eq)
  then have "pow2 (- 1022) \<le> y" using pow2_mono [of "- 1022" "- 40"] by simp
  from rnd_relative_error [OF this] have "\<bar>rnd y - y\<bar> \<le> y * pow2 (- 53)" .
  moreover have "0 \<le> y" using assms(1) by (simp add: y_def)
  moreover have "coins_of (js_int b) = Inr (Fin (rnd y))"
    using False to_double_small [OF \<open>0 \<le> y\<close>] le by (simp add: coins_of_def num_div_def y_def)
  ultimately show ?thesis using le rnd_nonneg [of y] by (auto simp: y_def)
qed

lemma toFixed_value:
  assumes "0 \<le> x" and "x \<le> 10000"
  shows "\<exists>v. scan_decimal (toFixed 4 (Fin x)) = Some (v, []) \<and> \<bar>v - x\<bar> \<le> 1 / 20000"
proof -
  have n: "0 \<le> fixed_digits 4 x" using assms(1) by (simp add: fixed_digits_def)
  have "toFixed 4 (Fin x) = fixed_text 4 (fixed_digits 4 x)" using assms by (simp add: toFixed_def)
  then show ?thesis
    using fixed_text_value [OF n, of 4] fixed_digits_error [of 4 x]
    by (intro exI [of _ "of_int (fixed_digits 4 x) / 10 ^ 4"]) simp
qed

text \<open>
  C18. What a balance answer shows: for a balance of \<open>b\<close> atomic units (at most \<open>2 ^ 53\<close>), the display
  text is a plain decimal whose value differs from \<open>b / 10 ^ 12\<close> coins by at most half a unit of the
  fourth decimal plus the relative rounding error \<open>2 ^ -53\<close> of the division.
\<close>
theorem balance_display_error:
  assumes "0 \<le> b" and "b \<le> 2 ^ 53"
  shows "\<exists>ps text v. balance_obj (JObj [(''balance'', js_int b)]) = Inr (JObj ps) \<and> own_get ps ''balance_display'' = JStr text
    \<and> scan_decimal text = Some (v, []) \<and> \<bar>v - of_int b / 10 ^ 12\<bar> \<le> 1 / 20000 + of_int b / 10 ^ 12 * pow2 (- 53)"
proof -
  obtain x where x: "coins_of (js_int b) = Inr (Fin x)" "0 \<le> x" "x \<le> 10000"
      "\<bar>x - of_int b / 10 ^ 12\<bar> \<le> of_int b / 10 ^ 12 * pow2 (- 53)"
    using coins_of_int [OF assms] by blast
  obtain v where v: "scan_decimal (toFixed 4 (Fin x)) = Some (v, [])" "\<bar>v - x\<bar> \<le> 1 / 20000"
    using toFixed_value [OF x(2,3)] by blast
  have "coins_of JUndef = Inr (Fin 0)"
    using to_double_int [of 0] by (simp add: coins_of_def num_div_def)
  then have "\<exists>ps. balance_obj (JObj [(''balance'', js_int b)]) = Inr (JObj ps)
      \<and> own_get ps ''balance_display'' = JStr (toFixed 4 (Fin x))"
    using x(1) by (simp add: balance_obj_def)
  moreover have "\<bar>v - of_int b / 10 ^ 12\<bar> \<le> 1 / 20000 + of_int b / 10 ^ 12 * pow2 (- 53)"
    using v(2) x(4) by linarith
  ultimately show ?thesis using v(1) by blast
qed

text \<open>Instance of C18: one and a half coins.\<close>
theorem balance_display_error_witness:
  "\<exists>ps text v. balance_obj (JObj [(''balance'', js_int 1500000000000)]) = Inr (JObj ps)
    \<and> own_get ps ''balance_display'' = JStr text
    \<and> scan_decimal text = Some (v, []) \<and> \<bar>v - of_int 1500000000000 / 10 ^ 12\<bar> \<le> 1 / 20000 + of_int 1500000000000 / 10 ^ 12 * pow2 (- 53)"
  by (rule balance_display_error) simp_all

section \<open>Wallet names\<close>

text \<open>A pattern whose first unit does not recur in it cannot overlap its own end.\<close>

lemma starts_with_no_overlap:
  assumes "starts_with (xs @ c # q) (c # q)" and "c \<notin> set q" and "xs \<noteq> []"
  shows "starts_with xs (c # q)"
proof (cases "length xs < length (c # q)")
  case True
  obtain b where b: "xs @ c # q = (c # q) @ b" using assms(1) by (auto simp: starts_with_iff)
  have "c = (xs @ c # q) ! length xs" by simp
  also have "\<dots> = (c # q) ! length xs" using True unfolding b by (simp add: nth_append del: append_Cons)
  also have "\<dots> = q ! (length xs - 1)" using assms(3) by (cases xs) simp_all
  also have "\<dots> \<in> set q" using True assms(3) by (cases xs) simp_all
  finally show ?thesis using assms(2) by simp
next
  case False
  obtain b where "xs @ c # q = (c # q) @ b" using assms(1) by (auto simp: starts_with_iff)
  then have "take (length (c # q)) (xs @ c # q) = c # q" by (metis append_eq_conv_conj)
  then have "take (length (c # q)) xs = c # q" using False by (simp del: take_Cons take_Suc_Cons)
  then have "xs = (c # q) @ drop (length (c # q)) xs" by (metis append_take_drop_id)
  then show ?thesis unfolding starts_with_iff by blast
qed

lemma replace_suffix:
  assumes "c \<notin> set q"
  shows "\<not> includes_sub n (c # q) \<Longrightarrow> replace_first (c # q) [] (n @ c # q) = n"
proof (induction n)
  case Nil
  have "starts_with (c # q) (c # q)" by (metis append_Nil2 starts_with_iff)
  then show ?case by simp
next
  case (Cons x xs)
  have "\<not> starts_with ((x # xs) @ c # q) (c # q)"
    using starts_with_no_overlap [OF _ assms, of "x # xs"] Cons.prems by auto
  then have "replace_first (c # q) [] ((x # xs) @ c # q) = x # replace_first (c # q) [] (xs @ c # q)"
    by (simp only: append_Cons replace_first.simps if_False)
  also have "\<dots> = x # xs" using Cons by (simp only: includes_sub.simps) blast
  finally show ?case .
qed

lemma replace_keys_suffix: "\<not> includes_sub n ''.keys'' \<Longrightarrow> replace_first ''.keys'' [] (n @ ''.keys'') = n"
  by (rule replace_suffix) simp

lemma map_stem:
  assumes "\<And>n. n @ k \<in> set files \<Longrightarrow> f (n @ k) = n"
  shows "set (map f (filter (\<lambda>x. ends_with x k) files)) = {n. n @ k \<in> set files}"
proof (rule set_eqI)
  fix m
  have "m \<in> set (map f (filter (\<lambda>x. ends_with x k) files)) \<longleftrightarrow> (\<exists>n. n @ k \<in> set files \<and> m = f (n @ k))"
    by (auto simp: ends_with_iff)
  also have "\<dots> \<longleftrightarrow> m @ k \<in> set files" using assms by auto
  finally show "m \<in> set (map f (filter (\<lambda>x. ends_with x k) files)) \<longleftrightarrow> m \<in> {n. n @ k \<in> set files}" by simp
qed

text \<open>
  C17. Listing inverts storing: as long as no wallet name contains \<open>.keys\<close> itself, the names listed
  for a directory are exactly the names \<open>n\<close> for which the directory holds the file \<open>n.keys\<close>.
\<close>
theorem wallet_names_exact:
  assumes "\<forall>n. n @ ''.keys'' \<in> set files \<longrightarrow> \<not> includes_sub n ''.keys''"
  shows "set (wallet_names files) = {n. n @ ''.keys'' \<in> set files}"
  unfolding wallet_names_def
proof (rule map_stem)
  fix n assume "n @ ''.keys'' \<in> set files"
  with assms have "\<not> includes_sub n ''.keys''" by blast
  then show "replace_first ''.keys'' [] (n @ ''.keys'') = n" by (rule replace_keys_suffix)
qed

text \<open>Instance of C17.\<close>
theorem wallet_names_exact_witness:
  "set (wallet_names [''main'' @ ''.keys'']) = {''main''}"
proof -
  have n: "n @ ''.keys'' \<in> set [''main'' @ ''.keys''] \<longleftrightarrow> n = ''main''" for n
    by (simp only: list.set singleton_iff append_same_eq)
  have "\<forall>m. m @ ''.keys'' \<in> set [''main'' @ ''.keys''] \<longrightarrow> \<not> includes_sub m ''.keys''"
    unfolding n by simp
  from wallet_names_exact [OF this] show ?thesis unfolding n by (simp only: singleton_conv)
qed


end
