(* ===== verification/Spec2Isabelle.thy ===== *)
theory Spec2Isabelle
  imports Dash_Props Controller_Props Server_Equiv Desktop_Props Desktop_Main Wallet_Props
begin

text \<open>
  A verification development for the programs around the COCAINE node: three wallet servers, a local
  controller and a desktop app, all written in JavaScript.

  \<^bold>\<open>The parts.\<close> \<open>dashboard/server.js\<close>, \<open>release/dashboard/server.js\<close> and \<open>desktop-app/server.js\<close> are
  Express servers. Each drives a wallet RPC process that it spawns, talks to the daemon over HTTP,
  and keeps the name of the open wallet; the dashboard also spawns the daemon and the XMRig miner.
  \<open>dashboard/controller.js\<close> is a separate server that starts, stops and watches the daemon and the
  miner by process id. \<open>desktop-app/main.js\<close> is the Electron main process: it starts the daemon,
  hands its paths to \<open>desktop-app/server.js\<close> through environment variables, loads that server in its
  own process and opens a window on it; \<open>desktop-app/preload.js\<close> exposes two constants to the page.

  \<^bold>\<open>Language and platform.\<close> \<open>Js_Prelude\<close>, \<open>Js_Number\<close>, \<open>Js_Text\<close>, \<open>Js_Value\<close> and \<open>Js_Regex\<close> model what
  the sources use of JavaScript: values, truthiness, property access that raises, doubles as exact
  rationals rounded to 53 bits, \<open>parseInt\<close>, \<open>parseFloat\<close>, \<open>toFixed\<close>, \<open>JSON.stringify\<close>, and a matcher for
  the two regular expressions. \<open>Node_Env\<close> has the effect monad: an operation takes the module state,
  appends to its trace of effects and gives a value or an exception. Everything outside the sources
  is the environment record: what a fetch, a file operation, a spawn or a signal gives, as a function
  of the trace so far, and which events are delivered at each wait. The theorems quantify over it, so
  they hold for every daemon, wallet RPC server, file system and interleaving of the listeners with
  the waits of one handler. An exception that leaves an async handler, and an \<open>error\<close> event without
  a listener, end the process.

  \<^bold>\<open>Components.\<close>
  \<^item> \<open>Wallet_State\<close>, \<open>Wallet_Handlers\<close>: the wallet endpoints the three servers share, over the
    server's \<open>startWalletRpc\<close> and \<open>walletRpc\<close>; the abstract session (the open wallet's name), the
    locale \<open>wallet_api\<close> of its laws and the locale \<open>wallet_server\<close> whose handlers satisfy them.
  \<^item> \<open>Dash_Core\<close> (constants, helpers, daemon and block endpoints, start-up and shutdown),
    \<open>Dash_Mining\<close> (XMRig and the built-in miner), \<open>Dash_Wallet\<close>, \<open>Dash_Server\<close> (routes, step and
    reachability): \<open>dashboard/server.js\<close>. A definition \<open>dash_f\<close> is the function \<open>f\<close>; \<open>dash_api_x\<close> is the
    handler of \<open>/api/x\<close>.
  \<^item> \<open>Release_Server\<close>: \<open>release/dashboard/server.js\<close>, prefix \<open>rel_\<close>.
  \<^item> \<open>Desktop_Server\<close>: \<open>desktop-app/server.js\<close>, prefix \<open>desk_\<close>, with its own \<open>fetch\<close>.
  \<^item> \<open>Controller\<close>: \<open>dashboard/controller.js\<close>, prefix \<open>ctl_\<close>.
  \<^item> \<open>Desktop_Main\<close>: \<open>desktop-app/main.js\<close> and \<open>preload.js\<close>, prefix \<open>main_\<close>.

  \<^bold>\<open>What is shown.\<close>
  \<^item> Every request is answered on every route of the four servers, whatever the environment does,
    unless an event ended the process; the one request shape that is not is shown to crash.
  \<^item> The open wallet of the three servers follows the abstract session over any sequence of
    requests (a refinement proved once in \<open>wallet_api\<close> and obtained through the interpretations
    \<open>dash_api\<close>, \<open>rel_api\<close>, \<open>desk_api\<close>); status after create and after close.
  \<^item> \<open>Server_Equiv\<close>: the release and the desktop server answer any sequence of requests alike, except
    \<open>send\<close>, by a relation closed under the constructs of the handlers; request headers, in which
    the two differ, are hidden from the world.
  \<^item> Amounts: what a send request transfers, and by how much a displayed balance can differ.
  \<^item> Invariants of the tracked miner in the dashboard and the controller over all reachable states,
    and where tracking is lost.
  \<^item> Functional behaviour of the daemon start and stop sequences, log reading, recent blocks, hash
    rate parsing, the shell command of the log endpoint, the wallet calls of a desktop send request.
  \<^item> The desktop app: pid file round trip, the paths handed to the server, the port.
  \<^item> Flaws of the code that modelling showed, each as a theorem about the definitions.

  \<^bold>\<open>Bounds.\<close> No definition uses fuel: the waiting loops run at most 10 and 30 times and the block loop at
  most 20 times in the source, and recurse on that count; the regular expression matcher recurses on
  the pattern and the remaining text. Amount theorems state their ranges: twelve fraction digits, and
  balances up to \<open>2 ^ 53\<close>, where a double holds every integer.

  \<^bold>\<open>Not modelled.\<close> Console output, static files, constant CORS headers, window geometry and the
  menu change no state and no answer that the servers compute. The routing of Express, the HTTP client
  and Electron are parameters or their documented behaviour. Requests to one server are taken one
  after the other: events interleave with the waits of a handler, two handlers do not. Browser pages,
  the C++ node and wallet, bundled libraries, translations (Qt catalogues whose names end in \<open>.ts\<close>),
  tests and shell scripts are outside the modelled programs, which reach them only through files,
  processes and HTTP.
\<close>

section \<open>The wallet session of the three servers\<close>



definition named_request :: http_in where
  "named_request = with_body (JObj [(''name'', JStr ''main'')])"

definition rpc_ok :: js where
  "rpc_ok = JObj [(''result'', JObj [(''address'', JStr ''4abc'')])]"


text \<open>
  C13. After a \<open>close\<close> request of the desktop server that reported success, a status request reports
  that no wallet is open.
\<close>
theorem desk_status_after_close:
  assumes "desk_api_wallet_close E r s = (Inr a, s')" and "succeeded a"
    and "desk_api_wallet_status E r' s' = (Inr b, s'')"
  shows "js_opt (answer b) ''open'' = JBool False \<and> claimed_name b = JNull"
  using desk_api.api.status_after_close [of E r s a s' r' b s''] assms
  by (simp add: desk_api_wallet_close_def desk_api_wallet_status_def)

text \<open>Instance of C13.\<close>
theorem desk_status_after_close_witness:
  "\<exists>a s' b s''. desk_api_wallet_close (online_env rpc_ok) named_request desk_init = (Inr a, s')
    \<and> desk_api_wallet_status (online_env rpc_ok) named_request s' = (Inr b, s'')
    \<and> js_opt (answer b) ''open'' = JBool False \<and> claimed_name b = JNull"
proof -
  have c: "\<exists>a s'. desk_api_wallet_close (online_env rpc_ok) named_request desk_init = (Inr a, s') \<and> succeeded a
      \<and> exit_code s' = None"
    by (simp add: desk_api_wallet_close_def close_handler_def desk_walletRpc_def desk_fetch_def io_simps Let_def
        desk_init_def succeeded_def)
  have "\<exists>b s''. desk_api_wallet_status (online_env rpc_ok) named_request t = (Inr b, s'')" if "exit_code t = None" for t
    using that by (simp add: desk_api_wallet_status_def status_handler_def rpc_ok_def desk_walletRpc_def
        desk_fetch_def io_simps Let_def)
  with c show ?thesis using desk_status_after_close by blast
qed

section \<open>Transfers\<close>

text \<open>The send handler of the dashboard and of the release server makes exactly one call.\<close>

lemma send_handler_trace:
  assumes "in_body r = JObj [(''address'', JStr a), (''amount'', v)]" and "a \<noteq> []" and "truthy v"
    and "atomic_amount v = Inr n" and "rpc ''transfer'' (transfer_params ring (JStr a) n JUndef) s = (q, u)"
  shows "trace (snd (send_handler ring rpc r s)) = trace u"
  using assms
  by (auto simp: send_handler_def bindM_run try_catch_run liftE_run error_of_def js_get_def Let_def json_reply_run
      status_reply_run split: sum.splits)

lemma rel_listener_trace [simp]: "trace (rel_listener e s) = trace s"
  by (cases e) simp_all

lemma rel_deliver_trace [simp]: "trace (deliver E rel_listener s) = trace s"
proof -
  have "trace (fold rel_listener es t) = trace t" for es and t :: rel
    by (induction es arbitrary: t) simp_all
  then show ?thesis by (simp add: deliver_def)
qed

lemma walletRpc_traces:
  "trace (snd (dash_walletRpc E m ps s)) = trace s @ [Fetch (post_json dash_WALLET_RPC (rpc_call m ps))]"
  "trace (snd (rel_walletRpc E2 m ps s2)) = trace s2 @ [Fetch (post_json rel_WALLET_RPC (rpc_call m ps))]"
  by (auto simp: dash_walletRpc_def rel_walletRpc_def io_simps Let_def split: sum.splits if_splits)

lemma dash_send_trace:
  assumes "in_body r = JObj [(''address'', JStr a), (''amount'', v)]" and "a \<noteq> []" and "truthy v" and "atomic_amount v = Inr n"
  shows "trace (snd (dash_api_wallet_send E r s))
    = trace s @ [Fetch (post_json dash_WALLET_RPC (rpc_call ''transfer'' (transfer_params 11 (JStr a) n JUndef)))]"
  unfolding dash_api_wallet_send_def
  using send_handler_trace [OF assms, of "dash_walletRpc E" 11 s] walletRpc_traces(1) by (metis prod.collapse)

lemma rel_send_trace:
  assumes "in_body r = JObj [(''address'', JStr a), (''amount'', v)]" and "a \<noteq> []" and "truthy v" and "atomic_amount v = Inr n"
  shows "trace (snd (rel_api_wallet_send E r s))
    = trace s @ [Fetch (post_json rel_WALLET_RPC (rpc_call ''transfer'' (transfer_params 16 (JStr a) n JUndef)))]"
  unfolding rel_api_wallet_send_def
  using send_handler_trace [OF assms, of "rel_walletRpc E" 16 s] walletRpc_traces(2) by (metis prod.collapse)

lemma desk_send_trace:
  assumes "in_body r = JObj [(''address'', JStr a), (''amount'', v)]" and "a \<noteq> []" and "truthy v" and "atomic_amount v = Inr n"
  shows "\<exists>gx. trace (snd (desk_api_wallet_send E r s))
    = trace s @ Fetch (desk_rpc_request ''transfer'' (transfer_params 16 (JStr a) n JUndef)) # gx"
proof -
  obtain q t where "desk_api_wallet_send E r s = (q, t)" by force
  from desk_send_block [OF _ _ _ _ refl this, of n] assms show ?thesis
    using \<open>desk_api_wallet_send E r s = (q, t)\<close> by auto
qed

text \<open>
  C5. What a send request transfers. For an amount written as a decimal with at most twelve fraction
  digits, worth \<open>u\<close> atomic units with \<open>0 < u < 2 ^ 52\<close>, all three servers ask the wallet for the same
  number \<open>n\<close> of atomic units to the requested address, and \<open>n\<close> is \<open>u\<close> or \<open>u - 1\<close>: a transfer never
  sends more than was asked for, and at most one atomic unit less.
\<close>
theorem send_amount:
  assumes "list_all is_digit (ip @ fp)" and "ip \<noteq> []" and "length fp \<le> 12"
    and "0 < amount_units ip fp" and "amount_units ip fp < 2 ^ 52"
    and "in_body r = JObj [(''address'', JStr a), (''amount'', decimal_amount ip fp)]" and "a \<noteq> []"
  shows "\<exists>n gx. (n = amount_units ip fp \<or> n = amount_units ip fp - 1)
    \<and> trace (snd (dash_api_wallet_send E1 r s1)) = trace s1 @ [Fetch (post_json dash_WALLET_RPC
        (rpc_call ''transfer'' (transfer_params 11 (JStr a) (Fin (of_int n)) JUndef)))]
    \<and> trace (snd (rel_api_wallet_send E2 r s2)) = trace s2 @ [Fetch (post_json rel_WALLET_RPC
        (rpc_call ''transfer'' (transfer_params 16 (JStr a) (Fin (of_int n)) JUndef)))]
    \<and> trace (snd (desk_api_wallet_send E3 r s3)) = trace s3 @ Fetch (desk_rpc_request ''transfer''
        (transfer_params 16 (JStr a) (Fin (of_int n)) JUndef)) # gx"
proof -
  have "\<forall>c \<in> set (ip @ fp). is_digit c" using assms(1) by (simp add: list_all_iff)
  then obtain n where n: "n = amount_units ip fp \<or> n = amount_units ip fp - 1"
      "atomic_amount (decimal_amount ip fp) = Inr (Fin (of_int n))"
    using atomic_amount_decimal [OF _ assms(2-5)] by blast
  have "truthy (decimal_amount ip fp)" by (simp add: decimal_amount_def)
  note args = assms(6,7) this n(2)
  from desk_send_trace [OF args, of E3 s3] show ?thesis
    using n(1) dash_send_trace [OF args] rel_send_trace [OF args] by blast
qed

definition pay_request :: "string \<Rightarrow> string \<Rightarrow> http_in" where
  "pay_request ip fp = with_body (JObj [(''address'', JStr ''4abc''), (''amount'', decimal_amount ip fp)])"

text \<open>Instance of C5: an amount of 1.001 coins.\<close>
theorem send_amount_witness:
  "\<exists>n gx. (n = amount_units ''1'' ''001'' \<or> n = amount_units ''1'' ''001'' - 1)
    \<and> trace (snd (dash_api_wallet_send example_env (pay_request ''1'' ''001'') dash_init)) = trace dash_init @ [Fetch (post_json dash_WALLET_RPC
        (rpc_call ''transfer'' (transfer_params 11 (JStr ''4abc'') (Fin (of_int n)) JUndef)))]
    \<and> trace (snd (rel_api_wallet_send example_env (pay_request ''1'' ''001'') rel_init)) = trace rel_init @ [Fetch (post_json rel_WALLET_RPC
        (rpc_call ''transfer'' (transfer_params 16 (JStr ''4abc'') (Fin (of_int n)) JUndef)))]
    \<and> trace (snd (desk_api_wallet_send example_env (pay_request ''1'' ''001'') desk_init)) = trace desk_init @ Fetch (desk_rpc_request ''transfer''
        (transfer_params 16 (JStr ''4abc'') (Fin (of_int n)) JUndef)) # gx"
  by (rule send_amount) (simp_all add: is_digit_def amount_units_def digits_value_def digit_val_def pay_request_def)

lemma atomic_1001: "atomic_amount (decimal_amount ''1'' ''001'') = Inr (Fin 1000999999999)"
  by code_simp

text \<open>
  C31. The lost unit is real: a request to send \<open>1.001\<close> coins makes the dashboard transfer
  1000999999999 atomic units, one less than the 1001000000000 requested, in every environment.
\<close>
theorem send_1001_underpays:
  "trace (snd (dash_api_wallet_send E (pay_request ''1'' ''001'') s)) = trace s @ [Fetch (post_json dash_WALLET_RPC
     (rpc_call ''transfer'' (transfer_params 11 (JStr ''4abc'') (Fin 1000999999999) JUndef)))]
   \<and> amount_units ''1'' ''001'' = 1001000000000"
proof -
  have "trace (snd (dash_api_wallet_send E (pay_request ''1'' ''001'') s)) = trace s @ [Fetch (post_json dash_WALLET_RPC
     (rpc_call ''transfer'' (transfer_params 11 (JStr ''4abc'') (Fin 1000999999999) JUndef)))]"
    by (rule dash_send_trace [OF _ _ _ atomic_1001]) (simp_all add: pay_request_def decimal_amount_def)
  then show ?thesis by (simp add: amount_units_def digits_value_def digit_val_def)
qed

section \<open>Robustness of the release and desktop servers\<close>

text \<open>
  C10. For every route of the release server, every environment, state and request whose body express
  parsed and whose \<open>name\<close> is not an object, the handler answers unless a process event ends the
  server while it waits; and handling the request itself never ends the server.
\<close>
theorem rel_request_answered:
  assumes "(rt, h) \<in> set rel_routes" and "\<not> nullish (in_body r)" and "plain_name r"
  shows "(exit_code (snd (h E r s)) = None \<longrightarrow> (\<exists>a. fst (h E r s) = Inr a)) \<and> settle (h E r) s = snd (h E r s)"
  using rel_routes_no_throw [OF assms, of E] settle_no_throw no_throwD [of "h E r" s] by (metis prod.collapse)

text \<open>Instance of C10.\<close>
theorem rel_request_answered_witness:
  "exit_code (snd (rel_api_wallet_open example_env named_request rel_init)) = None
    \<and> (\<exists>a. fst (rel_api_wallet_open example_env named_request rel_init) = Inr a)
    \<and> settle (rel_api_wallet_open example_env named_request) rel_init = snd (rel_api_wallet_open example_env named_request rel_init)"
proof -
  have "exit_code (snd (rel_api_wallet_open example_env named_request rel_init)) = None"
    by (simp add: rel_api_wallet_open_def open_block_def rel_startWalletRpc_def rel_walletRpc_def io_simps rel_init_def
        named_request_def note_effect_def)
  then show ?thesis
    using rel_request_answered [of "(''POST'', ''/api/wallet/open'')" rel_api_wallet_open named_request example_env rel_init]
    by (simp add: rel_routes_def named_request_def plain_name_def)
qed

text \<open>
  C11. The same for every route of the desktop server.
\<close>
theorem desk_request_answered:
  assumes "(rt, h) \<in> set desk_routes" and "\<not> nullish (in_body r)" and "plain_name r"
  shows "(exit_code (snd (h E r s)) = None \<longrightarrow> (\<exists>a. fst (h E r s) = Inr a)) \<and> settle (h E r) s = snd (h E r s)"
  using desk_routes_no_throw [OF assms, of E] settle_no_throw no_throwD [of "h E r" s] by (metis prod.collapse)

text \<open>Instance of C11.\<close>
theorem desk_request_answered_witness:
  "exit_code (snd (desk_api_wallet_send example_env desk_send_request desk_init)) = None
    \<and> (\<exists>a. fst (desk_api_wallet_send example_env desk_send_request desk_init) = Inr a)
    \<and> settle (desk_api_wallet_send example_env desk_send_request) desk_init = snd (desk_api_wallet_send example_env desk_send_request desk_init)"
proof -
  have "exit_code (snd (desk_api_wallet_send example_env desk_send_request desk_init)) = None"
    by (simp add: desk_api_wallet_send_def desk_walletRpc_def desk_fetch_def io_simps desk_init_def desk_send_request_def
        note_effect_def split: sum.splits)
  then show ?thesis
    using desk_request_answered [of "(''POST'', ''/api/wallet/send'')" desk_api_wallet_send desk_send_request example_env desk_init]
    by (simp add: desk_routes_def desk_send_request_def plain_name_def)
qed




section \<open>The desktop app and its server\<close>

text \<open>The environment variables after the effects of the main process.\<close>

fun vars_after :: "effect list \<Rightarrow> (string \<Rightarrow> string option) \<Rightarrow> string \<Rightarrow> string option" where
  "vars_after [] vars = vars"
| "vars_after (SetEnv k v # t) vars = vars_after t (vars(k \<mapsto> v))"
| "vars_after (_ # t) vars = vars_after t vars"

lemma vars_after_append: "vars_after (t @ u) vars = vars_after u (vars_after t vars)"
  by (induction t vars rule: vars_after.induct) (simp_all add: fun_upd_def)

lemma main_resource_nonempty: "main_getResourcePath E f \<noteq> []"
  by (auto simp: main_getResourcePath_def main_bundled_def split: option.splits)

text \<open>
  C27. The main process hands its paths to the server: in the environment \<open>startServer\<close> leaves behind,
  whatever it was before, \<open>server.js\<close> keeps its wallets in the directory \<open>wallets\<close> of the user data and
  runs the wallet RPC binary that \<open>getResourcePath\<close> selects.
\<close>
theorem main_server_paths:
  "desk_WALLET_DIR (E\<lparr>env_vars := vars_after (trace (snd (main_startServer E s))) vars\<rparr>) = main_getWalletPath E
   \<and> desk_WALLET_RPC_BIN (E\<lparr>env_vars := vars_after (trace (snd (main_startServer E s))) vars\<rparr>) = main_walletRpcPath E"
  by (simp add: main_startServer_def io_simps vars_after_append desk_WALLET_DIR_def desk_WALLET_RPC_BIN_def env_or_def
      main_getWalletPath_def main_walletRpcPath_def main_resource_nonempty)



end
